(* ===== verification/Json.thy ===== *)
theory Json
  imports Prelude
begin

text \<open>
  JSON values as \<open>serde_json::Value\<close> holds them: a number is an unsigned 64-bit integer, a negative
  integer, or a float (held by the text it prints as); an object is an association list with
  distinct keys, in the order the map iterates. The accessors are the ones the sources call.
\<close>

datatype number = PosInt u64 | NegInt int | Float string

datatype json =
    JNull
  | JBool bool
  | JNumber number
  | JString string
  | JArray "json list"
  | JObject "(string \<times> json) list"

type_synonym json_map = "(string \<times> json) list"

definition jget :: "json_map \<Rightarrow> string \<Rightarrow> json option" where
  "jget m k = map_of m k"

definition jkeys :: "json_map \<Rightarrow> string list" where
  "jkeys m = map fst m"

fun as_object :: "json \<Rightarrow> json_map option" where
  "as_object (JObject m) = Some m"
| "as_object _ = None"

fun as_array :: "json \<Rightarrow> json list option" where
  "as_array (JArray vs) = Some vs"
| "as_array _ = None"

fun as_str :: "json \<Rightarrow> string option" where
  "as_str (JString s) = Some s"
| "as_str _ = None"

fun as_bool :: "json \<Rightarrow> bool option" where
  "as_bool (JBool b) = Some b"
| "as_bool _ = None"

fun as_u64 :: "json \<Rightarrow> u64 option" where
  "as_u64 (JNumber (PosInt n)) = Some n"
| "as_u64 _ = None"

definition is_object :: "json \<Rightarrow> bool" where
  "is_object v \<longleftrightarrow> as_object v \<noteq> None"

definition is_string :: "json \<Rightarrow> bool" where
  "is_string v \<longleftrightarrow> as_str v \<noteq> None"

text \<open>Every object of the value has distinct keys, the invariant of \<open>serde_json::Map\<close>.\<close>

fun json_wf :: "json \<Rightarrow> bool" where
  "json_wf (JArray vs) = (\<forall>v \<in> set vs. json_wf v)"
| "json_wf (JObject m) = (distinct (map fst m) \<and> (\<forall>kv \<in> set m. json_wf (snd kv)))"
| "json_wf _ = True"

text \<open>
  \<open>Map::insert\<close> and \<open>Map::remove\<close>: an existing key keeps its place, a new key goes to the end.
\<close>

fun jinsert :: "string \<Rightarrow> json \<Rightarrow> json_map \<Rightarrow> json_map" where
  "jinsert k v [] = [(k, v)]"
| "jinsert k v ((k', v') # m) = (if k' = k then (k, v) # m else (k', v') # jinsert k v m)"

definition jremove :: "string \<Rightarrow> json_map \<Rightarrow> json_map" where
  "jremove k m = filter (\<lambda>kv. fst kv \<noteq> k) m"

lemma as_object_Some_iff [simp]: "as_object v = Some m \<longleftrightarrow> v = JObject m"
  by (cases v) auto

lemma as_str_Some_iff [simp]: "as_str v = Some s \<longleftrightarrow> v = JString s"
  by (cases v) auto

lemma as_bool_Some_iff [simp]: "as_bool v = Some b \<longleftrightarrow> v = JBool b"
  by (cases v) auto

lemma as_array_Some_iff [simp]: "as_array v = Some vs \<longleftrightarrow> v = JArray vs"
  by (cases v) auto

lemma as_u64_Some_iff [simp]: "as_u64 v = Some n \<longleftrightarrow> v = JNumber (PosInt n)"
  by (cases v rule: as_u64.cases) auto

lemma jget_insert_same [simp]: "jget (jinsert k v m) k = Some v"
  by (induction m) (auto simp: jget_def)

lemma jget_insert_other [simp]: "k' \<noteq> k \<Longrightarrow> jget (jinsert k v m) k' = jget m k'"
  by (induction m) (auto simp: jget_def)

lemma jget_remove_same [simp]: "jget (jremove k m) k = None"
  by (induction m) (auto simp: jget_def jremove_def)

lemma jget_remove_other [simp]: "k' \<noteq> k \<Longrightarrow> jget (jremove k m) k' = jget m k'"
  by (induction m) (auto simp: jget_def jremove_def)

lemma jkeys_insert: "set (jkeys (jinsert k v m)) = insert k (set (jkeys m))"
  by (induction k v m rule: jinsert.induct) (simp_all add: jkeys_def insert_commute)

lemma jget_None_iff: "jget m k = None \<longleftrightarrow> k \<notin> set (jkeys m)"
  by (auto simp: jget_def jkeys_def map_of_eq_None_iff)

end
