(* ===== verification/Retry.thy ===== *)
theory Retry
  imports Prelude
begin

text \<open>
  The bounded retries around read-only RPC calls. A call is a function of the attempt number, since
  the remote end may answer differently each time; a run returns the outcome and the number of
  calls made. \<open>bounded_retry\<close> is the contract both helpers share: the interpretations below show it
  for \<open>retry_while_transient\<close> of the service and for \<open>retry_transient\<close> of the EVM provider.
\<close>

definition rpc_retry_delays :: "nat list" where
  "rpc_retry_delays = [300, 900]"

fun retry_loop :: "(nat \<Rightarrow> 'a) \<Rightarrow> ('a \<Rightarrow> bool) \<Rightarrow> nat \<Rightarrow> nat list \<Rightarrow> 'a \<Rightarrow> 'a \<times> nat" where
  "retry_loop call transient made [] outcome = (outcome, made)"
| "retry_loop call transient made (delay # delays) outcome =
     (if \<not> transient outcome then (outcome, made)
      else retry_loop call transient (Suc made) delays (call made))"

definition retry_while_transient :: "(nat \<Rightarrow> 'a) \<Rightarrow> ('a \<Rightarrow> bool) \<Rightarrow> 'a \<times> nat" where
  "retry_while_transient call transient = retry_loop call transient 1 rpc_retry_delays (call 0)"

fun is_transient_err :: "('e \<Rightarrow> bool) \<Rightarrow> 'e + 'a \<Rightarrow> bool" where
  "is_transient_err transient (Inl e) = transient e"
| "is_transient_err transient (Inr a) = False"

definition retry_transient :: "(nat \<Rightarrow> 'e + 'a) \<Rightarrow> ('e \<Rightarrow> bool) \<Rightarrow> ('e + 'a) \<times> nat" where
  "retry_transient call transient =
     retry_loop call (is_transient_err transient) 1 rpc_retry_delays (call 0)"

text \<open>The outcome of \<open>retry_transient\<close> with every error retried, as the provider's reads use it.\<close>

definition read_rpc :: "(nat \<Rightarrow> 'e + 'a) \<Rightarrow> 'e + 'a" where
  "read_rpc call = fst (retry_transient call (\<lambda>_. True))"

locale bounded_retry =
  fixes run :: "(nat \<Rightarrow> 'a) \<Rightarrow> 'p \<Rightarrow> 'a \<times> nat"
    and again :: "'p \<Rightarrow> 'a \<Rightarrow> bool"
    and bound :: nat
  assumes run_spec: "run call p = (v, n) \<Longrightarrow>
      0 < n \<and> n \<le> bound \<and> v = call (n - 1) \<and> (\<forall>k < n - 1. again p (call k))
      \<and> (n < bound \<longrightarrow> \<not> again p v)"
begin

lemma calls_bounded: "0 < snd (run call p) \<and> snd (run call p) \<le> bound"
  using run_spec [of call p "fst (run call p)" "snd (run call p)"] by simp

lemma outcome_is_a_call: "\<exists>k < bound. fst (run call p) = call k"
  using run_spec [of call p "fst (run call p)" "snd (run call p)"]
  by (metis Suc_diff_1 Suc_le_lessD prod.collapse)

lemma first_definitive:
  assumes "k < bound" and "\<not> again p (call k)" and "\<And>j. j < k \<Longrightarrow> again p (call j)"
  shows "run call p = (call k, Suc k)"
proof -
  obtain v n where r: "run call p = (v, n)" by fastforce
  note s = run_spec [OF r]
  have "\<not> k < n - 1" using s assms(2) by blast
  moreover have "\<not> n - 1 < k"
  proof
    assume "n - 1 < k"
    then have "again p v" using s assms(3) by blast
    with s have "bound \<le> n" by (metis not_le)
    with \<open>n - 1 < k\<close> assms(1) s show False by linarith
  qed
  ultimately have "n = Suc k" using s by linarith
  with r s show ?thesis by simp
qed

lemma all_transient:
  assumes "again p (fst (run call p))" and "k < bound"
  shows "again p (call k)"
proof -
  obtain v n where r: "run call p = (v, n)" by fastforce
  note s = run_spec [OF r]
  with assms(1) r have "n = bound" by fastforce
  show ?thesis
  proof (cases "k = n - 1")
    case True
    with s assms(1) r show ?thesis by simp
  next
    case False
    with s assms(2) \<open>n = bound\<close> show ?thesis by fastforce
  qed
qed

end

lemma retry_loop_spec:
  assumes "retry_loop call transient made delays (call (made - 1)) = (v, n)" and "0 < made"
    and "\<forall>k < made - 1. transient (call k)"
  shows "made \<le> n \<and> n \<le> made + length delays \<and> v = call (n - 1) \<and> (\<forall>k < n - 1. transient (call k))
     \<and> (n < made + length delays \<longrightarrow> \<not> transient v)"
  using assms
proof (induction delays arbitrary: made)
  case Nil
  then show ?case by auto
next
  case (Cons d ds)
  show ?case
  proof (cases "transient (call (made - 1))")
    case True
    have "\<forall>k < Suc made - 1. transient (call k)"
      using True Cons.prems by (metis Suc_pred diff_Suc_1 less_Suc_eq)
    with Cons.IH [of "Suc made"] Cons.prems True show ?thesis by auto
  next
    case False
    with Cons.prems show ?thesis by auto
  qed
qed

lemma retry_loop_first:
  assumes "retry_loop call transient 1 rpc_retry_delays (call 0) = (v, n)"
  shows "0 < n \<and> n \<le> 3 \<and> v = call (n - 1) \<and> (\<forall>k < n - 1. transient (call k))
     \<and> (n < 3 \<longrightarrow> \<not> transient v)"
proof -
  have "length rpc_retry_delays = 2" by (simp add: rpc_retry_delays_def)
  moreover have "retry_loop call transient 1 rpc_retry_delays (call (1 - 1)) = (v, n)"
    using assms by (simp only: diff_self_eq_0)
  ultimately show ?thesis using retry_loop_spec [of call transient 1 rpc_retry_delays v n]
    by (auto simp: numeral_3_eq_3)
qed

interpretation while_transient: bounded_retry retry_while_transient "\<lambda>transient. transient" 3
  by unfold_locales (rule retry_loop_first, simp only: retry_while_transient_def)

interpretation transient_err: bounded_retry retry_transient is_transient_err 3
  by unfold_locales (rule retry_loop_first, simp only: retry_transient_def)

lemma read_rpc_call: "\<exists>k < 3. read_rpc call = call k"
  unfolding read_rpc_def by (rule transient_err.outcome_is_a_call)

lemma read_rpc_Inr:
  assumes "read_rpc call = Inr a"
  obtains k where "k < 3" and "call k = Inr a"
  using read_rpc_call [of call] assms by metis

lemma read_rpc_const [simp]: "read_rpc (\<lambda>_. r) = r"
  using read_rpc_call [of "\<lambda>_. r"] by simp

end
