(* ===== verification/Evm_Types.thy ===== *)
theory Evm_Types
  imports Json Retry
begin

text \<open>
  Data of the EVM provider: errors, readiness classes, receipts, transactions and heads as the two
  configured readers report them, and the outcome of a reconciliation. Addresses are 160-bit words
  and hashes 256-bit words.
\<close>

type_synonym address = "160 word"
type_synonym b256 = u256

datatype evm_rpc_error =
    Rpc
  | ReaderDisagreement string
  | InvalidTransactionHash
  | InvalidTransaction string
  | InvalidReceipt string
  | InvalidConfirmations
  | HeadBehindReceipt
  | FeeOverflow

datatype evm_readiness_reader = Primary | Backup

fun reader_as_str :: "evm_readiness_reader \<Rightarrow> string" where
  "reader_as_str Primary = ''primary''"
| "reader_as_str Backup = ''backup''"

datatype evm_readiness_operation = ChainId | BlockNumber | PendingNonce | GasBalance

fun operation_as_str :: "evm_readiness_operation \<Rightarrow> string" where
  "operation_as_str ChainId = ''eth_chainId''"
| "operation_as_str BlockNumber = ''eth_blockNumber''"
| "operation_as_str PendingNonce = ''eth_getTransactionCount_pending''"
| "operation_as_str GasBalance = ''eth_getBalance''"

datatype evm_readiness_dependency_error =
    JsonRpcError | NullResponse | UnsupportedFeature | LocalUsage | Serialization | Deserialization
  | HttpRateLimited | HttpTemporarilyUnavailable | HttpClientError | HttpServerError | HttpStatus
  | MissingBatchResponse | BackendGone | PubsubUnavailable | CustomTransport | NonRetryableTransport
  | Transport

fun dependency_error_as_str :: "evm_readiness_dependency_error \<Rightarrow> string" where
  "dependency_error_as_str JsonRpcError = ''json_rpc_error''"
| "dependency_error_as_str NullResponse = ''null_response''"
| "dependency_error_as_str UnsupportedFeature = ''unsupported_feature''"
| "dependency_error_as_str LocalUsage = ''local_usage''"
| "dependency_error_as_str Serialization = ''serialization''"
| "dependency_error_as_str Deserialization = ''deserialization''"
| "dependency_error_as_str HttpRateLimited = ''http_rate_limited''"
| "dependency_error_as_str HttpTemporarilyUnavailable = ''http_temporarily_unavailable''"
| "dependency_error_as_str HttpClientError = ''http_client_error''"
| "dependency_error_as_str HttpServerError = ''http_server_error''"
| "dependency_error_as_str HttpStatus = ''http_status''"
| "dependency_error_as_str MissingBatchResponse = ''missing_batch_response''"
| "dependency_error_as_str BackendGone = ''backend_gone''"
| "dependency_error_as_str PubsubUnavailable = ''pubsub_unavailable''"
| "dependency_error_as_str CustomTransport = ''custom_transport''"
| "dependency_error_as_str NonRetryableTransport = ''non_retryable_transport''"
| "dependency_error_as_str Transport = ''transport''"

record evm_readiness_endpoint_error =
  re_operation :: evm_readiness_operation
  re_error :: evm_readiness_dependency_error
  re_http_status :: "u16 option"
  re_json_rpc_code :: "int option"

text \<open>The constructors of \<open>alloy\<close>'s transport errors that the classification distinguishes.\<close>

datatype transport_error_kind =
    HttpErrorKind u16 | MissingBatchResponseKind | BackendGoneKind | PubsubUnavailableKind
  | CustomKind | NonRetryableKind | OtherKind

datatype transport_error =
    ErrorResp int | NullResp | UnsupportedFeatureErr | LocalUsageError | SerError | DeserError
  | TransportErr transport_error_kind

fun classify_transport_kind ::
  "transport_error_kind \<Rightarrow> evm_readiness_dependency_error \<times> u16 option \<times> int option" where
  "classify_transport_kind (HttpErrorKind status) =
     ((if status = 429 then HttpRateLimited
       else if status = 503 then HttpTemporarilyUnavailable
       else if 400 \<le> status \<and> status \<le> 499 then HttpClientError
       else if 500 \<le> status \<and> status \<le> 599 then HttpServerError
       else HttpStatus), Some status, None)"
| "classify_transport_kind MissingBatchResponseKind = (MissingBatchResponse, None, None)"
| "classify_transport_kind BackendGoneKind = (BackendGone, None, None)"
| "classify_transport_kind PubsubUnavailableKind = (PubsubUnavailable, None, None)"
| "classify_transport_kind CustomKind = (CustomTransport, None, None)"
| "classify_transport_kind NonRetryableKind = (NonRetryableTransport, None, None)"
| "classify_transport_kind OtherKind = (Transport, None, None)"

fun classify_transport_error ::
  "transport_error \<Rightarrow> evm_readiness_dependency_error \<times> u16 option \<times> int option" where
  "classify_transport_error (ErrorResp code) = (JsonRpcError, None, Some code)"
| "classify_transport_error NullResp = (NullResponse, None, None)"
| "classify_transport_error UnsupportedFeatureErr = (UnsupportedFeature, None, None)"
| "classify_transport_error LocalUsageError = (LocalUsage, None, None)"
| "classify_transport_error SerError = (Serialization, None, None)"
| "classify_transport_error DeserError = (Deserialization, None, None)"
| "classify_transport_error (TransportErr kind) = classify_transport_kind kind"

definition evm_readiness_endpoint_error_of ::
  "evm_readiness_operation \<Rightarrow> transport_error \<Rightarrow> evm_readiness_endpoint_error" where
  "evm_readiness_endpoint_error_of operation err =
     (case classify_transport_error err of (error, http_status, json_rpc_code) \<Rightarrow>
        \<lparr>re_operation = operation, re_error = error, re_http_status = http_status,
         re_json_rpc_code = json_rpc_code\<rparr>)"

datatype evm_head_snapshot_failure =
    PrimaryRpcUnavailable | BackupRpcUnavailable | BothRpcUnavailable | ChainIdMismatch
  | PendingNonceDisagreement

fun snapshot_failure_as_str :: "evm_head_snapshot_failure \<Rightarrow> string" where
  "snapshot_failure_as_str PrimaryRpcUnavailable = ''primary_rpc_unavailable''"
| "snapshot_failure_as_str BackupRpcUnavailable = ''backup_rpc_unavailable''"
| "snapshot_failure_as_str BothRpcUnavailable = ''both_rpc_unavailable''"
| "snapshot_failure_as_str ChainIdMismatch = ''chain_id_mismatch''"
| "snapshot_failure_as_str PendingNonceDisagreement = ''pending_nonce_disagreement''"

fun into_rpc_error :: "evm_head_snapshot_failure \<Rightarrow> evm_rpc_error" where
  "into_rpc_error PrimaryRpcUnavailable = Rpc"
| "into_rpc_error BackupRpcUnavailable = Rpc"
| "into_rpc_error BothRpcUnavailable = Rpc"
| "into_rpc_error ChainIdMismatch = ReaderDisagreement ''chain id''"
| "into_rpc_error PendingNonceDisagreement = ReaderDisagreement ''pending account nonce''"

datatype unsupported_signature = CounterfactualWallet | Malformed

record evm_head =
  eh_block_number :: u64
  eh_account_nonce :: u64
  eh_gas_balance_wei :: u128
  eh_signer_address :: address

record endpoint_head =
  ep_chain_id :: u64
  ep_block_number :: u64
  ep_pending_account_nonce :: u64
  ep_gas_balance_wei :: u128

record receipt_facts =
  rf_block_number :: u64
  rf_block_hash :: "b256 option"
  rf_success :: bool
  rf_tx_hash :: b256
  rf_gas_used :: u64
  rf_fee_wei :: u128
  rf_execution_fee_wei :: u128
  rf_l1_fee_wei :: u128

datatype receipt_observation = ReceiptUnknown | ReceiptPending | ReceiptMined receipt_facts

datatype transaction_observation =
    TxMissing
  | TxPending (tx_nonce: u64)
  | TxMined (tx_nonce: u64) u64 b256

record evm_terminal_outcome =
  to_success :: bool
  to_tx_hash :: b256
  to_block_number :: u64
  to_block_hash :: "b256 option"
  to_confirmations :: u64
  to_gas_used :: u64
  to_fee_wei :: u128
  to_execution_fee_wei :: u128
  to_l1_fee_wei :: u128

datatype evm_reconcile_status =
    ReconcileUnknown
  | ReconcilePending
  | ReconcileMined u64 u64
  | ReconcileTerminal evm_terminal_outcome

end
