(* ===== verification/Evm_Receipt.thy ===== *)
theory Evm_Receipt
  imports Evm_Types
begin

text \<open>
  Reading JSON-RPC objects: hexadecimal quantities with \<open>u128::from_str_radix\<close> of the standard
  library, Base receipts, and transactions by hash. Parsing of 32-byte hashes and addresses is the
  \<open>alloy\<close> library's, so \<open>parse_b256\<close> and \<open>parse_address\<close> are parameters.
\<close>

section \<open>Hexadecimal\<close>

definition hex_digit_value :: "char \<Rightarrow> nat option" where
  "hex_digit_value c =
     (if is_ascii_digit c then Some (byte_of c - 48)
      else if 97 \<le> byte_of c \<and> byte_of c \<le> 102 then Some (byte_of c - 87)
      else if 65 \<le> byte_of c \<and> byte_of c \<le> 70 then Some (byte_of c - 55)
      else None)"

fun hex_fold :: "nat \<Rightarrow> string \<Rightarrow> nat option" where
  "hex_fold acc [] = Some acc"
| "hex_fold acc (c # cs) =
     (case hex_digit_value c of None \<Rightarrow> None | Some v \<Rightarrow> hex_fold (16 * acc + v) cs)"

fun strip_plus :: "string \<Rightarrow> string" where
  "strip_plus [] = []"
| "strip_plus (c # cs) = (if c = CHR ''+'' then cs else c # cs)"

text \<open>\<open>u128::from_str_radix(digits, 16)\<close>: one leading plus sign is accepted; any failure is \<open>None\<close>.\<close>

definition u128_from_str_radix_16 :: "string \<Rightarrow> u128 option" where
  "u128_from_str_radix_16 s =
     (if strip_plus s = [] then None
      else case hex_fold 0 (strip_plus s) of
        None \<Rightarrow> None
      | Some n \<Rightarrow> if n < 2 ^ 128 then Some (of_nat n) else None)"

definition u64_try_from :: "u128 \<Rightarrow> u64 option" where
  "u64_try_from q = (if unat q < 2 ^ 64 then Some (ucast q) else None)"

definition parse_hex_quantity :: "json \<Rightarrow> evm_rpc_error + u128" where
  "parse_hex_quantity value =
     bind_res (ok_or (as_str value) (InvalidReceipt ''non-string quantity'')) (\<lambda>raw.
     bind_res (ok_or (strip_prefix ''0x'' raw) (InvalidReceipt ''quantity prefix'')) (\<lambda>digits.
     if digits = [] \<or> length digits > 1 \<and> starts_with digits ''0''
     then Inl (InvalidReceipt ''non-canonical quantity'')
     else ok_or (u128_from_str_radix_16 digits) FeeOverflow))"

definition parse_transaction_quantity :: "json \<Rightarrow> evm_rpc_error + u128" where
  "parse_transaction_quantity value =
     bind_res (ok_or (as_str value) (InvalidTransaction ''non-string quantity'')) (\<lambda>raw.
     bind_res (ok_or (strip_prefix ''0x'' raw) (InvalidTransaction ''quantity prefix'')) (\<lambda>digits.
     if digits = [] \<or> length digits > 1 \<and> starts_with digits ''0''
     then Inl (InvalidTransaction ''non-canonical quantity'')
     else ok_or (u128_from_str_radix_16 digits) (InvalidTransaction ''quantity overflow'')))"

section \<open>Receipts\<close>

definition get_str :: "json_map \<Rightarrow> string \<Rightarrow> string option" where
  "get_str object key = Option.bind (jget object key) as_str"

definition receipt_hash :: "(string \<Rightarrow> b256 option) \<Rightarrow> json_map \<Rightarrow> string \<Rightarrow> evm_rpc_error + b256" where
  "receipt_hash parse_b256 object key =
     bind_res (ok_or (get_str object key) (InvalidReceipt key)) (\<lambda>s.
     ok_or (parse_b256 s) (InvalidReceipt key))"

definition receipt_quantity :: "json_map \<Rightarrow> string \<Rightarrow> evm_rpc_error + u128" where
  "receipt_quantity object key = bind_res (ok_or (jget object key) (InvalidReceipt key)) parse_hex_quantity"

definition parse_raw_receipt ::
  "(string \<Rightarrow> b256 option) \<Rightarrow> b256 \<Rightarrow> json option \<Rightarrow> evm_rpc_error + receipt_observation" where
  "parse_raw_receipt parse_b256 expected_hash value =
     (case value of None \<Rightarrow> Inr ReceiptUnknown | Some value \<Rightarrow>
      bind_res (ok_or (as_object value) (InvalidReceipt ''receipt object'')) (\<lambda>object.
      bind_res (receipt_hash parse_b256 object ''transactionHash'') (\<lambda>tx_hash.
      if tx_hash \<noteq> expected_hash then Inl (InvalidReceipt ''transactionHash mismatch'') else
      bind_res (ok_or (jget object ''blockNumber'') (InvalidReceipt ''blockNumber'')) (\<lambda>block_number_value.
      if block_number_value = JNull then Inr ReceiptPending else
      bind_res (parse_hex_quantity block_number_value) (\<lambda>block_quantity.
      bind_res (ok_or (u64_try_from block_quantity) (InvalidReceipt ''blockNumber overflow'')) (\<lambda>block_number.
      bind_res (receipt_hash parse_b256 object ''blockHash'') (\<lambda>block_hash.
      bind_res (receipt_quantity object ''status'') (\<lambda>status_value.
      bind_res (if status_value = 0 then Inr False else if status_value = 1 then Inr True
                else Inl (InvalidReceipt ''status value'')) (\<lambda>status.
      bind_res (receipt_quantity object ''gasUsed'') (\<lambda>gas_quantity.
      bind_res (ok_or (u64_try_from gas_quantity) (InvalidReceipt ''gasUsed overflow'')) (\<lambda>gas_used.
      bind_res (receipt_quantity object ''effectiveGasPrice'') (\<lambda>effective_gas_price.
      bind_res (receipt_quantity object ''l1Fee'') (\<lambda>l1_fee_wei.
      bind_res (ok_or (checked_mul (ucast gas_used) effective_gas_price) FeeOverflow) (\<lambda>execution_fee_wei.
      bind_res (ok_or (checked_add execution_fee_wei l1_fee_wei) FeeOverflow) (\<lambda>fee_wei.
      Inr (ReceiptMined \<lparr>rf_block_number = block_number, rf_block_hash = Some block_hash,
        rf_success = status, rf_tx_hash = tx_hash, rf_gas_used = gas_used, rf_fee_wei = fee_wei,
        rf_execution_fee_wei = execution_fee_wei, rf_l1_fee_wei = l1_fee_wei\<rparr>))))))))))))))))"

section \<open>Transactions\<close>

definition tx_str :: "(string \<Rightarrow> 'a option) \<Rightarrow> json_map \<Rightarrow> string \<Rightarrow> evm_rpc_error + 'a" where
  "tx_str parse object key =
     bind_res (ok_or (get_str object key) (InvalidTransaction key)) (\<lambda>s.
     ok_or (parse s) (InvalidTransaction key))"

definition tx_quantity :: "json_map \<Rightarrow> string \<Rightarrow> evm_rpc_error + u128" where
  "tx_quantity object key =
     bind_res (ok_or (jget object key) (InvalidTransaction key)) parse_transaction_quantity"

definition parse_block_identity ::
  "(string \<Rightarrow> b256 option) \<Rightarrow> json_map \<Rightarrow> u64 \<Rightarrow> evm_rpc_error + transaction_observation" where
  "parse_block_identity parse_b256 object account_nonce =
     bind_res (ok_or (jget object ''blockNumber'') (InvalidTransaction ''blockNumber'')) (\<lambda>block_number.
     bind_res (ok_or (jget object ''blockHash'') (InvalidTransaction ''blockHash'')) (\<lambda>block_hash.
     if block_number = JNull \<and> block_hash = JNull then Inr (TxPending account_nonce)
     else if block_number \<noteq> JNull \<and> block_hash \<noteq> JNull then
       bind_res (parse_transaction_quantity block_number) (\<lambda>q.
       bind_res (ok_or (u64_try_from q) (InvalidTransaction ''blockNumber overflow'')) (\<lambda>n.
       bind_res (ok_or (as_str block_hash) (InvalidTransaction ''blockHash'')) (\<lambda>s.
       bind_res (ok_or (parse_b256 s) (InvalidTransaction ''blockHash'')) (\<lambda>h.
       Inr (TxMined account_nonce n h)))))
     else Inl (InvalidTransaction ''inconsistent block identity'')))"

definition parse_raw_transaction ::
  "(string \<Rightarrow> b256 option) \<Rightarrow> (string \<Rightarrow> address option) \<Rightarrow> b256 \<Rightarrow> u64 \<Rightarrow> address \<Rightarrow> address \<Rightarrow>
   json option \<Rightarrow> evm_rpc_error + transaction_observation" where
  "parse_raw_transaction parse_b256 parse_address expected_hash expected_chain_id expected_signer
     expected_token value =
     (case value of None \<Rightarrow> Inr TxMissing | Some value \<Rightarrow>
      bind_res (ok_or (as_object value) (InvalidTransaction ''transaction object'')) (\<lambda>object.
      bind_res (tx_str parse_b256 object ''hash'') (\<lambda>tx_hash.
      if tx_hash \<noteq> expected_hash then Inl (InvalidTransaction ''hash mismatch'') else
      bind_res (tx_quantity object ''chainId'') (\<lambda>chain_quantity.
      bind_res (ok_or (u64_try_from chain_quantity) (InvalidTransaction ''chainId overflow'')) (\<lambda>chain_id.
      if chain_id \<noteq> expected_chain_id then Inl (InvalidTransaction ''chainId mismatch'') else
      bind_res (tx_quantity object ''type'') (\<lambda>transaction_type.
      if transaction_type \<noteq> 2 then Inl (InvalidTransaction ''transaction type'') else
      bind_res (tx_str parse_address object ''from'') (\<lambda>from.
      if from \<noteq> expected_signer then Inl (InvalidTransaction ''from mismatch'') else
      bind_res (tx_str parse_address object ''to'') (\<lambda>to.
      if to \<noteq> expected_token then Inl (InvalidTransaction ''to mismatch'') else
      bind_res (tx_quantity object ''value'') (\<lambda>native_value.
      if native_value \<noteq> 0 then Inl (InvalidTransaction ''native value'') else
      bind_res (ok_or (get_str object ''input'') (InvalidTransaction ''input'')) (\<lambda>input.
      if length input \<le> 2 \<or> \<not> starts_with input ''0x'' then Inl (InvalidTransaction ''input'') else
      bind_res (tx_quantity object ''nonce'') (\<lambda>nonce_quantity.
      bind_res (ok_or (u64_try_from nonce_quantity) (InvalidTransaction ''nonce overflow'')) (\<lambda>account_nonce.
      parse_block_identity parse_b256 object account_nonce))))))))))))"

section \<open>Canonical quantities\<close>

text \<open>The lower-case hexadecimal text of a natural number, without leading zeros.\<close>

definition hex_char :: "nat \<Rightarrow> char" where
  "hex_char v = char_of (if v < 10 then 48 + v else 87 + v)"

fun to_hex :: "nat \<Rightarrow> string" where
  "to_hex n = (if n < 16 then [hex_char n] else to_hex (n div 16) @ [hex_char (n mod 16)])"

declare to_hex.simps [simp del]

lemma hex_digit_value_char: "v < 16 \<Longrightarrow> hex_digit_value (hex_char v) = Some v"
  by (auto simp: hex_digit_value_def hex_char_def is_ascii_digit_def)

lemma hex_digit_value_Some:
  assumes "hex_digit_value c = Some v"
  shows "v < 16" and "to_ascii_lowercase_char c = hex_char v"
proof -
  show "v < 16"
    using assms by (auto simp: hex_digit_value_def is_ascii_digit_def split: if_splits)
  show "to_ascii_lowercase_char c = hex_char v"
    using assms
    by (auto simp: hex_digit_value_def is_ascii_digit_def hex_char_def to_ascii_lowercase_char_def
        is_ascii_uppercase_def split: if_splits)
qed

lemma hex_digit_value_lower: "hex_digit_value (to_ascii_lowercase_char c) = hex_digit_value c"
proof (cases "hex_digit_value c")
  case (Some v)
  then show ?thesis using hex_digit_value_Some [OF Some] by (simp add: hex_digit_value_char)
next
  case None
  then show ?thesis
    by (auto simp: hex_digit_value_def is_ascii_digit_def to_ascii_lowercase_char_def
        is_ascii_uppercase_def split: if_splits)
qed

lemma hex_fold_lower: "hex_fold acc (to_ascii_lowercase s) = hex_fold acc s"
  by (induction s arbitrary: acc)
     (simp_all add: to_ascii_lowercase_def hex_digit_value_lower split: option.splits)

lemma hex_fold_append:
  "hex_fold acc (s @ t) = (case hex_fold acc s of None \<Rightarrow> None | Some n \<Rightarrow> hex_fold n t)"
  by (induction s arbitrary: acc) (simp_all split: option.splits)

lemma hex_fold_to_hex: "hex_fold 0 (to_hex n) = Some n"
proof (induction n rule: to_hex.induct)
  case (1 n)
  show ?case
  proof (cases "n < 16")
    case True
    then show ?thesis by (simp add: to_hex.simps [of n] hex_digit_value_char)
  next
    case False
    with 1 show ?thesis
      by (simp add: to_hex.simps [of n] hex_fold_append hex_digit_value_char)
  qed
qed

lemma hex_fold_ge: "hex_fold acc s = Some n \<Longrightarrow> acc \<le> n"
proof (induction s arbitrary: acc)
  case Nil
  then show ?case by simp
next
  case (Cons c s)
  then show ?case by (cases "hex_digit_value c") force+
qed

lemma hex_fold_positive:
  assumes "hex_fold 0 (c # s) = Some n" and "to_ascii_lowercase_char c \<noteq> CHR ''0''"
  shows "0 < n"
proof -
  from assms(1) obtain v where v: "hex_digit_value c = Some v" "hex_fold v s = Some n"
    by (cases "hex_digit_value c") simp_all
  have "hex_char 0 = CHR ''0''" by code_simp
  with hex_digit_value_Some(2) [OF v(1)] assms(2) have "v \<noteq> 0" by metis
  with hex_fold_ge [OF v(2)] show ?thesis by simp
qed

lemma to_hex_unique:
  assumes "hex_fold 0 s = Some n" and "s \<noteq> []"
    and "length s > 1 \<longrightarrow> to_ascii_lowercase_char (hd s) \<noteq> CHR ''0''"
  shows "to_ascii_lowercase s = to_hex n"
  using assms
proof (induction s arbitrary: n rule: rev_induct)
  case Nil
  then show ?case by simp
next
  case (snoc c s)
  from snoc.prems(1) obtain m v where m: "hex_fold 0 s = Some m" and v: "hex_digit_value c = Some v"
    and n: "n = 16 * m + v"
    by (auto simp: hex_fold_append split: option.splits)
  note vd = hex_digit_value_Some [OF v]
  show ?case
  proof (cases s)
    case Nil
    with m have "m = 0" by simp
    with Nil n vd show ?thesis by (simp add: to_ascii_lowercase_def to_hex.simps [of v])
  next
    case (Cons d ds)
    then have hd: "to_ascii_lowercase_char d \<noteq> CHR ''0''" using snoc.prems(3) by simp
    then have "0 < m" using hex_fold_positive m Cons by simp
    then have "\<not> n < 16" "n div 16 = m" "n mod 16 = v" using n vd(1) by simp_all
    moreover have "to_ascii_lowercase s = to_hex m" using snoc.IH [OF m] Cons hd by simp
    ultimately show ?thesis using vd(2) by (simp add: to_hex.simps [of n] to_ascii_lowercase_def)
  qed
qed

lemma to_hex_not_Nil [simp]: "to_hex n \<noteq> []"
  by (simp add: to_hex.simps [of n])

lemma hex_fold_zeros: "hex_fold 0 (replicate k (CHR ''0'') @ s) = hex_fold 0 s"
proof (induction k)
  case (Suc k)
  have "hex_digit_value (CHR ''0'') = Some 0" by code_simp
  with Suc show ?case by simp
qed simp

lemma lowercase_zero_iff: "to_ascii_lowercase_char c = CHR ''0'' \<longleftrightarrow> c = CHR ''0''"
proof
  assume l: "to_ascii_lowercase_char c = CHR ''0''"
  show "c = CHR ''0''"
  proof (cases "is_ascii_uppercase c")
    case True
    then have "byte_of (to_ascii_lowercase_char c) = byte_of c + 32"
      by (simp add: to_ascii_lowercase_char_def is_ascii_uppercase_def)
    moreover have "byte_of (CHR ''0'') = 48" by code_simp
    ultimately show ?thesis using l True by (simp add: is_ascii_uppercase_def)
  qed (use l in \<open>simp add: to_ascii_lowercase_char_def\<close>)
qed (simp add: to_ascii_lowercase_char_def is_ascii_uppercase_def)

lemma lowercase_zeros:
  "to_ascii_lowercase (replicate k (CHR ''0'') @ t) = replicate k (CHR ''0'') @ to_ascii_lowercase t"
  using lowercase_zero_iff by (simp add: to_ascii_lowercase_def)

lemma to_hex_with_zeros:
  assumes "hex_fold 0 s = Some n" and "s \<noteq> []"
  shows "\<exists>k. to_ascii_lowercase s = replicate k (CHR ''0'') @ to_hex n"
  using assms
proof (induction s)
  case Nil
  then show ?case by simp
next
  case (Cons c s)
  show ?case
  proof (cases "s \<noteq> [] \<and> c = CHR ''0''")
    case True
    moreover have "hex_digit_value (CHR ''0'') = Some 0" by code_simp
    ultimately have "hex_fold 0 s = Some n" using Cons.prems by simp
    with Cons.IH True obtain k where "to_ascii_lowercase s = replicate k (CHR ''0'') @ to_hex n" by blast
    then have "to_ascii_lowercase (c # s) = replicate (Suc k) (CHR ''0'') @ to_hex n"
      using True lowercase_zero_iff by (simp add: to_ascii_lowercase_def)
    then show ?thesis by blast
  next
    case False
    then have "to_ascii_lowercase (c # s) = to_hex n"
      using to_hex_unique [OF Cons.prems] lowercase_zero_iff by auto
    then show ?thesis by (metis append_Nil replicate_0)
  qed
qed

lemma hex_fold_of_lower:
  "to_ascii_lowercase s = replicate k (CHR ''0'') @ to_hex n \<Longrightarrow> hex_fold 0 s = Some n"
  using hex_fold_lower [of 0 s] by (simp add: hex_fold_zeros hex_fold_to_hex)

lemma hex_char_not_plus: "v < 16 \<Longrightarrow> hex_char v \<noteq> CHR ''+''"
proof
  assume "v < 16" "hex_char v = CHR ''+''"
  then have "byte_of (hex_char v) = 43" by simp
  with \<open>v < 16\<close> show False by (auto simp: hex_char_def split: if_splits)
qed

lemma hd_to_hex: "\<exists>v < 16. hd (to_hex n) = hex_char v \<and> (n \<noteq> 0 \<longrightarrow> v \<noteq> 0)"
proof (induction n rule: to_hex.induct)
  case (1 n)
  show ?case
  proof (cases "n < 16")
    case True
    then show ?thesis by (auto simp: to_hex.simps [of n])
  next
    case False
    with 1 obtain v where "v < 16" "hd (to_hex (n div 16)) = hex_char v" "v \<noteq> 0" by auto
    with False show ?thesis by (auto simp: to_hex.simps [of n])
  qed
qed

lemma from_str_radix_Some_iff:
  "u128_from_str_radix_16 s = Some q \<longleftrightarrow> strip_plus s \<noteq> [] \<and> hex_fold 0 (strip_plus s) = Some (unat q)"
proof -
  have "unat q < 2 ^ 128" using unsigned_less [of q] by simp
  then show ?thesis
    by (auto simp: u128_from_str_radix_16_def unat_of_nat_small split: option.splits)
qed

lemma starts_with_zero: "starts_with s ''0'' \<longleftrightarrow> s \<noteq> [] \<and> hd s = CHR ''0''"
  by (cases s) (auto simp: starts_with_def)

lemma parse_hex_quantity_Inr:
  "parse_hex_quantity v = Inr q \<longleftrightarrow>
     (\<exists>d. v = JString (''0x'' @ d) \<and> d \<noteq> [] \<and> \<not> (length d > 1 \<and> hd d = CHR ''0'')
        \<and> strip_plus d \<noteq> [] \<and> hex_fold 0 (strip_plus d) = Some (unat q))"
  unfolding parse_hex_quantity_def
  by (auto simp: res_simps strip_prefix_Some_iff from_str_radix_Some_iff starts_with_zero split: if_splits)

lemma hex_char_zero: "v < 16 \<Longrightarrow> hex_char v = CHR ''0'' \<longleftrightarrow> v = 0"
proof
  assume v: "v < 16" "hex_char v = CHR ''0''"
  have "hex_digit_value (CHR ''0'') = Some 0" by code_simp
  with hex_digit_value_char [OF v(1)] v(2) show "v = 0" by simp
next
  assume "v = 0"
  moreover have "hex_char 0 = CHR ''0''" by code_simp
  ultimately show "hex_char v = CHR ''0''" by simp
qed

lemma canonical_digits:
  assumes "to_ascii_lowercase d = to_hex n"
  shows "d \<noteq> []" and "strip_plus d = d" and "\<not> (length d > 1 \<and> hd d = CHR ''0'')"
proof -
  from assms show ne: "d \<noteq> []" by (metis list.simps(8) to_ascii_lowercase_def to_hex_not_Nil)
  obtain v where v: "v < 16" "hd (to_hex n) = hex_char v" "n \<noteq> 0 \<longrightarrow> v \<noteq> 0" using hd_to_hex by blast
  have hd: "to_ascii_lowercase_char (hd d) = hex_char v"
    using assms ne v(2) by (metis hd_map to_ascii_lowercase_def)
  have "to_ascii_lowercase_char (CHR ''+'') = CHR ''+''" by code_simp
  with hd hex_char_not_plus [OF v(1)] have "hd d \<noteq> CHR ''+''" by metis
  with ne show "strip_plus d = d" by (cases d) simp_all
  show "\<not> (length d > 1 \<and> hd d = CHR ''0'')"
  proof
    assume h: "length d > 1 \<and> hd d = CHR ''0''"
    then have "v = 0" using hd hex_char_zero [OF v(1)] lowercase_zero_iff by metis
    with v(3) have "n = 0" by blast
    then have "length (to_ascii_lowercase d) = 1" using assms by (simp add: to_hex.simps [of 0])
    with h show False by simp
  qed
qed

lemma u64_try_from_Some: "u64_try_from q = Some n \<longleftrightarrow> q = ucast n"
proof
  assume "u64_try_from q = Some n"
  then have n: "n = ucast q" "unat q < 2 ^ 64" by (auto simp: u64_try_from_def split: if_splits)
  have "unat (ucast n :: u128) = unat n" by (rule unat_ucast_up) simp
  also have "unat n = unat q" unfolding n(1) by (rule unat_ucast_small) (use n(2) in simp)
  finally show "q = ucast n" by (metis unsigned_word_eqI)
next
  assume q: "q = ucast n"
  have "unat (ucast n :: u128) = unat n" by (rule unat_ucast_up) simp
  moreover have "unat n < 2 ^ 64" using unsigned_less [of n] by simp
  ultimately have "unat q < 2 ^ 64" "unat (ucast q :: u64) = unat n"
    using unat_ucast_small [of q, where ?'a = 64] by (simp_all add: q)
  then show "u64_try_from q = Some n"
    by (simp add: u64_try_from_def) (metis unsigned_word_eqI)
qed

section \<open>Properties\<close>

text \<open>
  C33. Quantities are read exactly: \<open>parse_hex_quantity\<close> returns \<open>q\<close> if and only if the value is the
  text \<open>0x\<close> followed by the canonical hexadecimal digits of \<open>q\<close> in either letter case, without leading
  zeros, or by a plus sign and those digits with any number of leading zeros. The second form is
  what \<open>u128::from_str_radix\<close> lets through the non-canonical check.
\<close>

theorem parse_hex_quantity_canonical:
  "parse_hex_quantity v = Inr q \<longleftrightarrow>
     (\<exists>d. v = JString (''0x'' @ d) \<and> (to_ascii_lowercase d = to_hex (unat q)
        \<or> (\<exists>e k. d = CHR ''+'' # e \<and> to_ascii_lowercase e = replicate k (CHR ''0'') @ to_hex (unat q))))"
proof
  assume "parse_hex_quantity v = Inr q"
  then obtain d where d: "v = JString (''0x'' @ d)" "d \<noteq> []" "\<not> (length d > 1 \<and> hd d = CHR ''0'')"
    "strip_plus d \<noteq> []" "hex_fold 0 (strip_plus d) = Some (unat q)"
    unfolding parse_hex_quantity_Inr by blast
  then obtain c e where ce: "d = c # e" by (cases d) simp_all
  show "\<exists>d. v = JString (''0x'' @ d) \<and> (to_ascii_lowercase d = to_hex (unat q)
        \<or> (\<exists>e k. d = CHR ''+'' # e \<and> to_ascii_lowercase e = replicate k (CHR ''0'') @ to_hex (unat q)))"
  proof (cases "c = CHR ''+''")
    case True
    with ce d to_hex_with_zeros [of e "unat q"] show ?thesis by auto
  next
    case False
    then have "strip_plus d = d" using ce by simp
    with to_hex_unique [of d "unat q"] d lowercase_zero_iff show ?thesis by metis
  qed
next
  assume "\<exists>d. v = JString (''0x'' @ d) \<and> (to_ascii_lowercase d = to_hex (unat q)
        \<or> (\<exists>e k. d = CHR ''+'' # e \<and> to_ascii_lowercase e = replicate k (CHR ''0'') @ to_hex (unat q)))"
  then obtain d where v: "v = JString (''0x'' @ d)" and "to_ascii_lowercase d = to_hex (unat q)
        \<or> (\<exists>e k. d = CHR ''+'' # e \<and> to_ascii_lowercase e = replicate k (CHR ''0'') @ to_hex (unat q))"
    by blast
  then show "parse_hex_quantity v = Inr q"
  proof (elim disjE exE conjE)
    assume l: "to_ascii_lowercase d = to_hex (unat q)"
    then have "hex_fold 0 d = Some (unat q)" using hex_fold_of_lower [of d 0] by simp
    with v canonical_digits [OF l] show ?thesis unfolding parse_hex_quantity_Inr by metis
  next
    fix e k
    assume d: "d = CHR ''+'' # e" and l: "to_ascii_lowercase e = replicate k (CHR ''0'') @ to_hex (unat q)"
    then have "e \<noteq> []" by (auto simp: to_ascii_lowercase_def)
    with v d hex_fold_of_lower [OF l] show ?thesis unfolding parse_hex_quantity_Inr by simp
  qed
qed


definition sample_receipt :: json where
  "sample_receipt = JObject [(''transactionHash'', JString ''h''), (''blockNumber'', JString ''0x10''),
     (''blockHash'', JString ''b''), (''status'', JString ''0x1''), (''gasUsed'', JString ''0x5''),
     (''effectiveGasPrice'', JString ''0x3''), (''l1Fee'', JString ''0x2'')]"

definition sample_parse_b256 :: "string \<Rightarrow> b256 option" where
  "sample_parse_b256 s = (if s = ''h'' then Some 7 else if s = ''b'' then Some 8 else None)"

definition sample_facts :: receipt_facts where
  "sample_facts = \<lparr>rf_block_number = 16, rf_block_hash = Some 8, rf_success = True, rf_tx_hash = 7,
     rf_gas_used = 5, rf_fee_wei = 17, rf_execution_fee_wei = 15, rf_l1_fee_wei = 2\<rparr>"

lemma sample_receipt_parsed:
  "parse_raw_receipt sample_parse_b256 7 (Some sample_receipt) = Inr (ReceiptMined sample_facts)"
proof -
  have q: "parse_hex_quantity (JString ''0x10'') = Inr 16" "parse_hex_quantity (JString ''0x1'') = Inr 1"
    "parse_hex_quantity (JString ''0x5'') = Inr 5" "parse_hex_quantity (JString ''0x3'') = Inr 3"
    "parse_hex_quantity (JString ''0x2'') = Inr 2"
    by (simp_all add: parse_hex_quantity_def u128_from_str_radix_16_def hex_digit_value_def
        is_ascii_digit_def starts_with_def)
  show ?thesis
    by (simp add: parse_raw_receipt_def sample_receipt_def receipt_hash_def receipt_quantity_def
        get_str_def jget_def sample_parse_b256_def q u64_try_from_def sample_facts_def
        checked_mul_def checked_add_def)
qed


text \<open>
  C35. A transaction by hash is only accepted as ours: \<open>parse_raw_transaction\<close> reports a pending or
  mined transaction only if the object's hash, chain, sender and target token are the expected
  ones, it is an EIP-1559 transaction, and it transfers no native value.
\<close>

theorem parse_raw_transaction_sound:
  assumes "parse_raw_transaction parse_b256 parse_address h chain signer token (Some value) = Inr t"
  shows "t \<noteq> TxMissing \<and> (\<exists>object. value = JObject object \<and> tx_str parse_b256 object ''hash'' = Inr h
     \<and> tx_quantity object ''chainId'' = Inr (ucast chain) \<and> tx_quantity object ''type'' = Inr 2
     \<and> tx_str parse_address object ''from'' = Inr signer \<and> tx_str parse_address object ''to'' = Inr token
     \<and> tx_quantity object ''value'' = Inr 0 \<and> tx_quantity object ''nonce'' = Inr (ucast (tx_nonce t)))"
  using assms
  unfolding parse_raw_transaction_def parse_block_identity_def
  by (auto simp: res_simps u64_try_from_Some split: if_splits)

definition sample_transaction :: json where
  "sample_transaction = JObject [(''hash'', JString ''h''), (''chainId'', JString ''0x5''),
     (''type'', JString ''0x2''), (''from'', JString ''s''), (''to'', JString ''t''), (''value'', JString ''0x0''),
     (''input'', JString ''0xe3''), (''nonce'', JString ''0x3''), (''blockNumber'', JNull), (''blockHash'', JNull)]"

definition sample_parse_address :: "string \<Rightarrow> address option" where
  "sample_parse_address s = (if s = ''s'' then Some 1 else if s = ''t'' then Some 2 else None)"

lemma sample_transaction_parsed:
  "parse_raw_transaction sample_parse_b256 sample_parse_address 7 5 1 2 (Some sample_transaction)
     = Inr (TxPending 3)"
proof -
  have q: "parse_transaction_quantity (JString ''0x0'') = Inr 0"
    "parse_transaction_quantity (JString ''0x2'') = Inr 2"
    "parse_transaction_quantity (JString ''0x3'') = Inr 3"
    "parse_transaction_quantity (JString ''0x5'') = Inr 5"
    by (simp_all add: parse_transaction_quantity_def u128_from_str_radix_16_def hex_digit_value_def
        is_ascii_digit_def starts_with_def)
  show ?thesis
    by (simp add: parse_raw_transaction_def sample_transaction_def tx_str_def tx_quantity_def
        get_str_def jget_def sample_parse_b256_def sample_parse_address_def q u64_try_from_def
        starts_with_def parse_block_identity_def)
qed

theorem parse_raw_transaction_sound_witness:
  "parse_raw_transaction sample_parse_b256 sample_parse_address 7 5 1 2 (Some sample_transaction)
     = Inr (TxPending 3)
   \<and> (\<exists>object. sample_transaction = JObject object \<and> tx_str sample_parse_address object ''to'' = Inr 2)"
  using parse_raw_transaction_sound [OF sample_transaction_parsed] sample_transaction_parsed by blast

end
