(* ===== verification/Evm_Reconcile.thy ===== *)
theory Evm_Reconcile
  imports Evm_Receipt
begin

text \<open>
  Reconciliation against two independent readers: merging receipts, transactions and heads, the
  confirmation-depth policy, and \<open>reconcile_with_confirmations\<close> over them. What the readers answer is
  the record \<open>evm_rpc\<close>: one function per JSON-RPC call, of the reader, the read and the attempt
  number, with \<open>None\<close> for a transport failure.
\<close>

section \<open>Merging two readers\<close>

definition merge_receipts ::
  "receipt_observation \<Rightarrow> receipt_observation \<Rightarrow> evm_rpc_error + receipt_observation" where
  "merge_receipts primary backup =
     (case (primary, backup) of
        (ReceiptUnknown, ReceiptUnknown) \<Rightarrow> Inr ReceiptUnknown
      | (ReceiptMined p, ReceiptMined b) \<Rightarrow>
          if p = b then Inr (ReceiptMined p) else Inl (ReaderDisagreement ''receipt facts'')
      | _ \<Rightarrow> Inr ReceiptPending)"

definition merge_transactions ::
  "transaction_observation \<Rightarrow> transaction_observation \<Rightarrow> evm_rpc_error + transaction_observation" where
  "merge_transactions primary backup =
     (case (primary, backup) of
        (TxMissing, TxMissing) \<Rightarrow> Inr TxMissing
      | (TxMissing, known) \<Rightarrow> Inr known
      | (known, TxMissing) \<Rightarrow> Inr known
      | (TxPending p, TxPending b) \<Rightarrow>
          if p = b then Inr (TxPending p) else Inl (ReaderDisagreement ''transaction facts'')
      | (TxPending p, TxMined n _ _) \<Rightarrow>
          if p = n then Inr (TxPending n) else Inl (ReaderDisagreement ''transaction facts'')
      | (TxMined n _ _, TxPending p) \<Rightarrow>
          if p = n then Inr (TxPending n) else Inl (ReaderDisagreement ''transaction facts'')
      | (TxMined pn pb ph, TxMined bn bb bh) \<Rightarrow>
          if pn = bn \<and> pb = bb \<and> ph = bh then Inr primary
          else Inl (ReaderDisagreement ''transaction facts''))"

definition merge_head_values ::
  "u64 \<Rightarrow> address \<Rightarrow> endpoint_head \<Rightarrow> endpoint_head \<Rightarrow> evm_head_snapshot_failure + evm_head" where
  "merge_head_values expected_chain_id signer_address primary backup =
     (if ep_chain_id primary \<noteq> expected_chain_id \<or> ep_chain_id backup \<noteq> expected_chain_id
      then Inl ChainIdMismatch
      else if ep_pending_account_nonce primary \<noteq> ep_pending_account_nonce backup
      then Inl PendingNonceDisagreement
      else Inr \<lparr>eh_block_number = min (ep_block_number primary) (ep_block_number backup),
                eh_account_nonce = ep_pending_account_nonce primary,
                eh_gas_balance_wei = min (ep_gas_balance_wei primary) (ep_gas_balance_wei backup),
                eh_signer_address = signer_address\<rparr>)"

definition merge_head_snapshot ::
  "u64 \<Rightarrow> address \<Rightarrow> evm_rpc_error + endpoint_head \<Rightarrow> evm_rpc_error + endpoint_head \<Rightarrow>
   evm_head_snapshot_failure + evm_head" where
  "merge_head_snapshot expected_chain_id signer_address primary backup =
     (case (primary, backup) of
        (Inl _, Inl _) \<Rightarrow> Inl BothRpcUnavailable
      | (Inl _, Inr _) \<Rightarrow> Inl PrimaryRpcUnavailable
      | (Inr _, Inl _) \<Rightarrow> Inl BackupRpcUnavailable
      | (Inr p, Inr b) \<Rightarrow> merge_head_values expected_chain_id signer_address p b)"

definition merge_head_snapshot_with_diagnostics ::
  "u64 \<Rightarrow> address \<Rightarrow> evm_readiness_endpoint_error + endpoint_head \<Rightarrow>
   evm_readiness_endpoint_error + endpoint_head \<Rightarrow> evm_head_snapshot_failure + evm_head" where
  "merge_head_snapshot_with_diagnostics expected_chain_id signer_address primary backup =
     merge_head_snapshot expected_chain_id signer_address (map_err (\<lambda>_. Rpc) primary)
       (map_err (\<lambda>_. Rpc) backup)"

section \<open>Fees\<close>

record evm_fee_envelope =
  fe_gas_limit :: u64
  fe_max_fee_per_gas :: u128
  fe_max_priority_fee_per_gas :: u128

datatype evm_prepare_error =
    PrepareSignature unsupported_signature
  | PrepareRpc evm_rpc_error
  | PrepareSign
  | FeeCapExceeded
  | InvalidFeeEstimate

definition bounded_fee_envelope ::
  "u64 \<Rightarrow> u128 \<Rightarrow> u128 \<Rightarrow> u128 \<Rightarrow> u128 \<Rightarrow> u128 \<Rightarrow> evm_prepare_error + evm_fee_envelope" where
  "bounded_fee_envelope gas_limit cap primary_max_fee primary_priority_fee backup_max_fee
     backup_priority_fee =
     (if primary_max_fee = 0 \<or> backup_max_fee = 0 \<or> primary_priority_fee > primary_max_fee
         \<or> backup_priority_fee > backup_max_fee
      then Inl InvalidFeeEstimate
      else if max primary_max_fee backup_max_fee > cap then Inl FeeCapExceeded
      else Inr \<lparr>fe_gas_limit = gas_limit, fe_max_fee_per_gas = max primary_max_fee backup_max_fee,
                fe_max_priority_fee_per_gas = max primary_priority_fee backup_priority_fee\<rparr>)"

section \<open>Confirmation depth\<close>

definition classify_confirmations ::
  "receipt_facts \<Rightarrow> u64 \<Rightarrow> u64 \<Rightarrow> evm_rpc_error + evm_reconcile_status" where
  "classify_confirmations receipt head_block required_confirmations =
     (if required_confirmations = 0 then Inl InvalidConfirmations
      else bind_res (ok_or (checked_sub head_block (rf_block_number receipt)) HeadBehindReceipt) (\<lambda>behind.
        let confirmations = saturating_add behind 1 in
        if confirmations \<ge> required_confirmations then
          Inr (ReconcileTerminal \<lparr>to_success = rf_success receipt, to_tx_hash = rf_tx_hash receipt,
            to_block_number = rf_block_number receipt, to_block_hash = rf_block_hash receipt,
            to_confirmations = confirmations, to_gas_used = rf_gas_used receipt,
            to_fee_wei = rf_fee_wei receipt, to_execution_fee_wei = rf_execution_fee_wei receipt,
            to_l1_fee_wei = rf_l1_fee_wei receipt\<rparr>)
        else Inr (ReconcileMined confirmations (rf_block_number receipt))))"

definition classify_reconciliation ::
  "receipt_observation \<Rightarrow> transaction_observation \<Rightarrow> receipt_observation option \<Rightarrow> u64 \<Rightarrow> u64 \<Rightarrow>
   evm_rpc_error + evm_reconcile_status" where
  "classify_reconciliation first_receipt transaction rechecked_receipt head_block required_confirmations =
     (case first_receipt of
        ReceiptUnknown \<Rightarrow>
          (case transaction of TxMissing \<Rightarrow> Inr ReconcileUnknown | _ \<Rightarrow> Inr ReconcilePending)
      | ReceiptPending \<Rightarrow> Inr ReconcilePending
      | ReceiptMined first \<Rightarrow>
          (case rechecked_receipt of
             Some (ReceiptMined second) \<Rightarrow>
               if first = second
               then classify_confirmations second head_block required_confirmations
               else Inr ReconcilePending
           | _ \<Rightarrow> Inr ReconcilePending))"

section \<open>The provider's reads\<close>

text \<open>The fields of \<open>EvmChainProvider\<close> the reads use.\<close>

record evm_chain_provider =
  ev_chain_id :: u64
  ev_signer_address :: address
  ev_asset :: address
  ev_required_confirmations :: u64
  ev_gas_limit :: u64
  ev_max_fee_per_gas :: u128
  ev_transfer_domain_name :: string

datatype receipt_read = FirstRead | Recheck

record evm_rpc =
  rpc_receipt :: "evm_readiness_reader \<Rightarrow> receipt_read \<Rightarrow> nat \<Rightarrow> json option option"
  rpc_transaction :: "evm_readiness_reader \<Rightarrow> nat \<Rightarrow> json option option"
  rpc_chain_id :: "evm_readiness_reader \<Rightarrow> nat \<Rightarrow> u64 option"
  rpc_block_number :: "evm_readiness_reader \<Rightarrow> nat \<Rightarrow> u64 option"
  rpc_pending_nonce :: "evm_readiness_reader \<Rightarrow> nat \<Rightarrow> u64 option"
  rpc_balance :: "evm_readiness_reader \<Rightarrow> nat \<Rightarrow> u256 option"
  rpc_fees :: "evm_readiness_reader \<Rightarrow> nat \<Rightarrow> (u128 \<times> u128) option"
  rpc_parse_b256 :: "string \<Rightarrow> b256 option"
  rpc_parse_address :: "string \<Rightarrow> address option"

definition receipt_once ::
  "evm_rpc \<Rightarrow> b256 \<Rightarrow> evm_readiness_reader \<Rightarrow> receipt_read \<Rightarrow> nat \<Rightarrow> evm_rpc_error + receipt_observation" where
  "receipt_once rpc tx_hash reader read attempt =
     bind_res (ok_or (rpc_receipt rpc reader read attempt) Rpc)
       (parse_raw_receipt (rpc_parse_b256 rpc) tx_hash)"

definition transaction_once ::
  "evm_chain_provider \<Rightarrow> evm_rpc \<Rightarrow> b256 \<Rightarrow> evm_readiness_reader \<Rightarrow> nat \<Rightarrow>
   evm_rpc_error + transaction_observation" where
  "transaction_once p rpc tx_hash reader attempt =
     bind_res (ok_or (rpc_transaction rpc reader attempt) Rpc)
       (parse_raw_transaction (rpc_parse_b256 rpc) (rpc_parse_address rpc) tx_hash (ev_chain_id p)
          (ev_signer_address p) (ev_asset p))"

definition block_head_once :: "evm_rpc \<Rightarrow> evm_readiness_reader \<Rightarrow> nat \<Rightarrow> evm_rpc_error + u64 \<times> u64" where
  "block_head_once rpc reader attempt =
     bind_res (ok_or (rpc_chain_id rpc reader attempt) Rpc) (\<lambda>c.
     bind_res (ok_or (rpc_block_number rpc reader attempt) Rpc) (\<lambda>b. Inr (c, b)))"

definition safe_block_number :: "evm_chain_provider \<Rightarrow> evm_rpc \<Rightarrow> evm_rpc_error + u64" where
  "safe_block_number p rpc =
     bind_res (read_rpc (block_head_once rpc Primary)) (\<lambda>(primary_chain, primary_block).
     bind_res (read_rpc (block_head_once rpc Backup)) (\<lambda>(backup_chain, backup_block).
     if primary_chain \<noteq> ev_chain_id p \<or> backup_chain \<noteq> ev_chain_id p
     then Inl (ReaderDisagreement ''chain id'')
     else Inr (min primary_block backup_block)))"

definition merged_receipt :: "evm_rpc \<Rightarrow> b256 \<Rightarrow> receipt_read \<Rightarrow> evm_rpc_error + receipt_observation" where
  "merged_receipt rpc tx_hash read =
     bind_res (read_rpc (receipt_once rpc tx_hash Primary read)) (\<lambda>primary.
     bind_res (read_rpc (receipt_once rpc tx_hash Backup read)) (\<lambda>backup.
     merge_receipts primary backup))"

definition reconcile_with_confirmations ::
  "evm_chain_provider \<Rightarrow> evm_rpc \<Rightarrow> b256 \<Rightarrow> u64 \<Rightarrow> evm_rpc_error + evm_reconcile_status" where
  "reconcile_with_confirmations p rpc tx_hash required_confirmations =
     (if required_confirmations = 0 then Inl InvalidConfirmations
      else
        bind_res (merged_receipt rpc tx_hash FirstRead) (\<lambda>first_receipt.
        bind_res (read_rpc (transaction_once p rpc tx_hash Primary)) (\<lambda>primary_transaction.
        bind_res (read_rpc (transaction_once p rpc tx_hash Backup)) (\<lambda>backup_transaction.
        bind_res (merge_transactions primary_transaction backup_transaction) (\<lambda>transaction.
        bind_res (safe_block_number p rpc) (\<lambda>head_block.
        bind_res (case first_receipt of
                    ReceiptMined _ \<Rightarrow> bind_res (merged_receipt rpc tx_hash Recheck) (\<lambda>r. Inr (Some r))
                  | _ \<Rightarrow> Inr None) (\<lambda>rechecked_receipt.
        classify_reconciliation first_receipt transaction rechecked_receipt head_block
          required_confirmations)))))))"

definition reconcile_hash_with_confirmations ::
  "evm_chain_provider \<Rightarrow> evm_rpc \<Rightarrow> string \<Rightarrow> u64 \<Rightarrow> evm_rpc_error + evm_reconcile_status" where
  "reconcile_hash_with_confirmations p rpc tx_hash required_confirmations =
     bind_res (ok_or (rpc_parse_b256 rpc tx_hash) InvalidTransactionHash) (\<lambda>hash.
     reconcile_with_confirmations p rpc hash required_confirmations)"

definition endpoint_head_once :: "evm_rpc \<Rightarrow> evm_readiness_reader \<Rightarrow> nat \<Rightarrow> evm_rpc_error + endpoint_head" where
  "endpoint_head_once rpc reader attempt =
     bind_res (ok_or (rpc_chain_id rpc reader attempt) Rpc) (\<lambda>chain_id.
     bind_res (ok_or (rpc_block_number rpc reader attempt) Rpc) (\<lambda>block_number.
     bind_res (ok_or (rpc_pending_nonce rpc reader attempt) Rpc) (\<lambda>nonce.
     bind_res (ok_or (rpc_balance rpc reader attempt) Rpc) (\<lambda>balance.
     Inr \<lparr>ep_chain_id = chain_id, ep_block_number = block_number, ep_pending_account_nonce = nonce,
          ep_gas_balance_wei = (if unat balance < 2 ^ 128 then ucast balance else - 1)\<rparr>))))"

definition provider_head :: "evm_chain_provider \<Rightarrow> evm_rpc \<Rightarrow> evm_rpc_error + evm_head" where
  "provider_head p rpc = map_err into_rpc_error
     (merge_head_snapshot (ev_chain_id p) (ev_signer_address p)
        (read_rpc (endpoint_head_once rpc Primary)) (read_rpc (endpoint_head_once rpc Backup)))"

definition fee_once :: "evm_rpc \<Rightarrow> evm_readiness_reader \<Rightarrow> nat \<Rightarrow> evm_rpc_error + u128 \<times> u128" where
  "fee_once rpc reader attempt = ok_or (rpc_fees rpc reader attempt) Rpc"

definition fee_envelope :: "evm_chain_provider \<Rightarrow> evm_rpc \<Rightarrow> evm_prepare_error + evm_fee_envelope" where
  "fee_envelope p rpc =
     bind_res (map_err PrepareRpc (read_rpc (fee_once rpc Primary))) (\<lambda>(primary_max, primary_priority).
     bind_res (map_err PrepareRpc (read_rpc (fee_once rpc Backup))) (\<lambda>(backup_max, backup_priority).
     bounded_fee_envelope (ev_gas_limit p) (ev_max_fee_per_gas p) primary_max primary_priority
       backup_max backup_priority))"

section \<open>Inversion of merges\<close>

lemma merge_receipts_Mined: "merge_receipts a b = Inr (ReceiptMined f) \<longleftrightarrow> a = ReceiptMined f \<and> b = ReceiptMined f"
  by (cases a; cases b) (auto simp: merge_receipts_def)

lemma merge_receipts_Unknown: "merge_receipts a b = Inr ReceiptUnknown \<longleftrightarrow> a = ReceiptUnknown \<and> b = ReceiptUnknown"
  by (cases a; cases b) (auto simp: merge_receipts_def)

lemma merge_transactions_Missing: "merge_transactions a b = Inr TxMissing \<longleftrightarrow> a = TxMissing \<and> b = TxMissing"
  by (cases a; cases b) (auto simp: merge_transactions_def)

lemma merged_receipt_Mined:
  assumes "merged_receipt rpc h read = Inr (ReceiptMined f)"
  shows "\<exists>k < 3. receipt_once rpc h reader read k = Inr (ReceiptMined f)"
proof -
  from assms have "read_rpc (receipt_once rpc h reader read) = Inr (ReceiptMined f)"
    by (cases reader) (auto simp: merged_receipt_def res_simps merge_receipts_Mined)
  then show ?thesis by (metis read_rpc_Inr)
qed

lemma parse_raw_receipt_Unknown:
  "parse_raw_receipt parse h v = Inr ReceiptUnknown \<longleftrightarrow> v = None"
  by (auto simp: parse_raw_receipt_def res_simps split: option.splits if_splits)

lemma parse_raw_transaction_Missing:
  "parse_raw_transaction pb pa h c s t v = Inr TxMissing \<longleftrightarrow> v = None"
  by (auto simp: parse_raw_transaction_def parse_block_identity_def res_simps split: option.splits if_splits)

lemma parse_raw_receipt_hash:
  "parse_raw_receipt parse h v = Inr (ReceiptMined f) \<Longrightarrow> rf_tx_hash f = h"
  by (auto simp: parse_raw_receipt_def res_simps split: option.splits if_splits)

lemma receipt_once_hash: "receipt_once rpc h reader read k = Inr (ReceiptMined f) \<Longrightarrow> rf_tx_hash f = h"
  by (auto simp: receipt_once_def res_simps dest: parse_raw_receipt_hash)

lemma merged_receipt_Unknown:
  assumes "merged_receipt rpc h read = Inr ReceiptUnknown"
  shows "\<exists>k < 3. rpc_receipt rpc reader read k = Some None"
proof -
  from assms have "read_rpc (receipt_once rpc h reader read) = Inr ReceiptUnknown"
    by (cases reader) (auto simp: merged_receipt_def res_simps merge_receipts_Unknown)
  then obtain k where "k < 3" "receipt_once rpc h reader read k = Inr ReceiptUnknown"
    by (rule read_rpc_Inr)
  then show ?thesis by (auto simp: receipt_once_def res_simps parse_raw_receipt_Unknown)
qed

lemma transaction_read_Missing:
  assumes "read_rpc (transaction_once p rpc h reader) = Inr TxMissing"
  shows "\<exists>k < 3. rpc_transaction rpc reader k = Some None"
proof -
  from assms obtain k where "k < 3" "transaction_once p rpc h reader k = Inr TxMissing"
    by (rule read_rpc_Inr)
  then show ?thesis by (auto simp: transaction_once_def res_simps parse_raw_transaction_Missing)
qed

lemma safe_block_number_Inr:
  assumes "safe_block_number p rpc = Inr n"
  shows "\<exists>k < 3. \<exists>b. block_head_once rpc reader k = Inr (ev_chain_id p, b) \<and> n \<le> b"
proof -
  from assms obtain b where "read_rpc (block_head_once rpc reader) = Inr (ev_chain_id p, b)" "n \<le> b"
    by (cases reader) (auto simp: safe_block_number_def res_simps split: if_splits)
  then show ?thesis by (metis read_rpc_Inr)
qed

lemma classify_confirmations_Terminal:
  assumes "classify_confirmations f head req = Inr (ReconcileTerminal out)"
  shows "0 < unat req" and "unat (rf_block_number f) + unat req \<le> unat head + 1"
    and "unat req \<le> unat (to_confirmations out)"
    and "to_success out = rf_success f \<and> to_tx_hash out = rf_tx_hash f \<and> to_fee_wei out = rf_fee_wei f
       \<and> to_block_number out = rf_block_number f"
proof -
  from assms obtain behind where req: "req \<noteq> 0" and b: "checked_sub head (rf_block_number f) = Some behind"
    and ge: "req \<le> saturating_add behind 1" and out: "to_confirmations out = saturating_add behind 1"
    "to_success out = rf_success f \<and> to_tx_hash out = rf_tx_hash f \<and> to_fee_wei out = rf_fee_wei f
       \<and> to_block_number out = rf_block_number f"
    by (auto simp: classify_confirmations_def res_simps Let_def split: if_splits)
  show "0 < unat req" using req by (simp add: unat_gt_0)
  have "unat req \<le> unat behind + 1"
    using ge unat_saturating_add [of behind 1] by (simp add: word_le_nat_alt)
  with checked_sub_SomeD [OF b] show "unat (rf_block_number f) + unat req \<le> unat head + 1" by linarith
  show "unat req \<le> unat (to_confirmations out)" using ge out(1) by (simp add: word_le_nat_alt)
  show "to_success out = rf_success f \<and> to_tx_hash out = rf_tx_hash f \<and> to_fee_wei out = rf_fee_wei f
       \<and> to_block_number out = rf_block_number f" by (rule out(2))
qed

lemma classify_reconciliation_Terminal:
  "classify_reconciliation a tx r head req = Inr (ReconcileTerminal out) \<longleftrightarrow>
     (\<exists>f. a = ReceiptMined f \<and> r = Some (ReceiptMined f)
        \<and> classify_confirmations f head req = Inr (ReconcileTerminal out))"
  by (auto simp: classify_reconciliation_def
      split: receipt_observation.splits option.splits transaction_observation.splits)

lemma classify_reconciliation_Unknown:
  "classify_reconciliation a tx r head req = Inr ReconcileUnknown \<longleftrightarrow> a = ReceiptUnknown \<and> tx = TxMissing"
proof -
  have "classify_confirmations f head req \<noteq> Inr ReconcileUnknown" for f
    by (auto simp: classify_confirmations_def Let_def res_simps)
  then show ?thesis
    by (auto simp: classify_reconciliation_def
        split: receipt_observation.splits option.splits transaction_observation.splits)
qed

lemma reconcile_Inr:
  assumes "reconcile_with_confirmations p rpc h req = Inr status"
  obtains first tp tb tx head re where "req \<noteq> 0" "merged_receipt rpc h FirstRead = Inr first"
    "read_rpc (transaction_once p rpc h Primary) = Inr tp"
    "read_rpc (transaction_once p rpc h Backup) = Inr tb" "merge_transactions tp tb = Inr tx"
    "safe_block_number p rpc = Inr head"
    "(case first of ReceiptMined _ \<Rightarrow> bind_res (merged_receipt rpc h Recheck) (\<lambda>r. Inr (Some r))
        | _ \<Rightarrow> Inr None) = Inr re"
    "classify_reconciliation first tx re head req = Inr status"
  using assms unfolding reconcile_with_confirmations_def by (simp add: res_simps split: if_splits) metis

lemma reconcile_Terminal:
  assumes "reconcile_with_confirmations p rpc h req = Inr (ReconcileTerminal out)"
  obtains f head where "merged_receipt rpc h FirstRead = Inr (ReceiptMined f)"
    "merged_receipt rpc h Recheck = Inr (ReceiptMined f)" "safe_block_number p rpc = Inr head"
    "classify_confirmations f head req = Inr (ReconcileTerminal out)"
  using assms
  by (rule reconcile_Inr) (auto simp: classify_reconciliation_Terminal res_simps)

lemma reconcile_Unknown:
  assumes "reconcile_with_confirmations p rpc h req = Inr ReconcileUnknown"
  shows "merged_receipt rpc h FirstRead = Inr ReceiptUnknown"
    and "read_rpc (transaction_once p rpc h reader) = Inr TxMissing"
proof -
  from assms obtain tp tb where "merged_receipt rpc h FirstRead = Inr ReceiptUnknown"
    "read_rpc (transaction_once p rpc h Primary) = Inr tp"
    "read_rpc (transaction_once p rpc h Backup) = Inr tb" "merge_transactions tp tb = Inr TxMissing"
    by (rule reconcile_Inr) (auto simp: classify_reconciliation_Unknown)
  then show "merged_receipt rpc h FirstRead = Inr ReceiptUnknown"
    and "read_rpc (transaction_once p rpc h reader) = Inr TxMissing"
    by (cases reader; simp add: merge_transactions_Missing)+
qed

section \<open>Properties\<close>

definition sample_provider :: evm_chain_provider where
  "sample_provider = \<lparr>ev_chain_id = 5, ev_signer_address = 1, ev_asset = 2, ev_required_confirmations = 3,
     ev_gas_limit = 100, ev_max_fee_per_gas = 20, ev_transfer_domain_name = ''USDC''\<rparr>"

text \<open>Two readers that agree on a mined receipt five blocks deep, and two that know nothing.\<close>

definition sample_rpc :: evm_rpc where
  "sample_rpc = \<lparr>rpc_receipt = (\<lambda>_ _ _. Some (Some sample_receipt)),
     rpc_transaction = (\<lambda>_ _. Some (Some sample_transaction)), rpc_chain_id = (\<lambda>_ _. Some 5),
     rpc_block_number = (\<lambda>_ _. Some 20), rpc_pending_nonce = (\<lambda>_ _. Some 4),
     rpc_balance = (\<lambda>_ _. Some 1000),
     rpc_fees = (\<lambda>reader _. Some (case reader of Primary \<Rightarrow> (10, 2) | Backup \<Rightarrow> (12, 3))),
     rpc_parse_b256 = sample_parse_b256, rpc_parse_address = sample_parse_address\<rparr>"

definition silent_rpc :: evm_rpc where
  "silent_rpc = sample_rpc\<lparr>rpc_receipt := (\<lambda>_ _ _. Some None), rpc_transaction := (\<lambda>_ _. Some None)\<rparr>"

lemma sample_chain: "ev_chain_id sample_provider = 5"
  by (simp add: sample_provider_def)

lemma sample_reads:
  "read_rpc (receipt_once sample_rpc 7 reader read) = Inr (ReceiptMined sample_facts)"
  "read_rpc (transaction_once sample_provider sample_rpc 7 reader) = Inr (TxPending 3)"
  "read_rpc (block_head_once sample_rpc reader) = Inr (5, 20)"
  "read_rpc (receipt_once silent_rpc 7 reader read) = Inr ReceiptUnknown"
  "read_rpc (transaction_once sample_provider silent_rpc 7 reader) = Inr TxMissing"
  "read_rpc (block_head_once silent_rpc reader) = Inr (5, 20)"
  by (simp_all add: read_rpc_const [abs_def] receipt_once_def [abs_def] transaction_once_def [abs_def]
      block_head_once_def [abs_def] sample_rpc_def silent_rpc_def sample_provider_def
      sample_receipt_parsed sample_transaction_parsed parse_raw_receipt_def [of _ _ None]
      parse_raw_transaction_def [of _ _ _ _ _ _ None])

definition sample_outcome :: evm_terminal_outcome where
  "sample_outcome = \<lparr>to_success = True, to_tx_hash = 7, to_block_number = 16, to_block_hash = Some 8,
     to_confirmations = 5, to_gas_used = 5, to_fee_wei = 17, to_execution_fee_wei = 15, to_l1_fee_wei = 2\<rparr>"

lemma sample_reconciled:
  "reconcile_with_confirmations sample_provider sample_rpc 7 3 = Inr (ReconcileTerminal sample_outcome)"
  "reconcile_with_confirmations sample_provider silent_rpc 7 3 = Inr ReconcileUnknown"
  by (simp_all add: reconcile_with_confirmations_def merged_receipt_def sample_reads merge_receipts_def
      merge_transactions_def safe_block_number_def classify_reconciliation_def classify_confirmations_def
      sample_facts_def sample_outcome_def sample_chain checked_sub_def saturating_add_def)

text \<open>
  C6. A terminal EVM outcome is agreed and deep enough: \<open>reconcile_with_confirmations\<close> reports a
  terminal outcome only if both readers, before and after the head was read, returned the same
  mined receipt for exactly this transaction hash, both readers are on the configured chain, and
  the receipt's block lies at least the required number of confirmations below the head of each
  of them. The reported success flag, fee and block are those of the agreed receipt.
\<close>

theorem reconcile_terminal_sound:
  assumes "reconcile_with_confirmations p rpc h req = Inr (ReconcileTerminal out)"
  shows "0 < unat req \<and> unat req \<le> unat (to_confirmations out) \<and> to_tx_hash out = h
     \<and> (\<exists>f. (\<forall>reader read. \<exists>k < 3. receipt_once rpc h reader read k = Inr (ReceiptMined f))
          \<and> (\<forall>reader. \<exists>k < 3. \<exists>b. block_head_once rpc reader k = Inr (ev_chain_id p, b)
                \<and> unat (rf_block_number f) + unat req \<le> unat b + 1)
          \<and> to_success out = rf_success f \<and> to_fee_wei out = rf_fee_wei f
          \<and> to_block_number out = rf_block_number f)"
proof -
  from assms obtain f head where m: "merged_receipt rpc h FirstRead = Inr (ReceiptMined f)"
    "merged_receipt rpc h Recheck = Inr (ReceiptMined f)" and hd: "safe_block_number p rpc = Inr head"
    and c: "classify_confirmations f head req = Inr (ReconcileTerminal out)"
    by (rule reconcile_Terminal)
  note depth = classify_confirmations_Terminal [OF c]
  have receipts: "\<exists>k < 3. receipt_once rpc h reader read k = Inr (ReceiptMined f)" for reader read
    by (cases read) (use m merged_receipt_Mined in blast)+
  have heads: "\<exists>k < 3. \<exists>b. block_head_once rpc reader k = Inr (ev_chain_id p, b)
                \<and> unat (rf_block_number f) + unat req \<le> unat b + 1" for reader
    using safe_block_number_Inr [OF hd, of reader] depth(2) by (fastforce simp: word_le_nat_alt)
  have "rf_tx_hash f = h" using receipts receipt_once_hash by blast
  with depth receipts heads show ?thesis by metis
qed

theorem reconcile_terminal_sound_witness:
  "reconcile_with_confirmations sample_provider sample_rpc 7 3 = Inr (ReconcileTerminal sample_outcome)
   \<and> to_tx_hash sample_outcome = 7 \<and> 3 \<le> unat (to_confirmations sample_outcome)"
  using reconcile_terminal_sound [OF sample_reconciled(1)] sample_reconciled(1) by simp

text \<open>
  C23. A transaction is declared unknown only on agreement: \<open>reconcile_with_confirmations\<close> returns
  \<open>Unknown\<close>, the verdict that permits rebroadcasting, only if each of the two readers answered
  that it has neither a receipt nor a transaction for the hash; a failed read never counts.
\<close>

theorem reconcile_unknown_sound:
  assumes "reconcile_with_confirmations p rpc h req = Inr ReconcileUnknown"
  shows "\<forall>reader. (\<exists>k < 3. rpc_receipt rpc reader FirstRead k = Some None)
     \<and> (\<exists>k < 3. rpc_transaction rpc reader k = Some None)"
  using merged_receipt_Unknown [OF reconcile_Unknown(1) [OF assms]]
    transaction_read_Missing [OF reconcile_Unknown(2) [OF assms]] by blast

theorem reconcile_unknown_sound_witness:
  "reconcile_with_confirmations sample_provider silent_rpc 7 3 = Inr ReconcileUnknown
   \<and> (\<exists>k < 3. rpc_receipt silent_rpc Backup FirstRead k = Some None)"
  using reconcile_unknown_sound [OF sample_reconciled(2)] sample_reconciled(2) by blast

lemma fee_envelope_bounds:
  assumes "fee_envelope p rpc = Inr e"
  shows "fe_gas_limit e = ev_gas_limit p" "fe_max_fee_per_gas e \<noteq> 0"
    "fe_max_priority_fee_per_gas e \<le> fe_max_fee_per_gas e" "fe_max_fee_per_gas e \<le> ev_max_fee_per_gas p"
proof -
  from assms obtain pm pp bm bp where
    b: "bounded_fee_envelope (ev_gas_limit p) (ev_max_fee_per_gas p) pm pp bm bp = Inr e"
    by (auto simp: fee_envelope_def res_simps)
  then show "fe_gas_limit e = ev_gas_limit p" "fe_max_fee_per_gas e \<noteq> 0"
    "fe_max_priority_fee_per_gas e \<le> fe_max_fee_per_gas e" "fe_max_fee_per_gas e \<le> ev_max_fee_per_gas p"
    by (auto simp: bounded_fee_envelope_def not_less max_def split: if_splits)
qed

text \<open>
  C24. Fees stay within the configured cap: an envelope is produced only when both readers gave a
  positive estimate, it covers the larger of the two estimates, its priority fee does not exceed
  its maximum fee, and the most the signed transaction can spend on execution is at most the gas
  limit times the configured cap.
\<close>

theorem fee_envelope_bounded:
  assumes "fee_envelope p rpc = Inr e"
  shows "fe_gas_limit e = ev_gas_limit p \<and> 0 < unat (fe_max_fee_per_gas e)
     \<and> unat (fe_max_priority_fee_per_gas e) \<le> unat (fe_max_fee_per_gas e)
     \<and> unat (fe_gas_limit e) * unat (fe_max_fee_per_gas e)
         \<le> unat (ev_gas_limit p) * unat (ev_max_fee_per_gas p)
     \<and> (\<forall>reader. \<exists>k < 3. \<exists>fee priority. rpc_fees rpc reader k = Some (fee, priority)
           \<and> 0 < unat fee \<and> unat fee \<le> unat (fe_max_fee_per_gas e)
           \<and> unat priority \<le> unat (fe_max_priority_fee_per_gas e))"
proof -
  from assms obtain pm pp bm bp where r: "read_rpc (fee_once rpc Primary) = Inr (pm, pp)"
    "read_rpc (fee_once rpc Backup) = Inr (bm, bp)"
    and b: "bounded_fee_envelope (ev_gas_limit p) (ev_max_fee_per_gas p) pm pp bm bp = Inr e"
    by (auto simp: fee_envelope_def res_simps)
  from b have e: "e = \<lparr>fe_gas_limit = ev_gas_limit p, fe_max_fee_per_gas = max pm bm,
        fe_max_priority_fee_per_gas = max pp bp\<rparr>"
    and ok: "pm \<noteq> 0" "bm \<noteq> 0" "pp \<le> pm" "bp \<le> bm" "max pm bm \<le> ev_max_fee_per_gas p"
    by (auto simp: bounded_fee_envelope_def not_less split: if_splits)
  have unat_max: "unat (max a c) = max (unat a) (unat c)" for a c :: u128
    by (simp add: max_def word_le_nat_alt)
  have fee: "\<exists>k < 3. rpc_fees rpc reader k = Some v" if "read_rpc (fee_once rpc reader) = Inr v" for reader v
    using that by (rule read_rpc_Inr) (auto simp: fee_once_def res_simps)
  have fees: "\<exists>k < 3. \<exists>fee priority. rpc_fees rpc reader k = Some (fee, priority)
      \<and> 0 < unat fee \<and> unat fee \<le> unat (max pm bm) \<and> unat priority \<le> unat (max pp bp)" for reader
    using fee [OF r(1)] fee [OF r(2)] ok(1,2)
    by (cases reader) (simp add: unat_max unat_gt_0, metis max.cobounded1 max.cobounded2)+
  have "0 < unat (max pm bm)" using ok(1) by (simp add: unat_max unat_gt_0 less_max_iff_disj)
  moreover have "unat (max pp bp) \<le> unat (max pm bm)"
    using ok(3,4) by (simp add: unat_max word_le_nat_alt max_def)
  moreover have "unat (max pm bm) \<le> unat (ev_max_fee_per_gas p)" using ok(5) by (simp only: word_le_nat_alt)
  ultimately show ?thesis using e fees by simp
qed

theorem fee_envelope_bounded_witness:
  "\<exists>e. fee_envelope sample_provider sample_rpc = Inr e \<and> fe_gas_limit e = 100
     \<and> unat (fe_gas_limit e) * unat (fe_max_fee_per_gas e) \<le> 2000"
proof -
  have "fee_envelope sample_provider sample_rpc = Inr \<lparr>fe_gas_limit = 100, fe_max_fee_per_gas = 12,
      fe_max_priority_fee_per_gas = 3\<rparr>"
    by (simp add: fee_envelope_def fee_once_def [abs_def] sample_rpc_def sample_provider_def
        bounded_fee_envelope_def max_def)
  from fee_envelope_bounded [OF this] this show ?thesis by (simp add: sample_provider_def)
qed

end
