(* ===== verification/Evm_Prepare.thy ===== *)
theory Evm_Prepare
  imports Evm_Reconcile
begin

text \<open>
  Preparing and re-validating durable EVM submissions: the ERC-3009 authorization, the calldata
  overload chosen from the payer's signature, the signed EIP-1559 transaction, the check that binds
  journaled bytes to a settlement, and the provider's verification and preparation around them.
  Transaction envelopes, ABI coding, ECDSA, EIP-712 hashing and signature shapes belong to the
  \<open>alloy\<close> and \<open>x402-chain-eip155\<close> libraries; they are the record \<open>evm_codec\<close>, a parameter.
\<close>

section \<open>Data\<close>

record erc3009_authorization =
  au_from :: address
  au_to :: address
  au_value :: u256
  au_valid_after :: u256
  au_valid_before :: u256
  au_nonce :: b256

record evm_authorization_identity =
  ai_nonce :: b256
  ai_valid_after :: u256
  ai_valid_before :: u256

record eip712_domain =
  dm_name :: "string option"
  dm_version :: "string option"
  dm_chain_id :: "u256 option"
  dm_verifying_contract :: "address option"
  dm_salt :: "b256 option"

datatype tx_kind = Call address | Create

record tx_eip1559 =
  tx_chain_id :: u64
  tx_account_nonce :: u64
  tx_gas_limit :: u64
  tx_max_fee_per_gas :: u128
  tx_max_priority_fee_per_gas :: u128
  tx_to :: tx_kind
  tx_value :: u256
  tx_access_list :: "(address \<times> b256 list) list"
  tx_input :: bytes

datatype tx_envelope = Eip1559 tx_eip1559 bytes | OtherEnvelope bytes

datatype structured_signature = EOA u8 b256 b256 | EIP1271 bytes | EIP6492

record evm_codec =
  decode_2718 :: "bytes \<Rightarrow> (tx_envelope \<times> bytes) option"
  encoded_2718 :: "tx_envelope \<Rightarrow> bytes"
  tx_hash_of :: "tx_envelope \<Rightarrow> b256"
  recover_signer :: "tx_envelope \<Rightarrow> address option"
  signature_hash :: "tx_eip1559 \<Rightarrow> b256"
  sign_hash_sync :: "b256 \<Rightarrow> bytes option"
  eip712_signing_hash :: "erc3009_authorization \<Rightarrow> eip712_domain \<Rightarrow> b256"
  try_from_bytes :: "bytes \<Rightarrow> address \<Rightarrow> b256 \<Rightarrow> structured_signature option"
  selector_0 :: bytes
  abi_encode_0 :: "erc3009_authorization \<Rightarrow> bytes \<Rightarrow> bytes"
  abi_decode_0 :: "bytes \<Rightarrow> (erc3009_authorization \<times> bytes) option"
  selector_1 :: bytes
  abi_encode_1 :: "erc3009_authorization \<Rightarrow> u8 \<Rightarrow> b256 \<Rightarrow> b256 \<Rightarrow> bytes"
  abi_decode_1 :: "bytes \<Rightarrow> (erc3009_authorization \<times> u8 \<times> b256 \<times> b256) option"

text \<open>The 32 bytes of a hash, most significant first.\<close>

definition b256_bytes :: "b256 \<Rightarrow> bytes" where
  "b256_bytes w = map (\<lambda>i. char_of (unat w div 256 ^ (31 - i) mod 256 :: nat)) [0..<32]"

section \<open>Calldata\<close>

definition build_transfer_domain :: "string \<Rightarrow> string \<Rightarrow> u64 \<Rightarrow> address \<Rightarrow> eip712_domain" where
  "build_transfer_domain name version chain_id asset =
     \<lparr>dm_name = Some name, dm_version = Some version, dm_chain_id = Some (ucast chain_id),
      dm_verifying_contract = Some asset, dm_salt = None\<rparr>"

definition eip712_transfer_hash :: "evm_codec \<Rightarrow> erc3009_authorization \<Rightarrow> eip712_domain \<Rightarrow> b256" where
  "eip712_transfer_hash c authorization domain = eip712_signing_hash c authorization domain"

datatype settleable_signature = SettleableEoa u8 b256 b256 | SettleableEip1271 bytes

definition classify_settleable_signature ::
  "evm_codec \<Rightarrow> address \<Rightarrow> bytes \<Rightarrow> b256 \<Rightarrow> unsupported_signature + settleable_signature" where
  "classify_settleable_signature c payer signature eip712_prehash =
     bind_res (ok_or (try_from_bytes c signature payer eip712_prehash) Malformed) (\<lambda>structured.
     case structured of
       EOA v r s \<Rightarrow> Inr (SettleableEoa v r s)
     | EIP1271 sig \<Rightarrow> Inr (SettleableEip1271 sig)
     | EIP6492 \<Rightarrow> Inl CounterfactualWallet)"

definition transfer_with_authorization_bytes_calldata ::
  "evm_codec \<Rightarrow> erc3009_authorization \<Rightarrow> bytes \<Rightarrow> bytes" where
  "transfer_with_authorization_bytes_calldata c authorization signature =
     abi_encode_0 c authorization signature"

definition transfer_with_authorization_vrs_calldata ::
  "evm_codec \<Rightarrow> erc3009_authorization \<Rightarrow> u8 \<Rightarrow> b256 \<Rightarrow> b256 \<Rightarrow> bytes" where
  "transfer_with_authorization_vrs_calldata c authorization v r s = abi_encode_1 c authorization v r s"

definition settlement_calldata ::
  "evm_codec \<Rightarrow> erc3009_authorization \<Rightarrow> bytes \<Rightarrow> b256 \<Rightarrow> unsupported_signature + bytes" where
  "settlement_calldata c authorization signature eip712_prehash =
     bind_res (classify_settleable_signature c (au_from authorization) signature eip712_prehash) (\<lambda>k.
     case k of
       SettleableEoa v r s \<Rightarrow> Inr (transfer_with_authorization_vrs_calldata c authorization v r s)
     | SettleableEip1271 sig \<Rightarrow> Inr (transfer_with_authorization_bytes_calldata c authorization sig))"

section \<open>Signing\<close>

record evm_signer_head =
  sh_chain_id :: u64
  sh_account_nonce :: u64

record evm_prepared =
  ep_tx_hash :: b256
  ep_signer_address :: address
  ep_account_nonce :: u64
  ep_signed_tx_rlp :: bytes
  ep_estimated_l1_fee_wei :: "u128 option"

definition settlement_transaction ::
  "evm_signer_head \<Rightarrow> evm_fee_envelope \<Rightarrow> address \<Rightarrow> bytes \<Rightarrow> tx_eip1559" where
  "settlement_transaction head fees asset calldata =
     \<lparr>tx_chain_id = sh_chain_id head, tx_account_nonce = sh_account_nonce head,
      tx_gas_limit = fe_gas_limit fees, tx_max_fee_per_gas = fe_max_fee_per_gas fees,
      tx_max_priority_fee_per_gas = fe_max_priority_fee_per_gas fees, tx_to = Call asset,
      tx_value = 0, tx_access_list = [], tx_input = calldata\<rparr>"

definition sign_settlement_transaction ::
  "evm_codec \<Rightarrow> address \<Rightarrow> evm_signer_head \<Rightarrow> evm_fee_envelope \<Rightarrow> address \<Rightarrow> bytes \<Rightarrow>
   evm_prepare_error + evm_prepared" where
  "sign_settlement_transaction c signer head fees asset calldata =
     (let transaction = settlement_transaction head fees asset calldata in
      bind_res (ok_or (sign_hash_sync c (signature_hash c transaction)) PrepareSign) (\<lambda>signature.
      let envelope = Eip1559 transaction signature in
      Inr \<lparr>ep_tx_hash = tx_hash_of c envelope, ep_signer_address = signer,
           ep_account_nonce = sh_account_nonce head, ep_signed_tx_rlp = encoded_2718 c envelope,
           ep_estimated_l1_fee_wei = None\<rparr>))"

section \<open>Binding stored bytes to a settlement\<close>

datatype erc3009_signature_kind = KindEoa | KindEip1271

record expected_evm_submission =
  ex_transaction_hash :: b256
  ex_facilitator_signer :: address
  ex_chain_id :: u64
  ex_account_nonce :: u64
  ex_token :: address
  ex_gas_limit :: u64
  ex_max_fee_per_gas :: u128
  ex_payer :: address
  ex_payee :: address
  ex_value :: u256
  ex_valid_after :: u256
  ex_valid_before :: u256
  ex_authorization_nonce :: b256
  ex_payment_hash :: b256
  ex_domain :: eip712_domain

record decoded_evm_submission =
  de_transaction_hash :: b256
  de_facilitator_signer :: address
  de_chain_id :: u64
  de_account_nonce :: u64
  de_token :: address
  de_gas_limit :: u64
  de_max_fee_per_gas :: u128
  de_max_priority_fee_per_gas :: u128
  de_authorization :: erc3009_authorization
  de_payment_hash :: b256
  de_signature_kind :: erc3009_signature_kind

datatype stored_transaction_error =
    InvalidEnvelope | TrailingBytes | UnsupportedEnvelope | TransactionHashMismatch | SignerRecovery
  | SignerMismatch | StoredChainIdMismatch | AccountNonceMismatch | TokenMismatch | NativeValue
  | GasLimitMismatch | StoredFeeCapExceeded | InvalidFeeEnvelope | UnexpectedAccessList
  | InvalidCalldata | AuthorizationMismatch | DomainMismatch | PaymentHashMismatch

definition decode_authorization_call ::
  "evm_codec \<Rightarrow> bytes \<Rightarrow>
   stored_transaction_error + erc3009_authorization \<times> erc3009_signature_kind \<times> bytes" where
  "decode_authorization_call c input =
     (if starts_with input (selector_0 c) then
        bind_res (ok_or (abi_decode_0 c input) InvalidCalldata) (\<lambda>(authorization, signature).
        if abi_encode_0 c authorization signature \<noteq> input then Inl InvalidCalldata
        else Inr (authorization, KindEip1271, signature))
      else if starts_with input (selector_1 c) then
        bind_res (ok_or (abi_decode_1 c input) InvalidCalldata) (\<lambda>(authorization, v, r, s).
        if abi_encode_1 c authorization v r s \<noteq> input then Inl InvalidCalldata
        else Inr (authorization, KindEoa, b256_bytes r @ b256_bytes s @ [char_of (unat v)]))
      else Inl InvalidCalldata)"

fun signature_kind_of :: "settleable_signature \<Rightarrow> erc3009_signature_kind" where
  "signature_kind_of (SettleableEoa v r s) = KindEoa"
| "signature_kind_of (SettleableEip1271 sig) = KindEip1271"

definition expected_authorization :: "expected_evm_submission \<Rightarrow> erc3009_authorization" where
  "expected_authorization e =
     \<lparr>au_from = ex_payer e, au_to = ex_payee e, au_value = ex_value e, au_valid_after = ex_valid_after e,
      au_valid_before = ex_valid_before e, au_nonce = ex_authorization_nonce e\<rparr>"

text \<open>The checks on the decoded transaction's own fields and on the expected domain, in order.\<close>

definition check_transaction_fields ::
  "tx_eip1559 \<Rightarrow> expected_evm_submission \<Rightarrow> stored_transaction_error + unit" where
  "check_transaction_fields t e =
     (if tx_chain_id t \<noteq> ex_chain_id e then Inl StoredChainIdMismatch
      else if tx_account_nonce t \<noteq> ex_account_nonce e then Inl AccountNonceMismatch
      else if tx_to t \<noteq> Call (ex_token e) then Inl TokenMismatch
      else if tx_value t \<noteq> 0 then Inl NativeValue
      else if tx_gas_limit t \<noteq> ex_gas_limit e then Inl GasLimitMismatch
      else if tx_max_fee_per_gas t > ex_max_fee_per_gas e then Inl StoredFeeCapExceeded
      else if tx_max_fee_per_gas t = 0 \<or> tx_max_priority_fee_per_gas t > tx_max_fee_per_gas t
      then Inl InvalidFeeEnvelope
      else if tx_access_list t \<noteq> [] then Inl UnexpectedAccessList
      else if dm_chain_id (ex_domain e) \<noteq> Some (ucast (ex_chain_id e))
         \<or> dm_verifying_contract (ex_domain e) \<noteq> Some (ex_token e) \<or> dm_salt (ex_domain e) \<noteq> None
      then Inl DomainMismatch
      else Inr ())"

definition validate_signed_transaction ::
  "evm_codec \<Rightarrow> bytes \<Rightarrow> expected_evm_submission \<Rightarrow> stored_transaction_error + decoded_evm_submission" where
  "validate_signed_transaction c signed_tx_rlp expected =
     bind_res (ok_or (decode_2718 c signed_tx_rlp) InvalidEnvelope) (\<lambda>(envelope, remaining).
     if remaining \<noteq> [] then Inl TrailingBytes
     else if encoded_2718 c envelope \<noteq> signed_tx_rlp then Inl InvalidEnvelope
     else case envelope of
       OtherEnvelope _ \<Rightarrow> Inl UnsupportedEnvelope
     | Eip1559 transaction _ \<Rightarrow>
       if tx_hash_of c envelope \<noteq> ex_transaction_hash expected then Inl TransactionHashMismatch else
       bind_res (ok_or (recover_signer c envelope) SignerRecovery) (\<lambda>recovered_signer.
       if recovered_signer \<noteq> ex_facilitator_signer expected then Inl SignerMismatch else
       bind_res (check_transaction_fields transaction expected) (\<lambda>_.
       bind_res (decode_authorization_call c (tx_input transaction))
         (\<lambda>(authorization, signature_kind, payer_signature).
       if authorization \<noteq> expected_authorization expected then Inl AuthorizationMismatch else
       let payment_hash = eip712_transfer_hash c authorization (ex_domain expected) in
       if payment_hash \<noteq> ex_payment_hash expected then Inl PaymentHashMismatch else
       bind_res (map_err (\<lambda>_. InvalidCalldata)
         (classify_settleable_signature c (au_from authorization) payer_signature payment_hash)) (\<lambda>classified.
       if signature_kind_of classified \<noteq> signature_kind then Inl InvalidCalldata else
       Inr \<lparr>de_transaction_hash = ex_transaction_hash expected, de_facilitator_signer = recovered_signer,
            de_chain_id = tx_chain_id transaction, de_account_nonce = tx_account_nonce transaction,
            de_token = ex_token expected, de_gas_limit = tx_gas_limit transaction,
            de_max_fee_per_gas = tx_max_fee_per_gas transaction,
            de_max_priority_fee_per_gas = tx_max_priority_fee_per_gas transaction,
            de_authorization = authorization, de_payment_hash = payment_hash,
            de_signature_kind = signature_kind\<rparr>)))))"

section \<open>Verification and preparation by the provider\<close>

record evm_payment_payload =
  py_asset :: address
  py_pay_to :: address
  py_amount :: u256
  py_name :: string
  py_version :: string
  py_authorization :: erc3009_authorization
  py_signature :: bytes

text \<open>
  \<open>FacilitatorVerifyRequest::try_from\<close> and \<open>verify_eip3009_payment\<close> are upstream's: the parsed request and
  the verdict on the payload are parameters of the definitions below.
\<close>

datatype facilitator_verify_request = Eip3009 evm_payment_payload | Permit2

datatype payment_verification_error =
    InvalidFormat | InvalidPaymentAmount | Early | Expired | PvChainIdMismatch | RecipientMismatch
  | PvAssetMismatch | InsufficientFunds | InsufficientAllowance | InvalidSignature
  | TransactionSimulation | UnsupportedChain | UnsupportedScheme | AcceptedRequirementsMismatch

datatype scheme_facilitator_error = OnchainFailure | PaymentVerification payment_verification_error

datatype upstream_verify_response = UpstreamValid string | UpstreamInvalid

record evm_verify_rejection =
  vr_reason :: string
  vr_rpc_ambiguous :: bool

definition definitive :: "string \<Rightarrow> evm_verify_rejection" where
  "definitive reason = \<lparr>vr_reason = reason, vr_rpc_ambiguous = False\<rparr>"

fun payment_verification_reason :: "payment_verification_error \<Rightarrow> string" where
  "payment_verification_reason InvalidFormat = ''invalid_format''"
| "payment_verification_reason InvalidPaymentAmount = ''invalid_payment_amount''"
| "payment_verification_reason Early = ''authorization_not_yet_valid''"
| "payment_verification_reason Expired = ''authorization_expired''"
| "payment_verification_reason PvChainIdMismatch = ''chain_id_mismatch''"
| "payment_verification_reason RecipientMismatch = ''recipient_mismatch''"
| "payment_verification_reason PvAssetMismatch = ''asset_mismatch''"
| "payment_verification_reason InsufficientFunds = ''insufficient_funds''"
| "payment_verification_reason InsufficientAllowance = ''insufficient_allowance''"
| "payment_verification_reason InvalidSignature = ''invalid_signature''"
| "payment_verification_reason TransactionSimulation = ''simulation_failed''"
| "payment_verification_reason UnsupportedChain = ''unsupported_chain''"
| "payment_verification_reason UnsupportedScheme = ''unsupported_scheme''"
| "payment_verification_reason AcceptedRequirementsMismatch = ''accepted_requirements_mismatch''"

fun classify_verify_error :: "scheme_facilitator_error \<Rightarrow> evm_verify_rejection" where
  "classify_verify_error OnchainFailure = \<lparr>vr_reason = ''onchain_failure'', vr_rpc_ambiguous = True\<rparr>"
| "classify_verify_error (PaymentVerification inner) = definitive (payment_verification_reason inner)"

definition canonical_domain_name :: "u64 \<Rightarrow> string option" where
  "canonical_domain_name chain_id =
     (if chain_id = 8453 then Some ''USD Coin'' else if chain_id = 84532 then Some ''USDC'' else None)"

definition validate_token_domain :: "string \<Rightarrow> string \<Rightarrow> string \<Rightarrow> evm_verify_rejection + unit" where
  "validate_token_domain expected_name supplied_name supplied_version =
     (if supplied_name \<noteq> expected_name \<or> supplied_version \<noteq> ''2''
      then Inl (definitive ''invalid_token_domain'') else Inr ())"

fun unsupported_reason :: "unsupported_signature \<Rightarrow> string" where
  "unsupported_reason CounterfactualWallet = ''unsupported_eip6492''"
| "unsupported_reason Malformed = ''invalid_signature''"

definition classify_signature_before_rpc ::
  "evm_codec \<Rightarrow> erc3009_authorization \<Rightarrow> bytes \<Rightarrow> eip712_domain \<Rightarrow> evm_verify_rejection + b256" where
  "classify_signature_before_rpc c authorization signature domain =
     (let payment_hash = eip712_transfer_hash c authorization domain in
      bind_res (map_err (\<lambda>e. definitive (unsupported_reason e))
        (classify_settleable_signature c (au_from authorization) signature payment_hash)) (\<lambda>_.
      Inr payment_hash))"

record evm_verified_payment =
  vp_payer :: address
  vp_payment_hash :: b256
  vp_asset :: address
  vp_pay_to :: address
  vp_amount :: u256
  vp_authorization :: erc3009_authorization
  vp_signature :: bytes

definition authorization_identity :: "evm_verified_payment \<Rightarrow> evm_authorization_identity" where
  "authorization_identity p =
     \<lparr>ai_nonce = au_nonce (vp_authorization p), ai_valid_after = au_valid_after (vp_authorization p),
      ai_valid_before = au_valid_before (vp_authorization p)\<rparr>"

definition transfer_domain :: "evm_chain_provider \<Rightarrow> eip712_domain" where
  "transfer_domain p =
     build_transfer_domain (ev_transfer_domain_name p) ''2'' (ev_chain_id p) (ev_asset p)"

definition evm_request_payload ::
  "evm_chain_provider \<Rightarrow> facilitator_verify_request option \<Rightarrow> evm_verify_rejection + evm_payment_payload" where
  "evm_request_payload p parsed =
     bind_res (ok_or parsed (definitive ''invalid_format'')) (\<lambda>request.
     case request of
       Permit2 \<Rightarrow> Inl (definitive ''unsupported_permit2_scheme'')
     | Eip3009 payload \<Rightarrow>
         if py_asset payload \<noteq> ev_asset p then Inl (definitive ''asset_mismatch'')
         else bind_res (validate_token_domain (ev_transfer_domain_name p) (py_name payload)
                (py_version payload)) (\<lambda>_. Inr payload))"

definition evm_verify ::
  "evm_codec \<Rightarrow> (string \<Rightarrow> address option) \<Rightarrow> evm_chain_provider \<Rightarrow>
   (evm_payment_payload \<Rightarrow> nat \<Rightarrow> scheme_facilitator_error + upstream_verify_response) \<Rightarrow>
   facilitator_verify_request option \<Rightarrow> evm_verify_rejection + evm_verified_payment" where
  "evm_verify c parse_address p upstream parsed =
     bind_res (evm_request_payload p parsed) (\<lambda>payload.
     bind_res (classify_signature_before_rpc c (py_authorization payload) (py_signature payload)
       (transfer_domain p)) (\<lambda>payment_hash.
     bind_res (map_err classify_verify_error (fst (retry_transient (upstream payload)
       (\<lambda>e. vr_rpc_ambiguous (classify_verify_error e))))) (\<lambda>response.
     bind_res (case response of
         UpstreamValid payer \<Rightarrow> ok_or (parse_address payer) (definitive ''invalid_payer_address'')
       | UpstreamInvalid \<Rightarrow> Inl (definitive ''invalid_payment'')) (\<lambda>payer.
     if payer \<noteq> au_from (py_authorization payload) then Inl (definitive ''payer_mismatch'')
     else Inr \<lparr>vp_payer = payer, vp_payment_hash = payment_hash, vp_asset = py_asset payload,
               vp_pay_to = py_pay_to payload, vp_amount = py_amount payload,
               vp_authorization = py_authorization payload, vp_signature = py_signature payload\<rparr>))))"

definition offline_payment_hash ::
  "evm_codec \<Rightarrow> evm_chain_provider \<Rightarrow> facilitator_verify_request option \<Rightarrow> evm_verify_rejection + b256" where
  "offline_payment_hash c p parsed =
     bind_res (evm_request_payload p parsed) (\<lambda>payload.
     Inr (eip712_transfer_hash c (py_authorization payload) (transfer_domain p)))"

text \<open>\<open>estimate_l1_fee_wei\<close> over the answers of the gas price oracle, one per reader and attempt.\<close>

definition estimate_l1_fee_wei ::
  "(evm_readiness_reader \<Rightarrow> nat \<Rightarrow> bytes \<Rightarrow> evm_rpc_error + u128) \<Rightarrow> bytes \<Rightarrow> evm_rpc_error + u128" where
  "estimate_l1_fee_wei oracle signed_tx_rlp =
     bind_res (read_rpc (\<lambda>k. oracle Primary k signed_tx_rlp)) (\<lambda>primary.
     bind_res (read_rpc (\<lambda>k. oracle Backup k signed_tx_rlp)) (\<lambda>backup.
     Inr (max primary backup)))"

definition evm_prepare ::
  "evm_codec \<Rightarrow> evm_chain_provider \<Rightarrow> evm_rpc \<Rightarrow>
   (evm_readiness_reader \<Rightarrow> nat \<Rightarrow> bytes \<Rightarrow> evm_rpc_error + u128) \<Rightarrow> evm_verified_payment \<Rightarrow> u64 \<Rightarrow>
   evm_prepare_error + evm_prepared" where
  "evm_prepare c p rpc oracle payment account_nonce =
     bind_res (map_err PrepareSignature
       (settlement_calldata c (vp_authorization payment) (vp_signature payment)
          (vp_payment_hash payment))) (\<lambda>calldata.
     bind_res (fee_envelope p rpc) (\<lambda>fees.
     bind_res (sign_settlement_transaction c (ev_signer_address p)
       \<lparr>sh_chain_id = ev_chain_id p, sh_account_nonce = account_nonce\<rparr> fees (ev_asset p) calldata) (\<lambda>prepared.
     bind_res (map_err PrepareRpc (estimate_l1_fee_wei oracle (ep_signed_tx_rlp prepared))) (\<lambda>l1_fee.
     Inr (prepared\<lparr>ep_estimated_l1_fee_wei := Some l1_fee\<rparr>)))))"

section \<open>Inversions\<close>

lemma check_transaction_fields_Inr:
  "check_transaction_fields t e = Inr () \<longleftrightarrow>
     tx_chain_id t = ex_chain_id e \<and> tx_account_nonce t = ex_account_nonce e \<and> tx_to t = Call (ex_token e)
     \<and> tx_value t = 0 \<and> tx_gas_limit t = ex_gas_limit e \<and> tx_max_fee_per_gas t \<le> ex_max_fee_per_gas e
     \<and> tx_max_fee_per_gas t \<noteq> 0 \<and> tx_max_priority_fee_per_gas t \<le> tx_max_fee_per_gas t
     \<and> tx_access_list t = [] \<and> dm_chain_id (ex_domain e) = Some (ucast (ex_chain_id e))
     \<and> dm_verifying_contract (ex_domain e) = Some (ex_token e) \<and> dm_salt (ex_domain e) = None"
  by (auto simp: check_transaction_fields_def not_less)

lemma decode_authorization_call_Inr:
  "decode_authorization_call c input = Inr (a, k, sig) \<Longrightarrow>
     k = KindEip1271 \<and> input = abi_encode_0 c a sig
     \<or> k = KindEoa \<and> (\<exists>v r s. input = abi_encode_1 c a v r s
          \<and> sig = b256_bytes r @ b256_bytes s @ [char_of (unat v)])"
  by (auto simp: decode_authorization_call_def res_simps split: if_splits)

lemma validate_signed_transaction_Inr:
  assumes "validate_signed_transaction c rlp e = Inr d"
  obtains t sig a k payer_sig cl where "decode_2718 c rlp = Some (Eip1559 t sig, [])"
    "encoded_2718 c (Eip1559 t sig) = rlp" "tx_hash_of c (Eip1559 t sig) = ex_transaction_hash e"
    "recover_signer c (Eip1559 t sig) = Some (ex_facilitator_signer e)"
    "check_transaction_fields t e = Inr ()"
    "decode_authorization_call c (tx_input t) = Inr (a, k, payer_sig)" "a = expected_authorization e"
    "eip712_transfer_hash c a (ex_domain e) = ex_payment_hash e"
    "classify_settleable_signature c (au_from a) payer_sig (ex_payment_hash e) = Inr cl"
    "signature_kind_of cl = k" "de_authorization d = a" "de_signature_kind d = k"
    "de_facilitator_signer d = ex_facilitator_signer e"
  using assms unfolding validate_signed_transaction_def
  by (auto simp: res_simps Let_def split: if_splits tx_envelope.splits)

section \<open>Properties\<close>

text \<open>
  C12. Recovery trusts only bytes bound to the settlement: \<open>validate_signed_transaction\<close> accepts stored
  bytes only if they are exactly one canonical EIP-1559 envelope with the journaled hash, signed by
  the configured facilitator for the journaled chain and account nonce, calling the configured
  token with no native value, no access list, the configured gas limit and at most the fee cap,
  and the calldata is exactly one supported overload carrying the payer's expected authorization,
  whose EIP-712 hash under the deployment's domain is the payment hash of the row.
\<close>

theorem validate_signed_transaction_sound:
  assumes "validate_signed_transaction c rlp e = Inr d"
  shows "\<exists>t sig. decode_2718 c rlp = Some (Eip1559 t sig, []) \<and> encoded_2718 c (Eip1559 t sig) = rlp
     \<and> tx_hash_of c (Eip1559 t sig) = ex_transaction_hash e
     \<and> recover_signer c (Eip1559 t sig) = Some (ex_facilitator_signer e)
     \<and> tx_chain_id t = ex_chain_id e \<and> tx_account_nonce t = ex_account_nonce e
     \<and> tx_to t = Call (ex_token e) \<and> tx_value t = 0 \<and> tx_access_list t = []
     \<and> tx_gas_limit t = ex_gas_limit e \<and> 0 < unat (tx_max_fee_per_gas t)
     \<and> unat (tx_max_priority_fee_per_gas t) \<le> unat (tx_max_fee_per_gas t)
     \<and> unat (tx_max_fee_per_gas t) \<le> unat (ex_max_fee_per_gas e)
     \<and> ((\<exists>s. tx_input t = abi_encode_0 c (expected_authorization e) s)
        \<or> (\<exists>v r s. tx_input t = abi_encode_1 c (expected_authorization e) v r s))
     \<and> eip712_transfer_hash c (expected_authorization e) (ex_domain e) = ex_payment_hash e
     \<and> dm_verifying_contract (ex_domain e) = Some (ex_token e)"
  using assms
proof (rule validate_signed_transaction_Inr)
  fix t sig a k payer_sig cl
  assume d: "decode_2718 c rlp = Some (Eip1559 t sig, [])" "encoded_2718 c (Eip1559 t sig) = rlp"
    "tx_hash_of c (Eip1559 t sig) = ex_transaction_hash e"
    "recover_signer c (Eip1559 t sig) = Some (ex_facilitator_signer e)"
    and f: "check_transaction_fields t e = Inr ()"
    and call: "decode_authorization_call c (tx_input t) = Inr (a, k, payer_sig)"
    and a: "a = expected_authorization e" and h: "eip712_transfer_hash c a (ex_domain e) = ex_payment_hash e"
  from decode_authorization_call_Inr [OF call] a
  have input: "(\<exists>s. tx_input t = abi_encode_0 c (expected_authorization e) s)
     \<or> (\<exists>v r s. tx_input t = abi_encode_1 c (expected_authorization e) v r s)" by metis
  have fee: "0 < unat (tx_max_fee_per_gas t)"
    "unat (tx_max_priority_fee_per_gas t) \<le> unat (tx_max_fee_per_gas t)"
    "unat (tx_max_fee_per_gas t) \<le> unat (ex_max_fee_per_gas e)"
    using f unfolding check_transaction_fields_Inr by (simp_all add: unat_gt_0 word_le_nat_alt)
  from d f input a h fee show ?thesis unfolding check_transaction_fields_Inr by metis
qed

definition sample_authorization :: erc3009_authorization where
  "sample_authorization = \<lparr>au_from = 9, au_to = 10, au_value = 11, au_valid_after = 0,
     au_valid_before = 12, au_nonce = 13\<rparr>"

definition sample_fees :: evm_fee_envelope where
  "sample_fees = \<lparr>fe_gas_limit = 100, fe_max_fee_per_gas = 12, fe_max_priority_fee_per_gas = 3\<rparr>"

definition sample_tx :: tx_eip1559 where
  "sample_tx = settlement_transaction \<lparr>sh_chain_id = 5, sh_account_nonce = 4\<rparr> sample_fees 2 ''SEL0s''"

text \<open>A codec that knows one transaction, one signature and one calldata shape.\<close>

definition sample_codec :: evm_codec where
  "sample_codec = \<lparr>decode_2718 = (\<lambda>b. if b = ''raw'' then Some (Eip1559 sample_tx ''sig'', []) else None),
     encoded_2718 = (\<lambda>_. ''raw''), tx_hash_of = (\<lambda>_. 21), recover_signer = (\<lambda>_. Some 1),
     signature_hash = (\<lambda>t. if t = sample_tx then 1 else 0),
     sign_hash_sync = (\<lambda>h. if h = 1 then Some ''sig'' else None),
     eip712_signing_hash = (\<lambda>_ _. 22), try_from_bytes = (\<lambda>s _ _. Some (EIP1271 s)),
     selector_0 = ''SEL0'', abi_encode_0 = (\<lambda>_ s. ''SEL0'' @ s),
     abi_decode_0 = (\<lambda>b. Some (sample_authorization, drop 4 b)),
     selector_1 = ''SEL1'', abi_encode_1 = (\<lambda>_ _ _ _. ''SEL1''), abi_decode_1 = (\<lambda>_. None)\<rparr>"

definition sample_expected :: expected_evm_submission where
  "sample_expected = \<lparr>ex_transaction_hash = 21, ex_facilitator_signer = 1, ex_chain_id = 5,
     ex_account_nonce = 4, ex_token = 2, ex_gas_limit = 100, ex_max_fee_per_gas = 20, ex_payer = 9,
     ex_payee = 10, ex_value = 11, ex_valid_after = 0, ex_valid_before = 12, ex_authorization_nonce = 13,
     ex_payment_hash = 22, ex_domain = transfer_domain sample_provider\<rparr>"

lemma sample_domain:
  "dm_chain_id (transfer_domain sample_provider) = Some 5"
  "dm_verifying_contract (transfer_domain sample_provider) = Some 2"
  "dm_salt (transfer_domain sample_provider) = None"
  by (simp_all add: transfer_domain_def build_transfer_domain_def sample_provider_def)

lemma sample_validated: "is_ok (validate_signed_transaction sample_codec ''raw'' sample_expected)"
  by (simp add: validate_signed_transaction_def sample_codec_def sample_expected_def
      check_transaction_fields_def sample_tx_def settlement_transaction_def sample_fees_def
      decode_authorization_call_def starts_with_def expected_authorization_def sample_authorization_def
      eip712_transfer_hash_def classify_settleable_signature_def Let_def sample_domain)

theorem validate_signed_transaction_sound_witness:
  "is_ok (validate_signed_transaction sample_codec ''raw'' sample_expected)
   \<and> (\<exists>t sig. decode_2718 sample_codec ''raw'' = Some (Eip1559 t sig, []) \<and> tx_to t = Call 2
        \<and> unat (tx_max_fee_per_gas t) \<le> 20)"
proof
  show ok: "is_ok (validate_signed_transaction sample_codec ''raw'' sample_expected)" by (rule sample_validated)
  then obtain d where d: "validate_signed_transaction sample_codec ''raw'' sample_expected = Inr d"
    unfolding is_ok_iff by blast
  have "ex_token sample_expected = 2" "unat (ex_max_fee_per_gas sample_expected) = 20"
    by (simp_all add: sample_expected_def)
  with validate_signed_transaction_sound [OF d]
  show "\<exists>t sig. decode_2718 sample_codec ''raw'' = Some (Eip1559 t sig, []) \<and> tx_to t = Call 2
      \<and> unat (tx_max_fee_per_gas t) \<le> 20" by metis
qed

text \<open>
  What the libraries promise about one payment: a signed transaction decodes from its own bytes to
  itself and recovers the facilitator, and the calldata built from the payer's classified signature
  decodes to the same authorization and to a signature that is classified the same way.
\<close>

definition library_laws :: "evm_codec \<Rightarrow> evm_chain_provider \<Rightarrow> evm_verified_payment \<Rightarrow> bool" where
  "library_laws c p payment \<longleftrightarrow> (let a = vp_authorization payment; h = vp_payment_hash payment in
     (\<forall>t sig. sign_hash_sync c (signature_hash c t) = Some sig \<longrightarrow>
        decode_2718 c (encoded_2718 c (Eip1559 t sig)) = Some (Eip1559 t sig, [])
        \<and> recover_signer c (Eip1559 t sig) = Some (ev_signer_address p))
     \<and> (\<forall>s. try_from_bytes c (vp_signature payment) (au_from a) h = Some (EIP1271 s) \<longrightarrow>
        starts_with (abi_encode_0 c a s) (selector_0 c) \<and> abi_decode_0 c (abi_encode_0 c a s) = Some (a, s)
        \<and> try_from_bytes c s (au_from a) h = Some (EIP1271 s))
     \<and> (\<forall>v r s. try_from_bytes c (vp_signature payment) (au_from a) h = Some (EOA v r s) \<longrightarrow>
        starts_with (abi_encode_1 c a v r s) (selector_1 c) \<and> \<not> starts_with (abi_encode_1 c a v r s) (selector_0 c)
        \<and> abi_decode_1 c (abi_encode_1 c a v r s) = Some (a, v, r, s)
        \<and> try_from_bytes c (b256_bytes r @ b256_bytes s @ [char_of (unat v)]) (au_from a) h = Some (EOA v r s)))"

definition expected_submission :: "evm_chain_provider \<Rightarrow> evm_verified_payment \<Rightarrow> evm_prepared \<Rightarrow> expected_evm_submission" where
  "expected_submission p payment prep = (let a = vp_authorization payment in
     \<lparr>ex_transaction_hash = ep_tx_hash prep, ex_facilitator_signer = ev_signer_address p,
      ex_chain_id = ev_chain_id p, ex_account_nonce = ep_account_nonce prep, ex_token = ev_asset p,
      ex_gas_limit = ev_gas_limit p, ex_max_fee_per_gas = ev_max_fee_per_gas p, ex_payer = au_from a,
      ex_payee = au_to a, ex_value = au_value a, ex_valid_after = au_valid_after a,
      ex_valid_before = au_valid_before a, ex_authorization_nonce = au_nonce a,
      ex_payment_hash = vp_payment_hash payment, ex_domain = transfer_domain p\<rparr>)"

lemma settlement_calldata_decodes:
  assumes laws: "library_laws c p payment"
    and calldata: "settlement_calldata c (vp_authorization payment) (vp_signature payment)
        (vp_payment_hash payment) = Inr input"
  obtains k sig cl where "decode_authorization_call c input = Inr (vp_authorization payment, k, sig)"
    "classify_settleable_signature c (au_from (vp_authorization payment)) sig (vp_payment_hash payment) = Inr cl"
    "signature_kind_of cl = k"
proof -
  from calldata obtain st where st: "try_from_bytes c (vp_signature payment)
      (au_from (vp_authorization payment)) (vp_payment_hash payment) = Some st"
    by (auto simp: settlement_calldata_def classify_settleable_signature_def res_simps)
  show thesis
  proof (cases st)
    case (EOA v r s)
    with st laws calldata show thesis
      by (intro that [of KindEoa "b256_bytes r @ b256_bytes s @ [char_of (unat v)]" "SettleableEoa v r s"])
         (simp_all add: library_laws_def Let_def settlement_calldata_def classify_settleable_signature_def
           transfer_with_authorization_vrs_calldata_def decode_authorization_call_def)
  next
    case (EIP1271 s)
    with st laws calldata show thesis
      by (intro that [of KindEip1271 s "SettleableEip1271 s"])
         (simp_all add: library_laws_def Let_def settlement_calldata_def classify_settleable_signature_def
           transfer_with_authorization_bytes_calldata_def decode_authorization_call_def)
  next
    case EIP6492
    with st calldata show thesis
      by (simp add: settlement_calldata_def classify_settleable_signature_def)
  qed
qed


definition sample_payment :: evm_verified_payment where
  "sample_payment = \<lparr>vp_payer = 9, vp_payment_hash = 22, vp_asset = 2, vp_pay_to = 10, vp_amount = 11,
     vp_authorization = sample_authorization, vp_signature = ''s''\<rparr>"

definition sample_oracle :: "evm_readiness_reader \<Rightarrow> nat \<Rightarrow> bytes \<Rightarrow> evm_rpc_error + u128" where
  "sample_oracle reader k rlp = Inr 6"

definition sample_evm_prepared :: evm_prepared where
  "sample_evm_prepared = \<lparr>ep_tx_hash = 21, ep_signer_address = 1, ep_account_nonce = 4,
     ep_signed_tx_rlp = ''raw'', ep_estimated_l1_fee_wei = Some 6\<rparr>"

lemma sample_fee_envelope: "fee_envelope sample_provider sample_rpc = Inr sample_fees"
  by (simp add: fee_envelope_def fee_once_def [abs_def] sample_rpc_def sample_provider_def
      bounded_fee_envelope_def max_def sample_fees_def)

lemma sample_signer: "ev_signer_address sample_provider = 1" "ev_asset sample_provider = 2"
  by (simp_all add: sample_provider_def)

lemma sample_prepares:
  "evm_prepare sample_codec sample_provider sample_rpc sample_oracle sample_payment 4 = Inr sample_evm_prepared"
proof -
  have calldata: "settlement_calldata sample_codec sample_authorization ''s'' 22 = Inr ''SEL0s''"
    by (simp add: settlement_calldata_def classify_settleable_signature_def sample_codec_def
        transfer_with_authorization_bytes_calldata_def)
  have sign: "sign_hash_sync sample_codec (signature_hash sample_codec sample_tx) = Some ''sig''"
    "tx_hash_of sample_codec env = 21" "encoded_2718 sample_codec env = ''raw''" for env
    by (simp_all add: sample_codec_def)
  show ?thesis
    by (simp add: evm_prepare_def sample_payment_def calldata sample_fee_envelope
        sign_settlement_transaction_def Let_def sample_chain sample_tx_def [symmetric] sign
        estimate_l1_fee_wei_def sample_oracle_def sample_evm_prepared_def sample_signer)
qed

lemma sample_laws: "library_laws sample_codec sample_provider sample_payment"
  by (simp add: library_laws_def Let_def sample_codec_def sample_payment_def sample_provider_def
      starts_with_def)


lemma evm_request_payload_Inr:
  "evm_request_payload p parsed = Inr payload \<Longrightarrow>
     parsed = Some (Eip3009 payload) \<and> py_asset payload = ev_asset p"
  by (cases parsed; cases "the parsed") (auto simp: evm_request_payload_def res_simps split: if_splits)

lemma evm_request_payload_Inl: "evm_request_payload p parsed = Inl r \<Longrightarrow> \<not> vr_rpc_ambiguous r"
  by (cases parsed; cases "the parsed")
     (auto simp: evm_request_payload_def definitive_def validate_token_domain_def res_simps split: if_splits)

lemma evm_verify_accepts:
  assumes "evm_verify c pa p up parsed = Inr payment"
  shows "offline_payment_hash c p parsed = Inr (vp_payment_hash payment)
     \<and> vp_payer payment = au_from (vp_authorization payment) \<and> vp_asset payment = ev_asset p
     \<and> (\<exists>payload k s. parsed = Some (Eip3009 payload) \<and> k < 3 \<and> up payload k = Inr (UpstreamValid s)
           \<and> pa s = Some (vp_payer payment))"
proof -
  from assms obtain payload h response payer where pl: "evm_request_payload p parsed = Inr payload"
    and h: "classify_signature_before_rpc c (py_authorization payload) (py_signature payload)
       (transfer_domain p) = Inr h"
    and resp: "fst (retry_transient (up payload) (\<lambda>e. vr_rpc_ambiguous (classify_verify_error e))) = Inr response"
    "(case response of
         UpstreamValid payer \<Rightarrow> ok_or (pa payer) (definitive ''invalid_payer_address'')
       | UpstreamInvalid \<Rightarrow> Inl (definitive ''invalid_payment'')) = Inr payer"
    and payer: "payer = au_from (py_authorization payload)"
    and payment: "payment = \<lparr>vp_payer = payer, vp_payment_hash = h, vp_asset = py_asset payload,
       vp_pay_to = py_pay_to payload, vp_amount = py_amount payload,
       vp_authorization = py_authorization payload, vp_signature = py_signature payload\<rparr>"
    unfolding evm_verify_def by (auto simp: res_simps split: if_splits)
  from resp(2) obtain s where s: "response = UpstreamValid s" "pa s = Some payer"
    by (cases response) (simp_all add: res_simps)
  note up = resp(1) [unfolded s(1)]
  have pa: "pa s = Some (vp_payer payment)" "vp_payer payment = au_from (vp_authorization payment)"
    "vp_asset payment = py_asset payload" "vp_authorization payment = py_authorization payload"
    "h = vp_payment_hash payment"
    using payment s(2) payer by simp_all
  note h = h [unfolded pa(5)]
  have "offline_payment_hash c p parsed = Inr (vp_payment_hash payment)"
    using h by (auto simp: offline_payment_hash_def pl classify_signature_before_rpc_def Let_def res_simps)
  moreover have "parsed = Some (Eip3009 payload)" "py_asset payload = ev_asset p"
    using evm_request_payload_Inr [OF pl] by simp_all
  moreover obtain k where "k < 3" "up payload k = Inr (UpstreamValid s)"
    using transient_err.outcome_is_a_call [of "up payload"] up by metis
  ultimately show ?thesis using pa by metis
qed

lemma evm_verify_ambiguous:
  assumes r: "evm_verify c pa p up parsed = Inl r \<and> vr_rpc_ambiguous r"
  shows "\<exists>payload. parsed = Some (Eip3009 payload) \<and> (\<forall>k < 3. up payload k = Inl OnchainFailure)"
proof -
  let ?amb = "\<lambda>e. vr_rpc_ambiguous (classify_verify_error e)"
  have sig_def: "classify_signature_before_rpc c a s d = Inl r \<Longrightarrow> \<not> vr_rpc_ambiguous r" for a s d
    by (auto simp: classify_signature_before_rpc_def definitive_def Let_def res_simps)
  obtain payload where pl: "evm_request_payload p parsed = Inr payload"
    using r evm_request_payload_Inl by (cases "evm_request_payload p parsed") (auto simp: evm_verify_def)
  obtain h where h: "classify_signature_before_rpc c (py_authorization payload) (py_signature payload)
       (transfer_domain p) = Inr h"
    using r sig_def [of "py_authorization payload" "py_signature payload" "transfer_domain p"]
    by (cases "classify_signature_before_rpc c (py_authorization payload) (py_signature payload)
       (transfer_domain p)") (auto simp: evm_verify_def pl)
  obtain e where e: "fst (retry_transient (up payload) ?amb) = Inl e" "r = classify_verify_error e"
  proof (cases "fst (retry_transient (up payload) ?amb)")
    case (Inl e)
    with r that show thesis by (simp add: evm_verify_def pl h)
  next
    case (Inr response)
    with r show thesis
      by (cases response) (auto simp: evm_verify_def pl h definitive_def res_simps split: if_splits)
  qed
  have amb: "?amb e' \<longleftrightarrow> e' = OnchainFailure" for e'
    by (cases e') (simp_all add: definitive_def)
  have "up payload k = Inl OnchainFailure" if "k < 3" for k
    using transient_err.all_transient [of ?amb "up payload" k] e r that amb
    by (cases "up payload k") auto
  moreover have "parsed = Some (Eip3009 payload)"
    using evm_request_payload_Inr [OF pl] by simp_all
  ultimately show ?thesis by blast
qed

text \<open>
  C16. EVM verification is bound to the offline identity and retries only lookups: an accepted
  payment has exactly the payment hash that \<open>offline_payment_hash\<close> computes from the same request,
  its payer is the authorization's signer named by a valid upstream verdict, and its asset is the
  configured token; and an ambiguous rejection is only reported after three failed on-chain
  lookups in a row.
\<close>

theorem evm_verify_sound:
  "(evm_verify c pa p up parsed = Inr payment \<longrightarrow>
      offline_payment_hash c p parsed = Inr (vp_payment_hash payment)
      \<and> vp_payer payment = au_from (vp_authorization payment) \<and> vp_asset payment = ev_asset p
      \<and> (\<exists>payload k s. parsed = Some (Eip3009 payload) \<and> k < 3 \<and> up payload k = Inr (UpstreamValid s)
            \<and> pa s = Some (vp_payer payment)))
   \<and> (evm_verify c pa p up parsed = Inl r \<and> vr_rpc_ambiguous r \<longrightarrow>
      (\<exists>payload. parsed = Some (Eip3009 payload) \<and> (\<forall>k < 3. up payload k = Inl OnchainFailure)))"
  using evm_verify_accepts evm_verify_ambiguous by blast

definition sample_payload :: evm_payment_payload where
  "sample_payload = \<lparr>py_asset = 2, py_pay_to = 10, py_amount = 11, py_name = ''USDC'', py_version = ''2'',
     py_authorization = sample_authorization, py_signature = ''s''\<rparr>"

definition sample_upstream ::
  "evm_payment_payload \<Rightarrow> nat \<Rightarrow> scheme_facilitator_error + upstream_verify_response" where
  "sample_upstream payload k = Inr (UpstreamValid ''9'')"

theorem evm_verify_sound_witness:
  "evm_verify sample_codec (\<lambda>s. if s = ''9'' then Some 9 else None) sample_provider sample_upstream
     (Some (Eip3009 sample_payload)) = Inr sample_payment
   \<and> offline_payment_hash sample_codec sample_provider (Some (Eip3009 sample_payload)) = Inr 22"
proof -
  have up: "fst (retry_transient (sample_upstream sample_payload) t) = Inr (UpstreamValid ''9'')" for t
    by (simp add: retry_transient_def rpc_retry_delays_def sample_upstream_def)
  have pl: "evm_request_payload sample_provider (Some (Eip3009 sample_payload)) = Inr sample_payload"
    by (simp add: evm_request_payload_def sample_payload_def sample_provider_def validate_token_domain_def)
  have h: "classify_signature_before_rpc sample_codec a s d = Inr 22" for a s d
    by (simp add: classify_signature_before_rpc_def eip712_transfer_hash_def
        classify_settleable_signature_def sample_codec_def)
  have run: "evm_verify sample_codec (\<lambda>s. if s = ''9'' then Some 9 else None) sample_provider sample_upstream
     (Some (Eip3009 sample_payload)) = Inr sample_payment"
    unfolding evm_verify_def pl h bind_res_simps up
    by (simp add: sample_payload_def sample_payment_def sample_authorization_def)
  with evm_verify_sound [of sample_codec "\<lambda>s. if s = ''9'' then Some 9 else None" sample_provider
      sample_upstream "Some (Eip3009 sample_payload)" sample_payment]
  show ?thesis by (simp add: sample_payment_def)
qed

end
