(* ===== verification/Decimal.thy ===== *)
theory Decimal
  imports Prelude
begin

text \<open>
  Unsigned base-10 strings. Amounts and budgets travel as decimal strings that do not fit a
  machine word, so the code compares them as text: \<open>compare_decimal\<close> strips leading zeros and
  compares first the lengths and then the bytes. \<open>protocol.rs\<close> and \<open>config.rs\<close> each hold a copy.
  The locale \<open>decimal_comparison\<close> states what the callers rely on (the comparison is the numeric
  order of the values); it is interpreted on both copies, and \<open>decimal_is_at_least\<close> rests on it.
\<close>

section \<open>Definitions\<close>

definition digit_value :: "char \<Rightarrow> nat" where
  "digit_value c = byte_of c - 48"

definition all_digits :: "string \<Rightarrow> bool" where
  "all_digits s \<longleftrightarrow> (\<forall>c \<in> set s. is_ascii_digit c)"

primrec decimal_value :: "string \<Rightarrow> nat" where
  "decimal_value [] = 0"
| "decimal_value (c # s) = digit_value c * 10 ^ length s + decimal_value s"

definition trim_zeros :: "string \<Rightarrow> string" where
  "trim_zeros s = dropWhile (\<lambda>c. c = CHR ''0'') s"

definition compare_decimal :: "string \<Rightarrow> string \<Rightarrow> ordering" where
  "compare_decimal left right =
     (let left = trim_zeros left;
          right = trim_zeros right;
          left = (if left = [] then ''0'' else left);
          right = (if right = [] then ''0'' else right)
      in then_with (cmp (length left) (length right)) (cmp left right))"

definition decimal_is_at_least :: "string \<Rightarrow> string \<Rightarrow> bool" where
  "decimal_is_at_least value minimum \<longleftrightarrow> compare_decimal value minimum \<noteq> Less"

definition config_compare_decimal :: "string \<Rightarrow> string \<Rightarrow> ordering" where
  "config_compare_decimal left right =
     (let left = trim_zeros left;
          right = trim_zeros right;
          left = (if left = [] then ''0'' else left);
          right = (if right = [] then ''0'' else right)
      in then_with (cmp (length left) (length right)) (cmp left right))"

text \<open>\<open>str::parse\<close> at an unsigned width, on a string of digits: the value, unless it overflows.\<close>

definition parse_digits :: "string \<Rightarrow> 'a::len word option" where
  "parse_digits s =
     (if decimal_value s < 2 ^ LENGTH('a) then Some (of_nat (decimal_value s)) else None)"

definition parse_decimal :: "string \<Rightarrow> u128 option" where
  "parse_decimal value =
     (if value = [] \<or> \<not> all_digits value then None else parse_digits value)"

text \<open>\<open>str::parse\<close> at an unsigned width: one leading plus sign is accepted, then at least one digit.\<close>

definition str_parse :: "string \<Rightarrow> 'a::len word option" where
  "str_parse s =
     (let digits = (case s of c # cs \<Rightarrow> if c = CHR ''+'' then cs else s | [] \<Rightarrow> [])
      in if digits = [] \<or> \<not> all_digits digits then None else parse_digits digits)"

text \<open>\<open>to_string\<close> of an unsigned integer.\<close>

fun decimal_text :: "nat \<Rightarrow> string" where
  "decimal_text n =
     (if n < 10 then [char_of (48 + n)] else decimal_text (n div 10) @ [char_of (48 + n mod 10)])"

declare decimal_text.simps [simp del]

section \<open>The comparison contract\<close>

locale decimal_comparison =
  fixes compare :: "string \<Rightarrow> string \<Rightarrow> ordering"
  assumes compare_value:
    "all_digits a \<Longrightarrow> all_digits b \<Longrightarrow> compare a b = cmp (decimal_value a) (decimal_value b)"
begin

lemma not_less_iff:
  "all_digits a \<Longrightarrow> all_digits b \<Longrightarrow> compare a b \<noteq> Less \<longleftrightarrow> decimal_value b \<le> decimal_value a"
  by (auto simp: compare_value)

lemma greater_iff:
  "all_digits a \<Longrightarrow> all_digits b \<Longrightarrow> compare a b = Greater \<longleftrightarrow> decimal_value b < decimal_value a"
  by (auto simp: compare_value)

lemma not_greater_trans:
  "all_digits a \<Longrightarrow> all_digits b \<Longrightarrow> all_digits c \<Longrightarrow>
   compare a b \<noteq> Greater \<Longrightarrow> compare b c \<noteq> Greater \<Longrightarrow> compare a c \<noteq> Greater"
  by (auto simp: compare_value)

end

section \<open>Numeric values of digit strings\<close>

lemma all_digits_Cons [simp]: "all_digits (c # s) \<longleftrightarrow> is_ascii_digit c \<and> all_digits s"
  by (auto simp: all_digits_def)

lemma all_digits_Nil [simp]: "all_digits []"
  by (simp add: all_digits_def)

lemma digit_value_less: "is_ascii_digit c \<Longrightarrow> digit_value c < 10"
  by (auto simp: is_ascii_digit_def digit_value_def)

lemma digit_value_less_iff:
  "is_ascii_digit c \<Longrightarrow> is_ascii_digit d \<Longrightarrow> digit_value c < digit_value d \<longleftrightarrow> c < d"
  by (auto simp: is_ascii_digit_def digit_value_def less_char_def)

lemma decimal_value_bound: "all_digits s \<Longrightarrow> decimal_value s < 10 ^ length s"
proof (induction s)
  case Nil
  then show ?case by simp
next
  case (Cons c s)
  have "digit_value c * 10 ^ length s \<le> 9 * 10 ^ length s"
    using digit_value_less [of c] Cons.prems by (intro mult_le_mono1) simp
  moreover have "decimal_value s < 10 ^ length s" using Cons by simp
  ultimately have "digit_value c * 10 ^ length s + decimal_value s < 10 * 10 ^ length s" by linarith
  then show ?case by simp
qed

lemma decimal_value_trim: "decimal_value (trim_zeros s) = decimal_value s"
  by (induction s) (auto simp: trim_zeros_def digit_value_def)

lemma all_digits_trim [simp]: "all_digits s \<Longrightarrow> all_digits (trim_zeros s)"
  by (auto simp: all_digits_def trim_zeros_def dest: set_dropWhileD)

lemma decimal_value_lex:
  "all_digits a \<Longrightarrow> all_digits b \<Longrightarrow> length a = length b \<Longrightarrow>
   (a < b \<longleftrightarrow> decimal_value a < decimal_value b)"
proof (induction a arbitrary: b)
  case Nil
  then show ?case by simp
next
  case (Cons c a)
  from Cons.prems(3) obtain d b' where b: "b = d # b'" by (cases b) auto
  with Cons.prems have dig: "is_ascii_digit c" "is_ascii_digit d" "all_digits a" "all_digits b'"
    and len: "length a = length b'" by auto
  let ?P = "(10::nat) ^ length a"
  have va: "decimal_value a < ?P" and vb: "decimal_value b' < ?P"
    using decimal_value_bound [OF dig(3)] decimal_value_bound [OF dig(4)] len by auto
  consider "c < d" | "c = d" | "d < c" by force
  then show ?case
  proof cases
    case 1
    then have "Suc (digit_value c) * ?P \<le> digit_value d * ?P"
      using digit_value_less_iff [OF dig(1,2)] by (intro mult_le_mono1) simp
    with va have "digit_value c * ?P + decimal_value a < digit_value d * ?P + decimal_value b'"
      unfolding mult_Suc by linarith
    with 1 show ?thesis by (simp add: b len)
  next
    case 2
    with Cons.IH [OF dig(3,4) len] show ?thesis by (simp add: b len)
  next
    case 3
    then have "Suc (digit_value d) * ?P \<le> digit_value c * ?P"
      using digit_value_less_iff [OF dig(2,1)] by (intro mult_le_mono1) simp
    with vb have "digit_value d * ?P + decimal_value b' < digit_value c * ?P + decimal_value a"
      unfolding mult_Suc by linarith
    with 3 show ?thesis by (auto simp: b len)
  qed
qed

lemma decimal_value_inj:
  "all_digits a \<Longrightarrow> all_digits b \<Longrightarrow> length a = length b \<Longrightarrow>
   decimal_value a = decimal_value b \<Longrightarrow> a = b"
  using decimal_value_lex [of a b] decimal_value_lex [of b a] by force

lemma decimal_value_lower:
  "all_digits s \<Longrightarrow> s \<noteq> [] \<Longrightarrow> hd s \<noteq> CHR ''0'' \<Longrightarrow> 10 ^ (length s - 1) \<le> decimal_value s"
proof (cases s)
  case (Cons c t)
  assume dig: "all_digits s" and "hd s \<noteq> CHR ''0''"
  with Cons have "byte_of c \<noteq> byte_of (CHR ''0'')" by (simp only: of_char_eq_iff) simp
  with dig Cons have "1 \<le> digit_value c" by (auto simp: digit_value_def is_ascii_digit_def)
  then have "1 * 10 ^ length t \<le> digit_value c * 10 ^ length t" by (intro mult_le_mono1)
  then have "10 ^ length t \<le> digit_value c * 10 ^ length t + decimal_value t" by linarith
  with Cons show ?thesis by simp
qed simp

text \<open>A digit string with no leading zero, or the single zero: what \<open>compare_decimal\<close> compares.\<close>

definition canonical_digits :: "string \<Rightarrow> bool" where
  "canonical_digits s \<longleftrightarrow> all_digits s \<and> (s = ''0'' \<or> s \<noteq> [] \<and> hd s \<noteq> CHR ''0'')"

lemma canonical_trim:
  "all_digits s \<Longrightarrow> canonical_digits (if trim_zeros s = [] then ''0'' else trim_zeros s)"
  unfolding canonical_digits_def using hd_dropWhile [of "\<lambda>c. c = CHR ''0''" s] all_digits_trim [of s]
  by (simp add: is_ascii_digit_def) (simp add: trim_zeros_def)

lemma decimal_value_canonical:
  "decimal_value (if trim_zeros s = [] then ''0'' else trim_zeros s) = decimal_value s"
  using decimal_value_trim [of s] by (auto simp: digit_value_def)

lemma canonical_length_less:
  assumes a: "canonical_digits a" and b: "canonical_digits b" and len: "length a < length b"
  shows "decimal_value a < decimal_value b"
proof -
  from a have "all_digits a" and "a \<noteq> []" by (auto simp: canonical_digits_def)
  with len b have bb: "all_digits b" "b \<noteq> []" "hd b \<noteq> CHR ''0''"
    unfolding canonical_digits_def by fastforce+
  have "decimal_value a < 10 ^ length a" using \<open>all_digits a\<close> by (rule decimal_value_bound)
  also have "\<dots> \<le> 10 ^ (length b - 1)" using len by (intro power_increasing) auto
  also have "\<dots> \<le> decimal_value b" using bb by (rule decimal_value_lower)
  finally show ?thesis .
qed

lemma canonical_compare:
  assumes a: "canonical_digits a" and b: "canonical_digits b"
  shows "then_with (cmp (length a) (length b)) (cmp a b) = cmp (decimal_value a) (decimal_value b)"
proof -
  have dig: "all_digits a" "all_digits b" using a b by (auto simp: canonical_digits_def)
  consider "length a < length b" | "length b < length a" | "length a = length b" by linarith
  then show ?thesis
  proof cases
    case 1
    then have "cmp (length a) (length b) = Less" by simp
    moreover have "cmp (decimal_value a) (decimal_value b) = Less"
      using canonical_length_less [OF a b 1] by (simp only: cmp_Less_iff)
    ultimately show ?thesis by (simp only: then_with_def ordering.distinct if_False)
  next
    case 2
    then have "cmp (length a) (length b) = Greater" by simp
    moreover have "cmp (decimal_value a) (decimal_value b) = Greater"
      using canonical_length_less [OF b a 2] by (simp only: cmp_Greater_iff)
    ultimately show ?thesis by (simp only: then_with_def ordering.distinct if_False)
  next
    case 3
    have "a < b \<longleftrightarrow> decimal_value a < decimal_value b" using decimal_value_lex [OF dig 3] .
    moreover have "a = b \<longleftrightarrow> decimal_value a = decimal_value b" using decimal_value_inj [OF dig 3] by blast
    ultimately show ?thesis unfolding then_with_def cmp_def 3 by (simp only: refl less_irrefl if_True if_False simp_thms)
  qed
qed

section \<open>Interpretations\<close>

lemma config_compare_decimal_eq: "config_compare_decimal a b = compare_decimal a b"
  by (simp only: config_compare_decimal_def compare_decimal_def)

lemma compare_decimal_value:
  "all_digits a \<Longrightarrow> all_digits b \<Longrightarrow>
   compare_decimal a b = cmp (decimal_value a) (decimal_value b)"
  unfolding compare_decimal_def Let_def
  by (subst canonical_compare) (simp_all only: canonical_trim decimal_value_canonical)

interpretation protocol_decimal: decimal_comparison compare_decimal
  by unfold_locales (rule compare_decimal_value)

interpretation config_decimal: decimal_comparison config_compare_decimal
  by unfold_locales (simp add: config_compare_decimal_eq compare_decimal_value)

section \<open>Properties\<close>

lemma decimal_value_snoc: "decimal_value (s @ [c]) = 10 * decimal_value s + digit_value c"
  by (induction s) (auto simp: algebra_simps)

lemma digit_char:
  assumes "n < 10"
  shows "is_ascii_digit (char_of (48 + n))" "digit_value (char_of (48 + n)) = n"
  using assms by (auto simp: is_ascii_digit_def digit_value_def)

lemma decimal_text_value: "decimal_value (decimal_text n) = n"
proof (induction n rule: decimal_text.induct)
  case (1 n)
  then show ?case
    by (cases "n < 10") (simp_all add: decimal_text.simps[of n] decimal_value_snoc digit_char)
qed

lemma decimal_text_digits: "all_digits (decimal_text n) \<and> decimal_text n \<noteq> []"
proof (induction n rule: decimal_text.induct)
  case (1 n)
  then show ?case
    by (cases "n < 10") (auto simp: decimal_text.simps[of n] all_digits_def digit_char)
qed

lemma str_parse_decimal_text:
  "str_parse (decimal_text n) = (if n < 2 ^ LENGTH('a) then Some (of_nat n :: 'a::len word) else None)"
proof -
  have "(case decimal_text n of c # cs \<Rightarrow> if c = CHR ''+'' then cs else decimal_text n | [] \<Rightarrow> []) = decimal_text n"
    using decimal_text_digits[of n] by (auto simp: is_ascii_digit_def split: list.splits)
  then show ?thesis
    using decimal_text_digits[of n] by (simp add: str_parse_def parse_digits_def decimal_text_value Let_def)
qed

lemma parse_decimal_Some:
  "parse_decimal s = Some v \<longleftrightarrow>
     s \<noteq> [] \<and> all_digits s \<and> decimal_value s < 2 ^ 128 \<and> v = of_nat (decimal_value s)"
  by (auto simp: parse_decimal_def parse_digits_def)

lemma parse_decimal_unat: "parse_decimal s = Some v \<Longrightarrow> unat v = decimal_value s"
  by (auto simp: parse_decimal_Some unat_of_nat_small)

text \<open>
  The textual comparison of unsigned decimal strings used for amounts, balances and budget
  caps (leading zeros stripped, then length, then bytes) is the numeric order of the values, for
  every pair of digit strings of any length: \<open>decimal_is_at_least value minimum\<close> holds exactly
  when the number \<open>value\<close> denotes is at least the number \<open>minimum\<close> denotes.
\<close>

theorem decimal_is_at_least_numeric:
  assumes "all_digits value" and "all_digits minimum"
  shows "decimal_is_at_least value minimum \<longleftrightarrow> decimal_value minimum \<le> decimal_value value"
  using protocol_decimal.not_less_iff [OF assms] by (simp add: decimal_is_at_least_def)

theorem decimal_is_at_least_numeric_witness:
  "decimal_is_at_least ''0100'' ''99'' \<longleftrightarrow> decimal_value ''99'' \<le> decimal_value ''0100''"
  by (rule decimal_is_at_least_numeric) (simp_all add: is_ascii_digit_def)

end
