(* ===== verification/Near_Types.thy ===== *)
theory Near_Types
  imports Json Decimal
begin

text \<open>
  Data of the NEAR crate: networks, delegate actions, verification failures with their stable
  reasons, RPC errors and their classification. Account ids and public keys are their text, block
  and transaction hashes 256-bit words.
\<close>

type_synonym crypto_hash = u256
type_synonym account_id = string
type_synonym public_key = string

definition default_max_sponsored_gas :: u64 where
  "default_max_sponsored_gas = 30000000000000"

definition one_yocto :: u128 where
  "one_yocto = 1"

definition nonce_range_multiplier :: u64 where
  "nonce_range_multiplier = 1000000"

definition payment_hash_domain :: bytes where
  "payment_hash_domain = ''x402-near/signed-delegate/v1''"

datatype near_network = NearMainnet | NearTestnet

fun near_network_as_str :: "near_network \<Rightarrow> string" where
  "near_network_as_str NearMainnet = ''near:mainnet''"
| "near_network_as_str NearTestnet = ''near:testnet''"

text \<open>The reference part of the CAIP-2 chain id.\<close>

fun chain_reference :: "near_network \<Rightarrow> string" where
  "chain_reference NearMainnet = ''mainnet''"
| "chain_reference NearTestnet = ''testnet''"

datatype verification_failure =
    InvalidX402Version | UnsupportedScheme | InvalidNetwork | NetworkMismatch | AssetMismatch
  | PayToMismatch | AmountMismatch | InvalidMaxTimeout | InvalidPayloadShape
  | InvalidSignedDelegateAction | InvalidSignature | NoRelayerConfigured | RelayerCannotBePayer
  | InvalidActionCount | InvalidActionKind | InvalidMethodName | TokenContractMismatch
  | InvalidFtTransferArgs | RecipientMismatch | TransferAmountMismatch | InvalidAttachedDeposit
  | GasLimitExceeded | CurrentBlockHeightUnavailable | DelegateActionExpired
  | TimeoutWindowExceedsMaximum | DelegateNonceOutOfRange | AccessKeyLookupFailed
  | AccessKeyMissing | DelegateNonceAlreadyUsed | FunctionCallKeyNotAllowed
  | UnsupportedAccessKeyPermission | AccountLookupFailed | SenderAccountNotFound
  | TokenAccountLookupFailed | TokenAccountNotFound | TokenContractHasNoCode | BalanceCheckFailed
  | InsufficientFunds | StorageCheckFailed | RecipientNotRegisteredForStorage

fun reason :: "verification_failure \<Rightarrow> string" where
  "reason InvalidX402Version = ''invalid_x402_version''"
| "reason UnsupportedScheme = ''unsupported_scheme''"
| "reason InvalidNetwork = ''invalid_network''"
| "reason NetworkMismatch = ''invalid_exact_near_network_mismatch''"
| "reason AssetMismatch = ''invalid_exact_near_asset_mismatch''"
| "reason PayToMismatch = ''invalid_exact_near_pay_to_mismatch''"
| "reason AmountMismatch = ''invalid_exact_near_amount_mismatch''"
| "reason InvalidMaxTimeout = ''invalid_exact_near_max_timeout''"
| "reason InvalidPayloadShape = ''invalid_exact_near_payload_shape''"
| "reason InvalidSignedDelegateAction = ''invalid_exact_near_payload_signed_delegate_action''"
| "reason InvalidSignature = ''invalid_exact_near_payload_signature''"
| "reason NoRelayerConfigured = ''invalid_exact_near_no_relayer_configured''"
| "reason RelayerCannotBePayer = ''invalid_exact_near_relayer_cannot_be_payer''"
| "reason InvalidActionCount = ''invalid_exact_near_payload_action_count''"
| "reason InvalidActionKind = ''invalid_exact_near_payload_action_kind''"
| "reason InvalidMethodName = ''invalid_exact_near_payload_method_name''"
| "reason TokenContractMismatch = ''invalid_exact_near_payload_token_contract_mismatch''"
| "reason InvalidFtTransferArgs = ''invalid_exact_near_payload_ft_transfer_args''"
| "reason RecipientMismatch = ''invalid_exact_near_payload_recipient_mismatch''"
| "reason TransferAmountMismatch = ''invalid_exact_near_payload_amount_mismatch''"
| "reason InvalidAttachedDeposit = ''invalid_exact_near_payload_attached_deposit''"
| "reason GasLimitExceeded = ''invalid_exact_near_payload_gas_limit_exceeded''"
| "reason CurrentBlockHeightUnavailable = ''invalid_exact_near_current_block_height_unavailable''"
| "reason DelegateActionExpired = ''invalid_exact_near_payload_delegate_action_expired''"
| "reason TimeoutWindowExceedsMaximum =
     ''invalid_exact_near_payload_delegate_action_timeout_window_exceeds_max_timeout''"
| "reason DelegateNonceOutOfRange = ''invalid_exact_near_payload_delegate_action_nonce_out_of_range''"
| "reason AccessKeyLookupFailed = ''invalid_exact_near_access_key_lookup_failed''"
| "reason AccessKeyMissing = ''invalid_exact_near_access_key_not_found''"
| "reason DelegateNonceAlreadyUsed = ''invalid_exact_near_payload_delegate_action_nonce_already_used''"
| "reason FunctionCallKeyNotAllowed = ''invalid_exact_near_function_call_key_not_allowed''"
| "reason UnsupportedAccessKeyPermission = ''invalid_exact_near_unsupported_access_key_permission''"
| "reason AccountLookupFailed = ''invalid_exact_near_account_lookup_failed''"
| "reason SenderAccountNotFound = ''invalid_exact_near_sender_account_not_found''"
| "reason TokenAccountLookupFailed = ''invalid_exact_near_token_account_lookup_failed''"
| "reason TokenAccountNotFound = ''invalid_exact_near_token_account_not_found''"
| "reason TokenContractHasNoCode = ''invalid_exact_near_token_contract_no_code''"
| "reason BalanceCheckFailed = ''invalid_exact_near_balance_check_failed''"
| "reason InsufficientFunds = ''insufficient_funds''"
| "reason StorageCheckFailed = ''invalid_exact_near_storage_check_failed''"
| "reason RecipientNotRegisteredForStorage = ''invalid_exact_near_recipient_not_registered_for_storage''"

fun payer_is_attributable :: "verification_failure \<Rightarrow> bool" where
  "payer_is_attributable InvalidX402Version = False"
| "payer_is_attributable UnsupportedScheme = False"
| "payer_is_attributable InvalidNetwork = False"
| "payer_is_attributable NetworkMismatch = False"
| "payer_is_attributable AssetMismatch = False"
| "payer_is_attributable PayToMismatch = False"
| "payer_is_attributable AmountMismatch = False"
| "payer_is_attributable InvalidMaxTimeout = False"
| "payer_is_attributable InvalidPayloadShape = False"
| "payer_is_attributable InvalidSignedDelegateAction = False"
| "payer_is_attributable InvalidSignature = False"
| "payer_is_attributable _ = True"

definition near_network_try_from :: "string \<Rightarrow> verification_failure + near_network" where
  "near_network_try_from value =
     (if value = ''near:mainnet'' then Inr NearMainnet
      else if value = ''near:testnet'' then Inr NearTestnet
      else Inl InvalidNetwork)"

section \<open>Delegates and payments\<close>

datatype key_type = ED25519 | SECP256K1 | MLDSA65

record function_call =
  fc_method_name :: string
  fc_args :: bytes
  fc_gas :: u64
  fc_deposit :: u128

datatype near_action = FunctionCall function_call | OtherAction

record delegate_action =
  da_sender_id :: account_id
  da_receiver_id :: account_id
  da_actions :: "near_action list"
  da_nonce :: u64
  da_max_block_height :: u64
  da_public_key :: public_key
  da_key_type :: key_type

record signed_delegate_action =
  sd_delegate_action :: delegate_action
  sd_signature :: bytes
  sd_signature_type :: key_type

record verification_policy =
  po_max_sponsored_gas :: u64

definition default_verification_policy :: verification_policy where
  "default_verification_policy = \<lparr>po_max_sponsored_gas = default_max_sponsored_gas\<rparr>"

record verified_requirements =
  vq_network :: near_network
  vq_asset :: account_id
  vq_pay_to :: account_id
  vq_amount :: u128
  vq_amount_decimal :: string
  vq_max_timeout_seconds :: u64

record near_verified_payment =
  np_payer :: account_id
  np_payer_public_key :: public_key
  np_delegate_nonce :: u64
  np_max_block_height :: u64
  np_requirements :: verified_requirements
  np_signed_delegate :: signed_delegate_action
  np_signed_delegate_bytes :: bytes
  np_payment_hash :: u256

definition new_verified_payment ::
  "verified_requirements \<Rightarrow> signed_delegate_action \<Rightarrow> bytes \<Rightarrow> u256 \<Rightarrow> near_verified_payment" where
  "new_verified_payment requirements signed_delegate signed_delegate_bytes payment_hash =
     (let delegate = sd_delegate_action signed_delegate in
      \<lparr>np_payer = da_sender_id delegate, np_payer_public_key = da_public_key delegate,
       np_delegate_nonce = da_nonce delegate, np_max_block_height = da_max_block_height delegate,
       np_requirements = requirements, np_signed_delegate = signed_delegate,
       np_signed_delegate_bytes = signed_delegate_bytes, np_payment_hash = payment_hash\<rparr>)"

record prepared_transaction =
  pt_transaction_hash :: crypto_hash
  pt_relayer_nonce :: u64
  pt_signer_id :: account_id
  pt_signer_public_key :: public_key
  pt_signed_transaction_bytes :: bytes

section \<open>RPC errors\<close>

datatype near_rpc_error =
    AccountNotFound
  | AccessKeyNotFound
  | MethodNotFound
  | TransactionUnknown
  | TransactionRejected
  | TransactionTemporarilyRejected
  | Timeout
  | InvalidResponse string
  | InvalidSignedTransaction
  | Request string

text \<open>The handler errors of the NEAR JSON-RPC client that the classification distinguishes.\<close>

datatype rpc_query_error = UnknownAccount | UnknownAccessKey | ContractMethodNotFound | OtherQueryError string

fun query_error :: "rpc_query_error \<Rightarrow> near_rpc_error" where
  "query_error UnknownAccount = AccountNotFound"
| "query_error UnknownAccessKey = AccessKeyNotFound"
| "query_error ContractMethodNotFound = MethodNotFound"
| "query_error (OtherQueryError text) = Request text"

datatype invalid_tx_error =
    InvalidSignerId | InvalidReceiverId | TxInvalidSignature | CostOverflow | ActionsValidation
  | TransactionSizeExceeded | InvalidTransactionVersion | InvalidNonceIndex
  | InvalidAccessKeyError | SignerDoesNotExist | InvalidNonce | NonceTooLarge | NotEnoughBalance
  | LackBalanceForState | InvalidChain | TxExpired | StorageError | ShardCongested | ShardStuck
  | NotEnoughGasKeyBalance | NotEnoughBalanceForDeposit

fun classify_invalid_transaction :: "invalid_tx_error \<Rightarrow> near_rpc_error" where
  "classify_invalid_transaction InvalidSignerId = TransactionRejected"
| "classify_invalid_transaction InvalidReceiverId = TransactionRejected"
| "classify_invalid_transaction TxInvalidSignature = TransactionRejected"
| "classify_invalid_transaction CostOverflow = TransactionRejected"
| "classify_invalid_transaction ActionsValidation = TransactionRejected"
| "classify_invalid_transaction TransactionSizeExceeded = TransactionRejected"
| "classify_invalid_transaction InvalidTransactionVersion = TransactionRejected"
| "classify_invalid_transaction InvalidNonceIndex = TransactionRejected"
| "classify_invalid_transaction InvalidAccessKeyError = TransactionTemporarilyRejected"
| "classify_invalid_transaction SignerDoesNotExist = TransactionTemporarilyRejected"
| "classify_invalid_transaction InvalidNonce = TransactionTemporarilyRejected"
| "classify_invalid_transaction NonceTooLarge = TransactionTemporarilyRejected"
| "classify_invalid_transaction NotEnoughBalance = TransactionTemporarilyRejected"
| "classify_invalid_transaction LackBalanceForState = TransactionTemporarilyRejected"
| "classify_invalid_transaction InvalidChain = TransactionTemporarilyRejected"
| "classify_invalid_transaction TxExpired = TransactionTemporarilyRejected"
| "classify_invalid_transaction StorageError = TransactionTemporarilyRejected"
| "classify_invalid_transaction ShardCongested = TransactionTemporarilyRejected"
| "classify_invalid_transaction ShardStuck = TransactionTemporarilyRejected"
| "classify_invalid_transaction NotEnoughGasKeyBalance = TransactionTemporarilyRejected"
| "classify_invalid_transaction NotEnoughBalanceForDeposit = TransactionTemporarilyRejected"

datatype rpc_transaction_error =
    UnknownTransaction | InvalidTx invalid_tx_error | TimeoutError | OtherTransactionError string

fun transaction_error :: "rpc_transaction_error \<Rightarrow> near_rpc_error" where
  "transaction_error UnknownTransaction = TransactionUnknown"
| "transaction_error (InvalidTx context) = classify_invalid_transaction context"
| "transaction_error TimeoutError = Timeout"
| "transaction_error (OtherTransactionError text) = Request text"

end
