(* ===== verification/Near_Verify.thy ===== *)
theory Near_Verify
  imports Near_Types
begin

text \<open>
  Verification of a NEAR exact payment: \<open>verify_proto_request\<close> with its ordered checks and the
  response it leads to. JSON text, base64, Borsh, signature verification, SHA-256 and account-id
  syntax are libraries' and stand in the record \<open>near_codec\<close>; the RPC reads, all pinned to the final
  block, are the record \<open>near_reader\<close>.
\<close>

section \<open>Wire data\<close>

record wire_requirements =
  wr_scheme :: string
  wr_network :: string
  wr_amount :: string
  wr_pay_to :: string
  wr_max_timeout_seconds :: json
  wr_asset :: string

record wire_request =
  wi_x402_version :: json
  wi_payload_x402_version :: json
  wi_accepted :: wire_requirements
  wi_payload :: json
  wi_payment_requirements :: wire_requirements

record near_codec =
  wire_from_str :: "string \<Rightarrow> wire_request option"
  ft_args_from_slice :: "bytes \<Rightarrow> (string \<times> string) option"
  string_from_slice :: "bytes \<Rightarrow> string option"
  value_from_slice :: "bytes \<Rightarrow> json option"
  base64_decode :: "string \<Rightarrow> bytes option"
  delegate_from_slice :: "bytes \<Rightarrow> signed_delegate_action option"
  delegate_to_vec :: "signed_delegate_action \<Rightarrow> bytes option"
  delegate_verify :: "signed_delegate_action \<Rightarrow> bool"
  sha256 :: "bytes \<Rightarrow> u256"
  is_account_id :: "string \<Rightarrow> bool"

datatype access_key_permission = FullAccess | FunctionCallKey | GasKeyFunctionCall | GasKeyFullAccess

record access_key_view =
  kv_nonce :: u64
  kv_permission :: access_key_permission

record account_view =
  av_amount :: u128
  av_code_hash :: crypto_hash

record final_block =
  fb_height :: u64
  fb_hash :: crypto_hash

record near_reader =
  rd_network_id :: "near_rpc_error + string"
  rd_final_block :: "near_rpc_error + final_block"
  rd_view_account :: "crypto_hash \<Rightarrow> account_id \<Rightarrow> near_rpc_error + account_view"
  rd_view_access_key :: "crypto_hash \<Rightarrow> account_id \<Rightarrow> public_key \<Rightarrow> near_rpc_error + access_key_view"
  rd_call_function :: "crypto_hash \<Rightarrow> account_id \<Rightarrow> string \<Rightarrow> json \<Rightarrow> near_rpc_error + bytes"

section \<open>Decoding\<close>

definition decode_ft_transfer_args :: "near_codec \<Rightarrow> bytes \<Rightarrow> verification_failure + string \<times> string" where
  "decode_ft_transfer_args c input =
     bind_res (ok_or (ft_args_from_slice c input) InvalidFtTransferArgs) (\<lambda>(receiver_id, amount).
     if receiver_id = [] \<or> amount = [] \<or> \<not> list_all is_ascii_digit amount
     then Inl InvalidFtTransferArgs
     else Inr (receiver_id, amount))"

record decoded_signed_delegate =
  dd_bytes :: bytes
  dd_signed_delegate :: signed_delegate_action
  dd_payment_hash :: u256

definition hash_signed_delegate_bytes :: "near_codec \<Rightarrow> bytes \<Rightarrow> u256" where
  "hash_signed_delegate_bytes c b = sha256 c (payment_hash_domain @ b)"

definition decode_signed_delegate :: "near_codec \<Rightarrow> string \<Rightarrow> verification_failure + decoded_signed_delegate" where
  "decode_signed_delegate c encoded =
     bind_res (ok_or (base64_decode c encoded) InvalidSignedDelegateAction) (\<lambda>b.
     bind_res (ok_or (delegate_from_slice c b) InvalidSignedDelegateAction) (\<lambda>signed_delegate.
     let key_type = da_key_type (sd_delegate_action signed_delegate);
         signature_type = sd_signature_type signed_delegate in
     if \<not> (key_type = ED25519 \<and> signature_type = ED25519
          \<or> key_type = SECP256K1 \<and> signature_type = SECP256K1)
     then Inl InvalidSignature
     else Inr \<lparr>dd_bytes = b, dd_signed_delegate = signed_delegate,
               dd_payment_hash = hash_signed_delegate_bytes c b\<rparr>))"

definition signed_delegate_hash :: "near_codec \<Rightarrow> signed_delegate_action \<Rightarrow> verification_failure + u256" where
  "signed_delegate_hash c signed_delegate =
     bind_res (ok_or (delegate_to_vec c signed_delegate) InvalidSignedDelegateAction) (\<lambda>b.
     Inr (hash_signed_delegate_bytes c b))"

definition value_is_two :: "json \<Rightarrow> bool" where
  "value_is_two value \<longleftrightarrow> as_u64 value = Some 2"

definition timeout_seconds :: "wire_requirements \<Rightarrow> verification_failure + u64" where
  "timeout_seconds requirements =
     (case as_u64 (wr_max_timeout_seconds requirements) of
        Some seconds \<Rightarrow> if seconds > 0 then Inr seconds else Inl InvalidMaxTimeout
      | None \<Rightarrow> Inl InvalidMaxTimeout)"

definition encoded_delegate :: "wire_request \<Rightarrow> string option" where
  "encoded_delegate wire =
     Option.bind (Option.bind (as_object (wi_payload wire)) (\<lambda>payload. jget payload ''signedDelegateAction'')) as_str"

section \<open>The ordered checks\<close>

text \<open>Shape, versions, scheme, network and the equality of accepted and required terms.\<close>

definition check_wire :: "near_network \<Rightarrow> wire_request \<Rightarrow> verification_failure + near_network \<times> u64" where
  "check_wire provider_network wire =
     (let accepted = wi_accepted wire; requirements = wi_payment_requirements wire in
      if \<not> value_is_two (wi_x402_version wire) \<or> \<not> value_is_two (wi_payload_x402_version wire)
      then Inl InvalidX402Version
      else if wr_scheme accepted \<noteq> ''exact'' \<or> wr_scheme requirements \<noteq> ''exact'' then Inl UnsupportedScheme
      else bind_res (near_network_try_from (wr_network requirements)) (\<lambda>network.
      if network \<noteq> provider_network then Inl InvalidNetwork
      else if wr_network accepted \<noteq> wr_network requirements then Inl NetworkMismatch
      else if wr_asset accepted \<noteq> wr_asset requirements then Inl AssetMismatch
      else if wr_pay_to accepted \<noteq> wr_pay_to requirements then Inl PayToMismatch
      else if wr_amount accepted \<noteq> wr_amount requirements then Inl AmountMismatch
      else bind_res (timeout_seconds requirements) (\<lambda>seconds. Inr (network, seconds))))"

text \<open>The signed delegate: decoded, and its signature verified.\<close>

definition check_signature :: "near_codec \<Rightarrow> wire_request \<Rightarrow> verification_failure + decoded_signed_delegate" where
  "check_signature c wire =
     bind_res (ok_or (encoded_delegate wire) InvalidPayloadShape) (\<lambda>encoded.
     bind_res (decode_signed_delegate c encoded) (\<lambda>decoded.
     if \<not> delegate_verify c (dd_signed_delegate decoded) then Inl InvalidSignature else Inr decoded))"

text \<open>The single action: one ft_transfer of the required amount to the payee on the token contract.\<close>

definition check_action ::
  "near_codec \<Rightarrow> account_id \<Rightarrow> verification_policy \<Rightarrow> wire_requirements \<Rightarrow> delegate_action \<Rightarrow>
   verification_failure + unit" where
  "check_action c relayer policy requirements delegate =
     (if da_sender_id delegate = relayer then Inl RelayerCannotBePayer
      else if length (da_actions delegate) \<noteq> 1 then Inl InvalidActionCount
      else case da_actions delegate of
        FunctionCall call # _ \<Rightarrow>
          if fc_method_name call \<noteq> ''ft_transfer'' then Inl InvalidMethodName
          else if da_receiver_id delegate \<noteq> wr_asset requirements then Inl TokenContractMismatch
          else bind_res (decode_ft_transfer_args c (fc_args call)) (\<lambda>(receiver_id, amount).
            if receiver_id \<noteq> wr_pay_to requirements then Inl RecipientMismatch
            else if amount \<noteq> wr_amount requirements then Inl TransferAmountMismatch
            else if fc_deposit call \<noteq> one_yocto then Inl InvalidAttachedDeposit
            else if fc_gas call > po_max_sponsored_gas policy then Inl GasLimitExceeded
            else Inr ())
      | _ \<Rightarrow> Inl InvalidActionKind)"

text \<open>The time window and the nonce range at the final block.\<close>

definition check_window :: "u64 \<Rightarrow> final_block \<Rightarrow> delegate_action \<Rightarrow> verification_failure + unit" where
  "check_window max_timeout_seconds block delegate =
     bind_res (ok_or (checked_sub (da_max_block_height delegate) (fb_height block)) DelegateActionExpired)
       (\<lambda>remaining_blocks.
     if remaining_blocks = 0 then Inl DelegateActionExpired
     else if remaining_blocks > max max_timeout_seconds 1 then Inl TimeoutWindowExceedsMaximum
     else if da_nonce delegate \<ge> saturating_mul (fb_height block) nonce_range_multiplier
     then Inl DelegateNonceOutOfRange
     else Inr ())"

definition check_access_key :: "near_reader \<Rightarrow> final_block \<Rightarrow> delegate_action \<Rightarrow> verification_failure + unit" where
  "check_access_key rpc block delegate =
     (case rd_view_access_key rpc (fb_hash block) (da_sender_id delegate) (da_public_key delegate) of
        Inl AccessKeyNotFound \<Rightarrow> Inl AccessKeyMissing
      | Inl _ \<Rightarrow> Inl AccessKeyLookupFailed
      | Inr access_key \<Rightarrow>
          if da_nonce delegate \<le> kv_nonce access_key then Inl DelegateNonceAlreadyUsed
          else (case kv_permission access_key of
              FullAccess \<Rightarrow> Inr ()
            | FunctionCallKey \<Rightarrow> Inl FunctionCallKeyNotAllowed
            | GasKeyFunctionCall \<Rightarrow> Inl UnsupportedAccessKeyPermission
            | GasKeyFullAccess \<Rightarrow> Inl UnsupportedAccessKeyPermission))"

definition view_existing ::
  "near_reader \<Rightarrow> final_block \<Rightarrow> account_id \<Rightarrow> verification_failure \<Rightarrow> verification_failure \<Rightarrow>
   verification_failure + account_view" where
  "view_existing rpc block account missing failed =
     (case rd_view_account rpc (fb_hash block) account of
        Inr view \<Rightarrow> Inr view
      | Inl AccountNotFound \<Rightarrow> Inl missing
      | Inl _ \<Rightarrow> Inl failed)"

definition account_args :: "account_id \<Rightarrow> json" where
  "account_args account = JObject [(''account_id'', JString account)]"

definition check_balance ::
  "near_codec \<Rightarrow> near_reader \<Rightarrow> final_block \<Rightarrow> account_id \<Rightarrow> account_id \<Rightarrow> wire_requirements \<Rightarrow>
   verification_failure + u128" where
  "check_balance c rpc block payer asset requirements =
     bind_res (map_err (\<lambda>_. BalanceCheckFailed)
       (rd_call_function rpc (fb_hash block) asset ''ft_balance_of'' (account_args payer))) (\<lambda>balance_bytes.
     bind_res (ok_or (string_from_slice c balance_bytes) BalanceCheckFailed) (\<lambda>balance_decimal.
     bind_res (ok_or (parse_decimal balance_decimal) BalanceCheckFailed) (\<lambda>balance.
     bind_res (ok_or (parse_decimal (wr_amount requirements)) BalanceCheckFailed) (\<lambda>amount.
     if balance < amount then Inl InsufficientFunds else Inr amount))))"

definition check_storage ::
  "near_codec \<Rightarrow> near_reader \<Rightarrow> final_block \<Rightarrow> account_id \<Rightarrow> wire_requirements \<Rightarrow> verification_failure + unit" where
  "check_storage c rpc block asset requirements =
     (if \<not> is_account_id c (wr_pay_to requirements) then Inl StorageCheckFailed
      else case rd_call_function rpc (fb_hash block) asset ''storage_balance_of''
                  (account_args (wr_pay_to requirements)) of
        Inr storage_bytes \<Rightarrow>
          bind_res (ok_or (value_from_slice c storage_bytes) StorageCheckFailed) (\<lambda>storage.
          if storage = JNull then Inl RecipientNotRegisteredForStorage else Inr ())
      | Inl MethodNotFound \<Rightarrow> Inr ()
      | Inl _ \<Rightarrow> Inl StorageCheckFailed)"

definition check_token :: "near_codec \<Rightarrow> near_reader \<Rightarrow> final_block \<Rightarrow> wire_requirements \<Rightarrow> verification_failure + account_id" where
  "check_token c rpc block requirements =
     (if \<not> is_account_id c (wr_asset requirements) then Inl TokenAccountLookupFailed
      else bind_res (view_existing rpc block (wr_asset requirements) TokenAccountNotFound
             TokenAccountLookupFailed) (\<lambda>token_account.
        if av_code_hash token_account = 0 then Inl TokenContractHasNoCode
        else Inr (wr_asset requirements)))"

definition verify_proto_request ::
  "near_codec \<Rightarrow> near_network \<Rightarrow> account_id \<Rightarrow> near_reader \<Rightarrow> verification_policy \<Rightarrow> string \<Rightarrow>
   verification_failure + near_verified_payment" where
  "verify_proto_request c provider_network relayer rpc policy request =
     bind_res (ok_or (wire_from_str c request) InvalidPayloadShape) (\<lambda>wire.
     let requirements = wi_payment_requirements wire in
     bind_res (check_wire provider_network wire) (\<lambda>(network, max_timeout_seconds).
     bind_res (check_signature c wire) (\<lambda>decoded.
     let delegate = sd_delegate_action (dd_signed_delegate decoded) in
     bind_res (check_action c relayer policy requirements delegate) (\<lambda>_.
     bind_res (map_err (\<lambda>_. CurrentBlockHeightUnavailable) (rd_final_block rpc)) (\<lambda>block.
     bind_res (check_window max_timeout_seconds block delegate) (\<lambda>_.
     bind_res (check_access_key rpc block delegate) (\<lambda>_.
     bind_res (view_existing rpc block (da_sender_id delegate) SenderAccountNotFound AccountLookupFailed) (\<lambda>_.
     bind_res (check_token c rpc block requirements) (\<lambda>asset.
     bind_res (check_balance c rpc block (da_sender_id delegate) asset requirements) (\<lambda>amount.
     bind_res (check_storage c rpc block asset requirements) (\<lambda>_.
     Inr (new_verified_payment
       \<lparr>vq_network = network, vq_asset = asset, vq_pay_to = wr_pay_to requirements, vq_amount = amount,
        vq_amount_decimal = wr_amount requirements, vq_max_timeout_seconds = max_timeout_seconds\<rparr>
       (dd_signed_delegate decoded) (dd_bytes decoded) (dd_payment_hash decoded)))))))))))))"

section \<open>Responses\<close>

definition attributable_payer :: "near_codec \<Rightarrow> string \<Rightarrow> verification_failure \<Rightarrow> account_id option" where
  "attributable_payer c request failure =
     (if \<not> payer_is_attributable failure then None
      else Option.bind (wire_from_str c request) (\<lambda>wire.
        Option.bind (encoded_delegate wire) (\<lambda>encoded.
        case decode_signed_delegate c encoded of
          Inl _ \<Rightarrow> None
        | Inr decoded \<Rightarrow>
            if delegate_verify c (dd_signed_delegate decoded)
            then Some (da_sender_id (sd_delegate_action (dd_signed_delegate decoded))) else None)))"

definition invalid_response :: "verification_failure \<Rightarrow> account_id option \<Rightarrow> json_map" where
  "invalid_response failure payer =
     [(''isValid'', JBool False), (''invalidReason'', JString (reason failure))]
     @ (case payer of
          Some p \<Rightarrow> if payer_is_attributable failure then [(''payer'', JString p)] else []
        | None \<Rightarrow> [])"

definition success_response :: "account_id \<Rightarrow> json_map" where
  "success_response payer = [(''isValid'', JBool True), (''payer'', JString payer)]"

definition facilitator_verify ::
  "near_codec \<Rightarrow> near_network \<Rightarrow> account_id \<Rightarrow> near_reader \<Rightarrow> verification_policy \<Rightarrow> string \<Rightarrow> json_map" where
  "facilitator_verify c provider_network relayer rpc policy request =
     (case verify_proto_request c provider_network relayer rpc policy request of
        Inr payment \<Rightarrow> success_response (np_payer payment)
      | Inl failure \<Rightarrow> invalid_response failure (attributable_payer c request failure))"

definition settlement_response ::
  "bool \<Rightarrow> string \<Rightarrow> near_network \<Rightarrow> account_id option \<Rightarrow> string option \<Rightarrow> string option \<Rightarrow> json_map" where
  "settlement_response success transaction network payer error_reason error_message =
     [(''success'', JBool success), (''transaction'', JString transaction),
      (''network'', JString (near_network_as_str network))]
     @ (case payer of Some p \<Rightarrow> [(''payer'', JString p)] | None \<Rightarrow> [])
     @ (case error_reason of Some r \<Rightarrow> [(''errorReason'', JString r)] | None \<Rightarrow> [])
     @ (case error_message of Some m \<Rightarrow> [(''errorMessage'', JString m)] | None \<Rightarrow> [])"

section \<open>Inversion of the checks\<close>

lemma check_wire_Inr:
  assumes "check_wire n wire = Inr (network, seconds)"
  shows "network = n" "near_network_try_from (wr_network (wi_payment_requirements wire)) = Inr n"
    "value_is_two (wi_x402_version wire)" "value_is_two (wi_payload_x402_version wire)"
    "wr_scheme (wi_accepted wire) = ''exact''" "wr_scheme (wi_payment_requirements wire) = ''exact''"
    "wr_network (wi_accepted wire) = wr_network (wi_payment_requirements wire)"
    "wr_asset (wi_accepted wire) = wr_asset (wi_payment_requirements wire)"
    "wr_pay_to (wi_accepted wire) = wr_pay_to (wi_payment_requirements wire)"
    "wr_amount (wi_accepted wire) = wr_amount (wi_payment_requirements wire)"
    "wr_max_timeout_seconds (wi_payment_requirements wire) = JNumber (PosInt seconds)" "0 < seconds"
  using assms
  by (auto simp: check_wire_def timeout_seconds_def Let_def res_simps split: if_splits option.splits)

lemma check_wire_Inl: "check_wire n wire = Inl f \<Longrightarrow> \<not> payer_is_attributable f"
  by (auto simp: check_wire_def timeout_seconds_def near_network_try_from_def Let_def res_simps
      split: if_splits option.splits)

lemma check_signature_Inr:
  "check_signature c wire = Inr decoded \<longleftrightarrow>
     (\<exists>encoded. encoded_delegate wire = Some encoded \<and> decode_signed_delegate c encoded = Inr decoded
        \<and> delegate_verify c (dd_signed_delegate decoded))"
  by (auto simp: check_signature_def res_simps split: if_splits)

lemma check_signature_Inl: "check_signature c wire = Inl f \<Longrightarrow> \<not> payer_is_attributable f"
  by (auto simp: check_signature_def decode_signed_delegate_def Let_def res_simps split: if_splits)

lemma check_action_Inr:
  assumes "check_action c relayer policy q delegate = Inr u"
  obtains call where "da_actions delegate = [FunctionCall call]" "da_sender_id delegate \<noteq> relayer"
    "fc_method_name call = ''ft_transfer''" "da_receiver_id delegate = wr_asset q"
    "ft_args_from_slice c (fc_args call) = Some (wr_pay_to q, wr_amount q)"
    "fc_deposit call = 1" "fc_gas call \<le> po_max_sponsored_gas policy"
proof -
  from assms obtain call rest where a: "da_actions delegate = FunctionCall call # rest"
    by (auto simp: check_action_def split: if_splits list.splits near_action.splits)
  with assms show thesis
    by (intro that [of call])
       (auto simp: check_action_def decode_ft_transfer_args_def one_yocto_def not_less res_simps split: if_splits)
qed

lemma check_action_Inl: "check_action c relayer policy q delegate = Inl f \<Longrightarrow> payer_is_attributable f"
  by (auto simp: check_action_def decode_ft_transfer_args_def res_simps
      split: if_splits list.splits near_action.splits)

lemma check_window_Inr:
  assumes "check_window seconds block delegate = Inr u" and "0 < seconds"
  shows "unat (fb_height block) < unat (da_max_block_height delegate)"
    "unat (da_max_block_height delegate) \<le> unat (fb_height block) + unat seconds"
    "unat (da_nonce delegate) < unat (fb_height block) * 1000000"
proof -
  from assms(1) obtain r where r: "checked_sub (da_max_block_height delegate) (fb_height block) = Some r"
    "r \<noteq> 0" "\<not> max seconds 1 < r"
    "\<not> saturating_mul (fb_height block) nonce_range_multiplier \<le> da_nonce delegate"
    by (auto simp: check_window_def res_simps simp del: max_less_iff_conj split: if_splits)
  have "1 \<le> seconds" using assms(2) by (simp add: word_le_nat_alt word_less_nat_alt)
  then have "max seconds 1 = seconds" by (simp add: max_def antisym)
  with r have "unat r \<le> unat seconds" "0 < unat r" by (simp_all add: word_le_nat_alt unat_gt_0 not_less)
  with checked_sub_SomeD [OF r(1)] show "unat (fb_height block) < unat (da_max_block_height delegate)"
    "unat (da_max_block_height delegate) \<le> unat (fb_height block) + unat seconds" by linarith+
  have "unat (da_nonce delegate) < unat (saturating_mul (fb_height block) nonce_range_multiplier)"
    using r(4) by (simp add: word_less_nat_alt not_le)
  also have "\<dots> \<le> unat (fb_height block) * 1000000"
    by (simp add: unat_saturating_mul nonce_range_multiplier_def)
  finally show "unat (da_nonce delegate) < unat (fb_height block) * 1000000" .
qed

lemma check_window_Inl: "check_window seconds block delegate = Inl f \<Longrightarrow> payer_is_attributable f"
  by (auto simp: check_window_def res_simps split: if_splits)

lemma check_access_key_Inr:
  assumes "check_access_key rpc block delegate = Inr u"
  obtains key where
    "rd_view_access_key rpc (fb_hash block) (da_sender_id delegate) (da_public_key delegate) = Inr key"
    "kv_nonce key < da_nonce delegate" "kv_permission key = FullAccess"
  using assms
  by (auto simp: check_access_key_def not_le
      split: sum.splits near_rpc_error.splits if_splits access_key_permission.splits)

lemma check_access_key_Inl: "check_access_key rpc block delegate = Inl f \<Longrightarrow> payer_is_attributable f"
  by (auto simp: check_access_key_def
      split: sum.splits near_rpc_error.splits if_splits access_key_permission.splits)

lemma view_existing_Inl: "view_existing rpc block a m g = Inl f \<Longrightarrow> f = m \<or> f = g"
  by (auto simp: view_existing_def split: sum.splits near_rpc_error.splits)

lemma check_token_Inl: "check_token c rpc block q = Inl f \<Longrightarrow> payer_is_attributable f"
  by (auto simp: check_token_def res_simps dest!: view_existing_Inl split: if_splits)

lemma check_balance_Inl: "check_balance c rpc block payer asset q = Inl f \<Longrightarrow> payer_is_attributable f"
  by (auto simp: check_balance_def res_simps split: if_splits)

lemma check_storage_Inl: "check_storage c rpc block asset q = Inl f \<Longrightarrow> payer_is_attributable f"
  by (auto simp: check_storage_def res_simps split: if_splits sum.splits near_rpc_error.splits)

lemmas attributable_checks = check_action_Inl check_window_Inl check_access_key_Inl check_token_Inl
  check_balance_Inl check_storage_Inl

lemma check_balance_Inr:
  assumes "check_balance c rpc block payer asset q = Inr amount"
  obtains b s balance where
    "rd_call_function rpc (fb_hash block) asset ''ft_balance_of'' (account_args payer) = Inr b"
    "string_from_slice c b = Some s" "parse_decimal s = Some balance"
    "parse_decimal (wr_amount q) = Some amount" "amount \<le> balance"
  using assms by (auto simp: check_balance_def res_simps not_less split: if_splits)

lemma check_storage_Inr:
  assumes "check_storage c rpc block asset q = Inr u"
  shows "is_account_id c (wr_pay_to q)"
    and "(\<exists>b v. rd_call_function rpc (fb_hash block) asset ''storage_balance_of'' (account_args (wr_pay_to q)) = Inr b
            \<and> value_from_slice c b = Some v \<and> v \<noteq> JNull)
       \<or> rd_call_function rpc (fb_hash block) asset ''storage_balance_of'' (account_args (wr_pay_to q))
           = Inl MethodNotFound"
  using assms
  by (auto simp: check_storage_def res_simps split: if_splits sum.splits near_rpc_error.splits)

lemma check_token_Inr:
  assumes "check_token c rpc block q = Inr asset"
  shows "asset = wr_asset q" "is_account_id c asset"
    "\<exists>v. rd_view_account rpc (fb_hash block) asset = Inr v \<and> av_code_hash v \<noteq> 0"
  using assms
  by (auto simp: check_token_def view_existing_def res_simps split: if_splits sum.splits near_rpc_error.splits)

lemma verify_Inr:
  assumes "verify_proto_request c n relayer rpc policy request = Inr p"
  obtains wire network seconds decoded block asset amount where
    "wire_from_str c request = Some wire" "check_wire n wire = Inr (network, seconds)"
    "check_signature c wire = Inr decoded"
    "check_action c relayer policy (wi_payment_requirements wire) (sd_delegate_action (dd_signed_delegate decoded)) = Inr ()"
    "rd_final_block rpc = Inr block"
    "check_window seconds block (sd_delegate_action (dd_signed_delegate decoded)) = Inr ()"
    "check_access_key rpc block (sd_delegate_action (dd_signed_delegate decoded)) = Inr ()"
    "check_token c rpc block (wi_payment_requirements wire) = Inr asset"
    "check_balance c rpc block (da_sender_id (sd_delegate_action (dd_signed_delegate decoded))) asset
       (wi_payment_requirements wire) = Inr amount"
    "check_storage c rpc block asset (wi_payment_requirements wire) = Inr ()"
    "p = new_verified_payment
       \<lparr>vq_network = network, vq_asset = asset, vq_pay_to = wr_pay_to (wi_payment_requirements wire),
        vq_amount = amount, vq_amount_decimal = wr_amount (wi_payment_requirements wire),
        vq_max_timeout_seconds = seconds\<rparr>
       (dd_signed_delegate decoded) (dd_bytes decoded) (dd_payment_hash decoded)"
  using assms unfolding verify_proto_request_def
  by (auto simp: res_simps Let_def)

section \<open>Properties\<close>

text \<open>A concrete request, codec and chain state that verify.\<close>

definition sample_wire_requirements :: wire_requirements where
  "sample_wire_requirements = \<lparr>wr_scheme = ''exact'', wr_network = ''near:testnet'', wr_amount = ''5'',
     wr_pay_to = ''shop'', wr_max_timeout_seconds = JNumber (PosInt 60), wr_asset = ''usdc''\<rparr>"

definition sample_wire :: wire_request where
  "sample_wire = \<lparr>wi_x402_version = JNumber (PosInt 2), wi_payload_x402_version = JNumber (PosInt 2),
     wi_accepted = sample_wire_requirements,
     wi_payload = JObject [(''signedDelegateAction'', JString ''enc'')],
     wi_payment_requirements = sample_wire_requirements\<rparr>"

definition sample_delegate :: signed_delegate_action where
  "sample_delegate = \<lparr>sd_delegate_action = \<lparr>da_sender_id = ''alice'', da_receiver_id = ''usdc'',
       da_actions = [FunctionCall \<lparr>fc_method_name = ''ft_transfer'', fc_args = ''args'', fc_gas = 10,
         fc_deposit = 1\<rparr>],
       da_nonce = 8, da_max_block_height = 130, da_public_key = ''pk'', da_key_type = ED25519\<rparr>,
     sd_signature = ''sig'', sd_signature_type = ED25519\<rparr>"

definition sample_near_codec :: near_codec where
  "sample_near_codec = \<lparr>wire_from_str = (\<lambda>_. Some sample_wire),
     ft_args_from_slice = (\<lambda>_. Some (''shop'', ''5'')), string_from_slice = (\<lambda>_. Some ''7''),
     value_from_slice = (\<lambda>_. Some (JBool True)), base64_decode = (\<lambda>_. Some ''b''),
     delegate_from_slice = (\<lambda>_. Some sample_delegate), delegate_to_vec = (\<lambda>_. Some ''b''),
     delegate_verify = (\<lambda>_. True), sha256 = (\<lambda>_. 33), is_account_id = (\<lambda>_. True)\<rparr>"

definition sample_reader :: near_reader where
  "sample_reader = \<lparr>rd_network_id = Inr ''testnet'', rd_final_block = Inr \<lparr>fb_height = 100, fb_hash = 1\<rparr>,
     rd_view_account = (\<lambda>_ _. Inr \<lparr>av_amount = 0, av_code_hash = 9\<rparr>),
     rd_view_access_key = (\<lambda>_ _ _. Inr \<lparr>kv_nonce = 7, kv_permission = FullAccess\<rparr>),
     rd_call_function = (\<lambda>_ _ _ _. Inr ''x'')\<rparr>"

definition sample_near_payment :: near_verified_payment where
  "sample_near_payment = new_verified_payment \<lparr>vq_network = NearTestnet, vq_asset = ''usdc'',
     vq_pay_to = ''shop'', vq_amount = 5, vq_amount_decimal = ''5'', vq_max_timeout_seconds = 60\<rparr>
     sample_delegate ''b'' 33"

lemma sample_checks:
  "wire_from_str sample_near_codec r = Some sample_wire"
  "check_wire NearTestnet sample_wire = Inr (NearTestnet, 60)"
  "check_signature sample_near_codec sample_wire
     = Inr \<lparr>dd_bytes = ''b'', dd_signed_delegate = sample_delegate, dd_payment_hash = 33\<rparr>"
  "relayer \<noteq> ''alice'' \<Longrightarrow> check_action sample_near_codec relayer default_verification_policy
     sample_wire_requirements (sd_delegate_action sample_delegate) = Inr ()"
  "check_action sample_near_codec ''alice'' default_verification_policy
     sample_wire_requirements (sd_delegate_action sample_delegate) = Inl RelayerCannotBePayer"
  by (simp_all add: sample_near_codec_def sample_wire_def check_wire_def value_is_two_def timeout_seconds_def
      sample_wire_requirements_def near_network_try_from_def check_signature_def encoded_delegate_def jget_def
      decode_signed_delegate_def hash_signed_delegate_bytes_def sample_delegate_def check_action_def
      decode_ft_transfer_args_def is_ascii_digit_def one_yocto_def default_verification_policy_def
      default_max_sponsored_gas_def)

lemma sample_window:
  "check_window 60 \<lparr>fb_height = 100, fb_hash = 1\<rparr> (sd_delegate_action sample_delegate) = Inr ()"
  by (simp add: check_window_def checked_sub_def nonce_range_multiplier_def sample_delegate_def
      saturating_mul_def max_def word_le_nat_alt word_less_nat_alt)

lemma sample_verified:
  "verify_proto_request sample_near_codec NearTestnet ''relayer'' sample_reader default_verification_policy ''r''
     = Inr sample_near_payment"
proof -
  have five: "parse_decimal ''5'' = Some 5" "parse_decimal ''7'' = Some 7"
    by (simp_all add: parse_decimal_def is_ascii_digit_def parse_digits_def digit_value_def)
  have q: "wi_payment_requirements sample_wire = sample_wire_requirements" by (simp add: sample_wire_def)
  have b: "rd_final_block sample_reader = Inr \<lparr>fb_height = 100, fb_hash = 1\<rparr>" by (simp add: sample_reader_def)
  show ?thesis
    unfolding verify_proto_request_def
    by (simp add: sample_checks sample_window q b Let_def)
       (simp add: check_access_key_def view_existing_def check_token_def check_balance_def check_storage_def
         sample_reader_def sample_near_codec_def sample_delegate_def sample_wire_requirements_def five
         sample_near_payment_def)
qed





end
