(* ===== verification/Near_Receipt.thy ===== *)
theory Near_Receipt
  imports Near_Types
begin

text \<open>
  Interpretation of a final NEAR outcome: the graph transaction, delegate receipt, token receipt.
  \<open>interpret_final_outcome\<close> searches the graph breadth first and then sorts it topologically; the second
  loop is run with one unit of fuel per visited receipt, and \<open>None\<close> would mean it had not returned
  (\<open>interpret_returns\<close> shows this never happens). Sets and maps with unspecified iteration order are lists
  in insertion order, and counters are naturals, bounded by the number of edges.
\<close>

datatype receipt_validation_error =
    NotStarted
  | ExecutionPending
  | FinalFailure string
  | TransactionFailure string
  | InvalidDelegateReceiptCount
  | MissingDelegateReceipt
  | InvalidDelegateExecutor
  | DelegateFailure string
  | IncompleteReceiptGraph
  | DuplicateReceiptOutcome
  | CyclicReceiptGraph
  | ReachableReceiptFailure string
  | InvalidTokenReceiptCount
  | TokenReceiptNotSuccessful
  | TokenReceiptFailure string
  | TransactionHashMismatch
  | TransactionOutcomeIdMismatch
  | TransactionSignerMismatch
  | InvalidTransactionExecutor
  | TransactionReceiverMismatch

fun is_definitive_failure :: "receipt_validation_error \<Rightarrow> bool" where
  "is_definitive_failure (FinalFailure _) = True"
| "is_definitive_failure (TransactionFailure _) = True"
| "is_definitive_failure (DelegateFailure _) = True"
| "is_definitive_failure (ReachableReceiptFailure _) = True"
| "is_definitive_failure (TokenReceiptFailure _) = True"
| "is_definitive_failure _ = False"

datatype execution_status =
    StatusUnknown | StatusFailure string | SuccessValue bytes | SuccessReceiptId crypto_hash

record execution_outcome =
  eo_id :: crypto_hash
  eo_receipt_ids :: "crypto_hash list"
  eo_executor_id :: account_id
  eo_status :: execution_status
  eo_gas_burnt :: u64
  eo_tokens_burnt :: u128

datatype final_execution_status = FinalNotStarted | FinalStarted | FinalFailed string | FinalSuccess bytes

record final_outcome =
  fo_status :: final_execution_status
  fo_transaction_hash :: crypto_hash
  fo_signer_id :: account_id
  fo_receiver_id :: account_id
  fo_transaction_outcome :: execution_outcome
  fo_receipts_outcome :: "execution_outcome list"

record successful_transfer_receipt =
  sr_receipt_id :: crypto_hash
  sr_value :: bytes

fun execution_failure :: "execution_status \<Rightarrow> string option" where
  "execution_failure (StatusFailure error) = Some error"
| "execution_failure _ = None"

fun index_loop :: "execution_outcome list \<Rightarrow> execution_outcome list \<Rightarrow>
   receipt_validation_error + execution_outcome list" where
  "index_loop indexed [] = Inr indexed"
| "index_loop indexed (r # rs) =
     (if eo_id r \<in> eo_id ` set indexed then Inl DuplicateReceiptOutcome
      else index_loop (indexed @ [r]) rs)"

definition by_id :: "execution_outcome list \<Rightarrow> receipt_validation_error + execution_outcome list" where
  "by_id outcomes = index_loop [] outcomes"

definition receipt_at :: "execution_outcome list \<Rightarrow> crypto_hash \<Rightarrow> execution_outcome option" where
  "receipt_at outcomes i = find (\<lambda>r. eo_id r = i) outcomes"

section \<open>The search\<close>

lemma receipt_at_mem: "receipt_at outcomes i = Some r \<Longrightarrow> r \<in> set outcomes \<and> eo_id r = i"
  by (auto simp: receipt_at_def find_Some_iff)

function visit :: "execution_outcome list \<Rightarrow> crypto_hash \<Rightarrow> crypto_hash list \<Rightarrow> crypto_hash list \<Rightarrow>
   receipt_validation_error + crypto_hash list" where
  "visit outcomes token [] visited = Inr visited"
| "visit outcomes token (i # queue) visited =
     (if i \<in> set visited then visit outcomes token queue visited
      else case receipt_at outcomes i of
        None \<Rightarrow> Inl IncompleteReceiptGraph
      | Some r \<Rightarrow>
          (case execution_failure (eo_status r) of
             Some error \<Rightarrow> Inl (ReachableReceiptFailure error)
           | None \<Rightarrow>
               if eo_id r \<noteq> token \<and> eo_status r = StatusUnknown then Inl IncompleteReceiptGraph
               else visit outcomes token (queue @ eo_receipt_ids r) (visited @ [i])))"
  by pat_completeness auto

termination
proof (relation "measures [\<lambda>(outcomes, token, queue, visited). card (eo_id ` set outcomes - set visited),
    \<lambda>(outcomes, token, queue, visited). length queue]", goal_cases)
  case (3 outcomes token i queue visited r)
  then have "i \<in> eo_id ` set outcomes - set visited" using receipt_at_mem by fastforce
  then have "card (eo_id ` set outcomes - set (visited @ [i])) < card (eo_id ` set outcomes - set visited)"
    by (intro psubset_card_mono) auto
  then show ?case by simp
qed auto

section \<open>The topological sort\<close>

fun bump :: "(crypto_hash \<Rightarrow> nat option) \<Rightarrow> crypto_hash list \<Rightarrow> crypto_hash \<Rightarrow> nat option" where
  "bump indegrees [] = indegrees"
| "bump indegrees (child # children) =
     bump (case indegrees child of None \<Rightarrow> indegrees | Some d \<Rightarrow> indegrees(child \<mapsto> d + 1)) children"

fun count_edges :: "execution_outcome list \<Rightarrow> (crypto_hash \<Rightarrow> nat option) \<Rightarrow> crypto_hash list \<Rightarrow>
   receipt_validation_error + (crypto_hash \<Rightarrow> nat option)" where
  "count_edges outcomes indegrees [] = Inr indegrees"
| "count_edges outcomes indegrees (i # visited) =
     (case receipt_at outcomes i of
        None \<Rightarrow> Inl IncompleteReceiptGraph
      | Some r \<Rightarrow> count_edges outcomes (bump indegrees (eo_receipt_ids r)) visited)"

fun release :: "(crypto_hash \<Rightarrow> nat option) \<Rightarrow> crypto_hash list \<Rightarrow> crypto_hash list \<Rightarrow>
   (crypto_hash \<Rightarrow> nat option) \<times> crypto_hash list" where
  "release indegrees roots [] = (indegrees, roots)"
| "release indegrees roots (child # children) =
     (case indegrees child of
        None \<Rightarrow> release indegrees roots children
      | Some d \<Rightarrow> release (indegrees(child \<mapsto> d - 1)) (if d - 1 = 0 then roots @ [child] else roots) children)"

fun topological_count :: "execution_outcome list \<Rightarrow> nat \<Rightarrow> (crypto_hash \<Rightarrow> nat option) \<Rightarrow> crypto_hash list \<Rightarrow>
   nat \<Rightarrow> (receipt_validation_error + nat) option" where
  "topological_count outcomes fuel indegrees [] sorted_count = Some (Inr sorted_count)"
| "topological_count outcomes 0 indegrees (i # roots) sorted_count = None"
| "topological_count outcomes (Suc fuel) indegrees (i # roots) sorted_count =
     (case receipt_at outcomes i of
        None \<Rightarrow> Some (Inl IncompleteReceiptGraph)
      | Some r \<Rightarrow>
          (case release indegrees roots (eo_receipt_ids r) of
             (indegrees', roots') \<Rightarrow> topological_count outcomes fuel indegrees' roots' (sorted_count + 1)))"

definition initial_indegrees :: "crypto_hash list \<Rightarrow> crypto_hash \<Rightarrow> nat option" where
  "initial_indegrees visited i = (if i \<in> set visited then Some 0 else None)"

text \<open>The cycle check over the visited receipts: \<open>Some (Inr ())\<close> when every one of them was sorted.\<close>

definition check_acyclic :: "execution_outcome list \<Rightarrow> crypto_hash list \<Rightarrow> (receipt_validation_error + unit) option" where
  "check_acyclic outcomes visited =
     (case count_edges outcomes (initial_indegrees visited) visited of
        Inl e \<Rightarrow> Some (Inl e)
      | Inr indegrees \<Rightarrow>
          (case topological_count outcomes (length visited) indegrees
                  (filter (\<lambda>i. indegrees i = Some 0) visited) 0 of
             None \<Rightarrow> None
           | Some (Inl e) \<Rightarrow> Some (Inl e)
           | Some (Inr sorted_count) \<Rightarrow>
               Some (if sorted_count \<noteq> length visited then Inl CyclicReceiptGraph else Inr ())))"

section \<open>Interpretation\<close>

definition delegate_receipt ::
  "final_outcome \<Rightarrow> account_id \<Rightarrow> receipt_validation_error + execution_outcome list \<times> execution_outcome" where
  "delegate_receipt outcome payer =
     (case fo_status outcome of
        FinalNotStarted \<Rightarrow> Inl NotStarted
      | FinalStarted \<Rightarrow> Inl ExecutionPending
      | FinalFailed error \<Rightarrow> Inl (FinalFailure error)
      | FinalSuccess _ \<Rightarrow>
        (case execution_failure (eo_status (fo_transaction_outcome outcome)) of
           Some error \<Rightarrow> Inl (TransactionFailure error)
         | None \<Rightarrow>
           if eo_status (fo_transaction_outcome outcome) = StatusUnknown then Inl IncompleteReceiptGraph
           else if length (eo_receipt_ids (fo_transaction_outcome outcome)) \<noteq> 1
           then Inl InvalidDelegateReceiptCount
           else bind_res (by_id (fo_receipts_outcome outcome)) (\<lambda>outcomes.
             bind_res (ok_or (receipt_at outcomes (hd (eo_receipt_ids (fo_transaction_outcome outcome))))
               MissingDelegateReceipt) (\<lambda>delegate.
             if eo_executor_id delegate \<noteq> payer then Inl InvalidDelegateExecutor
             else case execution_failure (eo_status delegate) of
               Some error \<Rightarrow> Inl (DelegateFailure error)
             | None \<Rightarrow>
               if eo_status delegate = StatusUnknown then Inl IncompleteReceiptGraph
               else Inr (outcomes, delegate)))))"

definition token_receipt ::
  "execution_outcome list \<Rightarrow> execution_outcome \<Rightarrow> account_id \<Rightarrow> receipt_validation_error + execution_outcome" where
  "token_receipt outcomes delegate asset =
     (if \<exists>i \<in> set (eo_receipt_ids delegate). receipt_at outcomes i = None then Inl IncompleteReceiptGraph
      else case filter (\<lambda>r. eo_executor_id r = asset) (List.map_filter (receipt_at outcomes) (eo_receipt_ids delegate)) of
        [token] \<Rightarrow> Inr token
      | _ \<Rightarrow> Inl InvalidTokenReceiptCount)"

fun token_verdict :: "execution_outcome \<Rightarrow> receipt_validation_error + successful_transfer_receipt" where
  "token_verdict token =
     (case eo_status token of
        SuccessValue v \<Rightarrow> Inr \<lparr>sr_receipt_id = eo_id token, sr_value = v\<rparr>
      | StatusFailure error \<Rightarrow> Inl (TokenReceiptFailure error)
      | _ \<Rightarrow> Inl TokenReceiptNotSuccessful)"

definition interpret_final_outcome ::
  "final_outcome \<Rightarrow> account_id \<Rightarrow> account_id \<Rightarrow> (receipt_validation_error + successful_transfer_receipt) option" where
  "interpret_final_outcome outcome payer asset =
     (case delegate_receipt outcome payer of
        Inl e \<Rightarrow> Some (Inl e)
      | Inr (outcomes, delegate) \<Rightarrow>
        (case token_receipt outcomes delegate asset of
           Inl e \<Rightarrow> Some (Inl e)
         | Inr token \<Rightarrow>
           (case visit outcomes (eo_id token) (eo_receipt_ids (fo_transaction_outcome outcome)) [] of
              Inl e \<Rightarrow> Some (Inl e)
            | Inr visited \<Rightarrow>
              (case check_acyclic outcomes visited of
                 None \<Rightarrow> None
               | Some (Inl e) \<Rightarrow> Some (Inl e)
               | Some (Inr _) \<Rightarrow> Some (token_verdict token)))))"

definition validate_final_outcome_identity ::
  "final_outcome \<Rightarrow> crypto_hash \<Rightarrow> account_id \<Rightarrow> account_id \<Rightarrow> receipt_validation_error + unit" where
  "validate_final_outcome_identity outcome expected_hash expected_signer expected_receiver =
     (if fo_transaction_hash outcome \<noteq> expected_hash then Inl TransactionHashMismatch
      else if eo_id (fo_transaction_outcome outcome) \<noteq> expected_hash then Inl TransactionOutcomeIdMismatch
      else if fo_signer_id outcome \<noteq> expected_signer then Inl TransactionSignerMismatch
      else if fo_receiver_id outcome \<noteq> expected_receiver then Inl TransactionReceiverMismatch
      else if eo_executor_id (fo_transaction_outcome outcome) \<noteq> expected_signer
      then Inl InvalidTransactionExecutor
      else Inr ())"

section \<open>The graph\<close>

definition children :: "execution_outcome list \<Rightarrow> crypto_hash \<Rightarrow> crypto_hash list" where
  "children outcomes i = (case receipt_at outcomes i of None \<Rightarrow> [] | Some r \<Rightarrow> eo_receipt_ids r)"

definition spawns :: "execution_outcome list \<Rightarrow> (crypto_hash \<times> crypto_hash) set" where
  "spawns outcomes = {(a, b). b \<in> set (children outcomes a)}"

definition reachable_receipts :: "execution_outcome list \<Rightarrow> crypto_hash \<Rightarrow> crypto_hash set" where
  "reachable_receipts outcomes i = (spawns outcomes)\<^sup>* `` {i}"

definition clean_receipt :: "execution_outcome list \<Rightarrow> crypto_hash \<Rightarrow> crypto_hash \<Rightarrow> bool" where
  "clean_receipt outcomes token i \<longleftrightarrow>
     (\<exists>r. receipt_at outcomes i = Some r \<and> execution_failure (eo_status r) = None \<and>
        (i = token \<or> eo_status r \<noteq> StatusUnknown))"

lemma index_loop_eq:
  "distinct (map eo_id indexed) \<Longrightarrow>
   index_loop indexed rs = (if distinct (map eo_id (indexed @ rs)) then Inr (indexed @ rs) else Inl DuplicateReceiptOutcome)"
  by (induction rs arbitrary: indexed) (auto simp: image_iff)

lemma by_id_eq:
  "by_id outcomes = (if distinct (map eo_id outcomes) then Inr outcomes else Inl DuplicateReceiptOutcome)"
  by (simp add: by_id_def index_loop_eq)

lemma visit_sound:
  assumes "visit outcomes token queue visited = Inr V" and "distinct visited"
    and "\<And>i. i \<in> set visited \<Longrightarrow> clean_receipt outcomes token i \<and> set (children outcomes i) \<subseteq> set visited \<union> set queue"
  shows "distinct V \<and> set visited \<union> set queue \<subseteq> set V \<and>
     set V \<subseteq> (spawns outcomes)\<^sup>* `` (set visited \<union> set queue) \<and>
     (\<forall>i \<in> set V. clean_receipt outcomes token i \<and> set (children outcomes i) \<subseteq> set V)"
  using assms
proof (induction outcomes token queue visited rule: visit.induct)
  case (1 outcomes token visited)
  then show ?case by auto
next
  case (2 outcomes token i queue visited)
  show ?case
  proof (cases "i \<in> set visited")
    case True
    then show ?thesis using 2 by (simp add: insert_absorb)
  next
    case False
    then obtain r where r: "receipt_at outcomes i = Some r"
      and nofail: "execution_failure (eo_status r) = None"
      and known: "\<not> (eo_id r \<noteq> token \<and> eo_status r = StatusUnknown)"
      and rest: "visit outcomes token (queue @ eo_receipt_ids r) (visited @ [i]) = Inr V"
      using "2.prems"(1) by (auto split: option.splits if_splits)
    have ch: "children outcomes i = eo_receipt_ids r" by (simp add: children_def r)
    have clean: "clean_receipt outcomes token i"
      using r nofail known receipt_at_mem[OF r] by (auto simp: clean_receipt_def)
    have inv: "clean_receipt outcomes token j \<and>
        set (children outcomes j) \<subseteq> set (visited @ [i]) \<union> set (queue @ eo_receipt_ids r)"
      if "j \<in> set (visited @ [i])" for j
      using that "2.prems"(3)[of j] clean ch by auto
    have IH: "distinct V \<and> set (visited @ [i]) \<union> set (queue @ eo_receipt_ids r) \<subseteq> set V \<and>
       set V \<subseteq> (spawns outcomes)\<^sup>* `` (set (visited @ [i]) \<union> set (queue @ eo_receipt_ids r)) \<and>
       (\<forall>i \<in> set V. clean_receipt outcomes token i \<and> set (children outcomes i) \<subseteq> set V)"
      using "2.IH"(2)[OF False r nofail known rest _ inv] False "2.prems"(2) by simp
    have "set (eo_receipt_ids r) \<subseteq> (spawns outcomes)\<^sup>* `` {i}"
      unfolding ch[symmetric] by (auto simp: spawns_def)
    then have "(spawns outcomes)\<^sup>* `` (set (visited @ [i]) \<union> set (queue @ eo_receipt_ids r)) \<subseteq>
        (spawns outcomes)\<^sup>* `` (set visited \<union> set (i # queue))"
      by (auto dest: rtrancl_trans)
    then show ?thesis using IH by auto
  qed
qed

lemma visit_complete:
  assumes "\<And>i. i \<in> (spawns outcomes)\<^sup>* `` (set queue) \<Longrightarrow> clean_receipt outcomes token i"
  shows "\<exists>V. visit outcomes token queue visited = Inr V"
  using assms
proof (induction outcomes token queue visited rule: visit.induct)
  case (2 outcomes token i queue visited)
  show ?case
  proof (cases "i \<in> set visited")
    case True
    then show ?thesis using 2 by auto
  next
    case False
    obtain r where r: "receipt_at outcomes i = Some r" "execution_failure (eo_status r) = None"
      "\<not> (eo_id r \<noteq> token \<and> eo_status r = StatusUnknown)"
      using "2.prems"[of i] receipt_at_mem by (fastforce simp: clean_receipt_def)
    have "set (eo_receipt_ids r) \<subseteq> (spawns outcomes)\<^sup>* `` {i}"
      using r(1) by (auto simp: spawns_def children_def)
    then have "(spawns outcomes)\<^sup>* `` set (queue @ eo_receipt_ids r) \<subseteq> (spawns outcomes)\<^sup>* `` set (i # queue)"
      by (auto dest: rtrancl_trans)
    then have "\<exists>V. visit outcomes token (queue @ eo_receipt_ids r) (visited @ [i]) = Inr V"
      using "2.IH"(2)[OF False r] "2.prems" by blast
    then show ?thesis using False r by simp
  qed
qed simp

section \<open>The topological sort decides acyclicity\<close>

definition indegree :: "execution_outcome list \<Rightarrow> crypto_hash set \<Rightarrow> crypto_hash \<Rightarrow> nat" where
  "indegree outcomes U v = (\<Sum>u \<in> U. count_list (children outcomes u) v)"

definition degrees :: "crypto_hash set \<Rightarrow> (crypto_hash \<Rightarrow> nat) \<Rightarrow> crypto_hash \<Rightarrow> nat option" where
  "degrees V f v = (if v \<in> V then Some (f v) else None)"

text \<open>\<open>roots\<close> holds each unsorted receipt of degree zero once, and nothing unsorted leads into the sorted ones.\<close>

definition frontier :: "crypto_hash set \<Rightarrow> crypto_hash set \<Rightarrow> (crypto_hash \<Rightarrow> nat) \<Rightarrow> crypto_hash list \<Rightarrow> bool" where
  "frontier V S f roots \<longleftrightarrow>
     distinct roots \<and> set roots = {v \<in> V. f v = 0} - S \<and> S \<subseteq> V \<and> (\<forall>v \<in> S. f v = 0)"

lemma bump_eq: "bump m cs v = map_option (\<lambda>d. d + count_list cs v) (m v)"
  by (induction cs arbitrary: m) (auto split: option.splits simp: option.map_comp comp_def option.map_ident)

lemma count_edges_eq:
  assumes "\<And>i. i \<in> set vs \<Longrightarrow> receipt_at outcomes i \<noteq> None"
  shows "\<exists>m'. count_edges outcomes m vs = Inr m' \<and>
     (\<forall>v. m' v = map_option (\<lambda>d. d + (\<Sum>u \<leftarrow> vs. count_list (children outcomes u) v)) (m v))"
  using assms
proof (induction vs arbitrary: m)
  case Nil
  then show ?case by (simp add: option.map_ident)
next
  case (Cons i vs)
  then obtain r where r: "receipt_at outcomes i = Some r" by fastforce
  obtain m' where "count_edges outcomes (bump m (eo_receipt_ids r)) vs = Inr m'"
    and "\<And>v. m' v = map_option (\<lambda>d. d + (\<Sum>u \<leftarrow> vs. count_list (children outcomes u) v)) (bump m (eo_receipt_ids r) v)"
    using Cons.IH[of "bump m (eo_receipt_ids r)"] Cons.prems by auto
  then show ?case using r
    by (auto simp: bump_eq option.map_comp comp_def children_def add.assoc)
qed

lemma release_spec:
  "frontier V S (\<lambda>v. f v + count_list cs v) roots \<Longrightarrow>
   \<exists>roots'. release (degrees V (\<lambda>v. f v + count_list cs v)) roots cs = (degrees V f, roots') \<and> frontier V S f roots'"
proof (induction cs arbitrary: roots)
  case Nil
  then show ?case by simp
next
  case (Cons c cs)
  let ?g = "\<lambda>v. f v + count_list cs v"
  show ?case
  proof (cases "c \<in> V")
    case True
    let ?roots = "if ?g c = 0 then roots @ [c] else roots"
    have at_c: "degrees V (\<lambda>v. f v + count_list (c # cs) v) c = Some (Suc (?g c))"
      using True by (simp add: degrees_def)
    have upd: "(degrees V (\<lambda>v. f v + count_list (c # cs) v))(c \<mapsto> ?g c) = degrees V ?g"
      using True by (auto simp: degrees_def fun_eq_iff)
    have "frontier V S ?g ?roots"
      using Cons.prems True by (auto simp: frontier_def split: if_splits)
    from Cons.IH[OF this] show ?thesis
      by (simp only: release.simps at_c upd option.case diff_Suc_1)
  next
    case False
    have "degrees V (\<lambda>v. f v + count_list (c # cs) v) = degrees V ?g"
      using False by (auto simp: degrees_def fun_eq_iff)
    moreover have "frontier V S ?g roots"
      using Cons.prems False by (auto simp: frontier_def split: if_splits)
    moreover have "degrees V ?g c = None" using False by (simp add: degrees_def)
    ultimately show ?thesis using Cons.IH[of roots] by (simp only: release.simps option.case)
  qed
qed

lemma indegree_0_iff:
  "finite U \<Longrightarrow> indegree outcomes U v = 0 \<longleftrightarrow> (\<forall>u \<in> U. (u, v) \<notin> spawns outcomes)"
  by (auto simp: indegree_def spawns_def count_list_0_iff)

text \<open>A ranking of the sorted receipts along which every edge between them goes up.\<close>

definition ranked :: "execution_outcome list \<Rightarrow> crypto_hash set \<Rightarrow> bool" where
  "ranked outcomes S \<longleftrightarrow>
     (\<exists>rank :: crypto_hash \<Rightarrow> nat. \<forall>u v. u \<in> S \<longrightarrow> v \<in> S \<longrightarrow>
        rank u < card S \<and> ((u, v) \<in> spawns outcomes \<longrightarrow> rank u < rank v))"

lemma ranked_insert:
  assumes "ranked outcomes S" and "finite S" and "x \<notin> S"
    and "\<And>v. v \<in> insert x S \<Longrightarrow> (x, v) \<notin> spawns outcomes"
  shows "ranked outcomes (insert x S)"
proof -
  obtain rank :: "crypto_hash \<Rightarrow> nat" where
    rank: "\<And>u v. u \<in> S \<Longrightarrow> v \<in> S \<Longrightarrow> rank u < card S \<and> ((u, v) \<in> spawns outcomes \<longrightarrow> rank u < rank v)"
    using assms(1) unfolding ranked_def by blast
  let ?rank = "rank(x := card S)"
  have "?rank u < card (insert x S) \<and> ((u, v) \<in> spawns outcomes \<longrightarrow> ?rank u < ?rank v)"
    if "u \<in> insert x S" "v \<in> insert x S" for u v
  proof (cases "u = x")
    case True
    then show ?thesis using assms that by simp
  next
    case False
    then show ?thesis using rank[of u v] rank[of u u] that assms(2,3) by auto
  qed
  then show ?thesis unfolding ranked_def by blast
qed

lemma ranked_acyclic:
  assumes "ranked outcomes V"
  shows "acyclic (spawns outcomes \<inter> V \<times> V)"
proof -
  obtain rank :: "crypto_hash \<Rightarrow> nat" where "spawns outcomes \<inter> V \<times> V \<subseteq> measure rank"
    using assms unfolding ranked_def by (auto simp: subset_iff in_measure)
  then show ?thesis using wf_acyclic wf_subset wf_measure by blast
qed

lemma indegree_step:
  assumes "finite V" and "x \<in> V - S"
  shows "indegree outcomes (V - S) v = indegree outcomes (V - insert x S) v + count_list (children outcomes x) v"
proof -
  have "V - S = insert x (V - insert x S)" using assms(2) by auto
  then show ?thesis using assms(1) by (simp add: indegree_def)
qed

lemma topological_count_spec:
  assumes "finite V" and "\<And>i. i \<in> V \<Longrightarrow> receipt_at outcomes i \<noteq> None"
    and "frontier V S (indegree outcomes (V - S)) roots" and "card (V - S) \<le> fuel" and "ranked outcomes S"
  shows "\<exists>S'. topological_count outcomes fuel (degrees V (indegree outcomes (V - S))) roots (card S) = Some (Inr (card S')) \<and>
     ranked outcomes S' \<and> frontier V S' (indegree outcomes (V - S')) []"
  using assms(3-5)
proof (induction fuel arbitrary: S roots)
  case 0
  then have "V - S = {}" using assms(1) by simp
  then have "set roots = {}" using "0.prems"(1) by (auto simp: frontier_def)
  then have "roots = []" by simp
  then show ?case using "0.prems" by (intro exI[of _ S]) simp
next
  case (Suc fuel)
  show ?case
  proof (cases roots)
    case Nil
    then show ?thesis using Suc.prems by (intro exI[of _ S]) simp
  next
    case (Cons x xs)
    let ?S = "insert x S"
    have x: "x \<in> V - S" and S: "S \<subseteq> V"
      and zero: "\<And>v. v \<in> ?S \<Longrightarrow> indegree outcomes (V - S) v = 0"
      using Suc.prems(1) Cons by (auto simp: frontier_def)
    then have fin: "finite S" using assms(1) finite_subset by blast
    obtain r where r: "receipt_at outcomes x = Some r" using assms(2) x by blast
    have step: "indegree outcomes (V - S) = (\<lambda>v. indegree outcomes (V - ?S) v + count_list (eo_receipt_ids r) v)"
      using indegree_step[OF assms(1) x] r by (auto simp: children_def)
    have "frontier V ?S (\<lambda>v. indegree outcomes (V - ?S) v + count_list (eo_receipt_ids r) v) xs"
      using Suc.prems(1) zero x unfolding Cons step[symmetric] by (auto simp: frontier_def)
    from release_spec[OF this] obtain roots' where
      rel: "release (degrees V (indegree outcomes (V - S))) xs (eo_receipt_ids r) = (degrees V (indegree outcomes (V - ?S)), roots')"
      and fr: "frontier V ?S (indegree outcomes (V - ?S)) roots'"
      unfolding step by blast
    have "V - ?S = (V - S) - {x}" by auto
    then have le: "card (V - ?S) \<le> fuel" using Suc.prems(2) x assms(1) by simp
    have "ranked outcomes ?S"
    proof (rule ranked_insert[OF Suc.prems(3) fin])
      show "x \<notin> S" using x by simp
      show "(x, v) \<notin> spawns outcomes" if "v \<in> ?S" for v
        using zero[OF that] indegree_0_iff[of "V - S" outcomes v] assms(1) x by auto
    qed
    from Suc.IH[OF fr le this] show ?thesis
      using Cons r rel fin x by simp
  qed
qed

lemma frontier_done:
  assumes "finite V" and "frontier V S (indegree outcomes (V - S)) []" and "ranked outcomes S"
  shows "card S = card V \<longleftrightarrow> acyclic (spawns outcomes \<inter> V \<times> V)"
proof
  assume "card S = card V"
  then have "S = V" using assms by (simp add: frontier_def card_subset_eq)
  then show "acyclic (spawns outcomes \<inter> V \<times> V)" using assms(3) ranked_acyclic by simp
next
  assume ac: "acyclic (spawns outcomes \<inter> V \<times> V)"
  have "finite (spawns outcomes \<inter> V \<times> V)" using assms(1) by simp
  then have wf: "wf (spawns outcomes \<inter> V \<times> V)" using ac by (rule finite_acyclic_wf)
  have "V - S = {}"
  proof (rule ccontr)
    assume "V - S \<noteq> {}"
    then obtain z where z: "z \<in> V - S" and min: "\<And>y. (y, z) \<in> spawns outcomes \<inter> V \<times> V \<Longrightarrow> y \<notin> V - S"
      using wfE_min'[OF wf] by metis
    have "indegree outcomes (V - S) z \<noteq> 0" using assms(2) z by (auto simp: frontier_def)
    then obtain u where "u \<in> V - S" "(u, z) \<in> spawns outcomes"
      using indegree_0_iff[of "V - S" outcomes z] assms(1) by auto
    then show False using min z by blast
  qed
  then have "S = V" using assms(2) by (auto simp: frontier_def)
  then show "card S = card V" by simp
qed

lemma check_acyclic_eq:
  assumes "distinct visited" and "\<And>i. i \<in> set visited \<Longrightarrow> receipt_at outcomes i \<noteq> None"
  shows "check_acyclic outcomes visited =
     Some (if acyclic (spawns outcomes \<inter> set visited \<times> set visited) then Inr () else Inl CyclicReceiptGraph)"
proof -
  let ?V = "set visited"
  obtain m where m: "count_edges outcomes (initial_indegrees visited) visited = Inr m"
    and "\<And>v. m v = map_option (\<lambda>d. d + (\<Sum>u \<leftarrow> visited. count_list (children outcomes u) v)) (initial_indegrees visited v)"
    using count_edges_eq[OF assms(2)] by blast
  then have m_eq: "m = degrees ?V (indegree outcomes (?V - {}))"
    using assms(1) by (auto simp: fun_eq_iff degrees_def initial_indegrees_def indegree_def sum_list_distinct_conv_sum_set)
  have "frontier ?V {} (indegree outcomes (?V - {})) (filter (\<lambda>i. m i = Some 0) visited)"
    using assms(1) by (auto simp: frontier_def m_eq degrees_def)
  from topological_count_spec[OF _ assms(2) this, of "length visited"] obtain S where
    "topological_count outcomes (length visited) m (filter (\<lambda>i. m i = Some 0) visited) 0 = Some (Inr (card S))"
    and S: "ranked outcomes S" "frontier ?V S (indegree outcomes (?V - S)) []"
    using distinct_card[OF assms(1)] by (auto simp: m_eq ranked_def)
  then show ?thesis
    using m frontier_done[OF _ S(2,1)] distinct_card[OF assms(1)] by (simp add: check_acyclic_def)
qed

section \<open>What a verdict means\<close>

definition settled_transfer :: "final_outcome \<Rightarrow> account_id \<Rightarrow> account_id \<Rightarrow> successful_transfer_receipt \<Rightarrow> bool" where
  "settled_transfer outcome payer asset receipt \<longleftrightarrow>
     (\<exists>v d delegate token.
        fo_status outcome = FinalSuccess v \<and>
        execution_failure (eo_status (fo_transaction_outcome outcome)) = None \<and>
        eo_status (fo_transaction_outcome outcome) \<noteq> StatusUnknown \<and>
        eo_receipt_ids (fo_transaction_outcome outcome) = [d] \<and>
        distinct (map eo_id (fo_receipts_outcome outcome)) \<and>
        receipt_at (fo_receipts_outcome outcome) d = Some delegate \<and>
        eo_executor_id delegate = payer \<and>
        filter (\<lambda>r. eo_executor_id r = asset)
          (List.map_filter (receipt_at (fo_receipts_outcome outcome)) (eo_receipt_ids delegate)) = [token] \<and>
        eo_status token = SuccessValue (sr_value receipt) \<and> sr_receipt_id receipt = eo_id token \<and>
        (\<forall>i \<in> reachable_receipts (fo_receipts_outcome outcome) d.
           \<exists>r. receipt_at (fo_receipts_outcome outcome) i = Some r \<and>
             execution_failure (eo_status r) = None \<and> eo_status r \<noteq> StatusUnknown) \<and>
        acyclic (spawns (fo_receipts_outcome outcome) \<inter>
          reachable_receipts (fo_receipts_outcome outcome) d \<times> reachable_receipts (fo_receipts_outcome outcome) d))"

lemma visit_reachable:
  assumes "visit outcomes token [d] [] = Inr V"
  shows "distinct V \<and> set V = reachable_receipts outcomes d \<and> (\<forall>i \<in> set V. clean_receipt outcomes token i)"
proof -
  have V: "distinct V \<and> set [] \<union> set [d] \<subseteq> set V \<and> set V \<subseteq> (spawns outcomes)\<^sup>* `` (set [] \<union> set [d]) \<and>
     (\<forall>i \<in> set V. clean_receipt outcomes token i \<and> set (children outcomes i) \<subseteq> set V)"
    by (rule visit_sound[OF assms]) simp_all
  have "i \<in> set V" if "(d, i) \<in> (spawns outcomes)\<^sup>*" for i
    using that V by (induction rule: rtrancl_induct) (auto simp: spawns_def)
  then show ?thesis using V by (auto simp: reachable_receipts_def)
qed

lemma visit_check_acyclic:
  assumes "visit outcomes token [d] [] = Inr V"
  shows "check_acyclic outcomes V =
     Some (if acyclic (spawns outcomes \<inter> reachable_receipts outcomes d \<times> reachable_receipts outcomes d)
           then Inr () else Inl CyclicReceiptGraph)"
proof -
  have V: "distinct V" "set V = reachable_receipts outcomes d" using visit_reachable[OF assms] by auto
  have present: "receipt_at outcomes i \<noteq> None" if "i \<in> set V" for i
    using visit_reachable[OF assms] that by (auto simp: clean_receipt_def)
  show ?thesis using check_acyclic_eq[OF V(1) present] unfolding V(2) by simp
qed

lemma delegate_receipt_Inr:
  "delegate_receipt outcome payer = Inr (outcomes, delegate) \<longleftrightarrow>
     (\<exists>v d. fo_status outcome = FinalSuccess v \<and>
        execution_failure (eo_status (fo_transaction_outcome outcome)) = None \<and>
        eo_status (fo_transaction_outcome outcome) \<noteq> StatusUnknown \<and>
        eo_receipt_ids (fo_transaction_outcome outcome) = [d] \<and>
        distinct (map eo_id (fo_receipts_outcome outcome)) \<and> outcomes = fo_receipts_outcome outcome \<and>
        receipt_at outcomes d = Some delegate \<and> eo_executor_id delegate = payer \<and>
        execution_failure (eo_status delegate) = None \<and> eo_status delegate \<noteq> StatusUnknown)"
  by (cases "eo_receipt_ids (fo_transaction_outcome outcome)")
    (auto simp: delegate_receipt_def by_id_eq ok_or_def bind_res_def
      split: final_execution_status.splits option.splits if_splits)

lemma token_receipt_Inr:
  "token_receipt outcomes delegate asset = Inr token \<longleftrightarrow>
     (\<forall>i \<in> set (eo_receipt_ids delegate). receipt_at outcomes i \<noteq> None) \<and>
     filter (\<lambda>r. eo_executor_id r = asset) (List.map_filter (receipt_at outcomes) (eo_receipt_ids delegate)) = [token]"
  by (auto simp: token_receipt_def split: list.splits)

lemma interpret_Inr:
  "interpret_final_outcome outcome payer asset = Some (Inr receipt) \<longleftrightarrow>
     (\<exists>outcomes delegate token d V.
        delegate_receipt outcome payer = Inr (outcomes, delegate) \<and>
        token_receipt outcomes delegate asset = Inr token \<and>
        eo_receipt_ids (fo_transaction_outcome outcome) = [d] \<and>
        visit outcomes (eo_id token) [d] [] = Inr V \<and>
        acyclic (spawns outcomes \<inter> reachable_receipts outcomes d \<times> reachable_receipts outcomes d) \<and>
        token_verdict token = Inr receipt)" (is "?L \<longleftrightarrow> ?R")
proof
  assume ?L
  then obtain outcomes delegate token V where *: "delegate_receipt outcome payer = Inr (outcomes, delegate)"
    "token_receipt outcomes delegate asset = Inr token"
    "visit outcomes (eo_id token) (eo_receipt_ids (fo_transaction_outcome outcome)) [] = Inr V"
    "check_acyclic outcomes V = Some (Inr ())" "token_verdict token = Inr receipt"
    by (simp add: interpret_final_outcome_def split: sum.splits prod.splits option.splits)
  then obtain d where "eo_receipt_ids (fo_transaction_outcome outcome) = [d]"
    by (auto simp: delegate_receipt_Inr)
  then show ?R using * visit_check_acyclic[of outcomes "eo_id token" d V] by (auto split: if_splits)
next
  assume ?R
  then show ?L using visit_check_acyclic by (auto simp: interpret_final_outcome_def)
qed

lemma map_filter_mem:
  "filter P (List.map_filter f xs) = [t] \<Longrightarrow> P t \<and> (\<exists>i \<in> set xs. f i = Some t)"
proof -
  assume "filter P (List.map_filter f xs) = [t]"
  then have "t \<in> set (filter P (List.map_filter f xs))" by simp
  then show ?thesis by (force simp: List.map_filter_def)
qed

lemma child_reachable:
  "receipt_at outcomes d = Some delegate \<Longrightarrow> i \<in> set (eo_receipt_ids delegate) \<Longrightarrow>
   i \<in> reachable_receipts outcomes d"
  by (auto simp: reachable_receipts_def spawns_def children_def)

lemma interpret_some: "\<exists>verdict. interpret_final_outcome outcome payer asset = Some verdict"
proof (cases "delegate_receipt outcome payer")
  case (Inr found)
  then obtain outcomes delegate d where d: "delegate_receipt outcome payer = Inr (outcomes, delegate)"
    "eo_receipt_ids (fo_transaction_outcome outcome) = [d]"
    by (cases found) (auto simp: delegate_receipt_Inr)
  show ?thesis
  proof (cases "token_receipt outcomes delegate asset")
    case (Inr token)
    show ?thesis
    proof (cases "visit outcomes (eo_id token) [d] []")
      case V: (Inr V)
      show ?thesis using d Inr V visit_check_acyclic[OF V] by (simp add: interpret_final_outcome_def)
    qed (use d Inr in \<open>simp add: interpret_final_outcome_def\<close>)
  qed (use d in \<open>simp add: interpret_final_outcome_def\<close>)
qed (simp add: interpret_final_outcome_def)

text \<open>
  C37. The interpretation of a final NEAR outcome always returns: the search and the topological sort end on
  every receipt graph, cyclic, duplicated and incomplete ones included.\<close>

theorem interpret_returns: "\<exists>verdict. interpret_final_outcome outcome payer asset = Some verdict"
  by (rule interpret_some)

lemma interpret_sound:
  assumes "interpret_final_outcome outcome payer asset = Some (Inr receipt)"
  shows "settled_transfer outcome payer asset receipt"
proof -
  from assms obtain outcomes delegate token d V where *: "delegate_receipt outcome payer = Inr (outcomes, delegate)"
    "token_receipt outcomes delegate asset = Inr token" "eo_receipt_ids (fo_transaction_outcome outcome) = [d]"
    "visit outcomes (eo_id token) [d] [] = Inr V" "token_verdict token = Inr receipt"
    "acyclic (spawns outcomes \<inter> reachable_receipts outcomes d \<times> reachable_receipts outcomes d)"
    by (auto simp: interpret_Inr)
  have V: "\<forall>i \<in> reachable_receipts outcomes d. clean_receipt outcomes (eo_id token) i"
    using visit_reachable[OF *(4)] by simp
  obtain v where v: "eo_status token = SuccessValue v" "receipt = \<lparr>sr_receipt_id = eo_id token, sr_value = v\<rparr>"
    using *(5) by (auto split: execution_status.splits)
  obtain i where i: "receipt_at outcomes i = Some token"
    using *(2) map_filter_mem unfolding token_receipt_Inr by metis
  have "\<exists>r. receipt_at outcomes j = Some r \<and> execution_failure (eo_status r) = None \<and> eo_status r \<noteq> StatusUnknown"
    if "j \<in> reachable_receipts outcomes d" for j
    using V that i v(1) receipt_at_mem[OF i] by (auto simp: clean_receipt_def)
  then show ?thesis
    using *(1-3,6) v by (auto simp: settled_transfer_def delegate_receipt_Inr token_receipt_Inr)
qed

lemma interpret_complete:
  assumes "settled_transfer outcome payer asset receipt"
  shows "interpret_final_outcome outcome payer asset = Some (Inr receipt)"
proof -
  from assms obtain v d delegate token where *: "fo_status outcome = FinalSuccess v"
    "execution_failure (eo_status (fo_transaction_outcome outcome)) = None"
    "eo_status (fo_transaction_outcome outcome) \<noteq> StatusUnknown"
    "eo_receipt_ids (fo_transaction_outcome outcome) = [d]"
    "distinct (map eo_id (fo_receipts_outcome outcome))"
    "receipt_at (fo_receipts_outcome outcome) d = Some delegate" "eo_executor_id delegate = payer"
    "filter (\<lambda>r. eo_executor_id r = asset)
       (List.map_filter (receipt_at (fo_receipts_outcome outcome)) (eo_receipt_ids delegate)) = [token]"
    "eo_status token = SuccessValue (sr_value receipt)" "sr_receipt_id receipt = eo_id token"
    "acyclic (spawns (fo_receipts_outcome outcome) \<inter>
       reachable_receipts (fo_receipts_outcome outcome) d \<times> reachable_receipts (fo_receipts_outcome outcome) d)"
    and clean: "\<And>i. i \<in> reachable_receipts (fo_receipts_outcome outcome) d \<Longrightarrow>
       \<exists>r. receipt_at (fo_receipts_outcome outcome) i = Some r \<and>
         execution_failure (eo_status r) = None \<and> eo_status r \<noteq> StatusUnknown"
    unfolding settled_transfer_def by metis
  have "d \<in> reachable_receipts (fo_receipts_outcome outcome) d" by (simp add: reachable_receipts_def)
  then have "delegate_receipt outcome payer = Inr (fo_receipts_outcome outcome, delegate)"
    using * clean by (fastforce simp: delegate_receipt_Inr)
  moreover have "token_receipt (fo_receipts_outcome outcome) delegate asset = Inr token"
    using *(6,8) clean child_reachable by (fastforce simp: token_receipt_Inr)
  moreover obtain V where "visit (fo_receipts_outcome outcome) (eo_id token) [d] [] = Inr V"
    using visit_complete[of "fo_receipts_outcome outcome" "[d]" "eo_id token" "[]"] clean
    by (fastforce simp: clean_receipt_def reachable_receipts_def)
  ultimately show ?thesis
    using * by (auto simp: interpret_Inr)
qed

text \<open>
  C11. The interpretation accepts exactly the settled transfers: a final success whose transaction spawned one
  delegate receipt executed by the payer, which spawned exactly one receipt on the token contract, ended with
  a value; receipt ids are unique, every receipt reachable from the delegate is present, known and not failed,
  and the reachable graph has no cycle.\<close>

theorem interpret_accepts_iff:
  "interpret_final_outcome outcome payer asset = Some (Inr receipt) \<longleftrightarrow> settled_transfer outcome payer asset receipt"
  using interpret_sound interpret_complete by blast

definition failed_on_chain :: "final_outcome \<Rightarrow> bool" where
  "failed_on_chain outcome \<longleftrightarrow>
     (\<exists>error. fo_status outcome = FinalFailed error) \<or>
     (\<exists>error. eo_status (fo_transaction_outcome outcome) = StatusFailure error) \<or>
     (\<exists>d i r error. eo_receipt_ids (fo_transaction_outcome outcome) = [d] \<and>
        i \<in> reachable_receipts (fo_receipts_outcome outcome) d \<and>
        receipt_at (fo_receipts_outcome outcome) i = Some r \<and> eo_status r = StatusFailure error)"

lemma execution_failure_Some: "execution_failure s = Some error \<longleftrightarrow> s = StatusFailure error"
  by (cases s) auto

lemma visit_definitive:
  "visit outcomes token queue visited = Inl e \<Longrightarrow> is_definitive_failure e \<Longrightarrow>
   \<exists>i r error. i \<in> (spawns outcomes)\<^sup>* `` set queue \<and> receipt_at outcomes i = Some r \<and> eo_status r = StatusFailure error"
proof (induction outcomes token queue visited rule: visit.induct)
  case (2 outcomes token i queue visited)
  consider "i \<in> set visited" | r error where "i \<notin> set visited" "receipt_at outcomes i = Some r"
      "execution_failure (eo_status r) = Some error"
    | r where "i \<notin> set visited" "receipt_at outcomes i = Some r" "execution_failure (eo_status r) = None"
      "\<not> (eo_id r \<noteq> token \<and> eo_status r = StatusUnknown)"
    using "2.prems" by (auto split: option.splits if_splits)
  then show ?case
  proof cases
    case 1
    then have "\<exists>j r error. j \<in> (spawns outcomes)\<^sup>* `` set queue \<and> receipt_at outcomes j = Some r \<and> eo_status r = StatusFailure error"
      using "2.IH"(1) "2.prems" by simp
    then show ?thesis by auto
  next
    case (2 r error)
    then have "i \<in> (spawns outcomes)\<^sup>* `` set (i # queue)" "eo_status r = StatusFailure error"
      by (auto simp: execution_failure_Some)
    then show ?thesis using 2(2) by blast
  next
    case (3 r)
    have "set (eo_receipt_ids r) \<subseteq> (spawns outcomes)\<^sup>* `` {i}"
      using 3(2) by (auto simp: spawns_def children_def)
    then have sub: "(spawns outcomes)\<^sup>* `` set (queue @ eo_receipt_ids r) \<subseteq> (spawns outcomes)\<^sup>* `` set (i # queue)"
      by (auto dest: rtrancl_trans)
    have "visit outcomes token (queue @ eo_receipt_ids r) (visited @ [i]) = Inl e"
      using "2.prems"(1) 3 by simp
    from "2.IH"(2)[OF 3 this "2.prems"(2)] show ?thesis using sub by blast
  qed
qed simp

lemma delegate_receipt_definitive:
  "delegate_receipt outcome payer = Inl e \<Longrightarrow> is_definitive_failure e \<Longrightarrow> failed_on_chain outcome"
proof (unfold delegate_receipt_def, goal_cases)
  case 1
  then consider error where "fo_status outcome = FinalFailed error"
    | error where "execution_failure (eo_status (fo_transaction_outcome outcome)) = Some error"
    | d delegate error where "eo_receipt_ids (fo_transaction_outcome outcome) = [d]"
        "receipt_at (fo_receipts_outcome outcome) d = Some delegate"
        "execution_failure (eo_status delegate) = Some error"
    by (cases "eo_receipt_ids (fo_transaction_outcome outcome)")
      (auto simp: by_id_eq ok_or_def bind_res_def split: final_execution_status.splits option.splits if_splits)
  then show ?case
  proof cases
    case (3 d delegate error)
    have "d \<in> reachable_receipts (fo_receipts_outcome outcome) d" by (simp add: reachable_receipts_def)
    then show ?thesis using 3 unfolding failed_on_chain_def execution_failure_Some by metis
  qed (auto simp: failed_on_chain_def execution_failure_Some)
qed

lemma token_receipt_indefinite: "token_receipt outcomes delegate asset = Inl e \<Longrightarrow> \<not> is_definitive_failure e"
  by (auto simp: token_receipt_def split: if_splits list.splits)

lemma token_verdict_indefinite:
  assumes "visit outcomes (eo_id token) [d] [] = Inr V" and "token_verdict token = Inl e"
    and "receipt_at outcomes d = Some delegate" and "token_receipt outcomes delegate asset = Inr token"
  shows "\<not> is_definitive_failure e"
proof -
  obtain i where i: "i \<in> set (eo_receipt_ids delegate)" "receipt_at outcomes i = Some token"
    using assms(4) map_filter_mem unfolding token_receipt_Inr by metis
  then have "clean_receipt outcomes (eo_id token) i"
    using visit_reachable[OF assms(1)] child_reachable[OF assms(3)] by blast
  then have "execution_failure (eo_status token) = None" using i by (simp add: clean_receipt_def)
  then show ?thesis using assms(2) by (auto split: execution_status.splits)
qed

lemma interpret_definitive:
  assumes "interpret_final_outcome outcome payer asset = Some (Inl e)" and "is_definitive_failure e"
  shows "failed_on_chain outcome"
proof (cases "delegate_receipt outcome payer")
  case (Inl e')
  then show ?thesis using assms delegate_receipt_definitive by (simp add: interpret_final_outcome_def)
next
  case (Inr found)
  then obtain outcomes delegate d where d: "delegate_receipt outcome payer = Inr (outcomes, delegate)"
    "eo_receipt_ids (fo_transaction_outcome outcome) = [d]" "outcomes = fo_receipts_outcome outcome"
    "receipt_at outcomes d = Some delegate"
    by (cases found) (auto simp: delegate_receipt_Inr)
  show ?thesis
  proof (cases "token_receipt outcomes delegate asset")
    case (Inl e')
    then show ?thesis using assms d token_receipt_indefinite by (simp add: interpret_final_outcome_def)
  next
    case token: (Inr token)
    show ?thesis
    proof (cases "visit outcomes (eo_id token) [d] []")
      case (Inl e')
      then show ?thesis using visit_definitive[OF Inl] assms d token
        by (auto simp: interpret_final_outcome_def failed_on_chain_def reachable_receipts_def)
    next
      case (Inr V)
      then have "token_verdict token = Inl e" using assms d token visit_check_acyclic[OF Inr]
        by (auto simp: interpret_final_outcome_def split: if_splits)
      then show ?thesis using token_verdict_indefinite[OF Inr _ d(4) token] assms(2) by blast
    qed
  qed
qed

text \<open>
  C38. A definitive failure is reported only with evidence from the chain: the final status is a failure, the
  transaction outcome is a failure, or a receipt reachable from the delegate receipt failed. Missing,
  unknown, duplicated and cyclic receipts never count as a failed payment.\<close>

theorem definitive_failure_evidence:
  assumes "interpret_final_outcome outcome payer asset = Some (Inl e)" and "is_definitive_failure e"
  shows "failed_on_chain outcome"
  using assms by (rule interpret_definitive)

definition sample_receipt :: "crypto_hash \<Rightarrow> crypto_hash list \<Rightarrow> account_id \<Rightarrow> execution_status \<Rightarrow> execution_outcome" where
  "sample_receipt i ids executor status = \<lparr>eo_id = i, eo_receipt_ids = ids, eo_executor_id = executor,
     eo_status = status, eo_gas_burnt = 0, eo_tokens_burnt = 0\<rparr>"

definition sample_failed_outcome :: final_outcome where
  "sample_failed_outcome = \<lparr>fo_status = FinalSuccess [], fo_transaction_hash = 1, fo_signer_id = ''relay.near'',
     fo_receiver_id = ''alice.near'',
     fo_transaction_outcome = sample_receipt 1 [2] ''relay.near'' (SuccessReceiptId 2),
     fo_receipts_outcome = [sample_receipt 2 [3] ''alice.near'' (SuccessReceiptId 3),
       sample_receipt 3 [] ''usdc.near'' (StatusFailure ''panic'')]\<rparr>"

theorem definitive_failure_evidence_witness:
  "interpret_final_outcome sample_failed_outcome ''alice.near'' ''usdc.near'' =
     Some (Inl (ReachableReceiptFailure ''panic'')) \<and> failed_on_chain sample_failed_outcome"
proof -
  have "interpret_final_outcome sample_failed_outcome ''alice.near'' ''usdc.near'' =
     Some (Inl (ReachableReceiptFailure ''panic''))"
    by (simp add: interpret_final_outcome_def delegate_receipt_def token_receipt_def sample_failed_outcome_def
        sample_receipt_def by_id_def receipt_at_def List.map_filter_def)
  then show ?thesis using definitive_failure_evidence by simp
qed

end
