(* ===== verification/Near_Provider.thy ===== *)
theory Near_Provider
  imports Near_Verify Near_Receipt
begin

text \<open>
  The NEAR provider: the relayer's head and status at the final block, the signed outer transaction
  that carries the payer's delegate action, broadcast of exact bytes, transaction lookups and the
  readiness probe over both readers. Borsh, hashing and signatures are the record \<open>near_tx_codec\<close>;
  what a reader answers is the record \<open>near_rpc\<close>, which adds the two transaction calls to
  \<open>near_reader\<close>.
\<close>

section \<open>Transactions and lookups\<close>

datatype outer_action = Delegate signed_delegate_action | OtherOuterAction

record near_transaction =
  nt_signer_id :: account_id
  nt_public_key :: public_key
  nt_nonce :: u64
  nt_receiver_id :: account_id
  nt_block_hash :: crypto_hash
  nt_actions :: "outer_action list"

record near_signed_transaction =
  ns_signature :: bytes
  ns_transaction :: near_transaction

record near_tx_codec =
  signed_tx_from_slice :: "bytes \<Rightarrow> near_signed_transaction option"
  signed_tx_to_vec :: "near_signed_transaction \<Rightarrow> bytes option"
  near_tx_hash :: "near_transaction \<Rightarrow> crypto_hash"
  signature_verify :: "bytes \<Rightarrow> crypto_hash \<Rightarrow> public_key \<Rightarrow> bool"

datatype tx_execution_status =
    TxNone | TxIncluded | TxExecutedOptimistic | TxIncludedFinal | TxExecuted | TxFinal

datatype final_outcome_view = OutcomeOnly final_outcome | OutcomeWithReceipts final_outcome

record rpc_transaction_response =
  rt_final_execution_status :: tx_execution_status
  rt_final_execution_outcome :: "final_outcome_view option"

datatype transaction_lookup =
    LookupUnknown | LookupPending tx_execution_status | LookupFinal final_outcome

datatype tx_call = CallTimeout | CallError rpc_transaction_error | CallOk rpc_transaction_response

record near_rpc = near_reader +
  rp_send_tx :: "near_signed_transaction \<Rightarrow> tx_call"
  rp_tx_status :: "crypto_hash \<Rightarrow> account_id \<Rightarrow> tx_call"

fun near_rpc_error_text :: "near_rpc_error \<Rightarrow> string" where
  "near_rpc_error_text AccountNotFound = ''account not found''"
| "near_rpc_error_text AccessKeyNotFound = ''access key not found''"
| "near_rpc_error_text MethodNotFound = ''contract method not found''"
| "near_rpc_error_text TransactionUnknown = ''transaction is unknown''"
| "near_rpc_error_text TransactionRejected = ''transaction was definitively rejected''"
| "near_rpc_error_text TransactionTemporarilyRejected = ''transaction was temporarily rejected''"
| "near_rpc_error_text Timeout = ''RPC request timed out''"
| "near_rpc_error_text (InvalidResponse detail) = ''invalid RPC response: '' @ detail"
| "near_rpc_error_text InvalidSignedTransaction = ''invalid signed transaction bytes''"
| "near_rpc_error_text (Request _) = ''RPC request failed''"

fun outcome_of_view :: "final_outcome_view \<Rightarrow> final_outcome" where
  "outcome_of_view (OutcomeOnly outcome) = outcome"
| "outcome_of_view (OutcomeWithReceipts outcome) = outcome"

definition classify_transaction :: "rpc_transaction_response \<Rightarrow> near_rpc_error + transaction_lookup" where
  "classify_transaction response =
     (if rt_final_execution_status response \<noteq> TxFinal
      then Inr (LookupPending (rt_final_execution_status response))
      else bind_res (ok_or (rt_final_execution_outcome response)
        (InvalidResponse ''FINAL transaction response has no execution outcome'')) (\<lambda>view.
      Inr (LookupFinal (outcome_of_view view))))"

definition send_transaction_final ::
  "near_rpc \<Rightarrow> near_signed_transaction \<Rightarrow> near_rpc_error + transaction_lookup" where
  "send_transaction_final rpc signed_transaction =
     (case rp_send_tx rpc signed_transaction of
        CallTimeout \<Rightarrow> Inl Timeout
      | CallError e \<Rightarrow> Inl (transaction_error e)
      | CallOk response \<Rightarrow> classify_transaction response)"

definition transaction_status_final ::
  "near_rpc \<Rightarrow> crypto_hash \<Rightarrow> account_id \<Rightarrow> near_rpc_error + transaction_lookup" where
  "transaction_status_final rpc transaction_hash signer_id =
     (case rp_tx_status rpc transaction_hash signer_id of
        CallTimeout \<Rightarrow> Inl Timeout
      | CallError e \<Rightarrow>
          if transaction_error e = TransactionUnknown then Inr LookupUnknown else Inl (transaction_error e)
      | CallOk response \<Rightarrow> classify_transaction response)"

definition decode_signed_transaction ::
  "near_tx_codec \<Rightarrow> bytes \<Rightarrow> near_rpc_error + near_signed_transaction" where
  "decode_signed_transaction c b =
     bind_res (ok_or (signed_tx_from_slice c b) InvalidSignedTransaction) (\<lambda>transaction.
     if \<not> signature_verify c (ns_signature transaction) (near_tx_hash c (ns_transaction transaction))
            (nt_public_key (ns_transaction transaction))
     then Inl InvalidSignedTransaction
     else Inr transaction)"

definition signed_transaction_hash :: "near_tx_codec \<Rightarrow> bytes \<Rightarrow> near_rpc_error + crypto_hash" where
  "signed_transaction_hash c b =
     bind_res (decode_signed_transaction c b) (\<lambda>transaction. Inr (near_tx_hash c (ns_transaction transaction)))"

section \<open>The provider\<close>

text \<open>The signer is the relayer's account, key and signing function; the backup reader is optional.\<close>

record near_chain_provider =
  nc_network :: near_network
  nc_relayer_account_id :: account_id
  nc_relayer_public_key :: public_key
  nc_relayer_sign :: "crypto_hash \<Rightarrow> bytes"
  nc_rpc :: near_rpc
  nc_backup_rpc :: "near_rpc option"

record relayer_head =
  rh_block_height :: u64
  rh_block_hash :: crypto_hash
  rh_access_key_nonce :: u64

record near_relayer_status =
  rs_block_height :: u64
  rs_block_hash :: crypto_hash
  rs_access_key_nonce :: u64
  rs_account :: account_view

definition backup_of :: "near_chain_provider \<Rightarrow> near_rpc_error + near_rpc" where
  "backup_of p = ok_or (nc_backup_rpc p) (InvalidResponse ''backup RPC is not configured'')"

definition relayer_head_from :: "near_chain_provider \<Rightarrow> near_rpc \<Rightarrow> near_rpc_error + relayer_head" where
  "relayer_head_from p rpc =
     bind_res (rd_final_block rpc) (\<lambda>block.
     bind_res (rd_view_access_key rpc (fb_hash block) (nc_relayer_account_id p) (nc_relayer_public_key p))
       (\<lambda>access_key.
     if kv_permission access_key \<noteq> FullAccess then Inl (InvalidResponse ''relayer key is not full access'')
     else Inr \<lparr>rh_block_height = fb_height block, rh_block_hash = fb_hash block,
               rh_access_key_nonce = kv_nonce access_key\<rparr>))"

definition near_relayer_head :: "near_chain_provider \<Rightarrow> near_rpc_error + relayer_head" where
  "near_relayer_head p = relayer_head_from p (nc_rpc p)"

definition backup_relayer_head :: "near_chain_provider \<Rightarrow> near_rpc_error + relayer_head" where
  "backup_relayer_head p = bind_res (backup_of p) (relayer_head_from p)"

definition relayer_status_of :: "near_chain_provider \<Rightarrow> near_rpc_error + near_relayer_status" where
  "relayer_status_of p =
     bind_res (rd_final_block (nc_rpc p)) (\<lambda>block.
     bind_res (rd_view_access_key (nc_rpc p) (fb_hash block) (nc_relayer_account_id p) (nc_relayer_public_key p))
       (\<lambda>access_key.
     if kv_permission access_key \<noteq> FullAccess then Inl (InvalidResponse ''relayer key is not full access'')
     else bind_res (rd_view_account (nc_rpc p) (fb_hash block) (nc_relayer_account_id p)) (\<lambda>account.
     Inr \<lparr>rs_block_height = fb_height block, rs_block_hash = fb_hash block,
          rs_access_key_nonce = kv_nonce access_key, rs_account = account\<rparr>)))"

definition prepare_outer_transaction ::
  "near_tx_codec \<Rightarrow> near_chain_provider \<Rightarrow> near_verified_payment \<Rightarrow> relayer_head \<Rightarrow>
   near_rpc_error + prepared_transaction" where
  "prepare_outer_transaction c p payment head =
     bind_res (ok_or (checked_add (rh_access_key_nonce head) 1) (InvalidResponse ''relayer nonce overflow''))
       (\<lambda>relayer_nonce.
     let transaction = \<lparr>nt_signer_id = nc_relayer_account_id p, nt_public_key = nc_relayer_public_key p,
           nt_nonce = relayer_nonce, nt_receiver_id = np_payer payment, nt_block_hash = rh_block_hash head,
           nt_actions = [Delegate (np_signed_delegate payment)]\<rparr>;
         transaction_hash = near_tx_hash c transaction;
         signed_transaction = \<lparr>ns_signature = nc_relayer_sign p transaction_hash, ns_transaction = transaction\<rparr> in
     bind_res (ok_or (signed_tx_to_vec c signed_transaction) InvalidSignedTransaction) (\<lambda>b.
     Inr \<lparr>pt_transaction_hash = transaction_hash, pt_relayer_nonce = relayer_nonce,
          pt_signer_id = nc_relayer_account_id p, pt_signer_public_key = nc_relayer_public_key p,
          pt_signed_transaction_bytes = b\<rparr>))"

definition broadcast_exact ::
  "near_tx_codec \<Rightarrow> near_chain_provider \<Rightarrow> bytes \<Rightarrow> near_rpc_error + transaction_lookup" where
  "broadcast_exact c p signed_transaction_bytes =
     bind_res (decode_signed_transaction c signed_transaction_bytes) (send_transaction_final (nc_rpc p))"

definition query_transaction ::
  "near_chain_provider \<Rightarrow> crypto_hash \<Rightarrow> account_id \<Rightarrow> near_rpc_error + transaction_lookup" where
  "query_transaction p transaction_hash signer_id =
     transaction_status_final (nc_rpc p) transaction_hash signer_id"

definition query_transaction_backup ::
  "near_chain_provider \<Rightarrow> crypto_hash \<Rightarrow> account_id \<Rightarrow> near_rpc_error + transaction_lookup" where
  "query_transaction_backup p transaction_hash signer_id =
     bind_res (backup_of p) (\<lambda>backup. transaction_status_final backup transaction_hash signer_id)"

section \<open>Readiness\<close>

datatype near_rpc_readiness_failure =
    NearPrimaryUnavailable | NearBackupUnavailable | NearBothUnavailable | NearChainMismatch

fun near_readiness_failure_as_str :: "near_rpc_readiness_failure \<Rightarrow> string" where
  "near_readiness_failure_as_str NearPrimaryUnavailable = ''primary_rpc_unavailable''"
| "near_readiness_failure_as_str NearBackupUnavailable = ''backup_rpc_unavailable''"
| "near_readiness_failure_as_str NearBothUnavailable = ''both_rpc_unavailable''"
| "near_readiness_failure_as_str NearChainMismatch = ''chain_id_mismatch''"

datatype near_readiness_operation = StatusOperation | FinalBlockOperation

fun near_operation_as_str :: "near_readiness_operation \<Rightarrow> string" where
  "near_operation_as_str StatusOperation = ''status''"
| "near_operation_as_str FinalBlockOperation = ''block_final''"

datatype near_dependency_error =
    DepTimeout | DepRpcRequest | DepInvalidResponse | DepAccountNotFound | DepAccessKeyNotFound
  | DepMethodNotFound | DepTransactionUnknown | DepTransactionRejected
  | DepTransactionTemporarilyRejected | DepInvalidSignedTransaction

fun near_dependency_error_as_str :: "near_dependency_error \<Rightarrow> string" where
  "near_dependency_error_as_str DepTimeout = ''timeout''"
| "near_dependency_error_as_str DepRpcRequest = ''rpc_request''"
| "near_dependency_error_as_str DepInvalidResponse = ''invalid_response''"
| "near_dependency_error_as_str DepAccountNotFound = ''account_not_found''"
| "near_dependency_error_as_str DepAccessKeyNotFound = ''access_key_not_found''"
| "near_dependency_error_as_str DepMethodNotFound = ''method_not_found''"
| "near_dependency_error_as_str DepTransactionUnknown = ''transaction_unknown''"
| "near_dependency_error_as_str DepTransactionRejected = ''transaction_rejected''"
| "near_dependency_error_as_str DepTransactionTemporarilyRejected = ''transaction_temporarily_rejected''"
| "near_dependency_error_as_str DepInvalidSignedTransaction = ''invalid_signed_transaction''"

record near_readiness_endpoint_error =
  ne_operation :: near_readiness_operation
  ne_error :: near_dependency_error

fun classify_near_readiness_error :: "near_rpc_error \<Rightarrow> near_dependency_error" where
  "classify_near_readiness_error AccountNotFound = DepAccountNotFound"
| "classify_near_readiness_error AccessKeyNotFound = DepAccessKeyNotFound"
| "classify_near_readiness_error MethodNotFound = DepMethodNotFound"
| "classify_near_readiness_error TransactionUnknown = DepTransactionUnknown"
| "classify_near_readiness_error TransactionRejected = DepTransactionRejected"
| "classify_near_readiness_error TransactionTemporarilyRejected = DepTransactionTemporarilyRejected"
| "classify_near_readiness_error Timeout = DepTimeout"
| "classify_near_readiness_error (InvalidResponse _) = DepInvalidResponse"
| "classify_near_readiness_error InvalidSignedTransaction = DepInvalidSignedTransaction"
| "classify_near_readiness_error (Request _) = DepRpcRequest"

definition near_readiness_endpoint_error_of ::
  "near_readiness_operation \<Rightarrow> near_rpc_error \<Rightarrow> near_readiness_endpoint_error" where
  "near_readiness_endpoint_error_of operation e =
     \<lparr>ne_operation = operation, ne_error = classify_near_readiness_error e\<rparr>"

definition probe_rpc_readiness :: "near_rpc \<Rightarrow> near_readiness_endpoint_error + string" where
  "probe_rpc_readiness rpc =
     bind_res (map_err (near_readiness_endpoint_error_of StatusOperation) (rd_network_id rpc)) (\<lambda>network_id.
     bind_res (map_err (near_readiness_endpoint_error_of FinalBlockOperation) (rd_final_block rpc)) (\<lambda>_.
     Inr network_id))"

fun classify_rpc_readiness ::
  "string \<Rightarrow> near_readiness_endpoint_error + string \<Rightarrow> near_readiness_endpoint_error + string \<Rightarrow>
   near_rpc_readiness_failure + unit" where
  "classify_rpc_readiness expected_network (Inl _) (Inl _) = Inl NearBothUnavailable"
| "classify_rpc_readiness expected_network (Inl _) (Inr _) = Inl NearPrimaryUnavailable"
| "classify_rpc_readiness expected_network (Inr _) (Inl _) = Inl NearBackupUnavailable"
| "classify_rpc_readiness expected_network (Inr primary) (Inr backup) =
     (if primary = expected_network \<and> backup = expected_network then Inr () else Inl NearChainMismatch)"

definition near_readiness_probe :: "near_chain_provider \<Rightarrow> near_rpc_readiness_failure + unit" where
  "near_readiness_probe p =
     classify_rpc_readiness (chain_reference (nc_network p)) (probe_rpc_readiness (nc_rpc p))
       (bind_res (ok_or (nc_backup_rpc p) (near_readiness_endpoint_error_of StatusOperation
          (InvalidResponse ''backup RPC is not configured''))) probe_rpc_readiness)"

section \<open>The scheme facilitator's settlement\<close>

datatype settlement_disposition =
    DispositionSucceeded crypto_hash
  | DispositionFailed "crypto_hash option" string "string option"

text \<open>
  \<open>settle\<close> of the scheme facilitator, over the coordinator it was built with and the text of a transaction
  hash; the coordinator of a provider that was given none fails.
\<close>

definition settlement_disabled :: "near_verified_payment \<Rightarrow> near_rpc_error + settlement_disposition" where
  "settlement_disabled payment = Inl (Request ''durable settlement coordinator is not configured'')"

definition facilitator_settle ::
  "near_codec \<Rightarrow> (crypto_hash \<Rightarrow> string) \<Rightarrow> near_chain_provider \<Rightarrow> verification_policy \<Rightarrow>
   (near_verified_payment \<Rightarrow> near_rpc_error + settlement_disposition) \<Rightarrow> string \<Rightarrow> string + json_map" where
  "facilitator_settle c hash_text p policy coordinator request =
     (case verify_proto_request c (nc_network p) (nc_relayer_account_id p) (near_reader.truncate (nc_rpc p)) policy request of
        Inl failure \<Rightarrow>
          Inr (settlement_response False [] (nc_network p) (attributable_payer c request failure)
            (Some (reason failure)) None)
      | Inr payment \<Rightarrow>
          bind_res (map_err near_rpc_error_text (coordinator payment)) (\<lambda>disposition.
          case disposition of
            DispositionSucceeded transaction \<Rightarrow>
              Inr (settlement_response True (hash_text transaction) (nc_network p) (Some (np_payer payment)) None None)
          | DispositionFailed transaction why message \<Rightarrow>
              Inr (settlement_response False (case transaction of None \<Rightarrow> [] | Some h \<Rightarrow> hash_text h)
                (nc_network p) (Some (np_payer payment)) (Some why) message)))"

section \<open>Correctness\<close>

lemma near_readiness_probe_iff:
  "near_readiness_probe p = Inr () \<longleftrightarrow>
     (\<exists>backup b1 b2. nc_backup_rpc p = Some backup \<and>
        rd_network_id (nc_rpc p) = Inr (chain_reference (nc_network p)) \<and>
        rd_network_id backup = Inr (chain_reference (nc_network p)) \<and>
        rd_final_block (nc_rpc p) = Inr b1 \<and> rd_final_block backup = Inr b2)"
proof (cases "nc_backup_rpc p")
  case None
  then show ?thesis by (cases "probe_rpc_readiness (nc_rpc p)") (simp_all add: near_readiness_probe_def ok_or_def)
next
  case (Some backup)
  then show ?thesis
    by (cases "rd_network_id (nc_rpc p)"; cases "rd_final_block (nc_rpc p)";
        cases "rd_network_id backup"; cases "rd_final_block backup")
      (simp_all add: near_readiness_probe_def probe_rpc_readiness_def ok_or_def map_err_def)
qed

lemma relayer_head_from_Inr:
  "relayer_head_from p rpc = Inr head \<Longrightarrow>
     (\<exists>block key. rd_final_block rpc = Inr block \<and>
        rd_view_access_key rpc (fb_hash block) (nc_relayer_account_id p) (nc_relayer_public_key p) = Inr key \<and>
        kv_permission key = FullAccess \<and> rh_block_height head = fb_height block \<and>
        rh_block_hash head = fb_hash block \<and> rh_access_key_nonce head = kv_nonce key)"
  by (auto simp: relayer_head_from_def res_simps split: if_splits)

text \<open>The documented laws of the codec and the signer: Borsh round trips and the relayer's own signatures verify.\<close>

definition near_tx_laws :: "near_tx_codec \<Rightarrow> near_chain_provider \<Rightarrow> bool" where
  "near_tx_laws c p \<longleftrightarrow>
     (\<forall>t b. signed_tx_to_vec c t = Some b \<longrightarrow> signed_tx_from_slice c b = Some t) \<and>
     (\<forall>h. signature_verify c (nc_relayer_sign p h) h (nc_relayer_public_key p))"

lemma prepare_outer_Inr:
  assumes "prepare_outer_transaction c p payment head = Inr prepared"
  obtains t where "signed_tx_to_vec c t = Some (pt_signed_transaction_bytes prepared)"
    "ns_transaction t = \<lparr>nt_signer_id = nc_relayer_account_id p, nt_public_key = nc_relayer_public_key p,
       nt_nonce = pt_relayer_nonce prepared, nt_receiver_id = np_payer payment,
       nt_block_hash = rh_block_hash head, nt_actions = [Delegate (np_signed_delegate payment)]\<rparr>"
    "ns_signature t = nc_relayer_sign p (near_tx_hash c (ns_transaction t))"
    "pt_transaction_hash prepared = near_tx_hash c (ns_transaction t)"
    "checked_add (rh_access_key_nonce head) 1 = Some (pt_relayer_nonce prepared)"
    "pt_signer_id prepared = nc_relayer_account_id p"
    "pt_signer_public_key prepared = nc_relayer_public_key p"
  using assms by (auto simp: prepare_outer_transaction_def Let_def res_simps)

text \<open>
  C26. The bytes of a prepared NEAR transaction decode to one transaction, signed by the relayer's key over its
  own hash: the journaled hash is the hash of the bytes, the nonce is the access-key nonce plus one without
  wrapping, the receiver is the payer, and the only action is the payer's signed delegate.\<close>

theorem prepared_outer_decodes:
  assumes "near_tx_laws c p" and "prepare_outer_transaction c p payment head = Inr prepared"
  shows "\<exists>t. decode_signed_transaction c (pt_signed_transaction_bytes prepared) = Inr t \<and>
     signed_transaction_hash c (pt_signed_transaction_bytes prepared) = Inr (pt_transaction_hash prepared) \<and>
     nt_signer_id (ns_transaction t) = nc_relayer_account_id p \<and>
     nt_public_key (ns_transaction t) = nc_relayer_public_key p \<and>
     unat (nt_nonce (ns_transaction t)) = unat (rh_access_key_nonce head) + 1 \<and>
     nt_nonce (ns_transaction t) = pt_relayer_nonce prepared \<and>
     nt_receiver_id (ns_transaction t) = np_payer payment \<and>
     nt_block_hash (ns_transaction t) = rh_block_hash head \<and>
     nt_actions (ns_transaction t) = [Delegate (np_signed_delegate payment)]"
proof -
  from prepare_outer_Inr[OF assms(2)] obtain t where
    t: "signed_tx_to_vec c t = Some (pt_signed_transaction_bytes prepared)"
    "ns_transaction t = \<lparr>nt_signer_id = nc_relayer_account_id p, nt_public_key = nc_relayer_public_key p,
       nt_nonce = pt_relayer_nonce prepared, nt_receiver_id = np_payer payment,
       nt_block_hash = rh_block_hash head, nt_actions = [Delegate (np_signed_delegate payment)]\<rparr>"
    and sign: "ns_signature t = nc_relayer_sign p (near_tx_hash c (ns_transaction t))"
    and hash: "pt_transaction_hash prepared = near_tx_hash c (ns_transaction t)"
    and nonce: "checked_add (rh_access_key_nonce head) 1 = Some (pt_relayer_nonce prepared)"
    by metis
  have "signed_tx_from_slice c (pt_signed_transaction_bytes prepared) = Some t"
    and "signature_verify c (ns_signature t) (near_tx_hash c (ns_transaction t)) (nc_relayer_public_key p)"
    using assms(1) t(1) sign unfolding near_tx_laws_def by auto
  then have dec: "decode_signed_transaction c (pt_signed_transaction_bytes prepared) = Inr t"
    using t(2) by (simp add: decode_signed_transaction_def ok_or_def)
  then show ?thesis using t(2) hash checked_add_SomeD[OF nonce] by (simp add: signed_transaction_hash_def)
qed

definition sample_near_rpc :: near_rpc where
  "sample_near_rpc = near_reader.extend sample_reader
     \<lparr>rp_send_tx = (\<lambda>_. CallTimeout), rp_tx_status = (\<lambda>_ _. CallTimeout)\<rparr>"

definition sample_near_provider :: near_chain_provider where
  "sample_near_provider = \<lparr>nc_network = NearMainnet, nc_relayer_account_id = ''relay.near'',
     nc_relayer_public_key = ''ed25519:r'', nc_relayer_sign = (\<lambda>_. ''sig''), nc_rpc = sample_near_rpc,
     nc_backup_rpc = None\<rparr>"

definition sample_signed_transaction :: near_signed_transaction where
  "sample_signed_transaction = \<lparr>ns_signature = ''sig'', ns_transaction =
     \<lparr>nt_signer_id = ''relay.near'', nt_public_key = ''ed25519:r'', nt_nonce = 5,
      nt_receiver_id = np_payer sample_near_payment, nt_block_hash = 9,
      nt_actions = [Delegate (np_signed_delegate sample_near_payment)]\<rparr>\<rparr>"

definition sample_tx_codec :: near_tx_codec where
  "sample_tx_codec = \<lparr>
     signed_tx_from_slice = (\<lambda>b. if b = ''tx'' then Some sample_signed_transaction else None),
     signed_tx_to_vec = (\<lambda>t. if t = sample_signed_transaction then Some ''tx'' else None),
     near_tx_hash = (\<lambda>_. 7), signature_verify = (\<lambda>s _ _. s = ''sig'')\<rparr>"

definition sample_prepared_outer :: prepared_transaction where
  "sample_prepared_outer = \<lparr>pt_transaction_hash = 7, pt_relayer_nonce = 5, pt_signer_id = ''relay.near'',
     pt_signer_public_key = ''ed25519:r'', pt_signed_transaction_bytes = ''tx''\<rparr>"

lemma sample_prepare_outer:
  "near_tx_laws sample_tx_codec sample_near_provider"
  "prepare_outer_transaction sample_tx_codec sample_near_provider sample_near_payment
     \<lparr>rh_block_height = 100, rh_block_hash = 9, rh_access_key_nonce = 4\<rparr> = Inr sample_prepared_outer"
  by (simp_all add: near_tx_laws_def sample_tx_codec_def sample_near_provider_def prepare_outer_transaction_def
      checked_add_def ok_or_def sample_signed_transaction_def sample_prepared_outer_def)

theorem prepared_outer_decodes_witness:
  "\<exists>t. decode_signed_transaction sample_tx_codec ''tx'' = Inr t \<and>
     signed_transaction_hash sample_tx_codec ''tx'' = Inr 7 \<and> unat (nt_nonce (ns_transaction t)) = 5"
  using prepared_outer_decodes[OF sample_prepare_outer] by (auto simp: sample_prepared_outer_def)

end
