(* ===== verification/Chain.thy ===== *)
theory Chain
  imports Evm_Prepare Near_Provider
begin

text \<open>
  The chain-neutral seam: \<open>ChainProvider\<close> and the values the settlement engine sees. A provider value holds
  the configuration together with what its readers answer at that moment. Text forms of hashes,
  addresses and 256-bit integers belong to the chain libraries and are the record \<open>chain_lib\<close>, with the codecs of
  both chains.
\<close>

section \<open>Neutral data\<close>

record chain_lib =
  lib_near :: near_codec
  lib_near_tx :: near_tx_codec
  lib_evm :: evm_codec
  lib_evm_request :: "string \<Rightarrow> facilitator_verify_request option"
  lib_hash_text :: "crypto_hash \<Rightarrow> string"
  lib_hash_parse :: "string \<Rightarrow> crypto_hash option"
  lib_address_text :: "address \<Rightarrow> string"
  lib_address_parse :: "string \<Rightarrow> address option"
  lib_b256_text :: "b256 \<Rightarrow> string"
  lib_b256_parse :: "string \<Rightarrow> b256 option"
  lib_u256_text :: "u256 \<Rightarrow> string"
  lib_u256_parse :: "string \<Rightarrow> u256 option"
  lib_sign_error_text :: string

text \<open>What the EVM readers, the gas price oracle and the upstream verifier answer.\<close>

record evm_answers =
  an_rpc :: evm_rpc
  an_chain_id :: "evm_readiness_reader \<Rightarrow> nat \<Rightarrow> transport_error + u64"
  an_block_number :: "evm_readiness_reader \<Rightarrow> nat \<Rightarrow> transport_error + u64"
  an_pending_nonce :: "evm_readiness_reader \<Rightarrow> nat \<Rightarrow> transport_error + u64"
  an_balance :: "evm_readiness_reader \<Rightarrow> nat \<Rightarrow> transport_error + u256"
  an_oracle :: "evm_readiness_reader \<Rightarrow> nat \<Rightarrow> bytes \<Rightarrow> evm_rpc_error + u128"
  an_upstream :: "evm_payment_payload \<Rightarrow> nat \<Rightarrow> scheme_facilitator_error + upstream_verify_response"

text \<open>The NEAR provider comes with what its reader answers to each attempt at a verification.\<close>

datatype chain_provider =
    NearProvider near_chain_provider "nat \<Rightarrow> near_reader"
  | EvmProvider evm_chain_provider evm_answers

record requirements =
  rq_network :: string
  rq_asset :: string
  rq_pay_to :: string
  rq_amount :: u128
  rq_amount_decimal :: string

datatype verified_detail = NearDetail near_verified_payment | EvmDetail evm_verified_payment

record verified_payment =
  vd_payer :: string
  vd_payment_hash :: u256
  vd_requirements :: requirements
  vd_detail :: verified_detail

datatype authorization_metadata =
    NearAuthorization string string string
  | EvmAuthorization u8 string string

record payment_identity =
  pi_request_hash :: u256
  pi_anchor_scope :: string
  pi_anchor_value :: u256
  pi_authorization :: authorization_metadata

datatype recovery_policy = NearFinality | EvmConfirmations u64

record durable_submission =
  ds_submitter :: string
  ds_nonce :: u128
  ds_bytes :: bytes
  ds_hash :: string
  ds_recovery_policy :: recovery_policy

record stored_evm_submission =
  se_network :: string
  se_hash :: string
  se_submitter :: string
  se_nonce :: u128
  se_asset :: string
  se_payer :: string
  se_payee :: string
  se_amount :: string
  se_valid_after :: string
  se_valid_before :: string
  se_anchor_scope :: string
  se_anchor_value :: u256
  se_payment_hash :: u256
  se_gas_limit :: u64
  se_max_fee_per_gas :: u128

datatype stored_submission_error =
    WrongProvider | SubmissionField string | SubmissionTransaction stored_transaction_error

record signer_head =
  sg_chain_block_height :: u64
  sg_chain_block_ref :: string
  sg_signer_nonce :: u128
  sg_signer_id :: string
  sg_signer_public_key :: string
  sg_signer_balance_atomic :: u128

datatype prepared_detail = NearPrepared prepared_transaction | EvmPreparedTx evm_prepared

record chain_prepared =
  pp_submit_bytes :: bytes
  pp_submit_hash :: string
  pp_signer_id :: string
  pp_signer_public_key :: string
  pp_signer_nonce :: u128
  pp_detail :: prepared_detail

record terminal_outcome =
  tm_success :: bool
  tm_tx_hash :: string
  tm_recipient_delta_atomic :: "u128 option"
  tm_fee_atomic :: u128
  tm_gas_units :: u64
  tm_failure_detail :: "string option"
  tm_mined_block_number :: "u64 option"
  tm_mined_block_hash :: "string option"
  tm_confirmations :: "u64 option"

datatype broadcast_outcome =
    BroadcastTerminal terminal_outcome | BroadcastRejected string | BroadcastPending

record verify_rejection =
  rj_reason :: string
  rj_rpc_ambiguous :: bool

datatype prepare_error = InvalidSignerHead | PrepareProvider string

datatype reconcile_verdict =
    VerdictTerminal terminal_outcome
  | VerdictIndeterminate string
  | VerdictPending
  | VerdictUnknown
  | VerdictConflict
  | VerdictAmbiguous

record reconcile_status =
  rc_verdict :: reconcile_verdict
  rc_rpc_failover :: bool

definition status_verdict :: "reconcile_verdict \<Rightarrow> reconcile_status" where
  "status_verdict v = \<lparr>rc_verdict = v, rc_rpc_failover = False\<rparr>"

section \<open>Error texts\<close>

fun receipt_error_text :: "receipt_validation_error \<Rightarrow> string" where
  "receipt_error_text NotStarted = ''final execution has not started''"
| "receipt_error_text ExecutionPending = ''final execution is still pending''"
| "receipt_error_text (FinalFailure _) = ''final execution failed''"
| "receipt_error_text (TransactionFailure _) = ''transaction outcome failed''"
| "receipt_error_text InvalidDelegateReceiptCount =
     ''outer transaction did not create exactly one delegate receipt''"
| "receipt_error_text MissingDelegateReceipt = ''delegate receipt outcome is missing''"
| "receipt_error_text InvalidDelegateExecutor = ''delegate receipt executed on an unexpected account''"
| "receipt_error_text (DelegateFailure _) = ''delegate receipt failed''"
| "receipt_error_text IncompleteReceiptGraph = ''receipt graph contains a missing outcome''"
| "receipt_error_text DuplicateReceiptOutcome = ''receipt graph contains duplicate outcome identifiers''"
| "receipt_error_text CyclicReceiptGraph = ''receipt graph contains a cycle''"
| "receipt_error_text (ReachableReceiptFailure _) = ''reachable receipt failed''"
| "receipt_error_text InvalidTokenReceiptCount =
     ''delegate receipt did not create exactly one token-contract receipt''"
| "receipt_error_text TokenReceiptNotSuccessful = ''token receipt was not successful''"
| "receipt_error_text (TokenReceiptFailure _) = ''token receipt failed''"
| "receipt_error_text receipt_validation_error.TransactionHashMismatch =
     ''final outcome transaction hash does not match the submitted transaction''"
| "receipt_error_text TransactionOutcomeIdMismatch =
     ''transaction outcome ID does not match the submitted transaction''"
| "receipt_error_text TransactionSignerMismatch =
     ''final outcome transaction signer does not match the relayer''"
| "receipt_error_text InvalidTransactionExecutor =
     ''transaction outcome executed on an unexpected account''"
| "receipt_error_text TransactionReceiverMismatch =
     ''final outcome transaction receiver does not match the payer''"

fun evm_rpc_error_text :: "evm_rpc_error \<Rightarrow> string" where
  "evm_rpc_error_text Rpc = ''evm rpc call failed''"
| "evm_rpc_error_text (ReaderDisagreement what) = ''evm RPC readers disagree: '' @ what"
| "evm_rpc_error_text InvalidTransactionHash = ''stored EVM transaction hash is malformed''"
| "evm_rpc_error_text (InvalidTransaction what) = ''EVM transaction lookup is malformed: '' @ what"
| "evm_rpc_error_text (InvalidReceipt what) = ''Base transaction receipt is malformed: '' @ what"
| "evm_rpc_error_text InvalidConfirmations = ''required EVM confirmations must be at least one''"
| "evm_rpc_error_text HeadBehindReceipt = ''EVM head is behind the transaction receipt''"
| "evm_rpc_error_text FeeOverflow = ''EVM fee value exceeds the supported range''"

fun unsupported_signature_text :: "unsupported_signature \<Rightarrow> string" where
  "unsupported_signature_text CounterfactualWallet =
     ''counterfactual (EIP-6492) smart-wallet signatures are not yet settleable''"
| "unsupported_signature_text Malformed = ''the payer signature could not be parsed''"

text \<open>The text of a signing failure comes from the signer library.\<close>

fun evm_prepare_error_text :: "string \<Rightarrow> evm_prepare_error \<Rightarrow> string" where
  "evm_prepare_error_text sign_text (PrepareSignature e) = unsupported_signature_text e"
| "evm_prepare_error_text sign_text (PrepareRpc e) = evm_rpc_error_text e"
| "evm_prepare_error_text sign_text PrepareSign = ''signing the settlement transaction failed: '' @ sign_text"
| "evm_prepare_error_text sign_text FeeCapExceeded = ''estimated EVM max fee per gas exceeds the configured cap''"
| "evm_prepare_error_text sign_text InvalidFeeEstimate = ''EVM RPC returned an invalid fee estimate''"

section \<open>Identity\<close>

definition caip2 :: "evm_chain_provider \<Rightarrow> string" where
  "caip2 p = ''eip155:'' @ decimal_text (unat (ev_chain_id p))"

fun signer_account_id :: "chain_lib \<Rightarrow> chain_provider \<Rightarrow> string" where
  "signer_account_id lib (NearProvider p _) = nc_relayer_account_id p"
| "signer_account_id lib (EvmProvider p _) = lib_address_text lib (ev_signer_address p)"

fun signer_public_key :: "chain_lib \<Rightarrow> chain_provider \<Rightarrow> string" where
  "signer_public_key lib (NearProvider p _) = nc_relayer_public_key p"
| "signer_public_key lib (EvmProvider p _) = lib_address_text lib (ev_signer_address p)"

fun required_confirmations :: "chain_provider \<Rightarrow> u64 option" where
  "required_confirmations (NearProvider _ _) = None"
| "required_confirmations (EvmProvider p _) = Some (ev_required_confirmations p)"

fun provider_recovery_policy :: "chain_provider \<Rightarrow> recovery_policy" where
  "provider_recovery_policy (NearProvider _ _) = NearFinality"
| "provider_recovery_policy (EvmProvider p _) = EvmConfirmations (ev_required_confirmations p)"

definition durable_submission_of :: "chain_provider \<Rightarrow> chain_prepared \<Rightarrow> durable_submission" where
  "durable_submission_of provider prepared =
     \<lparr>ds_submitter = pp_signer_id prepared, ds_nonce = pp_signer_nonce prepared,
      ds_bytes = pp_submit_bytes prepared, ds_hash = pp_submit_hash prepared,
      ds_recovery_policy = provider_recovery_policy provider\<rparr>"

fun authorization_of :: "chain_lib \<Rightarrow> verified_detail \<Rightarrow> authorization_metadata" where
  "authorization_of lib (NearDetail near) =
     NearAuthorization (np_payer_public_key near) (decimal_text (unat (np_delegate_nonce near)))
       (decimal_text (unat (np_max_block_height near)))"
| "authorization_of lib (EvmDetail evm) =
     EvmAuthorization 2 (lib_u256_text lib (ai_valid_after (authorization_identity evm)))
       (lib_u256_text lib (ai_valid_before (authorization_identity evm)))"

definition anchor_scope_of :: "string \<Rightarrow> string \<Rightarrow> string \<Rightarrow> string" where
  "anchor_scope_of network asset payer =
     network @ '':'' @ to_ascii_lowercase asset @ '':'' @ to_ascii_lowercase payer"

definition identity :: "chain_lib \<Rightarrow> verified_payment \<Rightarrow> payment_identity" where
  "identity lib payment =
     (let (anchor_scope, anchor_value) = (case vd_detail payment of
        NearDetail _ \<Rightarrow> (''near'', vd_payment_hash payment)
      | EvmDetail evm \<Rightarrow>
          (anchor_scope_of (rq_network (vd_requirements payment)) (rq_asset (vd_requirements payment))
             (vd_payer payment), ai_nonce (authorization_identity evm)))
      in \<lparr>pi_request_hash = vd_payment_hash payment, pi_anchor_scope = anchor_scope,
          pi_anchor_value = anchor_value, pi_authorization = authorization_of lib (vd_detail payment)\<rparr>)"

section \<open>Stored submissions\<close>

definition stored_field :: "string \<Rightarrow> 'a option \<Rightarrow> stored_submission_error + 'a" where
  "stored_field name parsed = ok_or parsed (SubmissionField name)"

definition validate_stored_submission ::
  "chain_lib \<Rightarrow> chain_provider \<Rightarrow> bytes \<Rightarrow> stored_evm_submission \<Rightarrow> stored_submission_error + unit" where
  "validate_stored_submission lib provider signed_bytes binding =
     (case provider of
        NearProvider _ _ \<Rightarrow> Inl WrongProvider
      | EvmProvider p _ \<Rightarrow>
        if se_network binding \<noteq> caip2 p then Inl (SubmissionField ''network'') else
        bind_res (stored_field ''transaction hash'' (lib_b256_parse lib (se_hash binding))) (\<lambda>transaction_hash.
        bind_res (stored_field ''submitter'' (lib_address_parse lib (se_submitter binding))) (\<lambda>facilitator_signer.
        if facilitator_signer \<noteq> ev_signer_address p then Inl (SubmissionField ''submitter'') else
        bind_res (stored_field ''account nonce''
          (if unat (se_nonce binding) < 2 ^ 64 then Some (ucast (se_nonce binding)) else None)) (\<lambda>account_nonce.
        bind_res (stored_field ''asset'' (lib_address_parse lib (se_asset binding))) (\<lambda>token.
        if token \<noteq> ev_asset p then Inl (SubmissionField ''asset'') else
        bind_res (stored_field ''payer'' (lib_address_parse lib (se_payer binding))) (\<lambda>payer.
        bind_res (stored_field ''payee'' (lib_address_parse lib (se_payee binding))) (\<lambda>recipient.
        bind_res (stored_field ''amount'' (lib_u256_parse lib (se_amount binding))) (\<lambda>value.
        bind_res (stored_field ''validAfter'' (lib_u256_parse lib (se_valid_after binding))) (\<lambda>valid_after.
        bind_res (stored_field ''validBefore'' (lib_u256_parse lib (se_valid_before binding))) (\<lambda>valid_before.
        if se_anchor_scope binding \<noteq> anchor_scope_of (se_network binding) (se_asset binding) (se_payer binding)
        then Inl (SubmissionField ''anchor scope'') else
        bind_res (map_err SubmissionTransaction (validate_signed_transaction (lib_evm lib) signed_bytes
          \<lparr>ex_transaction_hash = transaction_hash, ex_facilitator_signer = facilitator_signer,
           ex_chain_id = ev_chain_id p, ex_account_nonce = account_nonce, ex_token = token,
           ex_gas_limit = se_gas_limit binding, ex_max_fee_per_gas = se_max_fee_per_gas binding,
           ex_payer = payer, ex_payee = recipient, ex_value = value, ex_valid_after = valid_after,
           ex_valid_before = valid_before, ex_authorization_nonce = se_anchor_value binding,
           ex_payment_hash = se_payment_hash binding, ex_domain = transfer_domain p\<rparr>)) (\<lambda>_. Inr ())))))))))))"

fun provider_offline_payment_hash :: "chain_lib \<Rightarrow> chain_provider \<Rightarrow> string \<Rightarrow> string + u256" where
  "provider_offline_payment_hash lib (NearProvider _ _) request = Inl ''not_eip155''"
| "provider_offline_payment_hash lib (EvmProvider p _) request =
     map_err vr_reason (offline_payment_hash (lib_evm lib) p (lib_evm_request lib request))"

section \<open>Heads and readiness\<close>

definition evm_head_to_signer_head :: "chain_lib \<Rightarrow> evm_head \<Rightarrow> signer_head" where
  "evm_head_to_signer_head lib h =
     \<lparr>sg_chain_block_height = eh_block_number h, sg_chain_block_ref = [],
      sg_signer_nonce = ucast (eh_account_nonce h), sg_signer_id = lib_address_text lib (eh_signer_address h),
      sg_signer_public_key = lib_address_text lib (eh_signer_address h),
      sg_signer_balance_atomic = eh_gas_balance_wei h\<rparr>"

fun signer_head_of :: "chain_lib \<Rightarrow> chain_provider \<Rightarrow> string + signer_head" where
  "signer_head_of lib (NearProvider p _) =
     bind_res (map_err near_rpc_error_text (relayer_status_of p)) (\<lambda>status.
     Inr \<lparr>sg_chain_block_height = rs_block_height status,
          sg_chain_block_ref = lib_hash_text lib (rs_block_hash status),
          sg_signer_nonce = ucast (rs_access_key_nonce status), sg_signer_id = nc_relayer_account_id p,
          sg_signer_public_key = nc_relayer_public_key p,
          sg_signer_balance_atomic = av_amount (rs_account status)\<rparr>)"
| "signer_head_of lib (EvmProvider p answers) =
     bind_res (map_err evm_rpc_error_text (provider_head p (an_rpc answers))) (\<lambda>h.
     Inr (evm_head_to_signer_head lib h))"

fun backup_signer_head :: "chain_lib \<Rightarrow> chain_provider \<Rightarrow> string + signer_head" where
  "backup_signer_head lib (NearProvider p _) =
     bind_res (map_err near_rpc_error_text (backup_relayer_head p)) (\<lambda>h.
     Inr \<lparr>sg_chain_block_height = rh_block_height h, sg_chain_block_ref = lib_hash_text lib (rh_block_hash h),
          sg_signer_nonce = ucast (rh_access_key_nonce h), sg_signer_id = nc_relayer_account_id p,
          sg_signer_public_key = nc_relayer_public_key p, sg_signer_balance_atomic = 0\<rparr>)"
| "backup_signer_head lib (EvmProvider p answers) =
     bind_res (map_err evm_rpc_error_text (provider_head p (an_rpc answers))) (\<lambda>h.
     Inr (evm_head_to_signer_head lib h))"

datatype readiness_failure_class =
    RpcUnavailable | NearPrimaryRpcUnavailable | NearBackupRpcUnavailable | NearBothRpcUnavailable
  | NearChainIdMismatch | EvmPrimaryRpcUnavailable | EvmBackupRpcUnavailable | EvmBothRpcUnavailable
  | EvmChainIdMismatch | EvmPendingNonceDisagreement | SignerHeadUnavailable
  | RelayerPolicyLookupFailed | RelayerPolicyInactive | SignerBalanceHardStop

fun failure_class_as_str :: "readiness_failure_class \<Rightarrow> string" where
  "failure_class_as_str RpcUnavailable = ''rpc_unavailable''"
| "failure_class_as_str NearPrimaryRpcUnavailable = ''primary_rpc_unavailable''"
| "failure_class_as_str EvmPrimaryRpcUnavailable = ''primary_rpc_unavailable''"
| "failure_class_as_str NearBackupRpcUnavailable = ''backup_rpc_unavailable''"
| "failure_class_as_str EvmBackupRpcUnavailable = ''backup_rpc_unavailable''"
| "failure_class_as_str NearBothRpcUnavailable = ''both_rpc_unavailable''"
| "failure_class_as_str EvmBothRpcUnavailable = ''both_rpc_unavailable''"
| "failure_class_as_str NearChainIdMismatch = ''chain_id_mismatch''"
| "failure_class_as_str EvmChainIdMismatch = ''chain_id_mismatch''"
| "failure_class_as_str EvmPendingNonceDisagreement = ''pending_nonce_disagreement''"
| "failure_class_as_str SignerHeadUnavailable = ''signer_head_unavailable''"
| "failure_class_as_str RelayerPolicyLookupFailed = ''relayer_policy_lookup_failed''"
| "failure_class_as_str RelayerPolicyInactive = ''relayer_policy_inactive''"
| "failure_class_as_str SignerBalanceHardStop = ''signer_balance_hard_stop''"

fun failure_component :: "readiness_failure_class \<Rightarrow> string" where
  "failure_component RpcUnavailable = ''rpc''"
| "failure_component NearPrimaryRpcUnavailable = ''rpc''"
| "failure_component NearBackupRpcUnavailable = ''rpc''"
| "failure_component NearBothRpcUnavailable = ''rpc''"
| "failure_component NearChainIdMismatch = ''rpc''"
| "failure_component EvmPrimaryRpcUnavailable = ''head''"
| "failure_component EvmBackupRpcUnavailable = ''head''"
| "failure_component EvmBothRpcUnavailable = ''head''"
| "failure_component EvmChainIdMismatch = ''head''"
| "failure_component EvmPendingNonceDisagreement = ''head''"
| "failure_component SignerHeadUnavailable = ''signer_head''"
| "failure_component RelayerPolicyLookupFailed = ''relayer_policy''"
| "failure_component RelayerPolicyInactive = ''relayer_policy''"
| "failure_component SignerBalanceHardStop = ''signer_balance''"

fun class_of_evm_failure :: "evm_head_snapshot_failure \<Rightarrow> readiness_failure_class" where
  "class_of_evm_failure PrimaryRpcUnavailable = EvmPrimaryRpcUnavailable"
| "class_of_evm_failure BackupRpcUnavailable = EvmBackupRpcUnavailable"
| "class_of_evm_failure BothRpcUnavailable = EvmBothRpcUnavailable"
| "class_of_evm_failure ChainIdMismatch = EvmChainIdMismatch"
| "class_of_evm_failure PendingNonceDisagreement = EvmPendingNonceDisagreement"

fun class_of_near_failure :: "near_rpc_readiness_failure \<Rightarrow> readiness_failure_class" where
  "class_of_near_failure NearPrimaryUnavailable = NearPrimaryRpcUnavailable"
| "class_of_near_failure NearBackupUnavailable = NearBackupRpcUnavailable"
| "class_of_near_failure NearBothUnavailable = NearBothRpcUnavailable"
| "class_of_near_failure NearChainMismatch = NearChainIdMismatch"

record chain_readiness_observation =
  ob_rpc_ready :: bool
  ob_signer_head :: "string + signer_head"
  ob_failure_class :: "readiness_failure_class option"

definition readiness_endpoint_head_once ::
  "evm_answers \<Rightarrow> evm_readiness_reader \<Rightarrow> nat \<Rightarrow> evm_readiness_endpoint_error + endpoint_head" where
  "readiness_endpoint_head_once answers reader attempt =
     bind_res (map_err (evm_readiness_endpoint_error_of ChainId) (an_chain_id answers reader attempt)) (\<lambda>chain_id.
     bind_res (map_err (evm_readiness_endpoint_error_of BlockNumber) (an_block_number answers reader attempt)) (\<lambda>block.
     bind_res (map_err (evm_readiness_endpoint_error_of PendingNonce) (an_pending_nonce answers reader attempt)) (\<lambda>nonce.
     bind_res (map_err (evm_readiness_endpoint_error_of GasBalance) (an_balance answers reader attempt)) (\<lambda>balance.
     Inr \<lparr>ep_chain_id = chain_id, ep_block_number = block, ep_pending_account_nonce = nonce,
          ep_gas_balance_wei = (if unat balance < 2 ^ 128 then ucast balance else - 1)\<rparr>))))"

definition readiness_head :: "evm_chain_provider \<Rightarrow> evm_answers \<Rightarrow> evm_head_snapshot_failure + evm_head" where
  "readiness_head p answers =
     merge_head_snapshot_with_diagnostics (ev_chain_id p) (ev_signer_address p)
       (read_rpc (readiness_endpoint_head_once answers Primary))
       (read_rpc (readiness_endpoint_head_once answers Backup))"

definition observe_evm_readiness ::
  "chain_lib \<Rightarrow> evm_head_snapshot_failure + evm_head \<Rightarrow> chain_readiness_observation" where
  "observe_evm_readiness lib loaded =
     (case loaded of
        Inr h \<Rightarrow> \<lparr>ob_rpc_ready = True, ob_signer_head = Inr (evm_head_to_signer_head lib h), ob_failure_class = None\<rparr>
      | Inl failure \<Rightarrow> \<lparr>ob_rpc_ready = False, ob_signer_head = Inl (snapshot_failure_as_str failure),
          ob_failure_class = Some (class_of_evm_failure failure)\<rparr>)"

fun readiness_observation :: "chain_lib \<Rightarrow> chain_provider \<Rightarrow> chain_readiness_observation" where
  "readiness_observation lib (NearProvider p attempts) =
     (let rpc_failure = (case near_readiness_probe p of Inl e \<Rightarrow> Some (class_of_near_failure e) | Inr _ \<Rightarrow> None);
          signer = signer_head_of lib (NearProvider p attempts) in
      \<lparr>ob_rpc_ready = (rpc_failure = None), ob_signer_head = signer,
       ob_failure_class = (if rpc_failure \<noteq> None then rpc_failure
         else if \<not> is_ok signer then Some SignerHeadUnavailable else None)\<rparr>)"
| "readiness_observation lib (EvmProvider p answers) =
     observe_evm_readiness lib (readiness_head p answers)"

fun provider_readiness_probe :: "chain_provider \<Rightarrow> bool" where
  "provider_readiness_probe (NearProvider p _) = is_ok (near_readiness_probe p)"
| "provider_readiness_probe (EvmProvider p answers) = is_ok (provider_head p (an_rpc answers))"

section \<open>Verification and preparation\<close>

fun near_verification_is_rpc_ambiguous :: "verification_failure \<Rightarrow> bool" where
  "near_verification_is_rpc_ambiguous CurrentBlockHeightUnavailable = True"
| "near_verification_is_rpc_ambiguous AccessKeyLookupFailed = True"
| "near_verification_is_rpc_ambiguous AccountLookupFailed = True"
| "near_verification_is_rpc_ambiguous TokenAccountLookupFailed = True"
| "near_verification_is_rpc_ambiguous BalanceCheckFailed = True"
| "near_verification_is_rpc_ambiguous StorageCheckFailed = True"
| "near_verification_is_rpc_ambiguous _ = False"

definition rejection_from_near :: "verification_failure \<Rightarrow> verify_rejection" where
  "rejection_from_near failure =
     \<lparr>rj_reason = reason failure, rj_rpc_ambiguous = near_verification_is_rpc_ambiguous failure\<rparr>"

definition rejection_from_evm :: "evm_verify_rejection \<Rightarrow> verify_rejection" where
  "rejection_from_evm rejection =
     \<lparr>rj_reason = vr_reason rejection, rj_rpc_ambiguous = vr_rpc_ambiguous rejection\<rparr>"

definition near_payment_to_neutral :: "near_verified_payment \<Rightarrow> verified_payment" where
  "near_payment_to_neutral near =
     (let q = np_requirements near in
      \<lparr>vd_payer = np_payer near, vd_payment_hash = np_payment_hash near,
       vd_requirements = \<lparr>rq_network = near_network_as_str (vq_network q), rq_asset = vq_asset q,
         rq_pay_to = vq_pay_to q, rq_amount = vq_amount q, rq_amount_decimal = vq_amount_decimal q\<rparr>,
       vd_detail = NearDetail near\<rparr>)"

definition evm_payment_to_neutral :: "chain_lib \<Rightarrow> evm_chain_provider \<Rightarrow> evm_verified_payment \<Rightarrow> verified_payment" where
  "evm_payment_to_neutral lib p evm =
     \<lparr>vd_payer = lib_address_text lib (vp_payer evm), vd_payment_hash = vp_payment_hash evm,
      vd_requirements = \<lparr>rq_network = caip2 p, rq_asset = lib_address_text lib (vp_asset evm),
        rq_pay_to = lib_address_text lib (vp_pay_to evm),
        rq_amount = (if unat (vp_amount evm) < 2 ^ 128 then ucast (vp_amount evm) else - 1),
        rq_amount_decimal = lib_u256_text lib (vp_amount evm)\<rparr>,
      vd_detail = EvmDetail evm\<rparr>"

fun chain_verify ::
  "chain_lib \<Rightarrow> chain_provider \<Rightarrow> verification_policy \<Rightarrow> string \<Rightarrow> verify_rejection + verified_payment" where
  "chain_verify lib (NearProvider p attempts) policy request =
     bind_res (map_err rejection_from_near (fst (retry_while_transient
       (\<lambda>k. verify_proto_request (lib_near lib) (nc_network p) (nc_relayer_account_id p) (attempts k) policy request)
       (is_transient_err near_verification_is_rpc_ambiguous)))) (\<lambda>near.
     Inr (near_payment_to_neutral near))"
| "chain_verify lib (EvmProvider p answers) policy request =
     bind_res (map_err rejection_from_evm (evm_verify (lib_evm lib) (lib_address_parse lib) p
       (an_upstream answers) (lib_evm_request lib request))) (\<lambda>evm.
     Inr (evm_payment_to_neutral lib p evm))"

definition nonce_u64 :: "u128 \<Rightarrow> u64 option" where
  "nonce_u64 n = (if unat n < 2 ^ 64 then Some (ucast n) else None)"

fun chain_prepare ::
  "chain_lib \<Rightarrow> chain_provider \<Rightarrow> verified_payment \<Rightarrow> signer_head \<Rightarrow> prepare_error + chain_prepared" where
  "chain_prepare lib (NearProvider p _) payment h =
     (case vd_detail payment of
        NearDetail near \<Rightarrow>
          bind_res (ok_or (lib_hash_parse lib (sg_chain_block_ref h)) InvalidSignerHead) (\<lambda>block_hash.
          bind_res (ok_or (nonce_u64 (sg_signer_nonce h)) InvalidSignerHead) (\<lambda>access_key_nonce.
          bind_res (map_err (\<lambda>e. PrepareProvider (near_rpc_error_text e))
            (prepare_outer_transaction (lib_near_tx lib) p near
              \<lparr>rh_block_height = sg_chain_block_height h, rh_block_hash = block_hash,
               rh_access_key_nonce = access_key_nonce\<rparr>)) (\<lambda>prepared.
          Inr \<lparr>pp_submit_bytes = pt_signed_transaction_bytes prepared,
               pp_submit_hash = lib_hash_text lib (pt_transaction_hash prepared),
               pp_signer_id = pt_signer_id prepared, pp_signer_public_key = pt_signer_public_key prepared,
               pp_signer_nonce = ucast (pt_relayer_nonce prepared), pp_detail = NearPrepared prepared\<rparr>)))
      | EvmDetail _ \<Rightarrow> Inl InvalidSignerHead)"
| "chain_prepare lib (EvmProvider p answers) payment h =
     (case vd_detail payment of
        EvmDetail evm \<Rightarrow>
          bind_res (ok_or (nonce_u64 (sg_signer_nonce h)) InvalidSignerHead) (\<lambda>account_nonce.
          bind_res (map_err (\<lambda>e. PrepareProvider (evm_prepare_error_text (lib_sign_error_text lib) e))
            (evm_prepare (lib_evm lib) p (an_rpc answers) (an_oracle answers) evm account_nonce)) (\<lambda>prepared.
          Inr \<lparr>pp_submit_bytes = ep_signed_tx_rlp prepared,
               pp_submit_hash = lib_b256_text lib (ep_tx_hash prepared),
               pp_signer_id = lib_address_text lib (ep_signer_address prepared),
               pp_signer_public_key = lib_address_text lib (ep_signer_address prepared),
               pp_signer_nonce = ucast (ep_account_nonce prepared), pp_detail = EvmPreparedTx prepared\<rparr>))
      | NearDetail _ \<Rightarrow> Inl InvalidSignerHead)"

section \<open>Outcomes\<close>

text \<open>The verdict of \<open>interpret_final_outcome\<close>, which always returns one (\<open>interpret_some\<close>).\<close>

definition final_verdict ::
  "final_outcome \<Rightarrow> account_id \<Rightarrow> account_id \<Rightarrow> receipt_validation_error + successful_transfer_receipt" where
  "final_verdict outcome payer asset = the (interpret_final_outcome outcome payer asset)"

definition execution_cost_near :: "final_outcome \<Rightarrow> u64 \<times> u128" where
  "execution_cost_near outcome =
     foldl (\<lambda>(gas, tokens) r. (saturating_add gas (eo_gas_burnt r), saturating_add tokens (eo_tokens_burnt r)))
       (eo_gas_burnt (fo_transaction_outcome outcome), eo_tokens_burnt (fo_transaction_outcome outcome))
       (fo_receipts_outcome outcome)"

definition near_terminal :: "chain_lib \<Rightarrow> crypto_hash \<Rightarrow> u64 \<times> u128 \<Rightarrow> bool \<Rightarrow> string option \<Rightarrow> terminal_outcome" where
  "near_terminal lib transaction_hash cost success failure_detail =
     \<lparr>tm_success = success, tm_tx_hash = lib_hash_text lib transaction_hash, tm_recipient_delta_atomic = None,
      tm_fee_atomic = snd cost, tm_gas_units = fst cost, tm_failure_detail = failure_detail,
      tm_mined_block_number = None, tm_mined_block_hash = None, tm_confirmations = None\<rparr>"

text \<open>\<open>Inr\<close> is an authoritative terminal outcome, \<open>Inl\<close> the reason it is indeterminate.\<close>

definition interpret_near_final ::
  "chain_lib \<Rightarrow> final_outcome \<Rightarrow> crypto_hash \<Rightarrow> account_id \<Rightarrow> account_id \<Rightarrow> account_id \<Rightarrow> string + terminal_outcome" where
  "interpret_near_final lib outcome transaction_hash signer payer asset =
     (case validate_final_outcome_identity outcome transaction_hash signer payer of
        Inl e \<Rightarrow> Inl (receipt_error_text e)
      | Inr _ \<Rightarrow>
        (case final_verdict outcome payer asset of
           Inr _ \<Rightarrow> Inr (near_terminal lib transaction_hash (execution_cost_near outcome) True None)
         | Inl e \<Rightarrow>
             if is_definitive_failure e
             then Inr (near_terminal lib transaction_hash (execution_cost_near outcome) False
                    (Some (receipt_error_text e)))
             else Inl (receipt_error_text e)))"

definition evm_terminal_to_neutral :: "chain_lib \<Rightarrow> evm_terminal_outcome \<Rightarrow> terminal_outcome" where
  "evm_terminal_to_neutral lib outcome =
     \<lparr>tm_success = to_success outcome, tm_tx_hash = lib_b256_text lib (to_tx_hash outcome),
      tm_recipient_delta_atomic = None, tm_fee_atomic = to_fee_wei outcome, tm_gas_units = to_gas_used outcome,
      tm_failure_detail = (if to_success outcome then None else Some ''evm_execution_reverted''),
      tm_mined_block_number = Some (to_block_number outcome),
      tm_mined_block_hash = map_option (lib_b256_text lib) (to_block_hash outcome),
      tm_confirmations = Some (to_confirmations outcome)\<rparr>"

fun broadcast_lookup :: "(final_outcome \<Rightarrow> string + terminal_outcome) \<Rightarrow> near_rpc_error + transaction_lookup \<Rightarrow> broadcast_outcome" where
  "broadcast_lookup interpret (Inr (LookupFinal outcome)) =
     (case interpret outcome of Inr terminal \<Rightarrow> BroadcastTerminal terminal | Inl _ \<Rightarrow> BroadcastPending)"
| "broadcast_lookup interpret (Inl TransactionRejected) = BroadcastRejected ''transaction_rejected''"
| "broadcast_lookup interpret _ = BroadcastPending"

text \<open>
  \<open>broadcast\<close> classifies the answer to submitting the prepared bytes; an EVM submission is pending whatever
  \<open>eth_sendRawTransaction\<close> answers, and a provider that does not match the prepared value sends nothing.
\<close>

fun chain_broadcast :: "chain_lib \<Rightarrow> chain_provider \<Rightarrow> chain_prepared \<Rightarrow> verified_payment \<Rightarrow> broadcast_outcome" where
  "chain_broadcast lib (NearProvider p _) prepared payment =
     (case (pp_detail prepared, vd_detail payment) of
        (NearPrepared near_prepared, NearDetail near_payment) \<Rightarrow>
          broadcast_lookup (\<lambda>outcome. interpret_near_final lib outcome (pt_transaction_hash near_prepared)
              (nc_relayer_account_id p) (np_payer near_payment) (vq_asset (np_requirements near_payment)))
            (broadcast_exact (lib_near_tx lib) p (pt_signed_transaction_bytes near_prepared))
      | _ \<Rightarrow> BroadcastPending)"
| "chain_broadcast lib (EvmProvider p answers) prepared payment = BroadcastPending"

text \<open>The bytes \<open>broadcast\<close> hands to the network.\<close>

fun broadcast_bytes :: "chain_provider \<Rightarrow> chain_prepared \<Rightarrow> verified_payment \<Rightarrow> bytes option" where
  "broadcast_bytes (NearProvider _ _) prepared payment =
     (case (pp_detail prepared, vd_detail payment) of
        (NearPrepared near_prepared, NearDetail _) \<Rightarrow> Some (pt_signed_transaction_bytes near_prepared)
      | _ \<Rightarrow> None)"
| "broadcast_bytes (EvmProvider _ _) prepared payment =
     (case pp_detail prepared of EvmPreparedTx evm_prepared \<Rightarrow> Some (ep_signed_tx_rlp evm_prepared) | _ \<Rightarrow> None)"

fun chain_rebroadcast ::
  "chain_lib \<Rightarrow> chain_provider \<Rightarrow> bytes \<Rightarrow> string \<Rightarrow> string \<Rightarrow> string \<Rightarrow> broadcast_outcome" where
  "chain_rebroadcast lib (NearProvider p _) submit_bytes submit_hash payer asset =
     broadcast_lookup (\<lambda>outcome.
         case lib_hash_parse lib submit_hash of
           Some h \<Rightarrow>
             if is_account_id (lib_near lib) payer \<and> is_account_id (lib_near lib) asset
             then interpret_near_final lib outcome h (nc_relayer_account_id p) payer asset
             else Inl []
         | None \<Rightarrow> Inl [])
       (broadcast_exact (lib_near_tx lib) p submit_bytes)"
| "chain_rebroadcast lib (EvmProvider p answers) submit_bytes submit_hash payer asset = BroadcastPending"

fun near_final_outcome :: "near_rpc_error + transaction_lookup \<Rightarrow> final_outcome option" where
  "near_final_outcome (Inr (LookupFinal outcome)) = Some outcome"
| "near_final_outcome _ = None"

fun near_lookup_unknown :: "near_rpc_error + transaction_lookup \<Rightarrow> bool" where
  "near_lookup_unknown (Inr LookupUnknown) = True"
| "near_lookup_unknown (Inl TransactionUnknown) = True"
| "near_lookup_unknown _ = False"

fun near_lookup_pending :: "near_rpc_error + transaction_lookup \<Rightarrow> bool" where
  "near_lookup_pending (Inr (LookupPending _)) = True"
| "near_lookup_pending _ = False"

fun final_outcomes_conflict :: "'a option \<Rightarrow> 'a option \<Rightarrow> bool" where
  "final_outcomes_conflict (Some primary) (Some backup) = (primary \<noteq> backup)"
| "final_outcomes_conflict _ _ = False"

definition near_reconcile_status ::
  "chain_lib \<Rightarrow> near_chain_provider \<Rightarrow> crypto_hash \<Rightarrow> account_id \<Rightarrow> account_id \<Rightarrow> account_id \<Rightarrow> reconcile_status" where
  "near_reconcile_status lib p h signer payer asset =
     (let primary = query_transaction p h signer;
          backup = query_transaction_backup p h signer;
          primary_final = near_final_outcome primary;
          backup_final = near_final_outcome backup in
      if final_outcomes_conflict primary_final backup_final then status_verdict VerdictConflict
      else case (case primary_final of Some outcome \<Rightarrow> Some outcome | None \<Rightarrow> backup_final) of
        Some outcome \<Rightarrow>
          \<lparr>rc_verdict = (case interpret_near_final lib outcome h (nc_relayer_account_id p) payer asset of
               Inr terminal \<Rightarrow> VerdictTerminal terminal
             | Inl why \<Rightarrow> VerdictIndeterminate why),
           rc_rpc_failover = (primary_final = None \<and> backup_final \<noteq> None)\<rparr>
      | None \<Rightarrow>
          if near_lookup_pending primary \<or> near_lookup_pending backup then status_verdict VerdictPending
          else if near_lookup_unknown primary \<and> near_lookup_unknown backup then status_verdict VerdictUnknown
          else status_verdict VerdictAmbiguous)"

fun chain_reconcile_status ::
  "chain_lib \<Rightarrow> chain_provider \<Rightarrow> string \<Rightarrow> string \<Rightarrow> string \<Rightarrow> string \<Rightarrow> recovery_policy \<Rightarrow> reconcile_status" where
  "chain_reconcile_status lib (NearProvider p _) submit_hash signer payer asset policy =
     (if policy \<noteq> NearFinality then status_verdict VerdictAmbiguous
      else case lib_hash_parse lib submit_hash of
        None \<Rightarrow> status_verdict VerdictAmbiguous
      | Some h \<Rightarrow>
          if is_account_id (lib_near lib) signer \<and> is_account_id (lib_near lib) payer
             \<and> is_account_id (lib_near lib) asset
          then near_reconcile_status lib p h signer payer asset
          else status_verdict VerdictAmbiguous)"
| "chain_reconcile_status lib (EvmProvider p answers) submit_hash signer payer asset policy =
     (case policy of
        NearFinality \<Rightarrow> status_verdict VerdictAmbiguous
      | EvmConfirmations required \<Rightarrow>
          status_verdict (case reconcile_hash_with_confirmations p (an_rpc answers) submit_hash required of
            Inr (ReconcileTerminal outcome) \<Rightarrow> VerdictTerminal (evm_terminal_to_neutral lib outcome)
          | Inr (ReconcileMined _ _) \<Rightarrow> VerdictPending
          | Inr ReconcilePending \<Rightarrow> VerdictPending
          | Inr ReconcileUnknown \<Rightarrow> VerdictUnknown
          | Inl _ \<Rightarrow> VerdictAmbiguous))"

section \<open>Authoritative outcomes\<close>

lemma final_verdict_eq: "interpret_final_outcome outcome payer asset = Some (final_verdict outcome payer asset)"
  using interpret_some[of outcome payer asset] by (auto simp: final_verdict_def)

lemma identity_validated:
  "validate_final_outcome_identity outcome h signer payer = Inr u \<Longrightarrow>
   fo_transaction_hash outcome = h \<and> eo_id (fo_transaction_outcome outcome) = h \<and> fo_signer_id outcome = signer \<and>
   fo_receiver_id outcome = payer \<and> eo_executor_id (fo_transaction_outcome outcome) = signer"
  by (auto simp: validate_final_outcome_identity_def split: if_splits)

text \<open>What a final outcome says of the submission it is bound to.\<close>

definition bound_outcome :: "final_outcome \<Rightarrow> crypto_hash \<Rightarrow> account_id \<Rightarrow> account_id \<Rightarrow> account_id \<Rightarrow> bool \<Rightarrow> bool" where
  "bound_outcome outcome h signer payer asset success \<longleftrightarrow>
     fo_transaction_hash outcome = h \<and> eo_id (fo_transaction_outcome outcome) = h \<and>
     fo_signer_id outcome = signer \<and> fo_receiver_id outcome = payer \<and>
     eo_executor_id (fo_transaction_outcome outcome) = signer \<and>
     (if success then \<exists>receipt. settled_transfer outcome payer asset receipt else failed_on_chain outcome)"

lemma interpret_near_final_Inr:
  assumes "interpret_near_final lib outcome h signer payer asset = Inr terminal"
  shows "bound_outcome outcome h signer payer asset (tm_success terminal) \<and>
     tm_tx_hash terminal = lib_hash_text lib h \<and>
     (tm_gas_units terminal, tm_fee_atomic terminal) = execution_cost_near outcome"
proof -
  from assms obtain u where u: "validate_final_outcome_identity outcome h signer payer = Inr u"
    by (auto simp: interpret_near_final_def split: sum.splits)
  show ?thesis
  proof (cases "final_verdict outcome payer asset")
    case (Inl e)
    then have "is_definitive_failure e" using assms u by (auto simp: interpret_near_final_def split: if_splits)
    then have "failed_on_chain outcome" using interpret_definitive final_verdict_eq[of outcome payer asset] Inl by simp
    then show ?thesis using assms u Inl identity_validated[OF u]
      by (auto simp: interpret_near_final_def bound_outcome_def near_terminal_def split: if_splits)
  next
    case (Inr receipt)
    then have "settled_transfer outcome payer asset receipt"
      using interpret_sound final_verdict_eq[of outcome payer asset] by simp
    then show ?thesis using assms u Inr identity_validated[OF u]
      by (auto simp: interpret_near_final_def bound_outcome_def near_terminal_def)
  qed
qed

lemma near_final_outcome_Some: "near_final_outcome l = Some outcome \<longleftrightarrow> l = Inr (LookupFinal outcome)"
  by (cases l rule: near_final_outcome.cases) auto

lemma near_reconcile_terminal:
  assumes "rc_verdict (near_reconcile_status lib p h signer payer asset) = VerdictTerminal terminal"
  shows "\<exists>outcome. near_final_outcome (query_transaction p h signer) \<in> {None, Some outcome} \<and>
     near_final_outcome (query_transaction_backup p h signer) \<in> {None, Some outcome} \<and>
     (near_final_outcome (query_transaction p h signer) = Some outcome \<or>
      near_final_outcome (query_transaction_backup p h signer) = Some outcome) \<and>
     interpret_near_final lib outcome h (nc_relayer_account_id p) payer asset = Inr terminal"
  using assms
  by (cases "near_final_outcome (query_transaction p h signer)";
      cases "near_final_outcome (query_transaction_backup p h signer)")
    (auto simp: near_reconcile_status_def status_verdict_def Let_def split: if_splits sum.splits)


definition sample_lib :: chain_lib where
  "sample_lib = \<lparr>lib_near = sample_near_codec, lib_near_tx = sample_tx_codec, lib_evm = sample_codec,
     lib_evm_request = (\<lambda>_. None), lib_hash_text = (\<lambda>_. ''h''), lib_hash_parse = (\<lambda>_. Some 1),
     lib_address_text = (\<lambda>_. ''0xa''), lib_address_parse = (\<lambda>_. Some 1), lib_b256_text = (\<lambda>_. ''0xb''),
     lib_b256_parse = (\<lambda>_. Some 1), lib_u256_text = (\<lambda>_. ''1''), lib_u256_parse = (\<lambda>_. Some 1),
     lib_sign_error_text = ''signer''\<rparr>"

definition sample_settled_outcome :: final_outcome where
  "sample_settled_outcome = \<lparr>fo_status = FinalSuccess [], fo_transaction_hash = 1, fo_signer_id = ''relay.near'',
     fo_receiver_id = ''alice.near'',
     fo_transaction_outcome = sample_receipt 1 [2] ''relay.near'' (SuccessReceiptId 2),
     fo_receipts_outcome = [sample_receipt 2 [3] ''alice.near'' (SuccessReceiptId 3),
       sample_receipt 3 [] ''usdc.near'' (SuccessValue ''ok'')]\<rparr>"

definition settled_rpc :: near_rpc where
  "settled_rpc = near_reader.extend sample_reader
     \<lparr>rp_send_tx = (\<lambda>_. CallTimeout),
      rp_tx_status = (\<lambda>_ _. CallOk \<lparr>rt_final_execution_status = TxFinal,
        rt_final_execution_outcome = Some (OutcomeOnly sample_settled_outcome)\<rparr>)\<rparr>"

definition settled_provider :: near_chain_provider where
  "settled_provider = sample_near_provider\<lparr>nc_rpc := settled_rpc\<rparr>"

lemma settled_queries:
  "query_transaction settled_provider h s = Inr (LookupFinal sample_settled_outcome)"
  "query_transaction_backup settled_provider h s = Inl (InvalidResponse ''backup RPC is not configured'')"
  by (simp_all add: query_transaction_def query_transaction_backup_def settled_provider_def settled_rpc_def
      transaction_status_final_def classify_transaction_def backup_of_def sample_near_provider_def ok_or_def
      near_reader.defs near_rpc.defs)

lemma settled_verdict:
  "interpret_final_outcome sample_settled_outcome ''alice.near'' ''usdc.near'' =
     Some (Inr \<lparr>sr_receipt_id = 3, sr_value = ''ok''\<rparr>)"
  by (simp add: interpret_final_outcome_def delegate_receipt_def token_receipt_def sample_settled_outcome_def
      sample_receipt_def by_id_def receipt_at_def List.map_filter_def check_acyclic_def initial_indegrees_def
      eval_nat_numeral)

lemma settled_terminal:
  "rc_verdict (chain_reconcile_status sample_lib (NearProvider settled_provider (\<lambda>_. sample_reader)) ''h'' ''relay.near''
     ''alice.near'' ''usdc.near'' NearFinality) = VerdictTerminal (near_terminal sample_lib 1 (0, 0) True None)"
  by (simp add: sample_lib_def near_reconcile_status_def settled_queries interpret_near_final_def final_verdict_def
      settled_verdict validate_final_outcome_identity_def execution_cost_near_def sample_near_codec_def)
    (simp add: sample_settled_outcome_def sample_receipt_def settled_provider_def sample_near_provider_def saturating_add_def)


end
