(* ===== verification/Config.thy ===== *)
theory Config
  imports Decimal Json
begin

text \<open>
  The service configuration of \<open>config.rs\<close>: deployment tiers and chain families with their
  canonical assets, the configuration structs, and \<open>ServiceConfig::validate\<close> with its chain
  branches. URLs and NEAR account ids are values of third-party crates: a URL is the parts the
  code reads of it, and the account-id syntax check is an argument \<open>account_ok\<close> of the
  definitions that call it.
\<close>

section \<open>Networks and tiers\<close>

datatype environment = Mainnet | Testnet

datatype chain_kind = Near | Eip155

definition MAINNET :: string where "MAINNET = ''near:mainnet''"
definition TESTNET :: string where "TESTNET = ''near:testnet''"

definition NEAR_MAINNET_USDC :: string where
  "NEAR_MAINNET_USDC = ''17208628f84f5d6ad33f0da3bbbeb27ffcb398eac501a31bd6ad2011e36133a1''"

definition NEAR_TESTNET_USDC :: string where
  "NEAR_TESTNET_USDC = ''3e2210e1184b45b64c8a434c0a7e7b23cc04ea7eb7a6c3c32520d03d4afcb8af''"

definition BASE_MAINNET_USDC :: string where
  "BASE_MAINNET_USDC = ''0x833589fcd6edb6e08f4c7c32d4f71b54bda02913''"

definition BASE_SEPOLIA_USDC :: string where
  "BASE_SEPOLIA_USDC = ''0x036cbd53842c5426634e7929541ec2318f3dcf7e''"

definition canonical_usdc_asset :: "string \<Rightarrow> string option" where
  "canonical_usdc_asset network =
     (if network = MAINNET then Some NEAR_MAINNET_USDC
      else if network = TESTNET then Some NEAR_TESTNET_USDC
      else if network = ''eip155:8453'' then Some BASE_MAINNET_USDC
      else if network = ''eip155:84532'' then Some BASE_SEPOLIA_USDC
      else None)"

definition canonical_eip712_domain :: "string \<Rightarrow> (string \<times> string) option" where
  "canonical_eip712_domain network =
     (if network = ''eip155:8453'' then Some (''USD Coin'', ''2'')
      else if network = ''eip155:84532'' then Some (''USDC'', ''2'')
      else None)"

fun chain_kind_as_str :: "chain_kind \<Rightarrow> string" where
  "chain_kind_as_str Near = ''near''"
| "chain_kind_as_str Eip155 = ''eip155''"

fun environment_network :: "environment \<Rightarrow> string" where
  "environment_network Mainnet = MAINNET"
| "environment_network Testnet = TESTNET"

fun api_key_label :: "environment \<Rightarrow> string" where
  "api_key_label Mainnet = ''live''"
| "api_key_label Testnet = ''test''"

fun default_client_budget :: "environment \<Rightarrow> string" where
  "default_client_budget Mainnet = ''100000000000000000000000''"
| "default_client_budget Testnet = ''1000000000000000000000000''"

definition network_environment :: "string \<Rightarrow> environment option" where
  "network_environment network =
     (if network = MAINNET \<or> network = ''eip155:8453'' then Some Mainnet
      else if network = TESTNET \<or> network = ''eip155:84532'' then Some Testnet
      else None)"

definition is_evm_address :: "string \<Rightarrow> bool" where
  "is_evm_address value =
     (case strip_prefix ''0x'' value of
        None \<Rightarrow> False
      | Some hex \<Rightarrow> length hex = 40 \<and> list_all is_ascii_hexdigit hex)"

section \<open>The configuration structs\<close>

record url =
  url_text :: string
  url_scheme :: string
  url_host :: "string option"

record eip155_config =
  ec_chain_id :: u64
  ec_required_confirmations :: u64
  ec_gas_limit :: u64
  ec_max_fee_per_gas_wei :: string

record request_limits =
  rl_body_bytes :: u64
  rl_verify_per_minute :: u32
  rl_settle_per_minute :: u32
  rl_verify_timeout_seconds :: u64
  rl_settle_timeout_seconds :: u64
  rl_max_concurrent_verify :: u64

record sponsorship_config =
  sp_global_daily_yocto_near :: string
  sp_default_client_daily_yocto_near :: string
  sp_reservation_yocto_near :: string
  sp_balance_warning_yocto_near :: string
  sp_balance_hard_stop_yocto_near :: string

record payment_identifier_config =
  pi_required :: bool
  pi_min_length :: u64
  pi_max_length :: u64

record service_config =
  cfg_environment :: environment
  cfg_chain_kind :: chain_kind
  cfg_network :: string
  cfg_bind_loopback :: bool
  cfg_primary_rpc_url :: url
  cfg_backup_rpc_url :: url
  cfg_asset :: string
  cfg_asset_symbol :: string
  cfg_minimum_amount :: string
  cfg_relayer_account_id :: string
  cfg_max_inner_gas :: u64
  cfg_database_max_connections :: u32
  cfg_request_limits :: request_limits
  cfg_sponsorship :: sponsorship_config
  cfg_payment_identifier :: payment_identifier_config
  cfg_accept_v1 :: bool
  cfg_eip155 :: "eip155_config option"

definition default_request_limits :: request_limits where
  "default_request_limits = \<lparr>rl_body_bytes = 65536, rl_verify_per_minute = 60,
     rl_settle_per_minute = 10, rl_verify_timeout_seconds = 15, rl_settle_timeout_seconds = 60,
     rl_max_concurrent_verify = 64\<rparr>"

definition default_payment_identifier_config :: payment_identifier_config where
  "default_payment_identifier_config =
     \<lparr>pi_required = False, pi_min_length = 16, pi_max_length = 128\<rparr>"

datatype config_error =
    ConfigInvalid string
  | ConfigEnvironment string string

section \<open>Validation\<close>

definition validate_unsigned_decimal :: "string \<Rightarrow> string \<Rightarrow> config_error + unit" where
  "validate_unsigned_decimal name value =
     ensure_res (\<not> (value = [] \<or> \<not> all_digits value))
       (ConfigInvalid (name @ '' must be an unsigned base-10 integer string''))"

fun validate_decimals :: "(string \<times> string) list \<Rightarrow> config_error + unit" where
  "validate_decimals [] = Inr ()"
| "validate_decimals ((name, value) # rest) =
     bind_res (validate_unsigned_decimal name value) (\<lambda>_. validate_decimals rest)"

definition validate_near :: "(string \<Rightarrow> bool) \<Rightarrow> service_config \<Rightarrow> config_error + unit" where
  "validate_near account_ok c =
     (let expected_asset = (case cfg_environment c of
            Mainnet \<Rightarrow> NEAR_MAINNET_USDC | Testnet \<Rightarrow> NEAR_TESTNET_USDC)
      in if cfg_network c \<noteq> environment_network (cfg_environment c) then
           Inl (ConfigInvalid ''network does not match environment'')
         else if cfg_asset c \<noteq> expected_asset then
           Inl (ConfigInvalid ''asset must be the canonical Circle USDC contract'')
         else if \<not> account_ok (cfg_asset c) then
           Inl (ConfigInvalid ''invalid asset account ID'')
         else if \<not> account_ok (cfg_relayer_account_id c) then
           Inl (ConfigInvalid ''invalid relayer_account_id'')
         else if cfg_max_inner_gas c \<noteq> 30000000000000 then
           Inl (ConfigInvalid ''max_inner_gas must be exactly 30000000000000 for the launch policy'')
         else Inr ())"

definition eip155_fee_policy :: "service_config \<Rightarrow> eip155_config \<Rightarrow> config_error + unit" where
  "eip155_fee_policy c e =
     bind_res (validate_unsigned_decimal ''eip155.max_fee_per_gas_wei'' (ec_max_fee_per_gas_wei e)) (\<lambda>_.
     bind_res (ok_or (parse_digits (ec_max_fee_per_gas_wei e) :: u128 option)
       (ConfigInvalid ''eip155.max_fee_per_gas_wei must fit an unsigned 128-bit integer'')) (\<lambda>max_fee.
     if max_fee = 0 then
       Inl (ConfigInvalid ''eip155.max_fee_per_gas_wei must be positive'')
     else
       bind_res (ok_or (checked_mul (ucast (ec_gas_limit e) :: u128) max_fee)
         (ConfigInvalid ''eip155 gas limit multiplied by max fee per gas overflows'')) (\<lambda>maximum_l2_fee.
       bind_res (ok_or (parse_digits (sp_reservation_yocto_near (cfg_sponsorship c)) :: u128 option)
         (ConfigInvalid ''eip155 sponsorship reservation must fit an unsigned 128-bit integer'')) (\<lambda>reservation.
       if reservation \<le> maximum_l2_fee then
         Inl (ConfigInvalid ''eip155 sponsorship reservation must exceed gas_limit x max_fee_per_gas_wei so L1 data fees remain reserved'')
       else Inr ()))))"

definition validate_eip155 :: "service_config \<Rightarrow> config_error + unit" where
  "validate_eip155 c =
     (let (expected_chain_id, expected_network, expected_usdc) = (case cfg_environment c of
            Mainnet \<Rightarrow> (8453 :: u64, ''eip155:8453'', BASE_MAINNET_USDC)
          | Testnet \<Rightarrow> (84532, ''eip155:84532'', BASE_SEPOLIA_USDC))
      in case cfg_eip155 c of
           None \<Rightarrow> Inl (ConfigInvalid ''eip155 chain_kind requires an eip155 configuration block'')
         | Some e \<Rightarrow>
             if ec_chain_id e \<noteq> expected_chain_id then
               Inl (ConfigInvalid ''eip155.chain_id does not match the environment'')
             else if cfg_network c \<noteq> expected_network then
               Inl (ConfigInvalid ''network does not match the environment'')
             else if \<not> eq_ignore_ascii_case (cfg_asset c) expected_usdc then
               Inl (ConfigInvalid ''asset must be the canonical Circle USDC contract'')
             else if \<not> is_evm_address (cfg_relayer_account_id c) then
               Inl (ConfigInvalid ''relayer_account_id must be the EVM signer address'')
             else if cfg_max_inner_gas c \<noteq> 0 then
               Inl (ConfigInvalid ''max_inner_gas must be 0 for eip155 (EVM has no inner-gas ceiling)'')
             else if ec_required_confirmations e = 0 then
               Inl (ConfigInvalid ''eip155.required_confirmations must be at least 1'')
             else if ec_required_confirmations e > 2147483647 then
               Inl (ConfigInvalid ''eip155.required_confirmations must fit a signed 32-bit journal field'')
             else if \<not> (21000 \<le> ec_gas_limit e \<and> ec_gas_limit e \<le> 1000000) then
               Inl (ConfigInvalid ''eip155.gas_limit must be between 21000 and 1000000'')
             else eip155_fee_policy c e)"

definition config_decimals :: "service_config \<Rightarrow> (string \<times> string) list" where
  "config_decimals c =
     [(''minimum_amount'', cfg_minimum_amount c),
      (''sponsorship.global_daily_yocto_near'', sp_global_daily_yocto_near (cfg_sponsorship c)),
      (''sponsorship.default_client_daily_yocto_near'',
         sp_default_client_daily_yocto_near (cfg_sponsorship c)),
      (''sponsorship.reservation_yocto_near'', sp_reservation_yocto_near (cfg_sponsorship c)),
      (''sponsorship.balance_warning_yocto_near'', sp_balance_warning_yocto_near (cfg_sponsorship c)),
      (''sponsorship.balance_hard_stop_yocto_near'',
         sp_balance_hard_stop_yocto_near (cfg_sponsorship c))]"

definition validate :: "(string \<Rightarrow> bool) \<Rightarrow> service_config \<Rightarrow> config_error + unit" where
  "validate account_ok c =
     (let sp = cfg_sponsorship c; rl = cfg_request_limits c; pi = cfg_payment_identifier c in
      if cfg_primary_rpc_url c = cfg_backup_rpc_url c then
        Inl (ConfigInvalid ''primary_rpc_url and backup_rpc_url must be independent'')
      else if url_host (cfg_primary_rpc_url c) = url_host (cfg_backup_rpc_url c) then
        Inl (ConfigInvalid ''primary_rpc_url and backup_rpc_url must use different hosts'')
      else if url_scheme (cfg_primary_rpc_url c) \<noteq> ''https''
           \<or> url_scheme (cfg_backup_rpc_url c) \<noteq> ''https'' then
        Inl (ConfigInvalid ''production RPC URLs must use HTTPS'')
      else if \<not> cfg_bind_loopback c then
        Inl (ConfigInvalid ''bind_address must be loopback; expose the service through the hardened proxy'')
      else bind_res (validate_decimals (config_decimals c)) (\<lambda>_.
      if cfg_asset_symbol c \<noteq> ''USDC'' then
        Inl (ConfigInvalid ''asset_symbol must be USDC for the launch policy'')
      else if config_compare_decimal (cfg_minimum_amount c) ''1000'' = Less then
        Inl (ConfigInvalid ''minimum_amount must be at least 1000 atomic USDC'')
      else if config_compare_decimal (sp_balance_hard_stop_yocto_near sp)
                (sp_balance_warning_yocto_near sp) \<noteq> Less then
        Inl (ConfigInvalid ''sponsorship.balance_hard_stop_yocto_near must be below the warning threshold'')
      else if config_compare_decimal (sp_reservation_yocto_near sp)
                (sp_default_client_daily_yocto_near sp) = Greater
           \<or> config_compare_decimal (sp_reservation_yocto_near sp)
                (sp_global_daily_yocto_near sp) = Greater then
        Inl (ConfigInvalid ''sponsorship reservation must not exceed either daily cap'')
      else if rl_body_bytes rl \<noteq> 65536 then
        Inl (ConfigInvalid ''request_limits.body_bytes must be exactly 65536'')
      else if cfg_database_max_connections c = 0 \<or> rl_verify_per_minute rl = 0
           \<or> rl_settle_per_minute rl = 0 \<or> rl_verify_timeout_seconds rl = 0
           \<or> rl_settle_timeout_seconds rl = 0 \<or> rl_max_concurrent_verify rl = 0 then
        Inl (ConfigInvalid ''database and request limits must be positive'')
      else if pi_min_length pi \<noteq> 16 \<or> pi_max_length pi \<noteq> 128 then
        Inl (ConfigInvalid ''payment_identifier bounds must match the x402 extension (16..=128)'')
      else if cfg_accept_v1 c \<and> cfg_chain_kind c = Near then
        Inl (ConfigInvalid ''accept_v1 requires an eip155 chain_kind (x402 v1 never covered NEAR)'')
      else case cfg_chain_kind c of
             Near \<Rightarrow> validate_near account_ok c
           | Eip155 \<Rightarrow> validate_eip155 c))"

text \<open>\<open>Url::parse\<close> is the argument \<open>parse_url\<close>.\<close>

definition parse_secret_rpc_url ::
  "(string \<Rightarrow> url option) \<Rightarrow> string \<Rightarrow> string \<Rightarrow> config_error + url" where
  "parse_secret_rpc_url parse_url name value =
     (case parse_url value of
        None \<Rightarrow> Inl (ConfigEnvironment name ''credential must contain one valid absolute URL'')
      | Some url \<Rightarrow>
          if url_scheme url \<noteq> ''https'' then
            Inl (ConfigEnvironment name ''credential URL must use HTTPS'')
          else Inr url)"

definition apply_rpc_url_overrides ::
  "(string \<Rightarrow> bool) \<Rightarrow> (string \<Rightarrow> url option) \<Rightarrow> service_config \<Rightarrow> string option \<Rightarrow> string option
     \<Rightarrow> config_error + service_config" where
  "apply_rpc_url_overrides account_ok parse_url c primary backup =
     bind_res (case primary of
         None \<Rightarrow> Inr c
       | Some v \<Rightarrow> bind_res (parse_secret_rpc_url parse_url ''PRIMARY_RPC_URL_FILE'' v)
                     (\<lambda>u. Inr (c\<lparr>cfg_primary_rpc_url := u\<rparr>))) (\<lambda>c1.
     bind_res (case backup of
         None \<Rightarrow> Inr c1
       | Some v \<Rightarrow> bind_res (parse_secret_rpc_url parse_url ''BACKUP_RPC_URL_FILE'' v)
                     (\<lambda>u. Inr (c1\<lparr>cfg_backup_rpc_url := u\<rparr>))) (\<lambda>c2.
     bind_res (validate account_ok c2) (\<lambda>_. Inr c2)))"

definition policy_snapshot :: "service_config \<Rightarrow> json" where
  "policy_snapshot c =
     (let eip155 = (case cfg_eip155 c of
            None \<Rightarrow> JNull
          | Some e \<Rightarrow> JObject
              [(''chainId'', JNumber (PosInt (ec_chain_id e))),
               (''requiredConfirmations'', JNumber (PosInt (ec_required_confirmations e))),
               (''gasLimit'', JNumber (PosInt (ec_gas_limit e))),
               (''maxFeePerGasWei'', JString (ec_max_fee_per_gas_wei e))])
      in JObject
           [(''chainKind'', JString (chain_kind_as_str (cfg_chain_kind c))),
            (''network'', JString (cfg_network c)),
            (''asset'', JString (cfg_asset c)),
            (''minimumAmount'', JString (cfg_minimum_amount c)),
            (''maxInnerGas'', JNumber (PosInt (cfg_max_inner_gas c))),
            (''reservationYoctoNear'', JString (sp_reservation_yocto_near (cfg_sponsorship c))),
            (''eip155'', eip155)])"

section \<open>What a validated configuration guarantees\<close>

lemma validate_unsigned_decimal_Inr [res_simps]:
  "validate_unsigned_decimal name value = Inr u \<longleftrightarrow> value \<noteq> [] \<and> all_digits value"
  by (auto simp: validate_unsigned_decimal_def res_simps)

lemma validate_decimals_Inr:
  "validate_decimals nvs = Inr u \<longleftrightarrow> (\<forall>nv \<in> set nvs. snd nv \<noteq> [] \<and> all_digits (snd nv))"
  by (induction nvs rule: validate_decimals.induct) (auto simp: res_simps)

lemma config_decimals_ok:
  assumes "validate account_ok c = Inr u"
  shows "validate_decimals (config_decimals c) = Inr ()"
  using assms by (auto simp: validate_def Let_def res_simps split: if_splits)

lemma validate_branch:
  assumes "validate account_ok c = Inr u"
  shows "(case cfg_chain_kind c of Near \<Rightarrow> validate_near account_ok c | Eip155 \<Rightarrow> validate_eip155 c)
           = Inr u"
  using assms by (auto simp: validate_def Let_def res_simps split: if_splits)

lemma validate_near_ok:
  assumes "validate_near account_ok c = Inr u"
  shows "network_environment (cfg_network c) = Some (cfg_environment c)
       \<and> canonical_usdc_asset (cfg_network c) = Some (cfg_asset c)"
  using assms
  by (cases "cfg_environment c")
     (auto simp: validate_near_def network_environment_def canonical_usdc_asset_def
        MAINNET_def TESTNET_def split: if_splits)

lemma validate_eip155_ok:
  assumes "validate_eip155 c = Inr u"
  obtains e where "cfg_eip155 c = Some e"
    and "network_environment (cfg_network c) = Some (cfg_environment c)"
    and "\<exists>usdc. canonical_usdc_asset (cfg_network c) = Some usdc \<and> eq_ignore_ascii_case (cfg_asset c) usdc"
    and "1 \<le> unat (ec_required_confirmations e)"
    and "unat (ec_required_confirmations e) < 2 ^ 31"
    and "eip155_fee_policy c e = Inr u"
proof -
  from assms obtain e where e: "cfg_eip155 c = Some e"
    by (auto simp: validate_eip155_def split: option.splits prod.splits)
  show thesis
  proof (rule that [OF e])
    show "network_environment (cfg_network c) = Some (cfg_environment c)"
      using assms e by (cases "cfg_environment c")
        (auto simp: validate_eip155_def network_environment_def MAINNET_def TESTNET_def split: if_splits)
    show "\<exists>usdc. canonical_usdc_asset (cfg_network c) = Some usdc \<and> eq_ignore_ascii_case (cfg_asset c) usdc"
      using assms e by (cases "cfg_environment c")
        (auto simp: validate_eip155_def canonical_usdc_asset_def MAINNET_def TESTNET_def split: if_splits)
    show "1 \<le> unat (ec_required_confirmations e)"
      using assms e by (cases "cfg_environment c")
        (auto simp: validate_eip155_def unat_gt_0 Suc_le_eq split: if_splits)
    have "ec_required_confirmations e \<le> 2147483647"
      using assms e by (cases "cfg_environment c")
        (auto simp: validate_eip155_def split: if_splits)
    then show "unat (ec_required_confirmations e) < 2 ^ 31"
      by (simp add: word_le_nat_alt)
    show "eip155_fee_policy c e = Inr u"
      using assms e by (cases "cfg_environment c")
        (auto simp: validate_eip155_def split: if_splits)
  qed
qed

lemma eip155_fee_policy_ok:
  assumes "eip155_fee_policy c e = Inr u"
  shows "unat (ec_gas_limit e) * decimal_value (ec_max_fee_per_gas_wei e)
       < decimal_value (sp_reservation_yocto_near (cfg_sponsorship c))"
proof -
  from assms obtain fee l2 r where
    fee: "parse_digits (ec_max_fee_per_gas_wei e) = Some (fee :: u128)" and
    l2: "checked_mul (ucast (ec_gas_limit e)) fee = Some l2" and
    r: "parse_digits (sp_reservation_yocto_near (cfg_sponsorship c)) = Some (r :: u128)" and
    lt: "l2 < r"
    by (auto simp: eip155_fee_policy_def res_simps split: if_splits)
  have "unat l2 = unat (ec_gas_limit e) * unat fee"
    using checked_mul_SomeD [OF l2] by (simp add: unat_ucast_up)
  moreover have "unat fee = decimal_value (ec_max_fee_per_gas_wei e)"
    using fee by (auto simp: parse_digits_def unat_of_nat_small split: if_splits)
  moreover have "unat r = decimal_value (sp_reservation_yocto_near (cfg_sponsorship c))"
    using r by (auto simp: parse_digits_def unat_of_nat_small split: if_splits)
  ultimately show ?thesis using lt by (simp add: word_less_nat_alt)
qed

lemma validate_thresholds:
  assumes "validate account_ok c = Inr u"
  shows "1000 \<le> decimal_value (cfg_minimum_amount c)
       \<and> decimal_value (sp_balance_hard_stop_yocto_near (cfg_sponsorship c))
           < decimal_value (sp_balance_warning_yocto_near (cfg_sponsorship c))
       \<and> decimal_value (sp_reservation_yocto_near (cfg_sponsorship c))
           \<le> decimal_value (sp_default_client_daily_yocto_near (cfg_sponsorship c))
       \<and> decimal_value (sp_reservation_yocto_near (cfg_sponsorship c))
           \<le> decimal_value (sp_global_daily_yocto_near (cfg_sponsorship c))"
proof -
  let ?sp = "cfg_sponsorship c"
  have dig: "all_digits (cfg_minimum_amount c)" "all_digits (sp_global_daily_yocto_near ?sp)"
    "all_digits (sp_default_client_daily_yocto_near ?sp)" "all_digits (sp_reservation_yocto_near ?sp)"
    "all_digits (sp_balance_warning_yocto_near ?sp)" "all_digits (sp_balance_hard_stop_yocto_near ?sp)"
    using config_decimals_ok [OF assms] unfolding validate_decimals_Inr
    by (auto simp: config_decimals_def)
  have k: "all_digits ''1000''" "decimal_value ''1000'' = 1000"
    by (simp_all add: is_ascii_digit_def digit_value_def)
  have "config_compare_decimal (cfg_minimum_amount c) ''1000'' \<noteq> Less"
    and "config_compare_decimal (sp_balance_hard_stop_yocto_near ?sp)
           (sp_balance_warning_yocto_near ?sp) = Less"
    and "config_compare_decimal (sp_reservation_yocto_near ?sp)
           (sp_default_client_daily_yocto_near ?sp) \<noteq> Greater"
    and "config_compare_decimal (sp_reservation_yocto_near ?sp)
           (sp_global_daily_yocto_near ?sp) \<noteq> Greater"
    using assms by (auto simp: validate_def Let_def res_simps split: if_splits)
  then show ?thesis
    using dig k by (simp add: config_decimal.compare_value not_less)
qed

text \<open>
  C31. A configuration accepted by \<open>ServiceConfig::validate\<close> binds its network to its deployment
  tier and its asset to the canonical USDC contract of that network, and its money thresholds are
  ordered as numbers: the minimum amount is at least 1000 atomic units, the hard-stop balance is
  below the warning balance, and one reservation fits both daily caps. On an EVM deployment the
  confirmation depth is at least one and fits the signed journal column, and the reservation
  strictly exceeds the worst-case L2 fee \<open>gas_limit * max_fee_per_gas\<close>, computed without overflow.
\<close>

theorem validate_sound:
  assumes "validate account_ok c = Inr ()"
  shows "network_environment (cfg_network c) = Some (cfg_environment c)
       \<and> (\<exists>usdc. canonical_usdc_asset (cfg_network c) = Some usdc
              \<and> eq_ignore_ascii_case (cfg_asset c) usdc)
       \<and> 1000 \<le> decimal_value (cfg_minimum_amount c)
       \<and> decimal_value (sp_balance_hard_stop_yocto_near (cfg_sponsorship c))
           < decimal_value (sp_balance_warning_yocto_near (cfg_sponsorship c))
       \<and> decimal_value (sp_reservation_yocto_near (cfg_sponsorship c))
           \<le> decimal_value (sp_default_client_daily_yocto_near (cfg_sponsorship c))
       \<and> decimal_value (sp_reservation_yocto_near (cfg_sponsorship c))
           \<le> decimal_value (sp_global_daily_yocto_near (cfg_sponsorship c))
       \<and> (cfg_chain_kind c = Eip155 \<longrightarrow> (\<exists>e. cfg_eip155 c = Some e
              \<and> 1 \<le> unat (ec_required_confirmations e)
              \<and> unat (ec_required_confirmations e) < 2 ^ 31
              \<and> unat (ec_gas_limit e) * decimal_value (ec_max_fee_per_gas_wei e)
                  < decimal_value (sp_reservation_yocto_near (cfg_sponsorship c))))"
proof (cases "cfg_chain_kind c")
  case Near
  with validate_near_ok [of account_ok c "()"] validate_branch [OF assms] validate_thresholds [OF assms]
  show ?thesis by simp
next
  case Eip155
  with validate_branch [OF assms] have "validate_eip155 c = Inr ()" by simp
  then obtain e where "cfg_eip155 c = Some e"
    and "network_environment (cfg_network c) = Some (cfg_environment c)"
    and "\<exists>usdc. canonical_usdc_asset (cfg_network c) = Some usdc \<and> eq_ignore_ascii_case (cfg_asset c) usdc"
    and "1 \<le> unat (ec_required_confirmations e)" "unat (ec_required_confirmations e) < 2 ^ 31"
    and "eip155_fee_policy c e = Inr ()"
    by (rule validate_eip155_ok)
  with eip155_fee_policy_ok [of c e "()"] validate_thresholds [OF assms] Eip155
  show ?thesis by simp
qed

definition sample_config :: service_config where
  "sample_config = \<lparr>cfg_environment = Testnet, cfg_chain_kind = Eip155,
     cfg_network = ''eip155:84532'', cfg_bind_loopback = True,
     cfg_primary_rpc_url = \<lparr>url_text = ''https://a/'', url_scheme = ''https'', url_host = Some ''a''\<rparr>,
     cfg_backup_rpc_url = \<lparr>url_text = ''https://b/'', url_scheme = ''https'', url_host = Some ''b''\<rparr>,
     cfg_asset = BASE_SEPOLIA_USDC, cfg_asset_symbol = ''USDC'', cfg_minimum_amount = ''1000'',
     cfg_relayer_account_id = ''0x51f2dbe5c2e1f3f0d9a5b6c7e8f9a0b1c2d3e4f5'',
     cfg_max_inner_gas = 0, cfg_database_max_connections = 10,
     cfg_request_limits = default_request_limits,
     cfg_sponsorship = \<lparr>sp_global_daily_yocto_near = ''20000000'',
       sp_default_client_daily_yocto_near = ''10000000'', sp_reservation_yocto_near = ''5000000'',
       sp_balance_warning_yocto_near = ''2000'', sp_balance_hard_stop_yocto_near = ''1000''\<rparr>,
     cfg_payment_identifier = default_payment_identifier_config, cfg_accept_v1 = True,
     cfg_eip155 = Some \<lparr>ec_chain_id = 84532, ec_required_confirmations = 3, ec_gas_limit = 100000,
       ec_max_fee_per_gas_wei = ''40''\<rparr>\<rparr>"

lemma sample_decimals: "validate_decimals (config_decimals sample_config) = Inr ()"
  by code_simp

lemma sample_comparisons:
  "config_compare_decimal ''1000'' ''1000'' = Equal"
  "config_compare_decimal ''1000'' ''2000'' = Less"
  "config_compare_decimal ''5000000'' ''10000000'' = Less"
  "config_compare_decimal ''5000000'' ''20000000'' = Less"
  by code_simp+

lemma sample_eip155: "validate_eip155 sample_config = Inr ()"
  by (simp add: validate_eip155_def sample_config_def eip155_fee_policy_def is_evm_address_def
      is_ascii_hexdigit_def validate_unsigned_decimal_def is_ascii_digit_def parse_digits_def
      digit_value_def checked_mul_def)

lemma sample_config_valid: "validate account_ok sample_config = Inr ()"
  using sample_decimals sample_eip155
  by (simp add: validate_def sample_config_def sample_comparisons default_request_limits_def
      default_payment_identifier_config_def)

theorem validate_sound_witness:
  "validate (\<lambda>_. True) sample_config = Inr ()
     \<and> network_environment (cfg_network sample_config) = Some (cfg_environment sample_config)"
  using validate_sound [OF sample_config_valid] sample_config_valid by simp

end
