(* ===== verification/Store_Schema.thy ===== *)
theory Store_Schema
  imports Config
begin

text \<open>
  The durable data of \<open>store.rs\<close> and the schema the migrations give it: the settlement states, the
  row of the \<open>settlements\<close> table, the sponsorship ledgers, relayers, API clients, keys and payees,
  and the constraints PostgreSQL enforces on every statement (CHECK clauses per row, unique
  indexes between rows, NUMERIC widths). Money columns, which the code binds as decimal text, hold
  the number; a 32-byte array is a 256-bit word. \<open>lower\<close> of SQL acts on hexadecimal text here and
  is ASCII lowercasing.
\<close>

section \<open>States\<close>

datatype settlement_state = Reserved | AwaitingRetry | Prepared | Submitted | Succeeded | Failed

fun state_as_str :: "settlement_state \<Rightarrow> string" where
  "state_as_str Reserved = ''reserved''"
| "state_as_str AwaitingRetry = ''awaiting_retry''"
| "state_as_str Prepared = ''prepared''"
| "state_as_str Submitted = ''submitted''"
| "state_as_str Succeeded = ''succeeded''"
| "state_as_str Failed = ''failed''"

fun is_terminal :: "settlement_state \<Rightarrow> bool" where
  "is_terminal Succeeded = True"
| "is_terminal Failed = True"
| "is_terminal _ = False"

datatype db_constraint =
    PrimaryKey | PaymentHashUnique | ClientIdentifierUnique | RelayerNonceUnique
  | AnchorUnique | EvmActiveSigner | EvmSignerNonce | RowCheck | ForeignKey

datatype store_error =
    Database "db_constraint option"
  | Corrupt string
  | Configuration string
  | InvalidInput string
  | Transition string string

definition state_from_str :: "string \<Rightarrow> store_error + settlement_state" where
  "state_from_str value =
     (if value = ''reserved'' then Inr Reserved
      else if value = ''awaiting_retry'' then Inr AwaitingRetry
      else if value = ''prepared'' then Inr Prepared
      else if value = ''submitted'' then Inr Submitted
      else if value = ''succeeded'' then Inr Succeeded
      else if value = ''failed'' then Inr Failed
      else Inl (Corrupt (''unknown settlement state '' @ value)))"

text \<open>The states \<open>IN ('reserved', 'prepared', 'submitted')\<close> of the partial indexes and of recovery.\<close>

fun state_is_active :: "settlement_state \<Rightarrow> bool" where
  "state_is_active Reserved = True"
| "state_is_active Prepared = True"
| "state_is_active Submitted = True"
| "state_is_active _ = False"

text \<open>How far a settlement has come; terminal states are last. This is the order of the journal.\<close>

fun state_rank :: "settlement_state \<Rightarrow> nat" where
  "state_rank AwaitingRetry = 0"
| "state_rank Reserved = 1"
| "state_rank Prepared = 2"
| "state_rank Submitted = 3"
| "state_rank Succeeded = 4"
| "state_rank Failed = 5"

instantiation settlement_state :: linorder
begin

definition less_eq_settlement_state :: "settlement_state \<Rightarrow> settlement_state \<Rightarrow> bool" where
  "a \<le> b \<longleftrightarrow> state_rank a \<le> state_rank b"

definition less_settlement_state :: "settlement_state \<Rightarrow> settlement_state \<Rightarrow> bool" where
  "a < b \<longleftrightarrow> state_rank a < state_rank b"

instance
proof
  fix a b c :: settlement_state
  show "a < b \<longleftrightarrow> a \<le> b \<and> \<not> b \<le> a"
    by (auto simp: less_eq_settlement_state_def less_settlement_state_def)
  show "a \<le> a" by (simp add: less_eq_settlement_state_def)
  show "a \<le> b \<Longrightarrow> b \<le> c \<Longrightarrow> a \<le> c" by (simp add: less_eq_settlement_state_def)
  show "a \<le> b \<Longrightarrow> b \<le> a \<Longrightarrow> a = b"
    by (cases a; cases b) (simp_all add: less_eq_settlement_state_def)
  show "a \<le> b \<or> b \<le> a" by (simp add: less_eq_settlement_state_def linear)
qed

end

section \<open>Rows\<close>

type_synonym uuid = nat
type_synonym hash32 = u256

type_synonym date = nat

record evm_authorization_metadata =
  am_version :: u8
  am_valid_after :: string
  am_valid_before :: string

record settlement =
  st_id :: uuid
  st_api_client_id :: uuid
  st_payment_identifier :: "string option"
  st_payment_hash :: hash32
  st_request_fingerprint :: hash32
  st_anchor_scope :: string
  st_anchor_value :: hash32
  st_state :: settlement_state
  st_chain_kind :: chain_kind
  st_network :: string
  st_asset :: string
  st_pay_to :: string
  st_amount :: nat
  st_payer :: string
  st_authorization_metadata :: "evm_authorization_metadata option"
  st_policy_snapshot :: json
  st_delegate_public_key :: "string option"
  st_delegate_nonce :: "nat option"
  st_delegate_max_block_height :: "nat option"
  st_reservation_date :: date
  st_reserved_yocto_near :: nat
  st_relayer_account_id :: "string option"
  st_relayer_public_key :: "string option"
  st_relayer_nonce :: "nat option"
  st_outer_transaction_bytes :: "bytes option"
  st_outer_transaction_hash :: "string option"
  st_signer_address :: "string option"
  st_signer_account_nonce :: "nat option"
  st_submitted_tx_rlp :: "bytes option"
  st_submitted_tx_hash :: "string option"
  st_confirmations :: "int option"
  st_required_confirmations :: "int option"
  st_attempt_count :: nat
  st_retry_code :: "string option"
  st_terminal_http_status :: "nat option"
  st_terminal_response_bytes :: "bytes option"
  st_error_code :: "string option"
  st_error_detail :: "string option"
  st_gas_burnt :: "nat option"
  st_tokens_burnt :: "nat option"
  st_mined_block_number :: "nat option"
  st_mined_block_hash :: "string option"
  st_finalized_at :: "nat option"
  st_created_at :: nat
  st_reconciliation_attempts :: nat

record ledger =
  lg_reserved :: nat
  lg_spent :: nat

datatype row_status = Active | Revoked

record api_client =
  cl_id :: uuid
  cl_name :: string
  cl_environment :: string
  cl_daily_budget_yocto_near :: nat
  cl_verify_rate_per_minute :: u32
  cl_settle_rate_per_minute :: u32

record api_key =
  ak_id :: uuid
  ak_client_id :: uuid
  ak_prefix :: string
  ak_digest :: hash32
  ak_status :: row_status

datatype relayer_status = RelayerActive | RelayerQuarantined | RelayerDisabled

record relayer =
  ry_status :: relayer_status
  ry_quarantine_reason :: "string option"
  ry_last_observed_nonce :: "nat option"

record settlement_event =
  ev_settlement_id :: uuid
  ev_from :: "settlement_state option"
  ev_to :: settlement_state
  ev_code :: "string option"

record db =
  db_settlements :: "settlement list"
  db_global :: "date \<rightharpoonup> ledger"
  db_clients_ledger :: "date \<times> uuid \<rightharpoonup> ledger"
  db_events :: "settlement_event list"
  db_relayers :: "string \<times> string \<times> string \<rightharpoonup> relayer"
  db_clients :: "(api_client \<times> row_status) list"
  db_keys :: "api_key list"
  db_payees :: "(uuid \<times> string \<times> string \<times> string) list"

section \<open>Constraints\<close>

definition numeric40 :: "nat \<Rightarrow> bool" where
  "numeric40 n \<longleftrightarrow> n < 10 ^ 40"

definition numeric20 :: "nat option \<Rightarrow> bool" where
  "numeric20 n \<longleftrightarrow> (case n of None \<Rightarrow> True | Some v \<Rightarrow> v < 10 ^ 20)"

definition numeric40_opt :: "nat option \<Rightarrow> bool" where
  "numeric40_opt n \<longleftrightarrow> (case n of None \<Rightarrow> True | Some v \<Rightarrow> numeric40 v)"

definition identifier_char :: "char \<Rightarrow> bool" where
  "identifier_char c \<longleftrightarrow> is_ascii_alphanumeric c \<or> c = CHR ''-'' \<or> c = CHR ''_''"

definition payment_identifier_check :: "settlement \<Rightarrow> bool" where
  "payment_identifier_check r \<longleftrightarrow>
     (case st_payment_identifier r of
        None \<Rightarrow> True
      | Some i \<Rightarrow> list_all identifier_char i \<and> 16 \<le> length i \<and> length i \<le> 128)"

definition evm_anchor_scope :: "string \<Rightarrow> string \<Rightarrow> string \<Rightarrow> string" where
  "evm_anchor_scope network asset payer =
     network @ '':'' @ to_ascii_lowercase asset @ '':'' @ to_ascii_lowercase payer"

definition anchor_scope_check :: "settlement \<Rightarrow> bool" where
  "anchor_scope_check r \<longleftrightarrow>
     (case st_chain_kind r of
        Near \<Rightarrow> st_anchor_scope r = ''near'' \<and> st_anchor_value r = st_payment_hash r
      | Eip155 \<Rightarrow> st_anchor_scope r = evm_anchor_scope (st_network r) (st_asset r) (st_payer r))"

definition chain_authorization_check :: "settlement \<Rightarrow> bool" where
  "chain_authorization_check r \<longleftrightarrow>
     (case st_chain_kind r of
        Near \<Rightarrow> st_delegate_public_key r \<noteq> None \<and> st_delegate_nonce r \<noteq> None
          \<and> st_delegate_max_block_height r \<noteq> None \<and> st_authorization_metadata r = None
      | Eip155 \<Rightarrow> st_signer_address r \<noteq> None
          \<and> (case st_authorization_metadata r of None \<Rightarrow> False | Some m \<Rightarrow> am_version m = 2))"

definition near_submission :: "settlement \<Rightarrow> bool" where
  "near_submission r \<longleftrightarrow> st_relayer_account_id r \<noteq> None \<and> st_relayer_public_key r \<noteq> None
     \<and> st_relayer_nonce r \<noteq> None \<and> st_outer_transaction_bytes r \<noteq> None
     \<and> st_outer_transaction_hash r \<noteq> None"

definition evm_submission :: "settlement \<Rightarrow> bool" where
  "evm_submission r \<longleftrightarrow> st_signer_address r \<noteq> None \<and> st_signer_account_nonce r \<noteq> None
     \<and> st_submitted_tx_rlp r \<noteq> None \<and> st_submitted_tx_hash r \<noteq> None
     \<and> st_required_confirmations r \<noteq> None"

definition nonterminal_submission_check :: "settlement \<Rightarrow> bool" where
  "nonterminal_submission_check r \<longleftrightarrow>
     st_state r \<in> {Reserved, AwaitingRetry, Failed}
     \<or> st_chain_kind r = Near \<and> near_submission r
     \<or> st_chain_kind r = Eip155 \<and> evm_submission r"

definition no_submission :: "settlement \<Rightarrow> bool" where
  "no_submission r \<longleftrightarrow> st_relayer_account_id r = None \<and> st_relayer_public_key r = None
     \<and> st_relayer_nonce r = None \<and> st_outer_transaction_bytes r = None
     \<and> st_outer_transaction_hash r = None \<and> st_signer_account_nonce r = None
     \<and> st_submitted_tx_rlp r = None \<and> st_submitted_tx_hash r = None"

definition awaiting_retry_check :: "settlement \<Rightarrow> bool" where
  "awaiting_retry_check r \<longleftrightarrow> st_state r \<noteq> AwaitingRetry
     \<or> st_retry_code r \<noteq> None \<and> st_reserved_yocto_near r = 0 \<and> no_submission r"

definition confirmations_check :: "settlement \<Rightarrow> bool" where
  "confirmations_check r \<longleftrightarrow>
     (case st_confirmations r of None \<Rightarrow> True | Some c \<Rightarrow> 0 \<le> c)
     \<and> (case st_required_confirmations r of None \<Rightarrow> True | Some c \<Rightarrow> 1 \<le> c)"

definition evm_success_confirmations_check :: "settlement \<Rightarrow> bool" where
  "evm_success_confirmations_check r \<longleftrightarrow>
     \<not> (st_chain_kind r = Eip155 \<and> st_state r = Succeeded)
     \<or> (case (st_confirmations r, st_required_confirmations r) of
           (Some c, Some q) \<Rightarrow> q \<le> c | _ \<Rightarrow> False)"

definition terminal_check :: "settlement \<Rightarrow> bool" where
  "terminal_check r \<longleftrightarrow> \<not> is_terminal (st_state r)
     \<or> st_terminal_http_status r \<noteq> None \<and> st_terminal_response_bytes r \<noteq> None
       \<and> st_finalized_at r \<noteq> None"

definition numeric_check :: "settlement \<Rightarrow> bool" where
  "numeric_check r \<longleftrightarrow> numeric40 (st_amount r) \<and> numeric40 (st_reserved_yocto_near r)
     \<and> numeric20 (st_delegate_nonce r) \<and> numeric20 (st_delegate_max_block_height r)
     \<and> numeric20 (st_relayer_nonce r) \<and> numeric20 (st_signer_account_nonce r)
     \<and> numeric40_opt (st_gas_burnt r) \<and> numeric40_opt (st_tokens_burnt r)
     \<and> numeric20 (st_mined_block_number r)
     \<and> 1 \<le> st_attempt_count r \<and> st_attempt_count r < 2 ^ 31
     \<and> st_reconciliation_attempts r < 2 ^ 31"

definition row_checks :: "settlement \<Rightarrow> bool" where
  "row_checks r \<longleftrightarrow> payment_identifier_check r \<and> anchor_scope_check r
     \<and> chain_authorization_check r \<and> nonterminal_submission_check r \<and> awaiting_retry_check r
     \<and> confirmations_check r \<and> evm_success_confirmations_check r \<and> terminal_check r
     \<and> numeric_check r"

text \<open>
  Each unique index as the key a row has under it, if the index covers the row. Two rows conflict
  when both are covered with equal keys; the indexes are consulted in the order of creation.
\<close>

definition identifier_key :: "settlement \<Rightarrow> (uuid \<times> string) option" where
  "identifier_key r = map_option (Pair (st_api_client_id r)) (st_payment_identifier r)"

definition relayer_nonce_key ::
  "settlement \<Rightarrow> (string \<times> string option \<times> string option \<times> nat) option" where
  "relayer_nonce_key r = (case st_relayer_nonce r of
     None \<Rightarrow> None
   | Some n \<Rightarrow> Some (st_network r, st_relayer_account_id r, st_relayer_public_key r, n))"

definition active_signer_key :: "settlement \<Rightarrow> (string \<times> string) option" where
  "active_signer_key r =
     (if st_chain_kind r = Eip155 \<and> state_is_active (st_state r)
      then map_option (\<lambda>a. (st_network r, to_ascii_lowercase a)) (st_signer_address r) else None)"

definition signer_nonce_key :: "settlement \<Rightarrow> (string \<times> string \<times> nat) option" where
  "signer_nonce_key r =
     (if st_chain_kind r = Eip155
      then (case (st_signer_address r, st_signer_account_nonce r) of
              (Some a, Some n) \<Rightarrow> Some (st_network r, to_ascii_lowercase a, n)
            | _ \<Rightarrow> None) else None)"

definition clash :: "'k option \<Rightarrow> 'k option \<Rightarrow> bool" where
  "clash a b \<longleftrightarrow> a \<noteq> None \<and> a = b"

definition unique_violation :: "settlement \<Rightarrow> settlement \<Rightarrow> db_constraint option" where
  "unique_violation r s =
     (if st_id r = st_id s then Some PrimaryKey
      else if st_payment_hash r = st_payment_hash s then Some PaymentHashUnique
      else if clash (identifier_key r) (identifier_key s) then Some ClientIdentifierUnique
      else if clash (relayer_nonce_key r) (relayer_nonce_key s) then Some RelayerNonceUnique
      else if st_anchor_scope r = st_anchor_scope s \<and> st_anchor_value r = st_anchor_value s
        then Some AnchorUnique
      else if clash (active_signer_key r) (active_signer_key s) then Some EvmActiveSigner
      else if clash (signer_nonce_key r) (signer_nonce_key s) then Some EvmSignerNonce
      else None)"

fun first_violation :: "settlement \<Rightarrow> settlement list \<Rightarrow> db_constraint option" where
  "first_violation r [] = None"
| "first_violation r (s # rs) =
     (case unique_violation r s of None \<Rightarrow> first_violation r rs | Some c \<Rightarrow> Some c)"

text \<open>
  The whole table: distinct keys under every index and every row within its CHECK clauses.
\<close>

fun table_ok :: "settlement list \<Rightarrow> bool" where
  "table_ok [] = True"
| "table_ok (r # rs) = (row_checks r \<and> first_violation r rs = None \<and> table_ok rs)"

section \<open>Lemmas\<close>

lemma state_from_as_str: "state_from_str (state_as_str s) = Inr s"
  by (cases s) (simp_all add: state_from_str_def)

lemma state_from_str_Inr: "state_from_str t = Inr s \<Longrightarrow> t = state_as_str s"
  by (auto simp: state_from_str_def split: if_splits)

lemma active_not_terminal: "state_is_active s \<Longrightarrow> \<not> is_terminal s"
  by (cases s) simp_all

lemma clash_sym: "clash a b \<longleftrightarrow> clash b a"
  by (auto simp: clash_def)

lemma unique_violation_None_iff:
  "unique_violation r s = None \<longleftrightarrow>
     st_id r \<noteq> st_id s \<and> st_payment_hash r \<noteq> st_payment_hash s
     \<and> \<not> clash (identifier_key r) (identifier_key s)
     \<and> \<not> clash (relayer_nonce_key r) (relayer_nonce_key s)
     \<and> \<not> (st_anchor_scope r = st_anchor_scope s \<and> st_anchor_value r = st_anchor_value s)
     \<and> \<not> clash (active_signer_key r) (active_signer_key s)
     \<and> \<not> clash (signer_nonce_key r) (signer_nonce_key s)"
  by (simp add: unique_violation_def)

lemma unique_violation_None_sym: "unique_violation r s = None \<Longrightarrow> unique_violation s r = None"
  unfolding unique_violation_None_iff using clash_sym by metis

lemma first_violation_None: "first_violation r rs = None \<longleftrightarrow> (\<forall>s \<in> set rs. unique_violation r s = None)"
  by (induction rs) (auto split: option.splits)

text \<open>What the indexes say of two different rows, read off the absence of a violation.\<close>

lemma no_violationD:
  assumes "unique_violation r s = None"
  shows "st_id r \<noteq> st_id s" and "st_payment_hash r \<noteq> st_payment_hash s"
    and "\<not> (st_anchor_scope r = st_anchor_scope s \<and> st_anchor_value r = st_anchor_value s)"
    and "\<not> clash (identifier_key r) (identifier_key s)"
    and "\<not> clash (active_signer_key r) (active_signer_key s)"
    and "\<not> clash (signer_nonce_key r) (signer_nonce_key s)"
    and "\<not> clash (relayer_nonce_key r) (relayer_nonce_key s)"
  using assms unfolding unique_violation_None_iff by blast+

lemma table_ok_iff:
  "table_ok rs \<longleftrightarrow> (\<forall>r \<in> set rs. row_checks r) \<and> distinct rs
     \<and> (\<forall>r \<in> set rs. \<forall>s \<in> set rs. r \<noteq> s \<longrightarrow> unique_violation r s = None)"
proof (induction rs)
  case Nil
  then show ?case by simp
next
  case (Cons r rs)
  have irrefl: "unique_violation x x \<noteq> None" for x
    by (simp add: unique_violation_def)
  have "distinct (r # rs) \<and>
      (\<forall>a \<in> set (r # rs). \<forall>b \<in> set (r # rs). a \<noteq> b \<longrightarrow> unique_violation a b = None) \<longleftrightarrow>
      (\<forall>s \<in> set rs. unique_violation r s = None) \<and> distinct rs
      \<and> (\<forall>a \<in> set rs. \<forall>b \<in> set rs. a \<noteq> b \<longrightarrow> unique_violation a b = None)"
    by (rule pairwise_Cons) (use unique_violation_None_sym irrefl in blast)+
  then show ?case
    unfolding table_ok.simps Cons.IH first_violation_None list.set(2) ball_simps(7) by blast
qed

lemma table_ok_distinct_ids: "table_ok rs \<Longrightarrow> distinct (map st_id rs)"
  by (induction rs) (auto simp: first_violation_None dest: no_violationD(1))

end
