(* ===== verification/Store.thy ===== *)
theory Store
  imports Store_Schema
begin

text \<open>
  The operations of \<open>PgStore\<close> over the schema of \<open>Store_Schema\<close>, each a function on the database
  state. A SQL transaction is one function that returns the committed state, or the error with
  the state unchanged; the reads \<open>claim_settlement\<close> makes outside its transaction each see their
  own snapshot, so that writes of other sessions may fall between them. The clock (\<open>today\<close>, \<open>now\<close>)
  is an argument.
\<close>

section \<open>Statements\<close>

definition find_row :: "db \<Rightarrow> uuid \<Rightarrow> settlement option" where
  "find_row d i = find (\<lambda>r. st_id r = i) (db_settlements d)"

definition client_exists :: "db \<Rightarrow> uuid \<Rightarrow> bool" where
  "client_exists d i \<longleftrightarrow> list_ex (\<lambda>c. cl_id (fst c) = i) (db_clients d)"

definition client_is_active :: "db \<Rightarrow> uuid \<Rightarrow> bool" where
  "client_is_active d i \<longleftrightarrow> list_ex (\<lambda>c. cl_id (fst c) = i \<and> snd c = Active) (db_clients d)"

text \<open>
  \<open>UPDATE settlements ... WHERE id = ...\<close>: the new row must pass its CHECK clauses and every unique
  index against the other rows.
\<close>

definition put_row :: "db \<Rightarrow> settlement \<Rightarrow> store_error + db" where
  "put_row d r =
     (if \<not> row_checks r then Inl (Database (Some RowCheck))
      else case first_violation r (filter (\<lambda>s. st_id s \<noteq> st_id r) (db_settlements d)) of
             Some c \<Rightarrow> Inl (Database (Some c))
           | None \<Rightarrow> Inr (d\<lparr>db_settlements :=
               map (\<lambda>s. if st_id s = st_id r then r else s) (db_settlements d)\<rparr>))"

text \<open>
  \<open>INSERT INTO settlements ... ON CONFLICT DO NOTHING\<close>: \<open>None\<close> when no row was inserted.
\<close>

definition insert_row :: "db \<Rightarrow> settlement \<Rightarrow> store_error + db option" where
  "insert_row d r =
     (if \<not> row_checks r then Inl (Database (Some RowCheck))
      else if first_violation r (db_settlements d) \<noteq> None then Inr None
      else if \<not> client_exists d (st_api_client_id r) then Inl (Database (Some ForeignKey))
      else Inr (Some (d\<lparr>db_settlements := db_settlements d @ [r]\<rparr>)))"

definition insert_event ::
  "db \<Rightarrow> uuid \<Rightarrow> settlement_state option \<Rightarrow> settlement_state \<Rightarrow> string option \<Rightarrow> db" where
  "insert_event d i from_state to_state code = d\<lparr>db_events := db_events d @
     [\<lparr>ev_settlement_id = i, ev_from = from_state, ev_to = to_state, ev_code = code\<rparr>]\<rparr>"

definition state_for_update :: "db \<Rightarrow> uuid \<Rightarrow> store_error + string" where
  "state_for_update d i = (case find_row d i of
     None \<Rightarrow> Inl (Corrupt ''settlement not found'')
   | Some r \<Rightarrow> Inr (state_as_str (st_state r)))"

section \<open>Sponsorship ledgers\<close>

definition reserve_ledger :: "ledger option \<Rightarrow> nat \<Rightarrow> nat \<Rightarrow> store_error + ledger option" where
  "reserve_ledger l reservation limit =
     (if \<not> reservation \<le> limit then Inr None
      else if \<not> numeric40 reservation then Inl (Database None)
      else case l of
        None \<Rightarrow> Inr (Some \<lparr>lg_reserved = reservation, lg_spent = 0\<rparr>)
      | Some l \<Rightarrow>
          if lg_reserved l + lg_spent l + reservation \<le> limit then
            if numeric40 (lg_reserved l + reservation)
            then Inr (Some (l\<lparr>lg_reserved := lg_reserved l + reservation\<rparr>))
            else Inl (Database None)
          else Inr None)"

definition reserve_global_budget :: "db \<Rightarrow> date \<Rightarrow> nat \<Rightarrow> nat \<Rightarrow> store_error + db option" where
  "reserve_global_budget d usage_date reservation limit =
     bind_res (reserve_ledger (db_global d usage_date) reservation limit) (\<lambda>l.
       Inr (map_option (\<lambda>l. d\<lparr>db_global := (db_global d)(usage_date \<mapsto> l)\<rparr>) l))"

definition reserve_client_budget ::
  "db \<Rightarrow> date \<Rightarrow> uuid \<Rightarrow> nat \<Rightarrow> nat \<Rightarrow> store_error + db option" where
  "reserve_client_budget d usage_date client_id reservation limit =
     bind_res (reserve_ledger (db_clients_ledger d (usage_date, client_id)) reservation limit) (\<lambda>l.
       case l of
         None \<Rightarrow> Inr None
       | Some l \<Rightarrow>
           if db_clients_ledger d (usage_date, client_id) = None \<and> \<not> client_exists d client_id
           then Inl (Database (Some ForeignKey))
           else Inr (Some (d\<lparr>db_clients_ledger :=
                  (db_clients_ledger d)((usage_date, client_id) \<mapsto> l)\<rparr>)))"

definition release_ledger :: "ledger option \<Rightarrow> nat \<Rightarrow> nat \<Rightarrow> store_error + ledger option" where
  "release_ledger l reservation actual =
     (case l of
        None \<Rightarrow> Inr None
      | Some l \<Rightarrow>
          if lg_reserved l < reservation then Inr None
          else if \<not> numeric40 (lg_spent l + actual) then Inl (Database None)
          else Inr (Some \<lparr>lg_reserved = lg_reserved l - reservation, lg_spent = lg_spent l + actual\<rparr>))"

definition release_budget :: "db \<Rightarrow> date \<Rightarrow> uuid \<Rightarrow> nat \<Rightarrow> nat \<Rightarrow> store_error + db" where
  "release_budget d usage_date client_id reservation actual =
     bind_res (release_ledger (db_global d usage_date) reservation actual) (\<lambda>g.
     bind_res (release_ledger (db_clients_ledger d (usage_date, client_id)) reservation actual) (\<lambda>c.
     case (g, c) of
       (Some g, Some c) \<Rightarrow> Inr (d\<lparr>db_global := (db_global d)(usage_date \<mapsto> g),
          db_clients_ledger := (db_clients_ledger d)((usage_date, client_id) \<mapsto> c)\<rparr>)
     | _ \<Rightarrow> Inl (Corrupt ''sponsorship reservation ledger row is missing'')))"

section \<open>Claiming a settlement\<close>

record new_settlement =
  new_id :: uuid
  new_api_client_id :: uuid
  new_payment_identifier :: "string option"
  new_payment_hash :: hash32
  new_request_fingerprint :: hash32
  new_anchor_scope :: string
  new_anchor_value :: hash32
  new_network :: string
  new_asset :: string
  new_pay_to :: string
  new_amount :: nat
  new_payer :: string
  new_chain_kind :: chain_kind
  new_delegate_public_key :: "string option"
  new_delegate_nonce :: "nat option"
  new_delegate_max_block_height :: "nat option"
  new_authorization_metadata :: "evm_authorization_metadata option"
  new_signer_address :: "string option"
  new_policy_snapshot :: json
  new_reservation_yocto_near :: nat
  new_global_daily_budget_yocto_near :: nat
  new_client_daily_budget_yocto_near :: nat

datatype claim_outcome =
    ClaimNew settlement
  | ClaimExisting settlement
  | IdentifierConflict
  | DuplicateSettlement
  | SettlementBusy
  | BudgetExceeded

fun scan_existing ::
  "uuid \<Rightarrow> string \<Rightarrow> hash32 \<Rightarrow> hash32 \<Rightarrow> settlement list \<Rightarrow> bool \<Rightarrow> claim_outcome option" where
  "scan_existing client identifier payment_hash fingerprint [] payment_hash_exists =
     (if payment_hash_exists then Some DuplicateSettlement else None)"
| "scan_existing client identifier payment_hash fingerprint (r # rs) payment_hash_exists =
     (if st_api_client_id r = client \<and> st_payment_identifier r = Some identifier then
        (if st_request_fingerprint r = fingerprint then Some (ClaimExisting r)
         else Some IdentifierConflict)
      else scan_existing client identifier payment_hash fingerprint rs
             (payment_hash_exists \<or> st_payment_hash r = payment_hash))"

definition find_existing_settlement ::
  "db \<Rightarrow> uuid \<Rightarrow> string option \<Rightarrow> hash32 \<Rightarrow> hash32 \<Rightarrow> claim_outcome option" where
  "find_existing_settlement d client payment_identifier payment_hash fingerprint =
     (case payment_identifier of
        Some identifier \<Rightarrow>
          scan_existing client identifier payment_hash fingerprint
            (filter (\<lambda>r. st_api_client_id r = client \<and> st_payment_identifier r = Some identifier
                      \<or> st_payment_hash r = payment_hash) (db_settlements d)) False
      | None \<Rightarrow>
          (case find (\<lambda>r. st_payment_hash r = payment_hash) (db_settlements d) of
             None \<Rightarrow> None
           | Some r \<Rightarrow>
               if st_api_client_id r = client \<and> st_request_fingerprint r = fingerprint
               then Some (ClaimExisting r) else Some DuplicateSettlement))"

definition anchor_is_claimed :: "db \<Rightarrow> string \<Rightarrow> hash32 \<Rightarrow> bool" where
  "anchor_is_claimed d scope value \<longleftrightarrow>
     list_ex (\<lambda>r. st_anchor_scope r = scope \<and> st_anchor_value r = value) (db_settlements d)"

definition active_evm_signer_exists :: "db \<Rightarrow> chain_kind \<Rightarrow> string \<Rightarrow> string option \<Rightarrow> bool" where
  "active_evm_signer_exists d kind network signer =
     (if kind \<noteq> Eip155 then False
      else case signer of
        None \<Rightarrow> False
      | Some a \<Rightarrow> list_ex (\<lambda>r. st_chain_kind r = Eip155 \<and> state_is_active (st_state r)
            \<and> st_network r = network
            \<and> (case st_signer_address r of None \<Rightarrow> False
               | Some b \<Rightarrow> to_ascii_lowercase b = to_ascii_lowercase a)) (db_settlements d))"

definition claim_row :: "date \<Rightarrow> nat \<Rightarrow> new_settlement \<Rightarrow> settlement" where
  "claim_row usage_date now n =
     \<lparr>st_id = new_id n, st_api_client_id = new_api_client_id n,
      st_payment_identifier = new_payment_identifier n, st_payment_hash = new_payment_hash n,
      st_request_fingerprint = new_request_fingerprint n, st_anchor_scope = new_anchor_scope n,
      st_anchor_value = new_anchor_value n, st_state = Reserved, st_chain_kind = new_chain_kind n,
      st_network = new_network n, st_asset = new_asset n, st_pay_to = new_pay_to n,
      st_amount = new_amount n, st_payer = new_payer n,
      st_authorization_metadata = new_authorization_metadata n,
      st_policy_snapshot = new_policy_snapshot n,
      st_delegate_public_key = new_delegate_public_key n, st_delegate_nonce = new_delegate_nonce n,
      st_delegate_max_block_height = new_delegate_max_block_height n,
      st_reservation_date = usage_date, st_reserved_yocto_near = new_reservation_yocto_near n,
      st_relayer_account_id = None, st_relayer_public_key = None, st_relayer_nonce = None,
      st_outer_transaction_bytes = None, st_outer_transaction_hash = None,
      st_signer_address = new_signer_address n, st_signer_account_nonce = None,
      st_submitted_tx_rlp = None, st_submitted_tx_hash = None, st_confirmations = None,
      st_required_confirmations = None, st_attempt_count = 1, st_retry_code = None,
      st_terminal_http_status = None, st_terminal_response_bytes = None, st_error_code = None,
      st_error_detail = None, st_gas_burnt = None, st_tokens_burnt = None,
      st_mined_block_number = None, st_mined_block_hash = None, st_finalized_at = None,
      st_created_at = now, st_reconciliation_attempts = 0\<rparr>"

datatype claim_tx = TxCommitted db | TxConflict | TxBudgetExceeded

text \<open>The transaction of \<open>claim_settlement\<close>: insert, reserve both budgets, record the event.\<close>

definition claim_transaction ::
  "date \<Rightarrow> nat \<Rightarrow> db \<Rightarrow> new_settlement \<Rightarrow> store_error + claim_tx" where
  "claim_transaction usage_date now d n =
     bind_res (insert_row d (claim_row usage_date now n)) (\<lambda>ins.
     case ins of
       None \<Rightarrow> Inr TxConflict
     | Some d1 \<Rightarrow>
         bind_res (reserve_global_budget d1 usage_date (new_reservation_yocto_near n)
                     (new_global_daily_budget_yocto_near n)) (\<lambda>g.
         case g of
           None \<Rightarrow> Inr TxBudgetExceeded
         | Some d2 \<Rightarrow>
             bind_res (reserve_client_budget d2 usage_date (new_api_client_id n)
                         (new_reservation_yocto_near n) (new_client_daily_budget_yocto_near n)) (\<lambda>c.
             case c of
               None \<Rightarrow> Inr TxBudgetExceeded
             | Some d3 \<Rightarrow> Inr (TxCommitted
                 (insert_event d3 (new_id n) None Reserved (Some ''claimed''))))))"

definition existing_for :: "db \<Rightarrow> new_settlement \<Rightarrow> claim_outcome option" where
  "existing_for d n = find_existing_settlement d (new_api_client_id n) (new_payment_identifier n)
     (new_payment_hash n) (new_request_fingerprint n)"

definition or_else_outcome :: "claim_outcome option \<Rightarrow> claim_outcome \<Rightarrow> claim_outcome" where
  "or_else_outcome existing outcome = (case existing of Some e \<Rightarrow> e | None \<Rightarrow> outcome)"

text \<open>
  \<open>claim_settlement\<close>. Statement \<open>k\<close> of the body sees the database \<open>s k\<close>; the transaction is statement
  5, whose state afterwards is the second component, and a committed claim is read back by statement 6.
  Other sessions may write between any two statements.
\<close>

definition claim_settlement ::
  "date \<Rightarrow> nat \<Rightarrow> (nat \<Rightarrow> db) \<Rightarrow> new_settlement \<Rightarrow> (store_error + claim_outcome) \<times> db" where
  "claim_settlement usage_date now s n =
     (if new_chain_kind n = Eip155
         \<and> (case new_authorization_metadata n of None \<Rightarrow> True | Some m \<Rightarrow> am_version m \<noteq> 2) then
        (Inl (InvalidInput ''EVM authorization metadata must use canonical x402 version 2''), s 5)
      else case existing_for (s 0) n of
        Some existing \<Rightarrow> (Inr existing, s 5)
      | None \<Rightarrow>
      if anchor_is_claimed (s 1) (new_anchor_scope n) (new_anchor_value n) then
        (Inr (or_else_outcome (existing_for (s 2) n) DuplicateSettlement), s 5)
      else if active_evm_signer_exists (s 3) (new_chain_kind n) (new_network n) (new_signer_address n) then
        (Inr (or_else_outcome (existing_for (s 4) n) SettlementBusy), s 5)
      else case claim_transaction usage_date now (s 5) n of
        Inl e \<Rightarrow> (Inl e, s 5)
      | Inr TxBudgetExceeded \<Rightarrow> (Inr BudgetExceeded, s 5)
      | Inr TxConflict \<Rightarrow>
          (case existing_for (s 6) n of
             Some existing \<Rightarrow> (Inr existing, s 5)
           | None \<Rightarrow>
               if anchor_is_claimed (s 7) (new_anchor_scope n) (new_anchor_value n)
               then (Inr DuplicateSettlement, s 5)
               else if active_evm_signer_exists (s 8) (new_chain_kind n) (new_network n)
                         (new_signer_address n)
               then (Inr SettlementBusy, s 5)
               else (Inl (Corrupt ''settlement insert conflicted but conflicting row was not visible''), s 5))
      | Inr (TxCommitted d) \<Rightarrow>
          (case find_row (s 6) (new_id n) of
             None \<Rightarrow> (Inl (Corrupt ''inserted settlement disappeared''), d)
           | Some r \<Rightarrow> (Inr (ClaimNew r), d)))"

section \<open>State transitions\<close>

record retry_reservation =
  rr_settlement_id :: uuid
  rr_policy_snapshot :: json
  rr_reservation_yocto_near :: nat
  rr_global_daily_budget_yocto_near :: nat
  rr_client_daily_budget_yocto_near :: nat

record prepared_journal_entry =
  pe_settlement_id :: uuid
  pe_relayer_account_id :: string
  pe_relayer_public_key :: string
  pe_relayer_nonce :: nat
  pe_transaction_bytes :: bytes
  pe_transaction_hash :: string

record evm_prepared_journal_entry =
  ee_settlement_id :: uuid
  ee_signer_account_nonce :: nat
  ee_submitted_tx_rlp :: bytes
  ee_submitted_tx_hash :: string
  ee_required_confirmations :: int

record terminal_journal_entry =
  te_settlement_id :: uuid
  te_state :: settlement_state
  te_http_status :: u16
  te_response_bytes :: bytes
  te_error_code :: "string option"
  te_error_detail :: "string option"
  te_gas_burnt :: "nat option"
  te_tokens_burnt :: "nat option"
  te_actual_yocto_near :: nat
  te_mined_block_number :: "nat option"
  te_mined_block_hash :: "string option"
  te_confirmations :: "int option"

datatype retry_outcome = Resumed settlement | RetryBusy | RetryBudgetExceeded

definition mark_awaiting_retry :: "db \<Rightarrow> uuid \<Rightarrow> string \<Rightarrow> store_error + db" where
  "mark_awaiting_retry d i retry_code =
     (if retry_code = [] then Inl (InvalidInput ''retry code must not be empty'')
      else case find_row d i of
        None \<Rightarrow> Inl (Corrupt ''retry settlement not found'')
      | Some r \<Rightarrow>
          if st_state r \<noteq> Reserved then
            Inl (Transition (state_as_str (st_state r)) (state_as_str AwaitingRetry))
          else
            bind_res (release_budget d (st_reservation_date r) (st_api_client_id r)
                        (st_reserved_yocto_near r) 0) (\<lambda>d1.
            bind_res (put_row d1 (r\<lparr>st_state := AwaitingRetry, st_reserved_yocto_near := 0,
                        st_retry_code := Some retry_code\<rparr>)) (\<lambda>d2.
            Inr (insert_event d2 i (Some Reserved) AwaitingRetry (Some retry_code)))))"

definition resume_awaiting_retry ::
  "date \<Rightarrow> db \<Rightarrow> retry_reservation \<Rightarrow> (store_error + retry_outcome) \<times> db" where
  "resume_awaiting_retry usage_date d q =
     (case find_row d (rr_settlement_id q) of
        None \<Rightarrow> (Inl (Corrupt ''retry settlement not found''), d)
      | Some r \<Rightarrow>
          if st_state r \<noteq> AwaitingRetry then
            (Inl (Transition (state_as_str (st_state r)) (state_as_str Reserved)), d)
          else
            let r' = r\<lparr>st_state := Reserved, st_policy_snapshot := rr_policy_snapshot q,
                       st_reservation_date := usage_date,
                       st_reserved_yocto_near := rr_reservation_yocto_near q,
                       st_attempt_count := st_attempt_count r + 1, st_retry_code := None\<rparr>
            in case put_row d r' of
              Inl e \<Rightarrow> if e = Database (Some EvmActiveSigner) then (Inr RetryBusy, d) else (Inl e, d)
            | Inr d1 \<Rightarrow>
                (case reserve_global_budget d1 usage_date (rr_reservation_yocto_near q)
                        (rr_global_daily_budget_yocto_near q) of
                   Inl e \<Rightarrow> (Inl e, d)
                 | Inr None \<Rightarrow> (Inr RetryBudgetExceeded, d)
                 | Inr (Some d2) \<Rightarrow>
                     (case reserve_client_budget d2 usage_date (st_api_client_id r)
                             (rr_reservation_yocto_near q) (rr_client_daily_budget_yocto_near q) of
                        Inl e \<Rightarrow> (Inl e, d)
                      | Inr None \<Rightarrow> (Inr RetryBudgetExceeded, d)
                      | Inr (Some d3) \<Rightarrow>
                          let d4 = insert_event d3 (rr_settlement_id q) (Some AwaitingRetry) Reserved
                                     (Some ''retry_resumed'')
                          in case find_row d4 (rr_settlement_id q) of
                               None \<Rightarrow> (Inl (Corrupt ''resumed settlement disappeared''), d4)
                             | Some r'' \<Rightarrow> (Inr (Resumed r''), d4))))"

definition raise_required_confirmations ::
  "db \<Rightarrow> uuid \<Rightarrow> int \<Rightarrow> (store_error + int) \<times> db" where
  "raise_required_confirmations d i minimum =
     (if minimum < 1 then
        (Inl (InvalidInput ''required confirmations must be at least 1''), d)
      else case find_row d i of
        None \<Rightarrow> (Inl (Corrupt ''confirmation settlement not found''), d)
      | Some r \<Rightarrow>
          if st_chain_kind r = Eip155 \<and> (st_state r = Prepared \<or> st_state r = Submitted) then
            let required = (case st_required_confirmations r of None \<Rightarrow> minimum | Some q \<Rightarrow> max q minimum)
            in case put_row d (r\<lparr>st_required_confirmations := Some required\<rparr>) of
                 Inl e \<Rightarrow> (Inl e, d)
               | Inr d' \<Rightarrow> (Inr required, d')
          else (Inl (Transition (state_as_str (st_state r)) ''confirmation_policy_raised''), d))"

definition mark_prepared :: "db \<Rightarrow> prepared_journal_entry \<Rightarrow> store_error + db" where
  "mark_prepared d e =
     (case find_row d (pe_settlement_id e) of
        None \<Rightarrow> Inl (Corrupt ''settlement not found'')
      | Some r \<Rightarrow>
          if st_state r \<noteq> Reserved then
            bind_res (state_for_update d (pe_settlement_id e)) (\<lambda>from.
              Inl (Transition from (state_as_str Prepared)))
          else
            bind_res (put_row d (r\<lparr>st_state := Prepared,
                st_relayer_account_id := Some (pe_relayer_account_id e),
                st_relayer_public_key := Some (pe_relayer_public_key e),
                st_relayer_nonce := Some (pe_relayer_nonce e),
                st_outer_transaction_bytes := Some (pe_transaction_bytes e),
                st_outer_transaction_hash := Some (pe_transaction_hash e)\<rparr>)) (\<lambda>d1.
            Inr (insert_event d1 (pe_settlement_id e) (Some Reserved) Prepared
                   (Some ''outer_transaction_persisted''))))"

definition mark_prepared_evm :: "db \<Rightarrow> evm_prepared_journal_entry \<Rightarrow> store_error + db" where
  "mark_prepared_evm d e =
     (if ee_required_confirmations e < 1 then
        Inl (InvalidInput ''required confirmations must be at least 1'')
      else case find_row d (ee_settlement_id e) of
        None \<Rightarrow> Inl (Corrupt ''settlement not found'')
      | Some r \<Rightarrow>
          if st_state r \<noteq> Reserved then
            bind_res (state_for_update d (ee_settlement_id e)) (\<lambda>from.
              Inl (Transition from (state_as_str Prepared)))
          else
            bind_res (put_row d (r\<lparr>st_state := Prepared,
                st_signer_account_nonce := Some (ee_signer_account_nonce e),
                st_submitted_tx_rlp := Some (ee_submitted_tx_rlp e),
                st_submitted_tx_hash := Some (ee_submitted_tx_hash e),
                st_required_confirmations := Some (ee_required_confirmations e)\<rparr>)) (\<lambda>d1.
            Inr (insert_event d1 (ee_settlement_id e) (Some Reserved) Prepared
                   (Some ''evm_transaction_persisted''))))"

definition mark_submitted :: "db \<Rightarrow> uuid \<Rightarrow> store_error + db" where
  "mark_submitted d i =
     (case find_row d i of
        None \<Rightarrow> Inl (Corrupt ''settlement not found'')
      | Some r \<Rightarrow>
          if st_state r \<noteq> Prepared then
            bind_res (state_for_update d i) (\<lambda>from. Inl (Transition from (state_as_str Submitted)))
          else
            bind_res (put_row d (r\<lparr>st_state := Submitted\<rparr>)) (\<lambda>d1.
            Inr (insert_event d1 i (Some Prepared) Submitted (Some ''broadcast_started''))))"

fun terminal_transition_allowed :: "settlement_state \<Rightarrow> settlement_state \<Rightarrow> bool" where
  "terminal_transition_allowed Reserved Failed = True"
| "terminal_transition_allowed Prepared Succeeded = True"
| "terminal_transition_allowed Prepared Failed = True"
| "terminal_transition_allowed Submitted Succeeded = True"
| "terminal_transition_allowed Submitted Failed = True"
| "terminal_transition_allowed _ _ = False"

text \<open>\<open>i16::try_from\<close> of the HTTP status.\<close>

definition http_status_i16 :: "u16 \<Rightarrow> nat option" where
  "http_status_i16 s = (if unat s < 2 ^ 15 then Some (unat s) else None)"

definition terminal_row :: "nat \<Rightarrow> settlement \<Rightarrow> terminal_journal_entry \<Rightarrow> nat \<Rightarrow> settlement" where
  "terminal_row now r e status =
     r\<lparr>st_state := te_state e, st_terminal_http_status := Some status,
       st_terminal_response_bytes := Some (te_response_bytes e),
       st_error_code := te_error_code e, st_error_detail := te_error_detail e,
       st_gas_burnt := Some (case te_gas_burnt e of None \<Rightarrow> 0 | Some g \<Rightarrow> g),
       st_tokens_burnt := Some (case te_tokens_burnt e of None \<Rightarrow> 0 | Some g \<Rightarrow> g),
       st_mined_block_number := te_mined_block_number e,
       st_mined_block_hash := te_mined_block_hash e,
       st_confirmations := te_confirmations e, st_finalized_at := Some now\<rparr>"

definition mark_terminal :: "nat \<Rightarrow> db \<Rightarrow> terminal_journal_entry \<Rightarrow> store_error + db" where
  "mark_terminal now d e =
     (if \<not> is_terminal (te_state e) then
        Inl (Transition ''unknown'' (state_as_str (te_state e)))
      else case find_row d (te_settlement_id e) of
        None \<Rightarrow> Inl (Corrupt ''terminal settlement not found'')
      | Some r \<Rightarrow>
          if is_terminal (st_state r) then
            if st_terminal_http_status r = http_status_i16 (te_http_status e)
               \<and> st_terminal_response_bytes r = Some (te_response_bytes e)
            then Inr d
            else Inl (Transition (state_as_str (st_state r)) (state_as_str (te_state e)))
          else if \<not> terminal_transition_allowed (st_state r) (te_state e) then
            Inl (Transition (state_as_str (st_state r)) (state_as_str (te_state e)))
          else
            bind_res (release_budget d (st_reservation_date r) (st_api_client_id r)
                        (st_reserved_yocto_near r) (te_actual_yocto_near e)) (\<lambda>d1.
            bind_res (ok_or (http_status_i16 (te_http_status e))
                        (Corrupt ''terminal HTTP status does not fit SMALLINT'')) (\<lambda>status.
            bind_res (put_row d1 (terminal_row now r e status)) (\<lambda>d2.
            Inr (insert_event d2 (te_settlement_id e) (Some (st_state r)) (te_state e)
                   (te_error_code e))))))"

definition note_reconciliation :: "db \<Rightarrow> uuid \<Rightarrow> store_error + db" where
  "note_reconciliation d i =
     (case find_row d i of
        None \<Rightarrow> Inr d
      | Some r \<Rightarrow> put_row d (r\<lparr>st_reconciliation_attempts := st_reconciliation_attempts r + 1\<rparr>))"

section \<open>Reads\<close>

definition nonterminal_settlements :: "db \<Rightarrow> settlement list" where
  "nonterminal_settlements d =
     sort_key st_created_at (filter (\<lambda>r. state_is_active (st_state r)) (db_settlements d))"

record journal_summary_result =
  js_reserved :: nat
  js_prepared :: nat
  js_submitted :: nat
  js_oldest_created_at :: "nat option"

definition journal_summary :: "db \<Rightarrow> journal_summary_result" where
  "journal_summary d =
     (let rows = filter (\<lambda>r. state_is_active (st_state r)) (db_settlements d)
      in \<lparr>js_reserved = length (filter (\<lambda>r. st_state r = Reserved) rows),
          js_prepared = length (filter (\<lambda>r. st_state r = Prepared) rows),
          js_submitted = length (filter (\<lambda>r. st_state r = Submitted) rows),
          js_oldest_created_at =
            (if rows = [] then None else Some (Min (set (map st_created_at rows))))\<rparr>)"

definition global_sponsorship_usage_today :: "date \<Rightarrow> db \<Rightarrow> ledger" where
  "global_sponsorship_usage_today today d =
     (case db_global d today of None \<Rightarrow> \<lparr>lg_reserved = 0, lg_spent = 0\<rparr> | Some l \<Rightarrow> l)"

section \<open>Relayers\<close>

definition upsert_relayer :: "db \<Rightarrow> string \<Rightarrow> string \<Rightarrow> string \<Rightarrow> db" where
  "upsert_relayer d network account key =
     (case db_relayers d (network, account, key) of
        Some _ \<Rightarrow> d
      | None \<Rightarrow> d\<lparr>db_relayers := (db_relayers d)((network, account, key) \<mapsto>
          \<lparr>ry_status = RelayerActive, ry_quarantine_reason = None, ry_last_observed_nonce = None\<rparr>)\<rparr>)"

definition quarantine_relayer ::
  "db \<Rightarrow> string \<Rightarrow> string \<Rightarrow> string \<Rightarrow> string \<Rightarrow> nat \<Rightarrow> store_error + db" where
  "quarantine_relayer d network account key reason observed_nonce =
     (if observed_nonce < 10 ^ 20 then
        Inr (d\<lparr>db_relayers := (db_relayers d)((network, account, key) \<mapsto>
          \<lparr>ry_status = RelayerQuarantined, ry_quarantine_reason = Some reason,
           ry_last_observed_nonce = Some observed_nonce\<rparr>)\<rparr>)
      else Inl (Database None))"

definition relayer_is_active :: "db \<Rightarrow> string \<Rightarrow> string \<Rightarrow> string \<Rightarrow> bool" where
  "relayer_is_active d network account key =
     (case db_relayers d (network, account, key) of
        None \<Rightarrow> False | Some r \<Rightarrow> ry_status r = RelayerActive)"

end
