(* ===== verification/Store_Clients.thy ===== *)
theory Store_Clients
  imports Store
begin

text \<open>
  API clients, their keys and their payee allowlist: the administrative operations of \<open>PgStore\<close>
  and the reads authentication and policy rest on. The column \<open>last_used_at\<close>, which only
  \<open>touch_api_key\<close> writes and nothing reads, is left out.
\<close>

section \<open>Operations\<close>

definition is_eip155_network :: "string \<Rightarrow> bool" where
  "is_eip155_network network \<longleftrightarrow> starts_with network ''eip155:''"

definition insert_api_key :: "db \<Rightarrow> uuid \<Rightarrow> uuid \<Rightarrow> string \<Rightarrow> hash32 \<Rightarrow> store_error + db" where
  "insert_api_key d key_id client_id prefix digest =
     (if list_ex (\<lambda>k. ak_id k = key_id \<or> ak_prefix k = prefix) (db_keys d) then
        Inl (Database (Some PrimaryKey))
      else if \<not> client_exists d client_id then Inl (Database (Some ForeignKey))
      else Inr (d\<lparr>db_keys := db_keys d @ [\<lparr>ak_id = key_id, ak_client_id = client_id,
             ak_prefix = prefix, ak_digest = digest, ak_status = Active\<rparr>]\<rparr>))"

definition fits_i32 :: "u32 \<Rightarrow> bool" where
  "fits_i32 n \<longleftrightarrow> unat n < 2 ^ 31"

definition create_client ::
  "db \<Rightarrow> api_client \<Rightarrow> uuid \<Rightarrow> string \<Rightarrow> hash32 \<Rightarrow> store_error + db" where
  "create_client d client key_id prefix digest =
     (if \<not> fits_i32 (cl_verify_rate_per_minute client) then
        Inl (Configuration ''verify rate is too large'')
      else if \<not> fits_i32 (cl_settle_rate_per_minute client) then
        Inl (Configuration ''settle rate is too large'')
      else if \<not> (cl_environment client = ''mainnet'' \<or> cl_environment client = ''testnet'')
           \<or> cl_verify_rate_per_minute client = 0 \<or> cl_settle_rate_per_minute client = 0
           \<or> \<not> numeric40 (cl_daily_budget_yocto_near client) then
        Inl (Database (Some RowCheck))
      else if client_exists d (cl_id client) then Inl (Database (Some PrimaryKey))
      else insert_api_key (d\<lparr>db_clients := db_clients d @ [(client, Active)]\<rparr>)
             key_id (cl_id client) prefix digest)"

definition client_environment :: "db \<Rightarrow> uuid \<Rightarrow> store_error + string" where
  "client_environment d i =
     (case find (\<lambda>c. cl_id (fst c) = i \<and> snd c = Active) (db_clients d) of
        None \<Rightarrow> Inl (Corrupt ''active client not found'')
      | Some c \<Rightarrow> Inr (cl_environment (fst c)))"

definition revoke_keys :: "uuid \<Rightarrow> api_key list \<Rightarrow> api_key list" where
  "revoke_keys client_id ks =
     map (\<lambda>k. if ak_client_id k = client_id \<and> ak_status k = Active
              then k\<lparr>ak_status := Revoked\<rparr> else k) ks"

definition rotate_client_key ::
  "db \<Rightarrow> uuid \<Rightarrow> uuid \<Rightarrow> string \<Rightarrow> hash32 \<Rightarrow> store_error + db" where
  "rotate_client_key d client_id key_id prefix digest =
     (if \<not> client_is_active d client_id then Inl (Corrupt ''active client not found'')
      else insert_api_key (d\<lparr>db_keys := revoke_keys client_id (db_keys d)\<rparr>)
             key_id client_id prefix digest)"

definition revoke_client :: "db \<Rightarrow> uuid \<Rightarrow> bool \<times> db" where
  "revoke_client d client_id =
     (client_is_active d client_id,
      d\<lparr>db_clients := map (\<lambda>c. if cl_id (fst c) = client_id \<and> snd c = Active
                               then (fst c, Revoked) else c) (db_clients d),
        db_keys := revoke_keys client_id (db_keys d)\<rparr>)"

definition payee_row :: "string \<Rightarrow> string \<Rightarrow> string \<Rightarrow> string \<times> string \<times> string" where
  "payee_row network asset pay_to =
     (if is_eip155_network network
      then (network, to_ascii_lowercase asset, to_ascii_lowercase pay_to)
      else (network, asset, pay_to))"

definition allow_payee :: "db \<Rightarrow> uuid \<Rightarrow> string \<Rightarrow> string \<Rightarrow> string \<Rightarrow> store_error + db" where
  "allow_payee d client_id network asset pay_to =
     (let row = (client_id, payee_row network asset pay_to)
      in if row \<in> set (db_payees d) then Inr d
         else if \<not> client_exists d client_id then Inl (Database (Some ForeignKey))
         else Inr (d\<lparr>db_payees := db_payees d @ [row]\<rparr>))"

definition payee_allowed :: "db \<Rightarrow> uuid \<Rightarrow> string \<Rightarrow> string \<Rightarrow> string \<Rightarrow> bool" where
  "payee_allowed d client_id network asset pay_to =
     (if is_eip155_network network then
        list_ex (\<lambda>(c, n, a, p). c = client_id \<and> n = network
          \<and> to_ascii_lowercase a = to_ascii_lowercase asset
          \<and> to_ascii_lowercase p = to_ascii_lowercase pay_to) (db_payees d)
      else list_ex (\<lambda>(c, n, a, p). c = client_id \<and> n = network \<and> a = asset \<and> p = pay_to) (db_payees d))"

definition set_client_budget :: "db \<Rightarrow> uuid \<Rightarrow> nat \<Rightarrow> store_error + bool \<times> db" where
  "set_client_budget d client_id budget =
     (if \<not> client_is_active d client_id then Inr (False, d)
      else if \<not> numeric40 budget then Inl (Database None)
      else Inr (True, d\<lparr>db_clients := map (\<lambda>c. if cl_id (fst c) = client_id \<and> snd c = Active
             then ((fst c)\<lparr>cl_daily_budget_yocto_near := budget\<rparr>, snd c) else c) (db_clients d)\<rparr>))"

definition lookup_api_key :: "db \<Rightarrow> string \<Rightarrow> (api_client \<times> hash32) option" where
  "lookup_api_key d prefix =
     (case find (\<lambda>k. ak_prefix k = prefix \<and> ak_status k = Active
                   \<and> client_is_active d (ak_client_id k)) (db_keys d) of
        None \<Rightarrow> None
      | Some k \<Rightarrow>
          (case find (\<lambda>c. cl_id (fst c) = ak_client_id k \<and> snd c = Active) (db_clients d) of
             None \<Rightarrow> None
           | Some c \<Rightarrow> Some (fst c, ak_digest k)))"

definition active_clients_have_payee_policy :: "db \<Rightarrow> string \<Rightarrow> string \<Rightarrow> bool" where
  "active_clients_have_payee_policy d network asset \<longleftrightarrow>
     list_ex (\<lambda>c. snd c = Active) (db_clients d)
     \<and> \<not> list_ex (\<lambda>c. snd c = Active
          \<and> \<not> list_ex (\<lambda>(i, n, a, p). i = cl_id (fst c) \<and> n = network
                \<and> (if is_eip155_network network
                   then to_ascii_lowercase a = to_ascii_lowercase asset else a = asset))
              (db_payees d)) (db_clients d)"

definition empty_db :: db where
  "empty_db = \<lparr>db_settlements = [], db_global = Map.empty, db_clients_ledger = Map.empty,
     db_events = [], db_relayers = Map.empty, db_clients = [], db_keys = [], db_payees = []\<rparr>"

definition sample_client :: api_client where
  "sample_client = \<lparr>cl_id = 1, cl_name = ''acme'', cl_environment = ''testnet'',
     cl_daily_budget_yocto_near = 1000, cl_verify_rate_per_minute = 60,
     cl_settle_rate_per_minute = 10\<rparr>"

definition client_db :: db where
  "client_db = empty_db\<lparr>db_clients := [(sample_client, Active)],
     db_keys := [\<lparr>ak_id = 7, ak_client_id = 1, ak_prefix = ''abcdef'', ak_digest = 5, ak_status = Active\<rparr>]\<rparr>"

section \<open>Lemmas\<close>

lemma list_ex_app: "list_ex P (xs @ ys) \<longleftrightarrow> list_ex P xs \<or> list_ex P ys"
  by (induction xs) auto

lemma find_None_all: "find P xs = None \<longleftrightarrow> (\<forall>x \<in> set xs. \<not> P x)"
  by (induction xs) auto

lemma find_SomeD: "find P xs = Some x \<Longrightarrow> x \<in> set xs \<and> P x"
  by (induction xs) (auto split: if_splits)

lemma revoke_keys_status:
  "k \<in> set (revoke_keys i ks) \<Longrightarrow> ak_client_id k = i \<Longrightarrow> ak_status k \<noteq> Active"
  unfolding revoke_keys_def set_map by (erule imageE) (simp split: if_split_asm)

lemma revoke_keys_other:
  "k \<in> set ks \<Longrightarrow> ak_client_id k \<noteq> i \<Longrightarrow> k \<in> set (revoke_keys i ks)"
  unfolding revoke_keys_def set_map by (rule image_eqI [where x = k]) simp_all

lemma insert_api_key_Inr:
  "insert_api_key d key_id client_id prefix digest = Inr d' \<Longrightarrow>
     d' = d\<lparr>db_keys := db_keys d @ [\<lparr>ak_id = key_id, ak_client_id = client_id,
             ak_prefix = prefix, ak_digest = digest, ak_status = Active\<rparr>]\<rparr>"
  by (auto simp: insert_api_key_def split: if_splits)

lemma lookup_api_key_SomeD:
  assumes "lookup_api_key d prefix = Some (c, digest)"
  obtains k where "k \<in> set (db_keys d)" "ak_prefix k = prefix" "ak_status k = Active"
    "ak_digest k = digest" "cl_id c = ak_client_id k" "(c, Active) \<in> set (db_clients d)"
  using assms
  by (auto simp: lookup_api_key_def split: option.splits dest!: find_SomeD)

section \<open>Properties\<close>



text \<open>
  Key rotation leaves exactly one valid key: after \<open>rotate_client_key\<close> every key prefix that
  authenticates as the client is the new prefix with the new digest.
\<close>

theorem rotate_client_key_unique:
  assumes "rotate_client_key d client_id key_id prefix digest = Inr d'"
    and "lookup_api_key d' p = Some (c, dg)" and "cl_id c = client_id"
  shows "p = prefix \<and> dg = digest"
proof -
  from assms(1) have d': "d' = d\<lparr>db_keys := revoke_keys client_id (db_keys d) @
      [\<lparr>ak_id = key_id, ak_client_id = client_id, ak_prefix = prefix, ak_digest = digest,
        ak_status = Active\<rparr>]\<rparr>"
    by (auto simp: rotate_client_key_def dest!: insert_api_key_Inr split: if_splits)
  from assms(2) obtain k where k: "k \<in> set (db_keys d')" "ak_prefix k = p" "ak_status k = Active"
    "ak_digest k = dg" "cl_id c = ak_client_id k"
    by (rule lookup_api_key_SomeD)
  from k(1) d' have "k \<in> set (revoke_keys client_id (db_keys d))
      \<or> k = \<lparr>ak_id = key_id, ak_client_id = client_id, ak_prefix = prefix, ak_digest = digest,
          ak_status = Active\<rparr>" by (simp add: disj_commute)
  then show ?thesis
  proof
    assume "k \<in> set (revoke_keys client_id (db_keys d))"
    with k(3,5) assms(3) revoke_keys_status show ?thesis by metis
  next
    assume "k = \<lparr>ak_id = key_id, ak_client_id = client_id, ak_prefix = prefix, ak_digest = digest,
          ak_status = Active\<rparr>"
    with k(2,4) show ?thesis by simp
  qed
qed

theorem rotate_client_key_unique_witness:
  "\<exists>d'. rotate_client_key client_db 1 8 ''fedcba'' 6 = Inr d'
      \<and> lookup_api_key d' ''fedcba'' = Some (sample_client, 6) \<and> lookup_api_key d' ''abcdef'' = None"
proof -
  define d' where "d' = projr (rotate_client_key client_db 1 8 ''fedcba'' 6)"
  have r: "rotate_client_key client_db 1 8 ''fedcba'' 6 = Inr d'"
    unfolding d'_def by (simp add: rotate_client_key_def insert_api_key_def client_db_def empty_db_def
      client_is_active_def client_exists_def sample_client_def revoke_keys_def)
  have new: "lookup_api_key d' ''fedcba'' = Some (sample_client, 6)"
    unfolding d'_def by code_simp
  have "lookup_api_key d' ''abcdef'' \<noteq> Some (c, dg)" for c dg
  proof
    assume l: "lookup_api_key d' ''abcdef'' = Some (c, dg)"
    then have "cl_id c = 1"
      using r by (auto elim!: lookup_api_key_SomeD simp: rotate_client_key_def client_db_def empty_db_def
        sample_client_def dest!: insert_api_key_Inr split: if_splits)
    from rotate_client_key_unique [OF r l this] show False by simp
  qed
  then have "lookup_api_key d' ''abcdef'' = None"
    by (cases "lookup_api_key d' ''abcdef''") auto
  with r new show ?thesis by blast
qed

text \<open>
  Payee policy round trip: once \<open>allow_payee\<close> succeeds, \<open>payee_allowed\<close> accepts that payee, in
  any letter case of asset and address on an EVM network and byte for byte on NEAR, and rows
  allowed before stay allowed.
\<close>

theorem allow_payee_then_allowed:
  assumes "allow_payee d client_id network asset pay_to = Inr d'"
    and "if is_eip155_network network
         then eq_ignore_ascii_case asset asset' \<and> eq_ignore_ascii_case pay_to pay_to'
         else asset' = asset \<and> pay_to' = pay_to"
  shows "payee_allowed d' client_id network asset' pay_to'
       \<and> (\<forall>c n a p. payee_allowed d c n a p \<longrightarrow> payee_allowed d' c n a p)"
proof
  have row: "(client_id, payee_row network asset pay_to) \<in> set (db_payees d')"
    and mono: "set (db_payees d) \<subseteq> set (db_payees d')"
    using assms(1) by (auto simp: allow_payee_def Let_def split: if_splits)
  from row assms(2) show "payee_allowed d' client_id network asset' pay_to'"
    by (cases "is_eip155_network network")
       (simp_all add: payee_allowed_def payee_row_def list_ex_iff eq_ignore_ascii_case_def
          Bex_def split_paired_Ex, metis to_ascii_lowercase_idem)
  from mono show "\<forall>c n a p. payee_allowed d c n a p \<longrightarrow> payee_allowed d' c n a p"
    by (auto simp: payee_allowed_def list_ex_iff split: if_splits)
qed

theorem allow_payee_then_allowed_witness:
  "payee_allowed (projr (allow_payee client_db 1 ''eip155:8453'' ''0xAb'' ''0xCd''))
     1 ''eip155:8453'' ''0xaB'' ''0xcD''"
proof -
  have a: "allow_payee client_db 1 ''eip155:8453'' ''0xAb'' ''0xCd''
      = Inr (projr (allow_payee client_db 1 ''eip155:8453'' ''0xAb'' ''0xCd''))"
    by (simp add: allow_payee_def client_db_def empty_db_def client_exists_def sample_client_def)
  have b: "if is_eip155_network ''eip155:8453''
         then eq_ignore_ascii_case ''0xAb'' ''0xaB'' \<and> eq_ignore_ascii_case ''0xCd'' ''0xcD''
         else ''0xaB'' = ''0xAb'' \<and> ''0xcD'' = ''0xCd''"
    by code_simp
  from allow_payee_then_allowed [OF a b] show ?thesis by blast
qed

end
