(* ===== verification/Readiness.thy ===== *)
theory Readiness
  imports Chain Config Store_Clients
begin

text \<open>
  Readiness gates and leadership. A gate is one of three bytes, so that "not observed yet" differs from
  "not ready"; \<open>set_gate\<close> swaps the byte and says whether a transition is logged. The advisory-lock loop of
  \<open>run_leadership\<close> and \<open>hold_leadership\<close> is \<open>leadership_step\<close>, one event of the database session at a time, and
  \<open>system_step\<close> interleaves it with the other tasks of the process that write gates. Retry delays are
  milliseconds.
\<close>

section \<open>Gates\<close>

datatype readiness_gate = GateDatabase | GateLeadership | GateReconciliation | GateRpc | GateRelayer

fun gate_as_str :: "readiness_gate \<Rightarrow> string" where
  "gate_as_str GateDatabase = ''database''"
| "gate_as_str GateLeadership = ''leadership''"
| "gate_as_str GateReconciliation = ''reconciliation''"
| "gate_as_str GateRpc = ''rpc''"
| "gate_as_str GateRelayer = ''relayer''"

datatype gate_state = GateReady | GateNotReady

definition gate_from_ready :: "bool \<Rightarrow> gate_state" where
  "gate_from_ready ready = (if ready then GateReady else GateNotReady)"

definition gate_from_atomic :: "u8 \<Rightarrow> gate_state option" where
  "gate_from_atomic v = (if v = 1 then Some GateNotReady else if v = 2 then Some GateReady else None)"

fun gate_as_atomic :: "gate_state \<Rightarrow> u8" where
  "gate_as_atomic GateReady = 2"
| "gate_as_atomic GateNotReady = 1"

fun gate_state_as_str :: "gate_state \<Rightarrow> string" where
  "gate_state_as_str GateReady = ''ready''"
| "gate_state_as_str GateNotReady = ''not_ready''"

record readiness =
  rg_database :: u8
  rg_leadership :: u8
  rg_reconciliation :: u8
  rg_rpc :: u8
  rg_relayer :: u8

definition initial_readiness :: readiness where
  "initial_readiness = \<lparr>rg_database = 0, rg_leadership = 0, rg_reconciliation = 0, rg_rpc = 0, rg_relayer = 0\<rparr>"

fun gate_value :: "readiness_gate \<Rightarrow> readiness \<Rightarrow> u8" where
  "gate_value GateDatabase g = rg_database g"
| "gate_value GateLeadership g = rg_leadership g"
| "gate_value GateReconciliation g = rg_reconciliation g"
| "gate_value GateRpc g = rg_rpc g"
| "gate_value GateRelayer g = rg_relayer g"

fun store_gate :: "readiness_gate \<Rightarrow> u8 \<Rightarrow> readiness \<Rightarrow> readiness" where
  "store_gate GateDatabase v g = g\<lparr>rg_database := v\<rparr>"
| "store_gate GateLeadership v g = g\<lparr>rg_leadership := v\<rparr>"
| "store_gate GateReconciliation v g = g\<lparr>rg_reconciliation := v\<rparr>"
| "store_gate GateRpc v g = g\<lparr>rg_rpc := v\<rparr>"
| "store_gate GateRelayer v g = g\<lparr>rg_relayer := v\<rparr>"

record readiness_transition =
  tr_gate :: readiness_gate
  tr_state :: gate_state

definition observed_transition :: "readiness_gate \<Rightarrow> u8 \<Rightarrow> bool \<Rightarrow> readiness_transition option" where
  "observed_transition gate previous ready =
     (if gate_from_atomic previous = Some (gate_from_ready ready) then None
      else Some \<lparr>tr_gate = gate, tr_state = gate_from_ready ready\<rparr>)"

definition set_gate :: "readiness_gate \<Rightarrow> bool \<Rightarrow> readiness \<Rightarrow> readiness_transition option \<times> readiness" where
  "set_gate gate ready g =
     (observed_transition gate (gate_value gate g) ready,
      store_gate gate (gate_as_atomic (gate_from_ready ready)) g)"

definition set_database :: "bool \<Rightarrow> readiness \<Rightarrow> readiness" where
  "set_database ready g = snd (set_gate GateDatabase ready g)"

definition set_reconciliation :: "bool \<Rightarrow> readiness \<Rightarrow> readiness" where
  "set_reconciliation ready g = snd (set_gate GateReconciliation ready g)"

definition set_leadership :: "bool \<Rightarrow> readiness \<Rightarrow> readiness" where
  "set_leadership ready g =
     (let g = snd (set_gate GateLeadership ready g) in if \<not> ready then set_reconciliation False g else g)"

definition set_rpc :: "bool \<Rightarrow> readiness \<Rightarrow> readiness" where
  "set_rpc ready g = snd (set_gate GateRpc ready g)"

definition set_relayer :: "bool \<Rightarrow> readiness \<Rightarrow> readiness" where
  "set_relayer ready g = snd (set_gate GateRelayer ready g)"

definition atomic_gate_ready :: "u8 \<Rightarrow> bool" where
  "atomic_gate_ready v \<longleftrightarrow> gate_from_atomic v = Some GateReady"

record readiness_snapshot =
  sn_leadership :: bool
  sn_reconciliation :: bool
  sn_rpc :: bool
  sn_relayer :: bool

definition snapshot :: "readiness \<Rightarrow> readiness_snapshot" where
  "snapshot g = \<lparr>sn_leadership = atomic_gate_ready (rg_leadership g),
     sn_reconciliation = atomic_gate_ready (rg_reconciliation g), sn_rpc = atomic_gate_ready (rg_rpc g),
     sn_relayer = atomic_gate_ready (rg_relayer g)\<rparr>"

definition can_settle :: "readiness \<Rightarrow> bool" where
  "can_settle g \<longleftrightarrow> sn_leadership (snapshot g) \<and> sn_reconciliation (snapshot g) \<and> sn_rpc (snapshot g)
     \<and> sn_relayer (snapshot g)"

section \<open>Leadership\<close>

datatype leader_phase = Seeking | Holding | Stopped

record leader =
  ld_phase :: leader_phase
  ld_retry_ms :: nat

definition initial_leader :: leader where
  "initial_leader = \<lparr>ld_phase = Seeking, ld_retry_ms = 250\<rparr>"

datatype leadership_event =
    ConnectionFailed | LockAcquired | LockHeldElsewhere | LockQueryFailed
  | HeartbeatOk | HeartbeatFailed | ShutdownRequested

definition double_retry :: "leader \<Rightarrow> leader" where
  "double_retry l = l\<lparr>ld_retry_ms := min (ld_retry_ms l * 2) 5000\<rparr>"

text \<open>
  In \<open>Seeking\<close> the loop has cleared the gate at its head, connects and tries the lock; in \<open>Holding\<close> it waits for a
  heartbeat or the shutdown signal. Events that cannot occur in a phase leave the state unchanged.
\<close>

fun leadership_step :: "leadership_event \<Rightarrow> leader \<times> readiness \<Rightarrow> leader \<times> readiness" where
  "leadership_step event (l, g) =
     (case ld_phase l of
        Seeking \<Rightarrow>
          (case event of
             ConnectionFailed \<Rightarrow> (double_retry l, set_leadership False g)
           | LockAcquired \<Rightarrow>
               (l\<lparr>ld_phase := Holding, ld_retry_ms := 250\<rparr>, set_leadership True (set_leadership False g))
           | LockHeldElsewhere \<Rightarrow> (l, set_leadership False g)
           | LockQueryFailed \<Rightarrow> (double_retry l, set_leadership False g)
           | ShutdownRequested \<Rightarrow> (l\<lparr>ld_phase := Stopped\<rparr>, set_leadership False g)
           | _ \<Rightarrow> (l, g))
      | Holding \<Rightarrow>
          (case event of
             HeartbeatFailed \<Rightarrow> (l\<lparr>ld_phase := Seeking\<rparr>, set_leadership False g)
           | ShutdownRequested \<Rightarrow> (l\<lparr>ld_phase := Stopped\<rparr>, set_leadership False (set_leadership False g))
           | _ \<Rightarrow> (l, g))
      | Stopped \<Rightarrow> (l, g))"

text \<open>\<open>advisory_lock_key\<close>, over SHA-256: the first eight digest bytes as a big-endian signed integer.\<close>

definition advisory_lock_key :: "(string \<Rightarrow> u256) \<Rightarrow> string \<Rightarrow> int" where
  "advisory_lock_key sha network =
     sint (ucast (drop_bit 192 (sha (''x402-near-facilitator/leader/v1/'' @ network))) :: 64 word)"

section \<open>Refreshing the chain gates\<close>

definition observe_failure ::
  "readiness_failure_class option \<Rightarrow> readiness_failure_class option \<Rightarrow>
   (bool \<times> readiness_failure_class) option \<times> readiness_failure_class option" where
  "observe_failure previous current =
     (if previous = current then (None, previous)
      else ((case (previous, current) of
               (_, Some failure) \<Rightarrow> Some (True, failure)
             | (Some failure, None) \<Rightarrow> Some (False, failure)
             | (None, None) \<Rightarrow> None), current))"

datatype relayer_policy_readiness = PolicyActive | PolicyInactive | PolicyLookupFailed

definition classify_readiness_failure ::
  "bool \<Rightarrow> readiness_failure_class option \<Rightarrow> bool \<Rightarrow> relayer_policy_readiness \<Rightarrow> bool \<Rightarrow>
   readiness_failure_class option" where
  "classify_readiness_failure rpc_ready observation_failure signer_ready policy signer_funded =
     (if \<not> rpc_ready
      then Some (case observation_failure of Some f \<Rightarrow> f | None \<Rightarrow> RpcUnavailable)
      else if \<not> signer_ready
      then Some (case observation_failure of Some f \<Rightarrow> f | None \<Rightarrow> SignerHeadUnavailable)
      else case policy of
        PolicyLookupFailed \<Rightarrow> Some RelayerPolicyLookupFailed
      | PolicyInactive \<Rightarrow> Some RelayerPolicyInactive
      | PolicyActive \<Rightarrow> if \<not> signer_funded then Some SignerBalanceHardStop else None)"

definition signer_is_funded :: "service_config \<Rightarrow> u128 \<Rightarrow> bool" where
  "signer_is_funded config balance =
     (case str_parse (sp_balance_hard_stop_yocto_near (cfg_sponsorship config)) :: u128 option of
        None \<Rightarrow> False
      | Some hard_stop \<Rightarrow>
          (case (if cfg_chain_kind config = Eip155
                 then (case str_parse (sp_reservation_yocto_near (cfg_sponsorship config)) of
                         None \<Rightarrow> None
                       | Some reservation \<Rightarrow> checked_add hard_stop reservation)
                 else Some hard_stop) of
             None \<Rightarrow> False
           | Some required \<Rightarrow> balance \<ge> required))"

record refresh_result =
  rf_ready :: bool
  rf_gates :: readiness
  rf_failure :: "readiness_failure_class option"
  rf_transition :: "(bool \<times> readiness_failure_class) option"

text \<open>
  \<open>refresh_chain_readiness\<close> over the policy lookup's answer (\<open>None\<close> for a database failure) and the failure class
  last observed. Metrics are not part of the model.
\<close>

definition refresh_chain_readiness ::
  "chain_lib \<Rightarrow> service_config \<Rightarrow> chain_provider \<Rightarrow> bool option \<Rightarrow> readiness_failure_class option \<Rightarrow> readiness \<Rightarrow>
   refresh_result" where
  "refresh_chain_readiness lib config provider policy_lookup last_failure g =
     (let observation = readiness_observation lib provider;
          rpc_ready = ob_rpc_ready observation;
          policy = (case policy_lookup of
             Some True \<Rightarrow> PolicyActive | Some False \<Rightarrow> PolicyInactive | None \<Rightarrow> PolicyLookupFailed);
          signer_ready = is_ok (ob_signer_head observation);
          signer_funded = (case ob_signer_head observation of
             Inr h \<Rightarrow> signer_is_funded config (sg_signer_balance_atomic h) | Inl _ \<Rightarrow> False);
          relayer_ready = (signer_ready \<and> signer_funded \<and> policy = PolicyActive);
          failure = classify_readiness_failure rpc_ready (ob_failure_class observation) signer_ready policy signer_funded;
          (transition, current) = observe_failure last_failure failure
      in \<lparr>rf_ready = (rpc_ready \<and> relayer_ready),
          rf_gates = set_relayer relayer_ready (set_rpc rpc_ready g),
          rf_failure = current, rf_transition = transition\<rparr>)"

section \<open>The readiness endpoint\<close>

definition readiness_word :: "bool \<Rightarrow> string" where
  "readiness_word v = (if v then ''ready'' else ''not_ready'')"

text \<open>\<open>operationally_ready\<close>: the ping and schema check answer \<open>schema\<close> (\<open>None\<close> on a database failure).\<close>

definition operationally_ready :: "bool option \<Rightarrow> db \<Rightarrow> string \<Rightarrow> string \<Rightarrow> bool option" where
  "operationally_ready schema d network asset =
     map_option (\<lambda>compatible. compatible \<and> active_clients_have_payee_policy d network asset) schema"

definition ready_endpoint ::
  "bool option \<Rightarrow> db \<Rightarrow> service_config \<Rightarrow> readiness \<Rightarrow> (u16 \<times> json) \<times> readiness" where
  "ready_endpoint schema d config g =
     (let database = (case operationally_ready schema d (cfg_network config) (cfg_asset config) of
             Some b \<Rightarrow> b | None \<Rightarrow> False);
          g = set_database database g;
          s = snapshot g;
          is_ready = (database \<and> sn_leadership s \<and> sn_reconciliation s \<and> sn_rpc s \<and> sn_relayer s)
      in ((if is_ready then 200 else 503,
           JObject [(''ready'', JBool is_ready), (''checks'', JObject
             [(''database'', JString (readiness_word database)),
              (''leadership'', JString (readiness_word (sn_leadership s))),
              (''reconciliation'', JString (readiness_word (sn_reconciliation s))),
              (''rpc'', JString (readiness_word (sn_rpc s))),
              (''relayer'', JString (readiness_word (sn_relayer s)))])]), g))"

section \<open>The process as a whole\<close>

text \<open>
  The tasks of \<open>main\<close> that write gates: the leadership loop, the readiness monitor, the settlement workers and the
  reconciliation loop. \<open>ps_term\<close> counts acquisitions of the lock, \<open>ps_running\<close> is the term in which the running
  reconciliation started and \<open>ps_reconciled\<close> that of the last one that completed.
\<close>

record process =
  ps_leader :: leader
  ps_gates :: readiness
  ps_term :: nat
  ps_running :: "nat option"
  ps_reconciled :: "nat option"

definition initial_process :: process where
  "initial_process = \<lparr>ps_leader = initial_leader, ps_gates = initial_readiness, ps_term = 0, ps_running = None,
     ps_reconciled = None\<rparr>"

inductive system_step :: "process \<Rightarrow> process \<Rightarrow> bool" where
  leader_event:
    "leadership_step event (ps_leader p, ps_gates p) = (l, g) \<Longrightarrow>
     system_step p (p\<lparr>ps_leader := l, ps_gates := g,
       ps_term := (if ld_phase (ps_leader p) = Seeking \<and> event = LockAcquired then ps_term p + 1 else ps_term p)\<rparr>)"
| refreshed: "system_step p (p\<lparr>ps_gates := set_relayer relayer (set_rpc rpc (ps_gates p))\<rparr>)"
| worker_relayer: "system_step p (p\<lparr>ps_gates := set_relayer relayer (ps_gates p)\<rparr>)"
| worker_fault: "system_step p (p\<lparr>ps_gates := set_reconciliation False (ps_gates p)\<rparr>)"
| database: "system_step p (p\<lparr>ps_gates := set_database d (ps_gates p)\<rparr>)"
| reconcile_started:
    "sn_leadership (snapshot (ps_gates p)) \<Longrightarrow> ps_running p = None \<Longrightarrow>
     system_step p (p\<lparr>ps_gates := set_reconciliation False (ps_gates p), ps_running := Some (ps_term p)\<rparr>)"
| reconcile_finished:
    "ps_running p = Some t \<Longrightarrow>
     system_step p (p\<lparr>ps_gates := set_reconciliation remaining_empty (ps_gates p), ps_running := None,
       ps_reconciled := Some t\<rparr>)"
| reconcile_failed: "system_step p (p\<lparr>ps_running := None\<rparr>)"

lemmas gate_defs = set_gate_def set_database_def set_reconciliation_def set_leadership_def set_rpc_def
  set_relayer_def gate_from_ready_def Let_def

lemma snapshot_set [simp]:
  "snapshot (set_leadership b g) = (if b then (snapshot g)\<lparr>sn_leadership := True\<rparr>
     else (snapshot g)\<lparr>sn_leadership := False, sn_reconciliation := False\<rparr>)"
  "snapshot (set_reconciliation b g) = (snapshot g)\<lparr>sn_reconciliation := b\<rparr>"
  "snapshot (set_rpc b g) = (snapshot g)\<lparr>sn_rpc := b\<rparr>"
  "snapshot (set_relayer b g) = (snapshot g)\<lparr>sn_relayer := b\<rparr>"
  "snapshot (set_database b g) = snapshot g"
  by (simp_all add: gate_defs snapshot_def atomic_gate_ready_def gate_from_atomic_def)

lemma initial_snapshot [simp]: "snapshot initial_readiness =
   \<lparr>sn_leadership = False, sn_reconciliation = False, sn_rpc = False, sn_relayer = False\<rparr>"
  by (simp add: snapshot_def initial_readiness_def atomic_gate_ready_def gate_from_atomic_def)

lemma transition_logged_iff:
  "fst (set_gate gate ready g) = None \<longleftrightarrow>
     gate_value gate g = gate_as_atomic (gate_from_ready ready)"
  by (auto simp: set_gate_def observed_transition_def gate_from_atomic_def gate_from_ready_def split: if_splits)

definition leadership_inv :: "leader \<Rightarrow> readiness \<Rightarrow> bool" where
  "leadership_inv l g \<longleftrightarrow> (sn_leadership (snapshot g) \<longleftrightarrow> ld_phase l = Holding) \<and>
     250 \<le> ld_retry_ms l \<and> ld_retry_ms l \<le> 5000"

lemma leadership_step_inv:
  "leadership_inv l g \<Longrightarrow> leadership_step event (l, g) = (l', g') \<Longrightarrow> leadership_inv l' g'"
  by (auto simp: leadership_inv_def double_retry_def split: leader_phase.splits leadership_event.splits)

lemma system_step_inv:
  "system_step p q \<Longrightarrow> leadership_inv (ps_leader p) (ps_gates p) \<Longrightarrow> leadership_inv (ps_leader q) (ps_gates q)"
proof (induction rule: system_step.induct)
  case (leader_event event p l g)
  then show ?case using leadership_step_inv by simp
qed (auto simp: leadership_inv_def)

lemma reachable_leadership_inv:
  "system_step\<^sup>*\<^sup>* initial_process p \<Longrightarrow> leadership_inv (ps_leader p) (ps_gates p)"
proof (induction rule: rtranclp_induct)
  case base
  then show ?case by (simp add: leadership_inv_def initial_process_def initial_leader_def)
next
  case (step q r)
  then show ?case using system_step_inv by blast
qed


lemma one_step: "system_step p q \<Longrightarrow> P q \<Longrightarrow> \<exists>q. system_step\<^sup>*\<^sup>* p q \<and> P q"
  by blast

lemma two_steps: "system_step p q \<Longrightarrow> system_step q r \<Longrightarrow> P r \<Longrightarrow> \<exists>r. system_step\<^sup>*\<^sup>* p r \<and> P r"
  by (meson r_into_rtranclp rtranclp.rtrancl_into_rtrancl)

lemma lock_reacquired:
  assumes "ld_phase (ps_leader p) \<noteq> Stopped" and "leadership_inv (ps_leader p) (ps_gates p)"
  shows "\<exists>q. system_step\<^sup>*\<^sup>* p q \<and> sn_leadership (snapshot (ps_gates q))"
proof (cases "ld_phase (ps_leader p)")
  case Seeking
  then have "leadership_step LockAcquired (ps_leader p, ps_gates p) =
      ((ps_leader p)\<lparr>ld_phase := Holding, ld_retry_ms := 250\<rparr>,
       set_leadership True (set_leadership False (ps_gates p)))" by simp
  from leader_event[OF this] show ?thesis by (rule one_step) simp
next
  case Holding
  then show ?thesis using assms(2) by (auto simp: leadership_inv_def)
qed (use assms in simp)

lemma reconciliation_completes:
  assumes "sn_leadership (snapshot (ps_gates p))"
  shows "\<exists>q. system_step\<^sup>*\<^sup>* p q \<and> sn_leadership (snapshot (ps_gates q)) \<and> sn_reconciliation (snapshot (ps_gates q))"
proof (cases "ps_running p")
  case (Some t)
  from reconcile_finished[OF Some, of True] show ?thesis by (rule one_step) (simp add: assms)
next
  case None
  note start = reconcile_started[OF assms None]
  note finish = reconcile_finished[of "p\<lparr>ps_gates := set_reconciliation False (ps_gates p), ps_running := Some (ps_term p)\<rparr>"
      "ps_term p" True, simplified]
  from start finish show ?thesis by (rule two_steps) (simp add: assms)
qed



text \<open>A run in which every gate opens.\<close>

definition seeking_process :: process where
  "seeking_process = initial_process\<lparr>ps_gates := set_leadership False initial_readiness,
     ps_leader := \<lparr>ld_phase = Seeking, ld_retry_ms = 500\<rparr>\<rparr>"

lemma seeking_reachable: "system_step\<^sup>*\<^sup>* initial_process seeking_process"
proof -
  have "leadership_step ConnectionFailed (ps_leader initial_process, ps_gates initial_process) =
      (\<lparr>ld_phase = Seeking, ld_retry_ms = 500\<rparr>, set_leadership False initial_readiness)"
    by (simp add: initial_process_def initial_leader_def double_retry_def)
  from leader_event[OF this] have "system_step initial_process seeking_process"
    by (simp add: seeking_process_def initial_process_def initial_leader_def)
  then show ?thesis by blast
qed



text \<open>
  The reconciliation gate is not tied to a term of leadership: a reconciliation that started before the lock was
  lost may complete after it was acquired again, and opens the gate of the new term.
\<close>

lemma stale_reconciliation_opens_gate:
  "\<exists>p. system_step\<^sup>*\<^sup>* initial_process p \<and> can_settle (ps_gates p) \<and> ps_term p = 2 \<and> ps_reconciled p = Some 1
     \<and> ps_running p = None"
proof -
  let ?g0 = initial_readiness
  let ?hold = "\<lparr>ld_phase = Holding, ld_retry_ms = 250\<rparr>"
  let ?seek = "\<lparr>ld_phase = Seeking, ld_retry_ms = 250\<rparr>"
  let ?g1 = "set_leadership True (set_leadership False ?g0)"
  let ?p1 = "\<lparr>ps_leader = ?hold, ps_gates = ?g1, ps_term = 1, ps_running = None, ps_reconciled = None\<rparr>"
  let ?g2 = "set_reconciliation False ?g1"
  let ?p2 = "?p1\<lparr>ps_gates := ?g2, ps_running := Some 1\<rparr>"
  let ?g3 = "set_leadership False ?g2"
  let ?p3 = "?p2\<lparr>ps_leader := ?seek, ps_gates := ?g3\<rparr>"
  let ?g4 = "set_leadership True (set_leadership False ?g3)"
  let ?p4 = "?p3\<lparr>ps_leader := ?hold, ps_gates := ?g4, ps_term := 2\<rparr>"
  let ?g5 = "set_reconciliation True ?g4"
  let ?p5 = "?p4\<lparr>ps_gates := ?g5, ps_running := None, ps_reconciled := Some 1\<rparr>"
  let ?p6 = "?p5\<lparr>ps_gates := set_relayer True (set_rpc True ?g5)\<rparr>"
  have "system_step initial_process ?p1"
    using leader_event[of LockAcquired initial_process ?hold ?g1]
    by (simp add: initial_process_def initial_leader_def)
  moreover have "system_step ?p1 ?p2" using reconcile_started[of ?p1] by simp
  moreover have "system_step ?p2 ?p3" using leader_event[of HeartbeatFailed ?p2 ?seek ?g3] by simp
  moreover have "system_step ?p3 ?p4" using leader_event[of LockAcquired ?p3 ?hold ?g4] by (simp add: eval_nat_numeral)
  moreover have "system_step ?p4 ?p5" using reconcile_finished[of ?p4 1 True] by simp
  moreover have "system_step ?p5 ?p6" using refreshed[of ?p5 True True] by simp
  ultimately have "system_step\<^sup>*\<^sup>* initial_process ?p6" by (meson converse_rtranclp_into_rtranclp rtranclp.rtrancl_refl)
  moreover have "can_settle (ps_gates ?p6)" by (simp add: can_settle_def)
  ultimately show ?thesis by (intro exI[of _ ?p6]) simp
qed

end
