(* ===== verification/Protocol.thy ===== *)
theory Protocol
  imports Json Decimal Config Store_Schema "HOL-Library.List_Lexorder" "HOL-Library.Char_ord"
begin

text \<open>
  The HTTP protocol layer: strict parsing of x402 requests, the legacy v1 dialect, payment identifiers,
  responses and the canonical JSON that request fingerprints hash. JSON text itself is a library's:
  \<open>from_slice\<close> and \<open>to_raw\<close> are arguments, and \<open>quote\<close> is the literal \<open>serde_json\<close> writes for a string.
  Strings are byte strings.
\<close>

section \<open>Errors, field accessors\<close>

datatype request_error = NotObject | Field string | PaymentIdentifier string | JsonError

definition ensure_allowed_keys :: "json_map \<Rightarrow> string list \<Rightarrow> string \<Rightarrow> request_error + unit" where
  "ensure_allowed_keys object allowed path =
     (if list_ex (\<lambda>key. \<not> list_ex (\<lambda>a. key = a) allowed) (jkeys object) then Inl (Field path) else Inr ())"

definition json_u8 :: "json option \<Rightarrow> u8 option" where
  "json_u8 v = Option.bind (Option.bind v as_u64) (\<lambda>n. if unat n < 256 then Some (ucast n) else None)"

definition required_u8 :: "json_map \<Rightarrow> string \<Rightarrow> string \<Rightarrow> request_error + u8" where
  "required_u8 object key path = ok_or (json_u8 (jget object key)) (Field path)"

definition required_string :: "json_map \<Rightarrow> string \<Rightarrow> string \<Rightarrow> request_error + string" where
  "required_string object key path =
     (case Option.bind (jget object key) as_str of
        Some v \<Rightarrow> if v \<noteq> [] then Inr v else Inl (Field path)
      | None \<Rightarrow> Inl (Field path))"

definition required_decimal_string :: "json_map \<Rightarrow> string \<Rightarrow> string \<Rightarrow> request_error + string" where
  "required_decimal_string object key path =
     bind_res (required_string object key path) (\<lambda>value.
     if list_all is_ascii_digit value then Inr value else Inl (Field path))"

definition required_object :: "json_map \<Rightarrow> string \<Rightarrow> string \<Rightarrow> request_error + json_map" where
  "required_object object key path = ok_or (Option.bind (jget object key) as_object) (Field path)"

section \<open>The legacy dialect\<close>

datatype wire_version = V1 | V2

definition V1_NETWORKS :: "(string \<times> string) list" where
  "V1_NETWORKS = [(''base'', ''eip155:8453''), (''base-sepolia'', ''eip155:84532'')]"

definition caip2_for_v1_network :: "string \<Rightarrow> string option" where
  "caip2_for_v1_network name = map_option snd (find (\<lambda>(alias, caip2). alias = name) V1_NETWORKS)"

definition v1_network_name :: "string \<Rightarrow> string option" where
  "v1_network_name network = map_option fst (find (\<lambda>(alias, caip2). caip2 = network) V1_NETWORKS)"

definition is_v1_request :: "json_map \<Rightarrow> bool" where
  "is_v1_request object \<longleftrightarrow> Option.bind (jget object ''x402Version'') as_u64 = Some 1"

definition translate_requirements :: "json_map \<Rightarrow> request_error + json" where
  "translate_requirements requirements =
     bind_res (ensure_allowed_keys requirements
       [''scheme'', ''network'', ''maxAmountRequired'', ''resource'', ''description'', ''mimeType'',
        ''outputSchema'', ''payTo'', ''maxTimeoutSeconds'', ''asset'', ''extra''] ''paymentRequirements'') (\<lambda>_.
     bind_res (required_string requirements ''network'' ''paymentRequirements.network'') (\<lambda>network.
     bind_res (ok_or (caip2_for_v1_network network) (Field ''paymentRequirements.network'')) (\<lambda>caip2.
     bind_res (required_string requirements ''scheme'' ''paymentRequirements.scheme'') (\<lambda>scheme.
     bind_res (required_string requirements ''asset'' ''paymentRequirements.asset'') (\<lambda>asset.
     bind_res (required_string requirements ''maxAmountRequired'' ''paymentRequirements.maxAmountRequired'') (\<lambda>amount.
     bind_res (required_string requirements ''payTo'' ''paymentRequirements.payTo'') (\<lambda>pay_to.
     bind_res (ok_or (jget requirements ''maxTimeoutSeconds'') (Field ''paymentRequirements.maxTimeoutSeconds'')) (\<lambda>max_timeout.
     Inr (JObject ([(''scheme'', JString scheme), (''network'', JString caip2), (''asset'', JString asset),
        (''amount'', JString amount), (''payTo'', JString pay_to), (''maxTimeoutSeconds'', max_timeout)]
        @ (case jget requirements ''extra'' of Some extra \<Rightarrow> [(''extra'', extra)] | None \<Rightarrow> [])))))))))))"

definition translate_v1_to_v2 :: "json_map \<Rightarrow> request_error + json" where
  "translate_v1_to_v2 object =
     bind_res (ensure_allowed_keys object [''x402Version'', ''paymentPayload'', ''paymentRequirements''] ''request'') (\<lambda>_.
     bind_res (required_object object ''paymentRequirements'' ''paymentRequirements'') (\<lambda>requirements.
     bind_res (required_string requirements ''scheme'' ''paymentRequirements.scheme'') (\<lambda>requirements_scheme.
     bind_res (required_string requirements ''network'' ''paymentRequirements.network'') (\<lambda>requirements_network.
     bind_res (translate_requirements requirements) (\<lambda>translated.
     bind_res (required_object object ''paymentPayload'' ''paymentPayload'') (\<lambda>payload.
     bind_res (ensure_allowed_keys payload [''x402Version'', ''scheme'', ''network'', ''payload''] ''paymentPayload'') (\<lambda>_.
     if Option.bind (jget payload ''x402Version'') as_u64 \<noteq> Some 1
     then Inl (Field ''paymentPayload.x402Version'') else
     bind_res (required_string payload ''scheme'' ''paymentPayload.scheme'') (\<lambda>scheme.
     if scheme \<noteq> requirements_scheme then Inl (Field ''paymentPayload.scheme'') else
     bind_res (required_string payload ''network'' ''paymentPayload.network'') (\<lambda>network.
     if network \<noteq> requirements_network then Inl (Field ''paymentPayload.network'') else
     bind_res (required_object payload ''payload'' ''paymentPayload.payload'') (\<lambda>mechanism.
     Inr (JObject [(''x402Version'', JNumber (PosInt 2)),
       (''paymentPayload'', JObject [(''x402Version'', JNumber (PosInt 2)), (''accepted'', translated),
          (''payload'', JObject mechanism)]),
       (''paymentRequirements'', translated)])))))))))))"

definition translate_response_value_to_v1 :: "json \<Rightarrow> json" where
  "translate_response_value_to_v1 value =
     (case value of
        JObject m \<Rightarrow>
          (case Option.bind (Option.bind (jget m ''network'') as_str) v1_network_name of
             Some name \<Rightarrow> JObject (jinsert ''network'' (JString name) m)
           | None \<Rightarrow> value)
      | _ \<Rightarrow> value)"

section \<open>Shapes\<close>

definition validate_requirements_shape :: "json_map \<Rightarrow> string \<Rightarrow> request_error + unit" where
  "validate_requirements_shape object path =
     bind_res (ensure_allowed_keys object
       [''scheme'', ''network'', ''asset'', ''amount'', ''payTo'', ''maxTimeoutSeconds'', ''extra''] path) (\<lambda>_.
     case Option.bind (jget object ''maxTimeoutSeconds'') as_u64 of
       None \<Rightarrow> Inl (Field path)
     | Some timeout \<Rightarrow>
         if \<not> timeout > 0 then Inl (Field path)
         else if (case jget object ''extra'' of Some extra \<Rightarrow> \<not> is_object extra | None \<Rightarrow> False)
         then Inl (Field path)
         else Inr ())"

definition optional_string_fields :: "json_map \<Rightarrow> string list \<Rightarrow> bool" where
  "optional_string_fields object names \<longleftrightarrow>
     list_all (\<lambda>f. case jget object f of Some v \<Rightarrow> is_string v | None \<Rightarrow> True) names"

definition validate_resource :: "json option \<Rightarrow> request_error + unit" where
  "validate_resource resource =
     (case resource of
        None \<Rightarrow> Inr ()
      | Some v \<Rightarrow>
        bind_res (ok_or (as_object v) (Field ''paymentPayload.resource'')) (\<lambda>object.
        bind_res (ensure_allowed_keys object
          [''url'', ''description'', ''mimeType'', ''serviceName'', ''tags'', ''iconUrl''] ''paymentPayload.resource'') (\<lambda>_.
        bind_res (required_string object ''url'' ''paymentPayload.resource.url'') (\<lambda>_.
        if \<not> optional_string_fields object [''description'', ''mimeType'', ''serviceName'', ''iconUrl'']
        then Inl (Field ''paymentPayload.resource'')
        else case jget object ''tags'' of
          None \<Rightarrow> Inr ()
        | Some tags \<Rightarrow>
            bind_res (ok_or (as_array tags) (Field ''paymentPayload.resource.tags'')) (\<lambda>tags.
            if list_ex (\<lambda>tag. \<not> is_string tag) tags then Inl (Field ''paymentPayload.resource.tags'')
            else Inr ())))))"

definition validate_eip155_authorization :: "json_map \<Rightarrow> request_error + unit" where
  "validate_eip155_authorization authorization =
     (let path = ''paymentPayload.payload.authorization'' in
      bind_res (ensure_allowed_keys authorization
        [''from'', ''to'', ''value'', ''validAfter'', ''validBefore'', ''nonce''] path) (\<lambda>_.
      bind_res (required_string authorization ''from'' path) (\<lambda>_.
      bind_res (required_string authorization ''to'' path) (\<lambda>_.
      bind_res (required_decimal_string authorization ''value'' path) (\<lambda>_.
      bind_res (required_decimal_string authorization ''validAfter'' path) (\<lambda>_.
      bind_res (required_decimal_string authorization ''validBefore'' path) (\<lambda>_.
      bind_res (required_string authorization ''nonce'' path) (\<lambda>nonce.
      case strip_prefix ''0x'' nonce of
        Some hex \<Rightarrow> if length hex = 64 \<and> list_all is_ascii_hexdigit hex then Inr () else Inl (Field path)
      | None \<Rightarrow> Inl (Field path)))))))))"

definition parse_mechanism_payload :: "json_map \<Rightarrow> string \<Rightarrow> request_error + string option" where
  "parse_mechanism_payload mechanism_payload network =
     (if starts_with network ''eip155:'' then
        bind_res (ensure_allowed_keys mechanism_payload [''authorization'', ''signature''] ''paymentPayload.payload'') (\<lambda>_.
        bind_res (required_object mechanism_payload ''authorization'' ''paymentPayload.payload.authorization'') (\<lambda>authorization.
        bind_res (validate_eip155_authorization authorization) (\<lambda>_.
        bind_res (required_string mechanism_payload ''signature'' ''paymentPayload.payload.signature'') (\<lambda>_.
        Inr None))))
      else
        bind_res (ensure_allowed_keys mechanism_payload [''signedDelegateAction''] ''paymentPayload.payload'') (\<lambda>_.
        bind_res (required_string mechanism_payload ''signedDelegateAction''
          ''paymentPayload.payload.signedDelegateAction'') (\<lambda>signed.
        Inr (Some signed))))"

datatype near_asset_transfer_method = DelegateTransfer | UnsupportedTransfer

definition parse_near_asset_transfer_method :: "json_map \<Rightarrow> string \<Rightarrow> request_error + string option" where
  "parse_near_asset_transfer_method requirements path =
     (case jget requirements ''extra'' of
        None \<Rightarrow> Inr None
      | Some extra \<Rightarrow>
          bind_res (ok_or (as_object extra) (Field path)) (\<lambda>extra.
          case jget extra ''assetTransferMethod'' of
            None \<Rightarrow> Inr None
          | Some (JString method) \<Rightarrow> Inr (Some method)
          | Some _ \<Rightarrow> Inl (Field path)))"

definition parse_routed_mechanism_payload ::
  "json_map \<Rightarrow> json_map \<Rightarrow> json_map \<Rightarrow> string \<Rightarrow>
   request_error + string option \<times> near_asset_transfer_method option" where
  "parse_routed_mechanism_payload accepted requirements mechanism_payload network =
     (if \<not> starts_with network ''near:'' then
        bind_res (parse_mechanism_payload mechanism_payload network) (\<lambda>signed. Inr (signed, None))
      else
        bind_res (parse_near_asset_transfer_method accepted ''paymentPayload.accepted.extra.assetTransferMethod'') (\<lambda>a.
        bind_res (parse_near_asset_transfer_method requirements ''paymentRequirements.extra.assetTransferMethod'') (\<lambda>r.
        let method = (if a = None \<and> r = None then DelegateTransfer else UnsupportedTransfer) in
        bind_res (if method = DelegateTransfer then parse_mechanism_payload mechanism_payload network else Inr None) (\<lambda>signed.
        Inr (signed, Some method)))))"

section \<open>Payment identifiers\<close>

definition validate_identifier :: "string \<Rightarrow> payment_identifier_config \<Rightarrow> request_error + unit" where
  "validate_identifier identifier policy =
     (if length identifier < unat (pi_min_length policy) \<or> length identifier > unat (pi_max_length policy)
      then Inl (PaymentIdentifier (''id length must be '' @ decimal_text (unat (pi_min_length policy)) @ ''..=''
        @ decimal_text (unat (pi_max_length policy))))
      else if \<not> list_all (\<lambda>c. is_ascii_alphanumeric c \<or> c = CHR ''-'' \<or> c = CHR ''_'') identifier
      then Inl (PaymentIdentifier ''id contains characters outside [A-Za-z0-9_-]'')
      else Inr ())"

definition extract_payment_identifier ::
  "json_map \<Rightarrow> payment_identifier_config \<Rightarrow> request_error + string option" where
  "extract_payment_identifier payload policy =
     (case Option.bind (Option.bind (jget payload ''extensions'') as_object)
             (\<lambda>extensions. jget extensions ''payment-identifier'') of
        None \<Rightarrow> if pi_required policy then Inl (PaymentIdentifier ''an id is required by this facilitator'') else Inr None
      | Some extension \<Rightarrow>
        bind_res (ok_or (as_object extension) (PaymentIdentifier ''extension must be an object'')) (\<lambda>extension.
        bind_res (ensure_allowed_keys extension [''info'', ''schema''] ''paymentPayload.extensions.payment-identifier'') (\<lambda>_.
        bind_res (ok_or (Option.bind (jget extension ''info'') as_object)
          (PaymentIdentifier ''extension.info must be an object'')) (\<lambda>info.
        bind_res (ensure_allowed_keys info [''required'', ''id''] ''paymentPayload.extensions.payment-identifier.info'') (\<lambda>_.
        if Option.bind (jget info ''required'') as_bool = None
        then Inl (PaymentIdentifier ''extension.info.required must be a boolean'')
        else if \<not> (case jget extension ''schema'' of Some v \<Rightarrow> is_object v | None \<Rightarrow> False)
        then Inl (PaymentIdentifier ''extension.schema must be an object'')
        else case jget info ''id'' of
          Some (JString identifier) \<Rightarrow>
            bind_res (validate_identifier identifier policy) (\<lambda>_. Inr (Some identifier))
        | Some _ \<Rightarrow> Inl (PaymentIdentifier ''extension.info.id must be a string'')
        | None \<Rightarrow>
            if pi_required policy then Inl (PaymentIdentifier ''an id is required by this facilitator'')
            else Inr None)))))"


section \<open>Parsing a request\<close>

record request_meta =
  rm_x402_version :: u8
  rm_scheme :: string
  rm_network :: string
  rm_asset :: string
  rm_amount :: string
  rm_pay_to :: string
  rm_signed_delegate_action :: "string option"
  rm_near_asset_transfer_method :: "near_asset_transfer_method option"
  rm_payment_identifier :: "string option"

record parsed_request =
  pr_raw :: string
  pr_value :: json
  pr_wire :: wire_version
  pr_meta :: request_meta

text \<open>
  \<open>parse_v2\<close> is the walk \<open>parse_request\<close> makes over the canonical value, whichever dialect it came from.
\<close>

definition parse_v2 ::
  "(json \<Rightarrow> string option) \<Rightarrow> json \<Rightarrow> payment_identifier_config \<Rightarrow> wire_version \<Rightarrow> request_error + parsed_request" where
  "parse_v2 to_raw value policy wire =
     bind_res (ok_or (as_object value) NotObject) (\<lambda>object.
     bind_res (ensure_allowed_keys object [''x402Version'', ''paymentPayload'', ''paymentRequirements''] ''request'') (\<lambda>_.
     bind_res (required_u8 object ''x402Version'' ''x402Version'') (\<lambda>x402_version.
     bind_res (required_object object ''paymentPayload'' ''paymentPayload'') (\<lambda>payload.
     bind_res (ensure_allowed_keys payload [''x402Version'', ''resource'', ''accepted'', ''payload'', ''extensions'']
       ''paymentPayload'') (\<lambda>_.
     bind_res (required_u8 payload ''x402Version'' ''paymentPayload.x402Version'') (\<lambda>_.
     bind_res (validate_resource (jget payload ''resource'')) (\<lambda>_.
     bind_res (required_object object ''paymentRequirements'' ''paymentRequirements'') (\<lambda>requirements.
     bind_res (validate_requirements_shape requirements ''paymentRequirements'') (\<lambda>_.
     bind_res (required_object payload ''accepted'' ''paymentPayload.accepted'') (\<lambda>accepted.
     bind_res (validate_requirements_shape accepted ''paymentPayload.accepted'') (\<lambda>_.
     bind_res (required_object payload ''payload'' ''paymentPayload.payload'') (\<lambda>mechanism_payload.
     if (case jget payload ''extensions'' of Some extensions \<Rightarrow> \<not> is_object extensions | None \<Rightarrow> False)
     then Inl (Field ''paymentPayload.extensions'') else
     bind_res (required_string requirements ''scheme'' ''paymentRequirements.scheme'') (\<lambda>scheme.
     bind_res (required_string requirements ''network'' ''paymentRequirements.network'') (\<lambda>network.
     bind_res (required_string requirements ''asset'' ''paymentRequirements.asset'') (\<lambda>asset.
     bind_res (required_decimal_string requirements ''amount'' ''paymentRequirements.amount'') (\<lambda>amount.
     bind_res (required_string requirements ''payTo'' ''paymentRequirements.payTo'') (\<lambda>pay_to.
     bind_res (required_string accepted ''scheme'' ''paymentPayload.accepted.scheme'') (\<lambda>_.
     bind_res (required_string accepted ''network'' ''paymentPayload.accepted.network'') (\<lambda>_.
     bind_res (required_string accepted ''asset'' ''paymentPayload.accepted.asset'') (\<lambda>_.
     bind_res (required_decimal_string accepted ''amount'' ''paymentPayload.accepted.amount'') (\<lambda>_.
     bind_res (required_string accepted ''payTo'' ''paymentPayload.accepted.payTo'') (\<lambda>_.
     bind_res (parse_routed_mechanism_payload accepted requirements mechanism_payload network) (\<lambda>(signed, method).
     bind_res (extract_payment_identifier payload policy) (\<lambda>payment_identifier.
     bind_res (ok_or (to_raw value) JsonError) (\<lambda>raw.
     Inr \<lparr>pr_raw = raw, pr_value = value, pr_wire = wire,
       pr_meta = \<lparr>rm_x402_version = x402_version, rm_scheme = scheme, rm_network = network, rm_asset = asset,
         rm_amount = amount, rm_pay_to = pay_to, rm_signed_delegate_action = signed,
         rm_near_asset_transfer_method = method, rm_payment_identifier = payment_identifier\<rparr>\<rparr>)))))))))))))))))))))))))"

definition wire_of :: "json \<Rightarrow> bool \<Rightarrow> wire_version" where
  "wire_of value accept_v1 =
     (if accept_v1 \<and> (case as_object value of Some object \<Rightarrow> is_v1_request object | None \<Rightarrow> False) then V1 else V2)"

definition parse_request ::
  "(bytes \<Rightarrow> json option) \<Rightarrow> (json \<Rightarrow> string option) \<Rightarrow> bytes \<Rightarrow> payment_identifier_config \<Rightarrow> bool \<Rightarrow>
   request_error + parsed_request" where
  "parse_request from_slice to_raw body policy accept_v1 =
     bind_res (ok_or (from_slice body) JsonError) (\<lambda>value.
     let wire = wire_of value accept_v1 in
     bind_res (if wire = V1
       then bind_res (ok_or (as_object value) NotObject) translate_v1_to_v2
       else Inr value) (\<lambda>value.
     parse_v2 to_raw value policy wire))"

section \<open>Responses\<close>

record verify_response =
  vr_is_valid :: bool
  vr_invalid_reason :: "string option"
  vr_invalid_message :: "string option"
  vr_payer :: "string option"
  vr_extensions :: "json_map option"

record settle_response =
  sr_success :: bool
  sr_error_reason :: "string option"
  sr_error_message :: "string option"
  sr_payer :: "string option"
  sr_transaction :: string
  sr_network :: string
  sr_extensions :: "json_map option"

definition verify_valid :: "string \<Rightarrow> verify_response" where
  "verify_valid payer = \<lparr>vr_is_valid = True, vr_invalid_reason = None, vr_invalid_message = None,
     vr_payer = Some payer, vr_extensions = None\<rparr>"

definition verify_invalid :: "string \<Rightarrow> string option \<Rightarrow> string option \<Rightarrow> verify_response" where
  "verify_invalid reason message payer = \<lparr>vr_is_valid = False, vr_invalid_reason = Some reason,
     vr_invalid_message = message, vr_payer = payer, vr_extensions = None\<rparr>"

definition settle_success :: "string \<Rightarrow> string \<Rightarrow> string \<Rightarrow> settle_response" where
  "settle_success payer transaction network = \<lparr>sr_success = True, sr_error_reason = None,
     sr_error_message = None, sr_payer = Some payer, sr_transaction = transaction, sr_network = network,
     sr_extensions = None\<rparr>"

definition settle_failure ::
  "string \<Rightarrow> string option \<Rightarrow> string option \<Rightarrow> string \<Rightarrow> string \<Rightarrow> settle_response" where
  "settle_failure reason message payer transaction network = \<lparr>sr_success = False, sr_error_reason = Some reason,
     sr_error_message = message, sr_payer = payer, sr_transaction = transaction, sr_network = network,
     sr_extensions = None\<rparr>"

definition optional_field :: "string \<Rightarrow> ('a \<Rightarrow> json) \<Rightarrow> 'a option \<Rightarrow> json_map" where
  "optional_field name encode v = (case v of Some x \<Rightarrow> [(name, encode x)] | None \<Rightarrow> [])"

definition verify_response_value :: "verify_response \<Rightarrow> json" where
  "verify_response_value r = JObject ([(''isValid'', JBool (vr_is_valid r))]
     @ optional_field ''invalidReason'' JString (vr_invalid_reason r)
     @ optional_field ''invalidMessage'' JString (vr_invalid_message r)
     @ optional_field ''payer'' JString (vr_payer r)
     @ optional_field ''extensions'' JObject (vr_extensions r))"

definition settle_response_value :: "settle_response \<Rightarrow> json" where
  "settle_response_value r = JObject ([(''success'', JBool (sr_success r))]
     @ optional_field ''errorReason'' JString (sr_error_reason r)
     @ optional_field ''errorMessage'' JString (sr_error_message r)
     @ optional_field ''payer'' JString (sr_payer r)
     @ [(''transaction'', JString (sr_transaction r)), (''network'', JString (sr_network r))]
     @ optional_field ''extensions'' JObject (sr_extensions r))"

section \<open>Canonical JSON and the request fingerprint\<close>

definition number_text :: "number \<Rightarrow> string" where
  "number_text n = (case n of PosInt k \<Rightarrow> decimal_text (unat k)
     | NegInt i \<Rightarrow> (if i < 0 then ''-'' else []) @ decimal_text (nat \<bar>i\<bar>)
     | Float s \<Rightarrow> s)"

primrec comma_join :: "string list \<Rightarrow> string" where
  "comma_join [] = []"
| "comma_join (x # xs) = (if xs = [] then x else x @ '','' @ comma_join xs)"

text \<open>
  The children are written first and then looked up by the sorted keys, which makes the recursion
  structural; the text is the one the source appends key by key.
\<close>

fun write_canonical_json :: "(string \<Rightarrow> string) \<Rightarrow> json \<Rightarrow> string" where
  "write_canonical_json quote JNull = ''null''"
| "write_canonical_json quote (JBool b) = (if b then ''true'' else ''false'')"
| "write_canonical_json quote (JNumber n) = number_text n"
| "write_canonical_json quote (JString s) = quote s"
| "write_canonical_json quote (JArray vs) = ''['' @ comma_join (map (write_canonical_json quote) vs) @ '']''"
| "write_canonical_json quote (JObject m) =
     (let children = map (\<lambda>kv. (fst kv, write_canonical_json quote (snd kv))) m in
      ''{'' @ comma_join (map (\<lambda>k. quote k @ '':'' @ (case map_of children k of Some t \<Rightarrow> t | None \<Rightarrow> []))
                (sort (jkeys m))) @ ''}'')"

definition REQUEST_FINGERPRINT_DOMAIN :: bytes where
  "REQUEST_FINGERPRINT_DOMAIN = ''x402-near/request/v1'' @ [CHR 0x00]"

definition fingerprint_input :: "(string \<Rightarrow> string) \<Rightarrow> json \<Rightarrow> bytes \<Rightarrow> bytes" where
  "fingerprint_input quote request payment_hash =
     REQUEST_FINGERPRINT_DOMAIN @ write_canonical_json quote request @ payment_hash"

definition request_fingerprint :: "(bytes \<Rightarrow> bytes) \<Rightarrow> (string \<Rightarrow> string) \<Rightarrow> json \<Rightarrow> bytes \<Rightarrow> bytes" where
  "request_fingerprint sha256 quote request payment_hash = sha256 (fingerprint_input quote request payment_hash)"

end
