(* ===== verification/Access.thy ===== *)
theory Access
  imports Store_Clients
begin

text \<open>
  Who may call and how often: the API keys of \<open>auth.rs\<close> (generation, presentation in the request headers,
  authentication against the store) and the per-key rate limiter of \<open>service.rs\<close>. HMAC-SHA256 and the hex
  encoder are parameters; a header value is what \<open>HeaderValue::to_str\<close> reads from it, if anything.
\<close>

section \<open>Strings\<close>

text \<open>\<open>str::split_once\<close> and \<open>str::split_ascii_whitespace\<close>.\<close>

fun split_once :: "char \<Rightarrow> string \<Rightarrow> (string \<times> string) option" where
  "split_once c [] = None"
| "split_once c (x # xs) = (if x = c then Some ([], xs) else map_option (apfst (Cons x)) (split_once c xs))"

definition is_ascii_whitespace :: "char \<Rightarrow> bool" where
  "is_ascii_whitespace c \<longleftrightarrow> byte_of c = 32 \<or> byte_of c = 9 \<or> byte_of c = 10 \<or> byte_of c = 12 \<or> byte_of c = 13"

fun ascii_words :: "string \<Rightarrow> string \<Rightarrow> string list" where
  "ascii_words word [] = (if word = [] then [] else [rev word])"
| "ascii_words word (c # cs) =
     (if is_ascii_whitespace c then (if word = [] then [] else [rev word]) @ ascii_words [] cs
      else ascii_words (c # word) cs)"

definition split_ascii_whitespace :: "string \<Rightarrow> string list" where
  "split_ascii_whitespace s = ascii_words [] s"

section \<open>API keys\<close>

record auth_lib =
  au_hmac :: "bytes \<Rightarrow> bytes \<Rightarrow> hash32 option"
  au_hex :: "bytes \<Rightarrow> string"

datatype auth_error = AuthInvalid | AuthStore store_error | AuthConfiguration | AuthEntropy

record generated_api_key =
  gk_prefix :: string
  gk_raw :: string
  gk_digest :: hash32

record authenticated_client =
  ac_client :: api_client
  ac_key_prefix :: string

type_synonym headers = "(string \<times> string option) list"

fun environment_name :: "environment \<Rightarrow> string" where
  "environment_name Mainnet = ''mainnet''"
| "environment_name Testnet = ''testnet''"

definition is_lower_hex :: "char \<Rightarrow> bool" where
  "is_lower_hex c \<longleftrightarrow> is_ascii_digit c \<or> 97 \<le> byte_of c \<and> byte_of c \<le> 102"

definition digest_api_key :: "auth_lib \<Rightarrow> bytes \<Rightarrow> string \<Rightarrow> auth_error + hash32" where
  "digest_api_key lib pepper key =
     (if length pepper < 32 then Inl AuthConfiguration else ok_or (au_hmac lib pepper key) AuthConfiguration)"

text \<open>\<open>GeneratedApiKey::generate\<close>, with what the system's entropy source filled in, if it answered.\<close>

definition generate_api_key ::
  "auth_lib \<Rightarrow> environment \<Rightarrow> bytes \<Rightarrow> bytes option \<Rightarrow> bytes option \<Rightarrow> auth_error + generated_api_key" where
  "generate_api_key lib env pepper public_id secret =
     bind_res (ok_or public_id AuthEntropy) (\<lambda>public_id.
     bind_res (ok_or secret AuthEntropy) (\<lambda>secret.
     let prefix = ''x402_'' @ api_key_label env @ ''_'' @ au_hex lib public_id;
         raw = prefix @ ''.'' @ au_hex lib secret in
     bind_res (digest_api_key lib pepper raw) (\<lambda>digest.
     Inr \<lparr>gk_prefix = prefix, gk_raw = raw, gk_digest = digest\<rparr>)))"

definition single_header :: "headers \<Rightarrow> string \<Rightarrow> auth_error + string option" where
  "single_header hs name =
     (case filter (\<lambda>h. fst h = name) hs of
        [] \<Rightarrow> Inr None
      | [h] \<Rightarrow> bind_res (ok_or (snd h) AuthInvalid) (\<lambda>v. Inr (Some v))
      | _ \<Rightarrow> Inl AuthInvalid)"

definition parse_bearer :: "string \<Rightarrow> auth_error + string" where
  "parse_bearer v =
     (case split_ascii_whitespace v of
        [scheme, key] \<Rightarrow> if eq_ignore_ascii_case scheme ''bearer'' then Inr key else Inl AuthInvalid
      | _ \<Rightarrow> Inl AuthInvalid)"

definition extract_presented_key :: "headers \<Rightarrow> auth_error + string" where
  "extract_presented_key hs =
     bind_res (single_header hs ''x-api-key'') (\<lambda>x_api_key.
     bind_res (single_header hs ''authorization'') (\<lambda>authorization.
     bind_res (case authorization of
         None \<Rightarrow> Inr None
       | Some v \<Rightarrow> bind_res (parse_bearer v) (\<lambda>key. Inr (Some key))) (\<lambda>bearer.
     case (x_api_key, bearer) of
       (Some left, Some right) \<Rightarrow> if left = right then Inr left else Inl AuthInvalid
     | (None, None) \<Rightarrow> Inl AuthInvalid
     | (Some key, None) \<Rightarrow> Inr key
     | (None, Some key) \<Rightarrow> Inr key)))"

text \<open>\<open>ParsedApiKey::parse\<close>: the prefix of a well-formed key of this environment.\<close>

definition parse_api_key :: "string \<Rightarrow> environment \<Rightarrow> auth_error + string" where
  "parse_api_key raw env =
     bind_res (ok_or (split_once CHR ''.'' raw) AuthInvalid) (\<lambda>(prefix, secret).
     if CHR ''.'' \<in> set secret \<or> length secret \<noteq> 64 \<or> \<not> list_all is_lower_hex secret then Inl AuthInvalid else
     bind_res (ok_or (strip_prefix (''x402_'' @ api_key_label env @ ''_'') prefix) AuthInvalid) (\<lambda>public_id.
     if length public_id \<noteq> 24 \<or> \<not> list_all is_lower_hex public_id then Inl AuthInvalid else Inr prefix))"

text \<open>
  \<open>authenticate\<close>: the key is read from the headers and its HMAC computed before the store is asked, and
  compared even when the store knows no such prefix.
\<close>

definition presented_key ::
  "auth_lib \<Rightarrow> environment \<Rightarrow> bytes \<Rightarrow> headers \<Rightarrow> auth_error + string \<times> hash32" where
  "presented_key lib env pepper hs =
     bind_res (extract_presented_key hs) (\<lambda>raw.
     bind_res (parse_api_key raw env) (\<lambda>prefix.
     bind_res (digest_api_key lib pepper raw) (\<lambda>calculated.
     Inr (prefix, calculated))))"

definition admit_candidate ::
  "environment \<Rightarrow> string \<Rightarrow> hash32 \<Rightarrow> (api_client \<times> hash32) option \<Rightarrow> auth_error + authenticated_client" where
  "admit_candidate env prefix calculated candidate =
     (let expected = (case candidate of Some c \<Rightarrow> snd c | None \<Rightarrow> 0);
          digest_matches = (calculated = expected);
          candidate = (case candidate of
            Some c \<Rightarrow> if cl_environment (fst c) = environment_name env then Some c else None
          | None \<Rightarrow> None) in
      if \<not> digest_matches then Inl AuthInvalid
      else ok_or (map_option (\<lambda>c. \<lparr>ac_client = fst c, ac_key_prefix = prefix\<rparr>) candidate) AuthInvalid)"

definition authenticate ::
  "auth_lib \<Rightarrow> environment \<Rightarrow> bytes \<Rightarrow> (string \<Rightarrow> store_error + (api_client \<times> hash32) option) \<Rightarrow> headers \<Rightarrow>
   auth_error + authenticated_client" where
  "authenticate lib env pepper lookup hs =
     bind_res (presented_key lib env pepper hs) (\<lambda>(prefix, calculated).
     bind_res (map_err AuthStore (lookup prefix)) (\<lambda>candidate.
     admit_candidate env prefix calculated candidate))"

section \<open>Rate limits\<close>

datatype operation = VerifyOp | SettleOp

text \<open>A window with the instant it started, in milliseconds.\<close>

record rate_window =
  rw_started :: nat
  rw_count :: u32

type_synonym rate_limiter = "string \<times> operation \<rightharpoonup> rate_window"

definition current_window :: "nat \<Rightarrow> rate_window option \<Rightarrow> rate_window" where
  "current_window now w =
     (let window = (case w of Some window \<Rightarrow> window | None \<Rightarrow> \<lparr>rw_started = now, rw_count = 0\<rparr>) in
      if now - rw_started window \<ge> 60000 then \<lparr>rw_started = now, rw_count = 0\<rparr> else window)"

definition rate_check :: "nat \<Rightarrow> string \<Rightarrow> operation \<Rightarrow> u32 \<Rightarrow> rate_limiter \<Rightarrow> bool \<times> rate_limiter" where
  "rate_check now key_prefix operation limit windows =
     (let window = current_window now (windows (key_prefix, operation)) in
      if rw_count window \<ge> limit then (False, windows((key_prefix, operation) \<mapsto> window))
      else (True, windows((key_prefix, operation) \<mapsto> window\<lparr>rw_count := saturating_add (rw_count window) 1\<rparr>)))"

section \<open>Authentication is sound\<close>

lemma split_once_Some: "split_once c s = Some (a, b) \<Longrightarrow> s = a @ c # b \<and> c \<notin> set a"
  by (induction s arbitrary: a) (auto split: if_splits)

lemma split_once_append: "c \<notin> set a \<Longrightarrow> split_once c (a @ c # b) = Some (a, b)"
  by (induction a) auto


section \<open>Generated keys authenticate\<close>

text \<open>What is relied on of the hex encoder: two lowercase hex digits per byte.\<close>

definition hex_laws :: "auth_lib \<Rightarrow> bool" where
  "hex_laws lib \<longleftrightarrow> (\<forall>b. length (au_hex lib b) = 2 * length b \<and> list_all is_lower_hex (au_hex lib b))"

lemma dot_not_hex: "list_all is_lower_hex s \<Longrightarrow> CHR ''.'' \<notin> set s"
  by (auto simp: list_all_iff is_lower_hex_def is_ascii_digit_def)

lemma dot_not_label: "CHR ''.'' \<notin> set (''x402_'' @ api_key_label env @ ''_'')"
  by (cases env) simp_all

lemma strip_prefix_append [simp]: "strip_prefix p (p @ s) = Some s"
  by (simp add: strip_prefix_Some_iff)

lemma parse_generated:
  assumes "hex_laws lib" "length public_id = 12" "length secret = 32"
  shows "parse_api_key ((''x402_'' @ api_key_label env @ ''_'' @ au_hex lib public_id) @ ''.'' @ au_hex lib secret) env
    = Inr (''x402_'' @ api_key_label env @ ''_'' @ au_hex lib public_id)"
proof -
  let ?p = "''x402_'' @ api_key_label env @ ''_'' @ au_hex lib public_id"
  have hex: "length (au_hex lib public_id) = 24" "list_all is_lower_hex (au_hex lib public_id)"
    "length (au_hex lib secret) = 64" "list_all is_lower_hex (au_hex lib secret)"
    using assms by (simp_all add: hex_laws_def)
  have "CHR ''.'' \<notin> set ?p" using dot_not_label [of env] dot_not_hex [OF hex(2)] by simp
  then have "split_once (CHR ''.'') (?p @ ''.'' @ au_hex lib secret) = Some (?p, au_hex lib secret)"
    using split_once_append [of "CHR ''.''" ?p] by simp
  moreover have "strip_prefix (''x402_'' @ api_key_label env @ ''_'') ?p = Some (au_hex lib public_id)"
    using strip_prefix_append [of "''x402_'' @ api_key_label env @ ''_''" "au_hex lib public_id"] by simp
  ultimately show ?thesis
    using hex dot_not_hex [OF hex(4)] unfolding parse_api_key_def by simp
qed

lemma lookup_created:
  assumes "create_client d c key_id prefix digest = Inr d'"
  shows "lookup_api_key d' prefix = Some (c, digest)"
proof -
  have fresh: "\<not> client_exists d (cl_id c)" "\<not> list_ex (\<lambda>k. ak_prefix k = prefix) (db_keys d)"
    and d': "db_clients d' = db_clients d @ [(c, Active)]"
      "db_keys d' = db_keys d @ [\<lparr>ak_id = key_id, ak_client_id = cl_id c, ak_prefix = prefix, ak_digest = digest,
         ak_status = Active\<rparr>]"
    using assms by (auto simp: create_client_def insert_api_key_def list_ex_iff split: if_splits)
  have key: "find P (xs @ [x]) = Some x" if "\<not> list_ex P xs" "P x" for P and xs :: "'a list" and x
    using that by (induction xs) auto
  have active: "client_is_active d' (cl_id c)"
    by (auto simp: client_is_active_def d')
  have "find (\<lambda>k. ak_prefix k = prefix \<and> ak_status k = Active \<and> client_is_active d' (ak_client_id k)) (db_keys d')
      = Some \<lparr>ak_id = key_id, ak_client_id = cl_id c, ak_prefix = prefix, ak_digest = digest, ak_status = Active\<rparr>"
    unfolding d'(2) by (rule key) (use fresh(2) active in \<open>auto simp: list_ex_iff\<close>)
  moreover have "find (\<lambda>x. cl_id (fst x) = cl_id c \<and> snd x = Active) (db_clients d') = Some (c, Active)"
    unfolding d'(1) by (rule key) (use fresh(1) in \<open>auto simp: client_exists_def list_ex_iff\<close>)
  ultimately show ?thesis by (simp add: lookup_api_key_def)
qed

lemma hex_no_space: "list_all is_lower_hex s \<Longrightarrow> list_all (\<lambda>x. \<not> is_ascii_whitespace x) s"
  by (auto simp: list_all_iff is_lower_hex_def is_ascii_digit_def is_ascii_whitespace_def)

lemma label_no_space: "list_all (\<lambda>x. \<not> is_ascii_whitespace x) (api_key_label env)"
  by (cases env) (simp_all add: is_ascii_whitespace_def)

lemma ascii_words_solid:
  "list_all (\<lambda>x. \<not> is_ascii_whitespace x) s \<Longrightarrow> ascii_words word s = (if word = [] \<and> s = [] then [] else [rev word @ s])"
  by (induction s arbitrary: word) auto

lemma words_bearer:
  assumes "list_all (\<lambda>x. \<not> is_ascii_whitespace x) s" "s \<noteq> []"
  shows "split_ascii_whitespace (''Bearer '' @ s) = [''Bearer'', s]"
  using ascii_words_solid [OF assms(1), of "[]"] assms(2)
  by (simp add: split_ascii_whitespace_def is_ascii_whitespace_def)

lemma bearer_scheme: "eq_ignore_ascii_case ''Bearer'' ''bearer''"
  by code_simp

lemma generated_key:
  assumes "hex_laws lib" "length public_id = 12" "length secret = 32"
    and "generate_api_key lib env pepper (Some public_id) (Some secret) = Inr key"
    and "create_client d c key_id (gk_prefix key) (gk_digest key) = Inr d'"
    and "cl_environment c = environment_name env"
    and "hs \<in> {[(''x-api-key'', Some (gk_raw key))], [(''authorization'', Some (''Bearer '' @ gk_raw key))]}"
  shows "authenticate lib env pepper (\<lambda>p. Inr (lookup_api_key d' p)) hs
    = Inr \<lparr>ac_client = c, ac_key_prefix = gk_prefix key\<rparr>"
proof -
  have key: "gk_prefix key = ''x402_'' @ api_key_label env @ ''_'' @ au_hex lib public_id"
    "gk_raw key = gk_prefix key @ ''.'' @ au_hex lib secret" "digest_api_key lib pepper (gk_raw key) = Inr (gk_digest key)"
    using assms(4) by (auto simp: generate_api_key_def Let_def bind_res_Inr_iff)
  have "list_all (\<lambda>x. \<not> is_ascii_whitespace x) (gk_raw key)"
    using assms(1) hex_no_space label_no_space [of env] unfolding key(1,2) hex_laws_def by (simp add: is_ascii_whitespace_def)
  moreover have "gk_raw key \<noteq> []" by (simp add: key(2))
  ultimately have "parse_bearer (''Bearer '' @ gk_raw key) = Inr (gk_raw key)"
    unfolding parse_bearer_def using words_bearer [of "gk_raw key"] bearer_scheme by simp
  then have "extract_presented_key hs = Inr (gk_raw key)"
    using assms(7) by (auto simp: extract_presented_key_def single_header_def)
  then have "presented_key lib env pepper hs = Inr (gk_prefix key, gk_digest key)"
    using key(3) parse_generated [OF assms(1-3), of env] by (simp add: presented_key_def key(1,2))
  then show ?thesis
    using lookup_created [OF assms(5)] assms(6) by (simp add: authenticate_def admit_candidate_def)
qed

text \<open>
  Generated keys work: a key generated for an environment and stored with a new client of that
  environment authenticates as exactly that client at once, whether presented in the x-api-key header
  or as a bearer token.
\<close>

theorem generated_key_authenticates:
  assumes "hex_laws lib" "length public_id = 12" "length secret = 32"
    and "generate_api_key lib env pepper (Some public_id) (Some secret) = Inr key"
    and "create_client d c key_id (gk_prefix key) (gk_digest key) = Inr d'"
    and "cl_environment c = environment_name env"
    and "hs \<in> {[(''x-api-key'', Some (gk_raw key))], [(''authorization'', Some (''Bearer '' @ gk_raw key))]}"
  shows "authenticate lib env pepper (\<lambda>p. Inr (lookup_api_key d' p)) hs
    = Inr \<lparr>ac_client = c, ac_key_prefix = gk_prefix key\<rparr>"
  using assms by (rule generated_key)

definition sample_auth_lib :: auth_lib where
  "sample_auth_lib = \<lparr>au_hmac = (\<lambda>_ _. Some 5), au_hex = (\<lambda>b. replicate (2 * length b) (CHR ''a''))\<rparr>"

definition sample_bytes :: "nat \<Rightarrow> bytes" where
  "sample_bytes n = replicate n (CHR ''k'')"

definition sample_key :: generated_api_key where
  "sample_key = projr (generate_api_key sample_auth_lib Testnet (sample_bytes 32) (Some (sample_bytes 12)) (Some (sample_bytes 32)))"

definition sample_key_db :: db where
  "sample_key_db = projr (create_client empty_db sample_client 7 (gk_prefix sample_key) (gk_digest sample_key))"

lemma sample_key_setup:
  "hex_laws sample_auth_lib" "length (sample_bytes 12) = 12" "length (sample_bytes 32) = 32"
  "generate_api_key sample_auth_lib Testnet (sample_bytes 32) (Some (sample_bytes 12)) (Some (sample_bytes 32)) = Inr sample_key"
  "create_client empty_db sample_client 7 (gk_prefix sample_key) (gk_digest sample_key) = Inr sample_key_db"
  "cl_environment sample_client = environment_name Testnet"
  by (auto simp: hex_laws_def sample_auth_lib_def sample_bytes_def list_all_iff is_lower_hex_def sample_key_def
      generate_api_key_def digest_api_key_def Let_def sample_key_db_def create_client_def insert_api_key_def empty_db_def
      sample_client_def fits_i32_def numeric40_def client_exists_def)

lemma sample_key_authenticates:
  "authenticate sample_auth_lib Testnet (sample_bytes 32) (\<lambda>p. Inr (lookup_api_key sample_key_db p))
     [(''x-api-key'', Some (gk_raw sample_key))] = Inr \<lparr>ac_client = sample_client, ac_key_prefix = gk_prefix sample_key\<rparr>"
  by (rule generated_key [OF sample_key_setup]) simp

theorem generated_key_authenticates_witness:
  "authenticate sample_auth_lib Testnet (sample_bytes 32) (\<lambda>p. Inr (lookup_api_key sample_key_db p))
     [(''authorization'', Some (''Bearer '' @ gk_raw sample_key))]
   = Inr \<lparr>ac_client = sample_client, ac_key_prefix = gk_prefix sample_key\<rparr>"
  by (rule generated_key_authenticates [OF sample_key_setup]) simp


section \<open>Rate limits hold\<close>

text \<open>A run of the limiter over calls at given instants, with the decision on each.\<close>

type_synonym rate_call = "nat \<times> (string \<times> operation) \<times> u32"

primrec rate_run :: "rate_limiter \<Rightarrow> rate_call list \<Rightarrow> bool list" where
  "rate_run windows [] = []"
| "rate_run windows (call # calls) =
     (case call of (now, (key, operation), limit) \<Rightarrow>
      let (admitted, windows') = rate_check now key operation limit windows in admitted # rate_run windows' calls)"

definition admitted_in :: "nat \<Rightarrow> string \<times> operation \<Rightarrow> rate_limiter \<Rightarrow> rate_call list \<Rightarrow> nat" where
  "admitted_in t k windows calls = length (filter (\<lambda>((now, key, _), admitted). admitted \<and> key = k \<and> t \<le> now \<and> now < t + 60000)
     (zip calls (rate_run windows calls)))"

text \<open>What a window still admits in the minute from \<open>t\<close>, seen from within that minute.\<close>

definition left_from :: "nat \<Rightarrow> u32 \<Rightarrow> rate_window option \<Rightarrow> nat" where
  "left_from t limit w = (case w of
     None \<Rightarrow> unat limit
   | Some window \<Rightarrow> if t \<le> rw_started window then unat limit - unat (rw_count window)
       else unat limit + (unat limit - unat (rw_count window)))"

lemma admitted_in_Cons:
  "admitted_in t k windows ((now, key, limit) # calls) =
     (let (admitted, windows') = rate_check now (fst key) (snd key) limit windows in
      (if admitted \<and> key = k \<and> t \<le> now \<and> now < t + 60000 then 1 else 0) + admitted_in t k windows' calls)"
  by (cases key; cases "rate_check now (fst key) (snd key) limit windows") (auto simp: admitted_in_def)

lemma rate_check_other:
  "rate_check now key operation limit windows = (b, windows') \<Longrightarrow> (key, operation) \<noteq> k \<Longrightarrow> windows' k = windows k"
  by (auto simp: rate_check_def Let_def split: if_splits)

lemma rate_check_left:
  assumes "rate_check now key operation limit windows = (b, windows')" "t \<le> now" "now < t + 60000"
  shows "(if b then 1 else 0) + left_from t limit (windows' (key, operation)) \<le> left_from t limit (windows (key, operation))"
proof -
  have succ: "unat (saturating_add c 1) = Suc (unat c)" if "unat c < unat limit" for c :: u32
    using that unsigned_less [of limit, where ?'a = nat] by (simp add: unat_saturating_add)
  show ?thesis
    using assms succ [of 0]
    by (auto simp: rate_check_def current_window_def left_from_def Let_def word_le_nat_alt not_le succ
        split: option.splits if_splits)
qed

lemma admitted_in_late: "\<forall>c \<in> set calls. t + 60000 \<le> fst c \<Longrightarrow> admitted_in t k windows calls = 0"
proof (induction calls arbitrary: windows)
  case (Cons c calls)
  obtain now key limit where c: "c = (now, key, limit)" by (cases c)
  show ?case
    using Cons by (simp add: c admitted_in_Cons split: prod.split)
qed (simp add: admitted_in_def)

lemma admitted_in_from:
  assumes "sorted (map fst calls)" "\<forall>c \<in> set calls. t \<le> fst c" "\<forall>c \<in> set calls. fst (snd c) = k \<longrightarrow> snd (snd c) = limit"
  shows "admitted_in t k windows calls \<le> left_from t limit (windows k)"
  using assms
proof (induction calls arbitrary: windows)
  case (Cons c calls)
  obtain now key l where c: "c = (now, key, l)" by (cases c)
  obtain b windows' where run: "rate_check now (fst key) (snd key) l windows = (b, windows')" by fastforce
  have IH: "admitted_in t k windows' calls \<le> left_from t limit (windows' k)"
    using Cons by (auto simp: c)
  show ?case
  proof (cases "now < t + 60000")
    case False
    then have "\<forall>d \<in> set (c # calls). t + 60000 \<le> fst d"
      using Cons.prems(1) by (fastforce simp: c)
    then show ?thesis
      using admitted_in_late [of "c # calls" t k windows] by simp
  next
    case True
    have t: "t \<le> now" using Cons.prems(2) by (simp add: c)
    show ?thesis
    proof (cases "key = k")
      case True
      then have "(if b then 1 else 0) + left_from t limit (windows' k) \<le> left_from t limit (windows k)"
        using rate_check_left [OF run t \<open>now < t + 60000\<close>] Cons.prems(3) by (simp add: c)
      then show ?thesis
        using IH run True t \<open>now < t + 60000\<close> by (auto simp: c admitted_in_Cons)
    next
      case False
      then show ?thesis
        using IH run rate_check_other [OF run, of k] by (simp add: c admitted_in_Cons)
    qed
  qed
qed (simp add: admitted_in_def)

text \<open>
  C40. The rate limiter bounds every minute: whatever calls are made, by whichever keys and in any order of
  operations, at most twice the configured per-minute limit of one key's operation is admitted in any
  sixty seconds (once the limit in each of the at most two windows that overlap them).
\<close>

theorem rate_limit_bounded:
  assumes "sorted (map fst calls)" "\<forall>c \<in> set calls. fst (snd c) = k \<longrightarrow> snd (snd c) = limit"
  shows "admitted_in t k windows calls \<le> 2 * unat limit"
  using assms
proof (induction calls arbitrary: windows)
  case (Cons c calls)
  obtain now key l where c: "c = (now, key, l)" by (cases c)
  show ?case
  proof (cases "now < t")
    case True
    then show ?thesis
      using Cons by (simp add: c admitted_in_Cons split: prod.split)
  next
    case False
    then have "admitted_in t k windows (c # calls) \<le> left_from t limit (windows k)"
      using Cons.prems by (intro admitted_in_from) (auto simp: c)
    also have "\<dots> \<le> 2 * unat limit"
      by (auto simp: left_from_def split: option.split)
    finally show ?thesis .
  qed
qed (simp add: admitted_in_def)

definition burst :: "rate_call list" where
  "burst = [(59998, (''k'', SettleOp), 2), (59999, (''k'', SettleOp), 2), (120001, (''k'', SettleOp), 2)]"

theorem rate_limit_bounded_witness:
  "rate_run Map.empty burst = [True, True, True]
   \<and> admitted_in 59998 (''k'', SettleOp) Map.empty burst \<le> 4"
  using rate_limit_bounded [of burst "(''k'', SettleOp)" 2 59998 Map.empty]
  by (simp add: burst_def rate_check_def current_window_def saturating_add_def Let_def word_le_nat_alt)

end
