(* ===== verification/Engine.thy ===== *)
theory Engine
  imports Readiness Protocol Access "HOL-Library.State_Monad"
begin

text \<open>
  The settlement engine of \<open>service.rs\<close>: the worker that settles a claimed payment, as a program of the
  state monad over the shared database, the readiness gates, the rate limiter, the workers started and
  the log of submissions handed to the network. The request handlers and reconciliation are programs of
  the same monad. Every \<open>await\<close> is a numbered point
  at which the rest of the world acts: other sessions write the database, other tasks move gates, the
  database may not answer (and may or may not have committed) and the chain answers what it answers.
\<close>

section \<open>The world and the engine's state\<close>

datatype db_fault = Answered | NotApplied | Unacknowledged

text \<open>
  What happens at await point \<open>k\<close>: what other sessions and tasks do, whether the database answers, what
  the chain and the registered facilitator answer (the latter per attempt), the time of day and the monotonic
  clock in milliseconds, how many polls of a wait fit before its deadline, whether a verification slot is free,
  and the next random identifier.
\<close>

record world =
  wo_db :: "nat \<Rightarrow> db \<Rightarrow> db"
  wo_gates :: "nat \<Rightarrow> readiness \<Rightarrow> readiness"
  wo_fault :: "nat \<Rightarrow> db_fault"
  wo_chain :: "nat \<Rightarrow> chain_provider"
  wo_now :: "nat \<Rightarrow> nat"
  wo_instant :: "nat \<Rightarrow> nat"
  wo_facilitator :: "nat \<Rightarrow> nat \<Rightarrow> unit + json"
  wo_polls :: "nat \<Rightarrow> nat"
  wo_slot :: "nat \<Rightarrow> bool"
  wo_uuid :: "nat \<Rightarrow> uuid"

text \<open>
  The parts of \<open>AppState\<close> that do not change: the configuration, the provider's own data (asked without
  waiting), whether a facilitator is registered, the authenticator's pepper, and the libraries: JSON
  reader and writers, SHA-256, HMAC and hex, and the database's date at a time of day.
\<close>

record app_state =
  ap_lib :: chain_lib
  ap_config :: service_config
  ap_provider :: chain_provider
  ap_to_vec :: "json \<Rightarrow> bytes option"
  ap_json_error_text :: string
  ap_from_slice :: "bytes \<Rightarrow> json option"
  ap_to_raw :: "json \<Rightarrow> string option"
  ap_quote :: "string \<Rightarrow> string"
  ap_sha256 :: "bytes \<Rightarrow> bytes"
  ap_auth :: auth_lib
  ap_pepper :: bytes
  ap_facilitator :: bool
  ap_date :: "nat \<Rightarrow> date"

text \<open>A submission handed to the network, with the gates and the database at that moment.\<close>

record sent_submission =
  sb_settlement_id :: uuid
  sb_bytes :: bytes
  sb_gates :: readiness
  sb_db :: db

record engine =
  en_clock :: nat
  en_db :: db
  en_gates :: readiness
  en_sent :: "sent_submission list"
  en_rates :: rate_limiter
  en_spawned :: "(uuid \<times> string) list"

type_synonym 'a act = "(engine, 'a) state"

definition pause :: "world \<Rightarrow> nat act" where
  "pause w = State (\<lambda>e. (en_clock e, e\<lparr>en_clock := Suc (en_clock e),
     en_db := wo_db w (en_clock e) (en_db e), en_gates := wo_gates w (en_clock e) (en_gates e)\<rparr>))"

definition gates :: "readiness act" where
  "gates = State (\<lambda>e. (en_gates e, e))"

definition change_gates :: "(readiness \<Rightarrow> readiness) \<Rightarrow> unit act" where
  "change_gates f = State (\<lambda>e. ((), e\<lparr>en_gates := f (en_gates e)\<rparr>))"

text \<open>One statement or transaction of the store, as the caller sees it.\<close>

definition apply_db :: "db_fault \<Rightarrow> (db \<Rightarrow> (store_error + 'a) \<times> db) \<Rightarrow> (store_error + 'a) act" where
  "apply_db fault f = State (\<lambda>e.
     case fault of
       Answered \<Rightarrow> (fst (f (en_db e)), e\<lparr>en_db := snd (f (en_db e))\<rparr>)
     | NotApplied \<Rightarrow> (Inl (Database None), e)
     | Unacknowledged \<Rightarrow> (Inl (Database None), e\<lparr>en_db := snd (f (en_db e))\<rparr>))"

definition write_db :: "world \<Rightarrow> (nat \<Rightarrow> db \<Rightarrow> (store_error + 'a) \<times> db) \<Rightarrow> (store_error + 'a) act" where
  "write_db w f = do { k \<leftarrow> pause w; apply_db (wo_fault w k) (f (wo_now w k)) }"

definition committed_or :: "db \<Rightarrow> store_error + db \<Rightarrow> (store_error + unit) \<times> db" where
  "committed_or d r = (case r of Inl e \<Rightarrow> (Inl e, d) | Inr d' \<Rightarrow> (Inr (), d'))"

definition update_db :: "world \<Rightarrow> (nat \<Rightarrow> db \<Rightarrow> store_error + db) \<Rightarrow> (store_error + unit) act" where
  "update_db w f = write_db w (\<lambda>now d. committed_or d (f now d))"

definition read_db :: "world \<Rightarrow> (db \<Rightarrow> 'a) \<Rightarrow> (store_error + 'a) act" where
  "read_db w f = write_db w (\<lambda>_ d. (Inr (f d), d))"

definition ask_chain :: "world \<Rightarrow> (chain_provider \<Rightarrow> 'a) \<Rightarrow> 'a act" where
  "ask_chain w f = do { k \<leftarrow> pause w; State_Monad.return (f (wo_chain w k)) }"

definition send :: "uuid \<Rightarrow> bytes \<Rightarrow> unit act" where
  "send settlement_id b = State (\<lambda>e. ((), e\<lparr>en_sent := en_sent e
     @ [\<lparr>sb_settlement_id = settlement_id, sb_bytes = b, sb_gates = en_gates e,
         sb_db = en_db e\<rparr>]\<rparr>))"

text \<open>The \<open>?\<close> operator.\<close>

definition and_then :: "('e + 'a) act \<Rightarrow> ('a \<Rightarrow> ('e + 'b) act) \<Rightarrow> ('e + 'b) act" where
  "and_then m f = do { r \<leftarrow> m; case r of Inl e \<Rightarrow> State_Monad.return (Inl e) | Inr a \<Rightarrow> f a }"

definition ok :: "('e + unit) act" where
  "ok = State_Monad.return (Inr ())"

definition fail :: "'e \<Rightarrow> ('e + 'a) act" where
  "fail e = State_Monad.return (Inl e)"

definition lift_res :: "'e + 'a \<Rightarrow> ('e + 'a) act" where
  "lift_res r = State_Monad.return r"

section \<open>Writing outcomes\<close>

definition close_reconciliation :: "unit act" where
  "close_reconciliation = change_gates (set_reconciliation False)"

definition i32_of_u64 :: "u64 \<Rightarrow> int option" where
  "i32_of_u64 n = (if unat n < 2 ^ 31 then Some (int (unat n)) else None)"

definition outcome_entry ::
  "uuid \<Rightarrow> settlement_state \<Rightarrow> bytes \<Rightarrow> string option \<Rightarrow> terminal_outcome \<Rightarrow> terminal_journal_entry" where
  "outcome_entry settlement_id s b error_code outcome =
     \<lparr>te_settlement_id = settlement_id, te_state = s, te_http_status = 200, te_response_bytes = b,
      te_error_code = error_code, te_error_detail = None,
      te_gas_burnt = Some (unat (tm_gas_units outcome)), te_tokens_burnt = Some (unat (tm_fee_atomic outcome)),
      te_actual_yocto_near = unat (tm_fee_atomic outcome),
      te_mined_block_number = map_option unat (tm_mined_block_number outcome),
      te_mined_block_hash = tm_mined_block_hash outcome,
      te_confirmations = Option.bind (tm_confirmations outcome) i32_of_u64\<rparr>"

definition failure_entry :: "uuid \<Rightarrow> bytes \<Rightarrow> string \<Rightarrow> terminal_journal_entry" where
  "failure_entry settlement_id b code =
     \<lparr>te_settlement_id = settlement_id, te_state = Failed, te_http_status = 200, te_response_bytes = b,
      te_error_code = Some code, te_error_detail = None, te_gas_burnt = Some 0, te_tokens_burnt = Some 0,
      te_actual_yocto_near = 0, te_mined_block_number = None, te_mined_block_hash = None,
      te_confirmations = None\<rparr>"

text \<open>The state, response and error code an authoritative outcome is journaled with.\<close>

definition outcome_response ::
  "string \<Rightarrow> string \<Rightarrow> terminal_outcome \<Rightarrow> settlement_state \<times> settle_response \<times> string option" where
  "outcome_response network payer outcome =
     (if tm_success outcome
      then (Succeeded, settle_success payer (tm_tx_hash outcome) network, None)
      else (Failed, settle_failure ''transaction_failed'' (tm_failure_detail outcome) (Some payer)
              (tm_tx_hash outcome) network, Some ''transaction_failed''))"

definition finalize_terminal ::
  "app_state \<Rightarrow> world \<Rightarrow> uuid \<Rightarrow> verified_payment \<Rightarrow> terminal_outcome \<Rightarrow> unit act" where
  "finalize_terminal a w settlement_id payment outcome =
     (let (terminal_state, response, error_code) =
            outcome_response (cfg_network (ap_config a)) (vd_payer payment) outcome in
      case ap_to_vec a (settle_response_value response) of
        None \<Rightarrow> State_Monad.return ()
      | Some b \<Rightarrow> do {
          r \<leftarrow> update_db w (\<lambda>now d. mark_terminal now d (outcome_entry settlement_id terminal_state b error_code outcome));
          case r of Inl _ \<Rightarrow> close_reconciliation | Inr _ \<Rightarrow> State_Monad.return ()
        })"

definition terminal_protocol_failure ::
  "app_state \<Rightarrow> world \<Rightarrow> uuid \<Rightarrow> string \<Rightarrow> string option \<Rightarrow> string option \<Rightarrow> unit act" where
  "terminal_protocol_failure a w settlement_id why payer transaction =
     (case ap_to_vec a (settle_response_value (settle_failure why None payer
             (case transaction of Some t \<Rightarrow> t | None \<Rightarrow> []) (cfg_network (ap_config a)))) of
        None \<Rightarrow> State_Monad.return ()
      | Some b \<Rightarrow> do {
          r \<leftarrow> update_db w (\<lambda>now d. mark_terminal now d (failure_entry settlement_id b why));
          case r of Inl _ \<Rightarrow> close_reconciliation | Inr _ \<Rightarrow> State_Monad.return ()
        })"

definition retryable_service_failure :: "world \<Rightarrow> uuid \<Rightarrow> string \<Rightarrow> unit act" where
  "retryable_service_failure w settlement_id code = do {
     r \<leftarrow> update_db w (\<lambda>_ d. mark_awaiting_retry d settlement_id code);
     case r of Inl _ \<Rightarrow> close_reconciliation | Inr _ \<Rightarrow> State_Monad.return ()
   }"

definition terminal_transaction_rejected ::
  "app_state \<Rightarrow> world \<Rightarrow> uuid \<Rightarrow> string option \<Rightarrow> string \<Rightarrow> unit act" where
  "terminal_transaction_rejected a w settlement_id payer transaction_hash =
     (case ap_to_vec a (settle_response_value (settle_failure ''transaction_rejected'' None payer
             transaction_hash (cfg_network (ap_config a)))) of
        None \<Rightarrow> close_reconciliation
      | Some b \<Rightarrow> do {
          r \<leftarrow> update_db w (\<lambda>now d. mark_terminal now d (failure_entry settlement_id b ''transaction_rejected''));
          case r of Inl _ \<Rightarrow> close_reconciliation | Inr _ \<Rightarrow> State_Monad.return ()
        })"

section \<open>Signer and reservation checks\<close>

definition fresh_signer_head :: "app_state \<Rightarrow> world \<Rightarrow> (store_error + signer_head) act" where
  "fresh_signer_head a w = do {
     h \<leftarrow> ask_chain w (signer_head_of (ap_lib a));
     case h of
       Inl _ \<Rightarrow> do {
         change_gates (set_relayer False);
         fail (Corrupt ''relayer chain state is unavailable'')
       }
     | Inr h \<Rightarrow>
         and_then (read_db w (\<lambda>d. relayer_is_active d (cfg_network (ap_config a))
                (signer_account_id (ap_lib a) (ap_provider a)) (sg_signer_public_key h))) (\<lambda>policy_active.
         if \<not> policy_active \<or> \<not> signer_is_funded (ap_config a) (sg_signer_balance_atomic h) then do {
           change_gates (set_relayer False);
           fail (Corrupt ''relayer policy or balance hard stop is not satisfied'')
         } else do {
           change_gates (set_relayer True);
           lift_res (Inr h)
         })
   }"

definition evm_reservation_covers_liability :: "service_config \<Rightarrow> u128 \<Rightarrow> bool" where
  "evm_reservation_covers_liability config estimated_l1_fee =
     (case cfg_eip155 config of
        None \<Rightarrow> False
      | Some eip155 \<Rightarrow>
          (case str_parse (ec_max_fee_per_gas_wei eip155) :: u128 option of
             None \<Rightarrow> False
           | Some max_fee_per_gas \<Rightarrow>
               (case str_parse (sp_reservation_yocto_near (cfg_sponsorship config)) :: u128 option of
                  None \<Rightarrow> False
                | Some reservation \<Rightarrow>
                    (case Option.bind (checked_mul (ucast (ec_gas_limit eip155)) max_fee_per_gas)
                            (\<lambda>l2. checked_add l2 estimated_l1_fee) of
                       None \<Rightarrow> False
                     | Some liability \<Rightarrow> reservation \<ge> liability))))"

definition quarantine ::
  "app_state \<Rightarrow> world \<Rightarrow> string \<Rightarrow> string \<Rightarrow> nat \<Rightarrow> (store_error + unit) act" where
  "quarantine a w public_key why nonce =
     update_db w (\<lambda>_ d. quarantine_relayer d (cfg_network (ap_config a))
       (signer_account_id (ap_lib a) (ap_provider a)) public_key why nonce)"

section \<open>The settlement worker\<close>

definition broadcast_prepared ::
  "app_state \<Rightarrow> world \<Rightarrow> uuid \<Rightarrow> chain_prepared \<Rightarrow> verified_payment \<Rightarrow> broadcast_outcome act" where
  "broadcast_prepared a w settlement_id prepared payment = do {
     (case broadcast_bytes (ap_provider a) prepared payment of
        Some b \<Rightarrow> send settlement_id b
      | None \<Rightarrow> State_Monad.return ());
     ask_chain w (\<lambda>p. chain_broadcast (ap_lib a) p prepared payment)
   }"

definition settle_prepared_evm ::
  "app_state \<Rightarrow> world \<Rightarrow> uuid \<Rightarrow> chain_prepared \<Rightarrow> durable_submission \<Rightarrow> verified_payment \<Rightarrow> unit act" where
  "settle_prepared_evm a w settlement_id prepared submission payment =
     (case ds_recovery_policy submission of
        NearFinality \<Rightarrow> close_reconciliation
      | EvmConfirmations depth \<Rightarrow>
     (case i32_of_u64 depth of
        None \<Rightarrow> close_reconciliation
      | Some required \<Rightarrow> do {
     marked \<leftarrow> update_db w (\<lambda>_ d. mark_prepared_evm d
       \<lparr>ee_settlement_id = settlement_id, ee_signer_account_nonce = unat (ds_nonce submission),
        ee_submitted_tx_rlp = ds_bytes submission, ee_submitted_tx_hash = ds_hash submission,
        ee_required_confirmations = required\<rparr>);
     if \<not> is_ok marked then close_reconciliation else do {
     g \<leftarrow> gates;
     if \<not> can_settle g then close_reconciliation else do {
     submitted \<leftarrow> update_db w (\<lambda>_ d. mark_submitted d settlement_id);
     if \<not> is_ok submitted then close_reconciliation else do {
     g \<leftarrow> gates;
     if \<not> can_settle g then close_reconciliation else do {
     current_head \<leftarrow> fresh_signer_head a w;
     case current_head of
       Inl _ \<Rightarrow> close_reconciliation
     | Inr current_head \<Rightarrow>
         if sg_signer_nonce current_head \<noteq> ds_nonce submission then do {
           quarantine a w (signer_public_key (ap_lib a) (ap_provider a))
             ''signer nonce changed between preparation and broadcast'' (unat (sg_signer_nonce current_head));
           change_gates (set_relayer False);
           close_reconciliation
         } else do {
         g \<leftarrow> gates;
         if \<not> can_settle g then close_reconciliation else do {
         outcome \<leftarrow> broadcast_prepared a w settlement_id prepared payment;
         case outcome of
           BroadcastTerminal _ \<Rightarrow> close_reconciliation
         | BroadcastRejected _ \<Rightarrow>
             terminal_transaction_rejected a w settlement_id (Some (vd_payer payment)) (pp_submit_hash prepared)
         | BroadcastPending \<Rightarrow> close_reconciliation
         }}}}}}}))"

definition settle_prepared_near ::
  "app_state \<Rightarrow> world \<Rightarrow> uuid \<Rightarrow> chain_prepared \<Rightarrow> durable_submission \<Rightarrow> verified_payment \<Rightarrow> signer_head \<Rightarrow> unit act" where
  "settle_prepared_near a w settlement_id prepared submission payment h = do {
     marked \<leftarrow> update_db w (\<lambda>_ d. mark_prepared d
       \<lparr>pe_settlement_id = settlement_id, pe_relayer_account_id = ds_submitter submission,
        pe_relayer_public_key = pp_signer_public_key prepared, pe_relayer_nonce = unat (ds_nonce submission),
        pe_transaction_bytes = ds_bytes submission, pe_transaction_hash = ds_hash submission\<rparr>);
     if \<not> is_ok marked then close_reconciliation else do {
     current_head \<leftarrow> fresh_signer_head a w;
     case current_head of
       Inl _ \<Rightarrow> close_reconciliation
     | Inr current_head \<Rightarrow>
     if sg_signer_nonce current_head \<noteq> sg_signer_nonce h then do {
       quarantine a w (signer_public_key (ap_lib a) (ap_provider a))
         ''relayer nonce changed between preparation and broadcast'' (unat (sg_signer_nonce current_head));
       change_gates (set_relayer False);
       close_reconciliation
     } else do {
     g \<leftarrow> gates;
     if \<not> can_settle g then close_reconciliation else do {
     submitted \<leftarrow> update_db w (\<lambda>_ d. mark_submitted d settlement_id);
     if \<not> is_ok submitted then close_reconciliation else do {
     g \<leftarrow> gates;
     if \<not> can_settle g then close_reconciliation else do {
     outcome \<leftarrow> broadcast_prepared a w settlement_id prepared payment;
     case outcome of
       BroadcastTerminal terminal \<Rightarrow> finalize_terminal a w settlement_id payment terminal
     | BroadcastRejected _ \<Rightarrow>
         terminal_transaction_rejected a w settlement_id (Some (vd_payer payment)) (pp_submit_hash prepared)
     | BroadcastPending \<Rightarrow> close_reconciliation
     }}}}}}"

text \<open>
  The journaled claim is the payment verified now, and it has not been taken over: the check between
  verification and preparation.
\<close>

definition claim_matches :: "chain_lib \<Rightarrow> settlement \<Rightarrow> verified_payment \<Rightarrow> bool" where
  "claim_matches lib journaled payment \<longleftrightarrow>
     \<not> (st_state journaled \<noteq> Reserved
      \<or> st_payment_hash journaled \<noteq> pi_request_hash (identity lib payment)
      \<or> st_anchor_scope journaled \<noteq> pi_anchor_scope (identity lib payment)
      \<or> st_anchor_value journaled \<noteq> pi_anchor_value (identity lib payment)
      \<or> st_payer journaled \<noteq> vd_payer payment
      \<or> st_network journaled \<noteq> rq_network (vd_requirements payment)
      \<or> \<not> eq_ignore_ascii_case (st_asset journaled) (rq_asset (vd_requirements payment))
      \<or> \<not> eq_ignore_ascii_case (st_pay_to journaled) (rq_pay_to (vd_requirements payment))
      \<or> \<not> decimal_is_at_least (decimal_text (st_amount journaled)) (rq_amount_decimal (vd_requirements payment))
      \<or> \<not> decimal_is_at_least (rq_amount_decimal (vd_requirements payment)) (decimal_text (st_amount journaled)))"

definition run_new_settlement :: "app_state \<Rightarrow> world \<Rightarrow> uuid \<Rightarrow> string \<Rightarrow> unit act" where
  "run_new_settlement a w settlement_id request = do {
     _ \<leftarrow> pause w;
     g \<leftarrow> gates;
     if \<not> can_settle g then retryable_service_failure w settlement_id ''leadership_unavailable'' else do {
     verified \<leftarrow> ask_chain w (\<lambda>p. chain_verify (ap_lib a) p
       \<lparr>po_max_sponsored_gas = cfg_max_inner_gas (ap_config a)\<rparr> request);
     case verified of
       Inl rejection \<Rightarrow>
         if rj_rpc_ambiguous rejection then retryable_service_failure w settlement_id ''rpc_unavailable''
         else terminal_protocol_failure a w settlement_id (rj_reason rejection) None None
     | Inr payment \<Rightarrow> do {
     journaled \<leftarrow> read_db w (\<lambda>d. find_row d settlement_id);
     case journaled of
       Inl _ \<Rightarrow> retryable_service_failure w settlement_id ''settlement_journal_unavailable''
     | Inr None \<Rightarrow> retryable_service_failure w settlement_id ''settlement_journal_unavailable''
     | Inr (Some journaled) \<Rightarrow>
     if \<not> claim_matches (ap_lib a) journaled payment
     then terminal_protocol_failure a w settlement_id ''settlement_identity_mismatch'' None None
     else do {
     h \<leftarrow> fresh_signer_head a w;
     case h of
       Inl _ \<Rightarrow> retryable_service_failure w settlement_id ''relayer_unavailable''
     | Inr h \<Rightarrow> do {
     prepared \<leftarrow> ask_chain w (\<lambda>p. chain_prepare (ap_lib a) p payment h);
     case prepared of
       Inl _ \<Rightarrow> retryable_service_failure w settlement_id ''transaction_preparation_failed''
     | Inr prepared \<Rightarrow>
     (let submission = durable_submission_of (ap_provider a) prepared in
      case pp_detail prepared of
        EvmPreparedTx evm_prepared \<Rightarrow>
          (case ep_estimated_l1_fee_wei evm_prepared of
             None \<Rightarrow> retryable_service_failure w settlement_id ''l1_fee_estimation_failed''
           | Some estimated_l1_fee \<Rightarrow>
               if \<not> evm_reservation_covers_liability (ap_config a) estimated_l1_fee
               then retryable_service_failure w settlement_id ''sponsorship_reservation_insufficient''
               else settle_prepared_evm a w settlement_id prepared submission payment)
      | NearPrepared _ \<Rightarrow> settle_prepared_near a w settlement_id prepared submission payment h)
     }}}}}"

end
