(* ===== verification/Recovery.thy ===== *)
theory Recovery
  imports Engine
begin

text \<open>
  Reconciliation of \<open>service.rs\<close>: what recovery demands of a stored row before it trusts any RPC answer
  about it, the resolution of one prepared or submitted row on either chain, and the pass over all
  nonterminal rows. Transactions of the NEAR codec are the V0 ones.
\<close>

section \<open>Stored rows\<close>

text \<open>\<open>parse\<close> of a numeric column's text.\<close>

definition column_word :: "nat option \<Rightarrow> 'a::len word option" where
  "column_word n = (case n of Some n \<Rightarrow> if n < 2 ^ LENGTH('a) then Some (of_nat n) else None | None \<Rightarrow> None)"

definition corrupt :: "'a option \<Rightarrow> string \<Rightarrow> store_error + 'a" where
  "corrupt v message = ok_or v (Corrupt message)"

definition require_evm_recovery_balance ::
  "app_state \<Rightarrow> settlement \<Rightarrow> u128 \<Rightarrow> (store_error + unit) act" where
  "require_evm_recovery_balance a record balance =
     (let required =
        bind_res (corrupt (str_parse (sp_balance_hard_stop_yocto_near (cfg_sponsorship (ap_config a))) :: u128 option)
          ''configured EVM balance hard stop is invalid'') (\<lambda>hard_stop.
        bind_res (corrupt (column_word (Some (st_reserved_yocto_near record)) :: u128 option)
          ''journaled EVM sponsorship reservation is invalid'') (\<lambda>reservation.
        corrupt (checked_add hard_stop reservation) ''EVM recovery balance requirement overflowed'')) in
      case required of
        Inl e \<Rightarrow> do {
          change_gates (set_relayer False);
          close_reconciliation;
          fail e
        }
      | Inr required \<Rightarrow>
          if balance < required then do {
            change_gates (set_relayer False);
            close_reconciliation;
            fail (Corrupt ''EVM signer balance does not cover the durable recovery reservation'')
          } else ok)"

definition policy_field :: "settlement \<Rightarrow> string \<Rightarrow> json option" where
  "policy_field record key = Option.bind (as_object (st_policy_snapshot record)) (\<lambda>m. jget m key)"

definition positive :: "'a::len word \<Rightarrow> 'a word option" where
  "positive v = (if v > 0 then Some v else None)"

definition evm_policy_snapshot :: "settlement \<Rightarrow> store_error + u64 \<times> u128 \<times> u64" where
  "evm_policy_snapshot record =
     (if Option.bind (policy_field record ''chainKind'') as_str \<noteq> Some ''eip155''
         \<or> Option.bind (policy_field record ''network'') as_str \<noteq> Some (st_network record)
         \<or> \<not> (case Option.bind (policy_field record ''asset'') as_str of
                Some asset \<Rightarrow> eq_ignore_ascii_case asset (st_asset record) | None \<Rightarrow> False)
      then Inl (Corrupt ''EVM settlement policy identity is inconsistent'') else
      bind_res (corrupt (Option.bind (policy_field record ''eip155'') as_object)
        ''EVM settlement has no stored admission policy'') (\<lambda>eip155.
      bind_res (corrupt (Option.bind (jget eip155 ''chainId'') as_u64) ''stored EVM chain id is invalid'') (\<lambda>chain_id.
      bind_res (corrupt (Option.bind (strip_prefix ''eip155:'' (st_network record)) str_parse)
        ''journaled EVM network is invalid'') (\<lambda>network_chain_id.
      if chain_id \<noteq> network_chain_id then Inl (Corrupt ''stored EVM chain policy does not match the network'') else
      bind_res (corrupt (Option.bind (Option.bind (jget eip155 ''gasLimit'') as_u64) positive)
        ''stored EVM gas limit is invalid'') (\<lambda>gas_limit.
      bind_res (corrupt (Option.bind (Option.bind (Option.bind (jget eip155 ''maxFeePerGasWei'') as_str) str_parse) positive)
        ''stored EVM fee cap is invalid'') (\<lambda>max_fee_per_gas.
      bind_res (corrupt (Option.bind (Option.bind (jget eip155 ''requiredConfirmations'') as_u64) positive)
        ''stored EVM confirmation policy is invalid'') (\<lambda>required.
      Inr (gas_limit, max_fee_per_gas, required))))))))"

definition validate_stored_transaction ::
  "chain_lib \<Rightarrow> settlement \<Rightarrow> bytes \<Rightarrow> crypto_hash \<Rightarrow> account_id \<Rightarrow> store_error + unit" where
  "validate_stored_transaction lib record b expected_hash expected_signer =
     (let tx = lib_near_tx lib in
      bind_res (map_err (\<lambda>_. Corrupt ''prepared transaction bytes are invalid'') (decode_signed_transaction tx b)) (\<lambda>stx.
      if signed_transaction_hash tx b \<noteq> Inr expected_hash \<or> near_tx_hash tx (ns_transaction stx) \<noteq> expected_hash
      then Inl (Corrupt ''prepared transaction bytes do not match journaled hash'')
      else if \<not> signature_verify tx (ns_signature stx) (near_tx_hash tx (ns_transaction stx))
                  (nt_public_key (ns_transaction stx))
      then Inl (Corrupt ''prepared outer transaction signature is invalid'') else
      bind_res (corrupt (st_relayer_public_key record) ''prepared row has no public key'') (\<lambda>expected_public_key.
      bind_res (corrupt (column_word (st_relayer_nonce record)) ''prepared row has invalid nonce'') (\<lambda>expected_nonce.
      bind_res (corrupt (if is_account_id (lib_near lib) (st_payer record) then Some (st_payer record) else None)
        ''journal payer is invalid'') (\<lambda>payer.
      if nt_signer_id (ns_transaction stx) \<noteq> expected_signer
         \<or> nt_public_key (ns_transaction stx) \<noteq> expected_public_key
         \<or> nt_nonce (ns_transaction stx) \<noteq> expected_nonce
         \<or> nt_receiver_id (ns_transaction stx) \<noteq> payer
         \<or> length (nt_actions (ns_transaction stx)) \<noteq> 1
      then Inl (Corrupt ''prepared outer transaction identity does not match the journal'') else
      bind_res (corrupt (case nt_actions (ns_transaction stx) of Delegate delegate # _ \<Rightarrow> Some delegate | _ \<Rightarrow> None)
        ''prepared outer transaction does not contain one delegate action'') (\<lambda>delegate.
      if \<not> delegate_verify (lib_near lib) delegate then Inl (Corrupt ''prepared delegate signature is invalid'') else
      bind_res (map_err (\<lambda>_. Corrupt ''prepared delegate cannot be hashed'')
        (signed_delegate_hash (lib_near lib) delegate)) (\<lambda>delegate_hash.
      bind_res (corrupt (column_word (st_delegate_nonce record)) ''journal delegate nonce is invalid'')
        (\<lambda>expected_delegate_nonce.
      bind_res (corrupt (column_word (st_delegate_max_block_height record)) ''journal delegate expiry is invalid'')
        (\<lambda>expected_max_height.
      if delegate_hash \<noteq> st_payment_hash record
         \<or> da_sender_id (sd_delegate_action delegate) \<noteq> payer
         \<or> da_public_key (sd_delegate_action delegate)
              \<noteq> (case st_delegate_public_key record of Some k \<Rightarrow> k | None \<Rightarrow> [])
         \<or> da_nonce (sd_delegate_action delegate) \<noteq> expected_delegate_nonce
         \<or> da_max_block_height (sd_delegate_action delegate) \<noteq> expected_max_height
      then Inl (Corrupt ''prepared delegate does not match the settlement journal'')
      else Inr ())))))))))"

definition can_reconciliation_broadcast :: "readiness \<Rightarrow> bool" where
  "can_reconciliation_broadcast g \<longleftrightarrow>
     sn_leadership (snapshot g) \<and> sn_rpc (snapshot g) \<and> sn_relayer (snapshot g)"

section \<open>Resolving one row\<close>

definition finalize_reconciled_terminal ::
  "app_state \<Rightarrow> world \<Rightarrow> settlement \<Rightarrow> terminal_outcome \<Rightarrow> (store_error + unit) act" where
  "finalize_reconciled_terminal a w record outcome =
     (let (terminal_state, response, error_code) =
            outcome_response (cfg_network (ap_config a)) (st_payer record) outcome in
      and_then (lift_res (corrupt (ap_to_vec a (settle_response_value response)) (ap_json_error_text a))) (\<lambda>b.
      and_then (lift_res (if st_chain_kind record = Eip155
          then bind_res (corrupt (column_word (Some (st_reserved_yocto_near record)) :: u128 option)
                 ''EVM reservation is invalid'') (\<lambda>reservation. Inr (tm_fee_atomic outcome > reservation))
          else Inr False)) (\<lambda>fee_overrun.
      and_then (if fee_overrun then do {
          change_gates (set_relayer False);
          close_reconciliation;
          quarantine a w (signer_public_key (ap_lib a) (ap_provider a))
            ''actual Base fee exceeded the sponsorship reservation''
            (case st_signer_account_nonce record of Some n \<Rightarrow> n | None \<Rightarrow> 0)
        } else ok) (\<lambda>_.
      and_then (update_db w (\<lambda>now d. mark_terminal now d
          (outcome_entry (st_id record) terminal_state b error_code outcome))) (\<lambda>_.
      if fee_overrun then fail (Corrupt ''Base sponsorship quarantined after reservation overrun'') else ok)))))"

definition rebroadcast_stored ::
  "app_state \<Rightarrow> world \<Rightarrow> settlement \<Rightarrow> bytes \<Rightarrow> string \<Rightarrow> (store_error + unit) act" where
  "rebroadcast_stored a w record b hash_text = do {
     send (st_id record) b;
     outcome \<leftarrow> ask_chain w (\<lambda>p. chain_rebroadcast (ap_lib a) p b hash_text (st_payer record) (st_asset record));
     case outcome of
       BroadcastTerminal terminal \<Rightarrow> finalize_reconciled_terminal a w record terminal
     | BroadcastRejected _ \<Rightarrow> do {
         terminal_transaction_rejected a w (st_id record) (Some (st_payer record)) hash_text;
         ok
       }
     | BroadcastPending \<Rightarrow> ok
   }"

definition mark_submitted_if_prepared :: "world \<Rightarrow> settlement \<Rightarrow> (store_error + unit) act" where
  "mark_submitted_if_prepared w record =
     (if st_state record = Prepared then update_db w (\<lambda>_ d. mark_submitted d (st_id record)) else ok)"

definition ask_backup_head :: "app_state \<Rightarrow> world \<Rightarrow> string \<Rightarrow> (store_error + signer_head) act" where
  "ask_backup_head a w message = do {
     h \<leftarrow> ask_chain w (backup_signer_head (ap_lib a));
     lift_res (map_err (\<lambda>_. Corrupt message) h)
   }"

definition stored_binding ::
  "settlement \<Rightarrow> string \<Rightarrow> string \<Rightarrow> evm_authorization_metadata \<Rightarrow> u128 \<Rightarrow> u64 \<Rightarrow> u128 \<Rightarrow> stored_evm_submission" where
  "stored_binding record hash_text signer metadata signer_nonce gas_limit max_fee_per_gas =
     \<lparr>se_network = st_network record, se_hash = hash_text, se_submitter = signer, se_nonce = signer_nonce,
      se_asset = st_asset record, se_payer = st_payer record, se_payee = st_pay_to record,
      se_amount = decimal_text (st_amount record), se_valid_after = am_valid_after metadata,
      se_valid_before = am_valid_before metadata, se_anchor_scope = st_anchor_scope record,
      se_anchor_value = st_anchor_value record, se_payment_hash = st_payment_hash record,
      se_gas_limit = gas_limit, se_max_fee_per_gas = max_fee_per_gas\<rparr>"

fun stored_submission_error_text :: "stored_submission_error \<Rightarrow> string" where
  "stored_submission_error_text WrongProvider = ''stored submission does not match the configured provider''"
| "stored_submission_error_text (SubmissionField name) = ''stored EVM submission has an invalid '' @ name"
| "stored_submission_error_text (SubmissionTransaction _) =
     ''stored EVM transaction is inconsistent with the settlement''"

definition recover_unknown_evm ::
  "app_state \<Rightarrow> world \<Rightarrow> settlement \<Rightarrow> bytes \<Rightarrow> string \<Rightarrow> u128 \<Rightarrow> (store_error + unit) act" where
  "recover_unknown_evm a w record b hash_text signer_nonce =
     and_then (mark_submitted_if_prepared w record) (\<lambda>_. do {
     g \<leftarrow> gates;
     if \<not> can_reconciliation_broadcast g
     then fail (Corrupt ''leadership lost before reconciliation broadcast'') else
     and_then (fresh_signer_head a w) (\<lambda>current_head.
     and_then (require_evm_recovery_balance a record (sg_signer_balance_atomic current_head)) (\<lambda>_.
     if sg_signer_nonce current_head > signer_nonce then
       and_then (quarantine a w (signer_public_key (ap_lib a) (ap_provider a))
           ''signer nonce advanced while exact transaction remained unknown''
           (unat (sg_signer_nonce current_head))) (\<lambda>_. do {
         change_gates (set_relayer False);
         close_reconciliation;
         fail (Corrupt ''EVM signer quarantined after unknown nonce advance'')
       })
     else if sg_signer_nonce current_head \<noteq> signer_nonce then do {
       close_reconciliation;
       fail (Corrupt ''EVM signer nonce regressed before exact-byte rebroadcast'')
     } else do {
       g \<leftarrow> gates;
       if \<not> can_reconciliation_broadcast g
       then fail (Corrupt ''leadership lost immediately before reconciliation broadcast'')
       else rebroadcast_stored a w record b hash_text
     })) })"

definition reconcile_prepared_evm :: "app_state \<Rightarrow> world \<Rightarrow> settlement \<Rightarrow> (store_error + unit) act" where
  "reconcile_prepared_evm a w record =
     and_then (lift_res (corrupt (st_signer_address record) ''prepared row has no signer'')) (\<lambda>signer.
     if signer \<noteq> signer_account_id (ap_lib a) (ap_provider a) then do {
       change_gates (set_relayer False);
       fail (Corrupt ''journaled signer does not match configured signer'')
     } else
     and_then (lift_res (corrupt (st_submitted_tx_hash record) ''prepared row has no transaction hash'')) (\<lambda>hash_text.
     and_then (lift_res (corrupt (st_submitted_tx_rlp record) ''prepared row has no transaction bytes'')) (\<lambda>b.
     and_then (lift_res (corrupt (Option.bind (required_confirmations (ap_provider a)) i32_of_u64)
       ''configured EVM confirmation depth is invalid'')) (\<lambda>configured.
     and_then (write_db w (\<lambda>_ d. raise_required_confirmations d (st_id record) configured)) (\<lambda>effective.
     and_then (lift_res (corrupt (if 0 \<le> effective then Some (of_int effective :: u64) else None)
       ''journaled EVM confirmation depth is invalid'')) (\<lambda>required.
     and_then (lift_res (corrupt (st_authorization_metadata record) ''prepared EVM row has no authorization metadata''))
       (\<lambda>metadata.
     if am_version metadata \<noteq> 2 then fail (Corrupt ''prepared EVM authorization metadata version is invalid'') else
     and_then (lift_res (evm_policy_snapshot record)) (\<lambda>(gas_limit, max_fee_per_gas, admission_confirmations).
     if required < admission_confirmations then fail (Corrupt ''journaled EVM confirmation policy was lowered'') else
     and_then (lift_res (corrupt (column_word (st_signer_account_nonce record) :: u128 option)
       ''prepared EVM row has invalid nonce'')) (\<lambda>signer_nonce.
     case validate_stored_submission (ap_lib a) (ap_provider a) b
            (stored_binding record hash_text signer metadata signer_nonce gas_limit max_fee_per_gas) of
       Inl e \<Rightarrow> do {
         change_gates (set_relayer False);
         fail (Corrupt (stored_submission_error_text e))
       }
     | Inr _ \<Rightarrow> do {
     status \<leftarrow> ask_chain w (\<lambda>p. chain_reconcile_status (ap_lib a) p hash_text signer (st_payer record)
       (st_asset record) (EvmConfirmations required));
     case rc_verdict status of
       VerdictTerminal outcome \<Rightarrow> finalize_reconciled_terminal a w record outcome
     | VerdictPending \<Rightarrow> ok
     | VerdictIndeterminate _ \<Rightarrow> do { close_reconciliation; ok }
     | VerdictUnknown \<Rightarrow> recover_unknown_evm a w record b hash_text signer_nonce
     | VerdictConflict \<Rightarrow> do { close_reconciliation; fail (Corrupt ''evm reconciliation was ambiguous'') }
     | VerdictAmbiguous \<Rightarrow> do { close_reconciliation; fail (Corrupt ''evm reconciliation was ambiguous'') }
     })))))))))"

definition recover_unknown_near ::
  "app_state \<Rightarrow> world \<Rightarrow> settlement \<Rightarrow> bytes \<Rightarrow> string \<Rightarrow> (store_error + unit) act" where
  "recover_unknown_near a w record b hash_text =
     and_then (fresh_signer_head a w) (\<lambda>primary_status.
     and_then (ask_backup_head a w ''backup relayer state unavailable during reconciliation'') (\<lambda>backup_head.
     and_then (lift_res (corrupt (column_word (st_relayer_nonce record) :: u128 option)
       ''prepared row has invalid nonce'')) (\<lambda>prepared_nonce.
     if sg_signer_nonce primary_status \<ge> prepared_nonce \<or> sg_signer_nonce backup_head \<ge> prepared_nonce then
       and_then (lift_res (corrupt (st_relayer_public_key record) ''prepared row has no public key'')) (\<lambda>public_key.
       and_then (quarantine a w public_key ''nonce advanced while exact transaction remained unknown''
         (unat (max (sg_signer_nonce primary_status) (sg_signer_nonce backup_head)))) (\<lambda>_. do {
         change_gates (set_relayer False);
         fail (Corrupt ''relayer key quarantined after unknown nonce advance'')
       }))
     else
     and_then (lift_res (corrupt (column_word (st_delegate_max_block_height record) :: u64 option)
       ''journal delegate expiry is invalid'')) (\<lambda>delegate_max_height.
     if max (sg_chain_block_height primary_status) (sg_chain_block_height backup_head) \<ge> delegate_max_height then do {
       terminal_protocol_failure a w (st_id record) (reason DelegateActionExpired) (Some (st_payer record))
         (if st_state record = Submitted then Some hash_text else None);
       ok
     } else
     and_then (mark_submitted_if_prepared w record) (\<lambda>_. do {
     g \<leftarrow> gates;
     if \<not> can_reconciliation_broadcast g
     then fail (Corrupt ''leadership lost before reconciliation broadcast'') else
     and_then (fresh_signer_head a w) (\<lambda>current_primary.
     and_then (ask_backup_head a w ''backup relayer state unavailable before rebroadcast'') (\<lambda>current_backup.
     if sg_signer_nonce current_primary \<noteq> sg_signer_nonce primary_status
        \<or> sg_signer_nonce current_backup \<noteq> sg_signer_nonce backup_head then do {
       change_gates (set_relayer False);
       fail (Corrupt ''relayer nonce changed before exact-byte rebroadcast'')
     } else rebroadcast_stored a w record b hash_text)) })))))"

definition reconcile_prepared_near :: "app_state \<Rightarrow> world \<Rightarrow> settlement \<Rightarrow> (store_error + unit) act" where
  "reconcile_prepared_near a w record =
     (let lib = ap_lib a in
      if st_relayer_account_id record \<noteq> Some (signer_account_id lib (ap_provider a))
         \<or> st_relayer_public_key record \<noteq> Some (signer_public_key lib (ap_provider a)) then do {
        change_gates (set_relayer False);
        fail (Corrupt ''journaled relayer identity does not match configured relayer'')
      } else
      and_then (lift_res (corrupt (st_outer_transaction_hash record) ''prepared row has no transaction hash'')) (\<lambda>text.
      and_then (lift_res (corrupt (lib_hash_parse lib text) ''prepared row has invalid transaction hash'')) (\<lambda>h.
      and_then (lift_res (corrupt (st_outer_transaction_bytes record) ''prepared row has no transaction bytes'')) (\<lambda>b.
      and_then (lift_res (corrupt (st_relayer_account_id record) ''prepared row has no signer'')) (\<lambda>signer.
      and_then (lift_res (corrupt (if is_account_id (lib_near lib) signer then Some signer else None)
        ''prepared row has invalid signer'')) (\<lambda>signer.
      case validate_stored_transaction lib record b h signer of
        Inl e \<Rightarrow> do { change_gates (set_relayer False); fail e }
      | Inr _ \<Rightarrow> do {
      status \<leftarrow> ask_chain w (\<lambda>p. chain_reconcile_status lib p (lib_hash_text lib h) signer (st_payer record)
        (st_asset record) NearFinality);
      case rc_verdict status of
        VerdictConflict \<Rightarrow> do {
          close_reconciliation;
          fail (Corrupt ''primary and backup RPCs returned conflicting final outcomes'')
        }
      | VerdictTerminal outcome \<Rightarrow> finalize_reconciled_terminal a w record outcome
      | VerdictIndeterminate _ \<Rightarrow> do { close_reconciliation; ok }
      | VerdictPending \<Rightarrow> ok
      | VerdictUnknown \<Rightarrow> recover_unknown_near a w record b (lib_hash_text lib h)
      | VerdictAmbiguous \<Rightarrow> do {
          close_reconciliation;
          fail (Corrupt ''RPC ambiguity prevented settlement reconciliation'')
        }
      }))))))"

definition reconcile_prepared :: "app_state \<Rightarrow> world \<Rightarrow> settlement \<Rightarrow> (store_error + unit) act" where
  "reconcile_prepared a w record =
     (case ap_provider a of
        EvmProvider _ _ \<Rightarrow> reconcile_prepared_evm a w record
      | NearProvider _ _ \<Rightarrow> reconcile_prepared_near a w record)"

section \<open>The pass over the journal\<close>

primrec release_reserved :: "world \<Rightarrow> settlement list \<Rightarrow> (store_error + unit) act" where
  "release_reserved w [] = ok"
| "release_reserved w (record # records) =
     (if st_state record = Reserved then
        and_then (update_db w (\<lambda>_ d. note_reconciliation d (st_id record))) (\<lambda>_. do {
          retryable_service_failure w (st_id record) ''recovered_before_prepare'';
          release_reserved w records
        })
      else release_reserved w records)"

primrec reconcile_rows :: "app_state \<Rightarrow> world \<Rightarrow> settlement list \<Rightarrow> (store_error + unit) act" where
  "reconcile_rows a w [] = ok"
| "reconcile_rows a w (record # records) =
     (if st_state record = Prepared \<or> st_state record = Submitted then
        and_then (update_db w (\<lambda>_ d. note_reconciliation d (st_id record))) (\<lambda>_.
        and_then (reconcile_prepared a w record) (\<lambda>_.
        and_then (read_db w (\<lambda>d. find_row d (st_id record))) (\<lambda>current.
        if (case current of Some current \<Rightarrow> \<not> is_terminal (st_state current) | None \<Rightarrow> False) then ok
        else reconcile_rows a w records)))
      else if st_state record = AwaitingRetry then
        and_then (update_db w (\<lambda>_ d. note_reconciliation d (st_id record))) (\<lambda>_. reconcile_rows a w records)
      else reconcile_rows a w records)"

definition reconcile :: "app_state \<Rightarrow> world \<Rightarrow> (store_error + unit) act" where
  "reconcile a w = do {
     g \<leftarrow> gates;
     if \<not> sn_leadership (snapshot g) then fail (Corrupt ''reconciliation requires leadership'') else do {
     close_reconciliation;
     _ \<leftarrow> pause w;
     and_then (read_db w nonterminal_settlements) (\<lambda>records.
     and_then (release_reserved w records) (\<lambda>_.
     and_then (reconcile_rows a w records) (\<lambda>_.
     and_then (read_db w nonterminal_settlements) (\<lambda>remaining. do {
       change_gates (set_reconciliation (remaining = []));
       ok
     }))))
   }}"

end
