(* ===== verification/Store_Invariant.thy ===== *)
theory Store_Invariant
  imports Store_Clients
begin

text \<open>
  What the journal keeps true. \<open>row_step\<close> is everything any operation may do to one settlement row:
  the identity columns never change, a signed submission is written once and never replaced, the
  state follows \<open>state_step\<close>, and a terminal row is frozen. \<open>db_inv\<close> is the invariant of the whole
  database: the schema's constraints, reserved and dormant rows without a submission, and both
  sponsorship ledgers equal to the sum of the reservations their active rows hold.
\<close>

section \<open>Definitions\<close>

inductive state_step :: "settlement_state \<Rightarrow> settlement_state \<Rightarrow> bool" where
  relinquish: "state_step Reserved AwaitingRetry"
| resume: "state_step AwaitingRetry Reserved"
| prepare: "state_step Reserved Prepared"
| submit: "state_step Prepared Submitted"
| reject: "state_step Reserved Failed"
| finish_prepared: "is_terminal s \<Longrightarrow> state_step Prepared s"
| finish_submitted: "is_terminal s \<Longrightarrow> state_step Submitted s"

definition keeps :: "'a option \<Rightarrow> 'a option \<Rightarrow> bool" where
  "keeps a b \<longleftrightarrow> a = None \<or> b = a"

definition same_identity :: "settlement \<Rightarrow> settlement \<Rightarrow> bool" where
  "same_identity r r' \<longleftrightarrow> st_id r' = st_id r \<and> st_api_client_id r' = st_api_client_id r
     \<and> st_payment_identifier r' = st_payment_identifier r
     \<and> st_payment_hash r' = st_payment_hash r
     \<and> st_request_fingerprint r' = st_request_fingerprint r
     \<and> st_anchor_scope r' = st_anchor_scope r \<and> st_anchor_value r' = st_anchor_value r
     \<and> st_chain_kind r' = st_chain_kind r \<and> st_network r' = st_network r
     \<and> st_asset r' = st_asset r \<and> st_pay_to r' = st_pay_to r \<and> st_amount r' = st_amount r
     \<and> st_payer r' = st_payer r \<and> st_signer_address r' = st_signer_address r
     \<and> st_created_at r' = st_created_at r"

definition submission_kept :: "settlement \<Rightarrow> settlement \<Rightarrow> bool" where
  "submission_kept r r' \<longleftrightarrow> keeps (st_relayer_account_id r) (st_relayer_account_id r')
     \<and> keeps (st_relayer_public_key r) (st_relayer_public_key r')
     \<and> keeps (st_relayer_nonce r) (st_relayer_nonce r')
     \<and> keeps (st_outer_transaction_bytes r) (st_outer_transaction_bytes r')
     \<and> keeps (st_outer_transaction_hash r) (st_outer_transaction_hash r')
     \<and> keeps (st_signer_account_nonce r) (st_signer_account_nonce r')
     \<and> keeps (st_submitted_tx_rlp r) (st_submitted_tx_rlp r')
     \<and> keeps (st_submitted_tx_hash r) (st_submitted_tx_hash r')"

definition confirmations_kept :: "settlement \<Rightarrow> settlement \<Rightarrow> bool" where
  "confirmations_kept r r' \<longleftrightarrow>
     (\<forall>q. st_required_confirmations r = Some q \<longrightarrow>
        (\<exists>q'. st_required_confirmations r' = Some q' \<and> q \<le> q'))"

definition frozen_if_terminal :: "settlement \<Rightarrow> settlement \<Rightarrow> bool" where
  "frozen_if_terminal r r' \<longleftrightarrow> is_terminal (st_state r) \<longrightarrow>
     (\<exists>k. r' = r\<lparr>st_reconciliation_attempts := k\<rparr>)"

definition row_step :: "settlement \<Rightarrow> settlement \<Rightarrow> bool" where
  "row_step r r' \<longleftrightarrow> same_identity r r' \<and> submission_kept r r' \<and> confirmations_kept r r'
     \<and> frozen_if_terminal r r'
     \<and> (st_state r' = st_state r \<or> state_step (st_state r) (st_state r'))"

definition clean_row :: "settlement \<Rightarrow> bool" where
  "clean_row r \<longleftrightarrow> (st_state r = Reserved \<or> st_state r = AwaitingRetry \<longrightarrow>
     no_submission r \<and> st_required_confirmations r = None)"

definition contribution :: "(settlement \<Rightarrow> bool) \<Rightarrow> settlement \<Rightarrow> nat" where
  "contribution P r = (if state_is_active (st_state r) \<and> P r then st_reserved_yocto_near r else 0)"

definition held :: "(settlement \<Rightarrow> bool) \<Rightarrow> settlement list \<Rightarrow> nat" where
  "held P rs = sum_list (map (contribution P) rs)"

definition reserved_at :: "ledger option \<Rightarrow> nat" where
  "reserved_at l = (case l of None \<Rightarrow> 0 | Some l \<Rightarrow> lg_reserved l)"

definition on_date :: "date \<Rightarrow> settlement \<Rightarrow> bool" where
  "on_date t r \<longleftrightarrow> st_reservation_date r = t"

definition on_date_for :: "date \<Rightarrow> uuid \<Rightarrow> settlement \<Rightarrow> bool" where
  "on_date_for t c r \<longleftrightarrow> st_reservation_date r = t \<and> st_api_client_id r = c"

definition ledger_ok :: "db \<Rightarrow> bool" where
  "ledger_ok d \<longleftrightarrow>
     (\<forall>t. reserved_at (db_global d t) = held (on_date t) (db_settlements d))
     \<and> (\<forall>t c. reserved_at (db_clients_ledger d (t, c)) = held (on_date_for t c) (db_settlements d))"

definition db_inv :: "db \<Rightarrow> bool" where
  "db_inv d \<longleftrightarrow> table_ok (db_settlements d) \<and> (\<forall>r \<in> set (db_settlements d). clean_row r) \<and> ledger_ok d"

definition rows_step :: "db \<Rightarrow> db \<Rightarrow> bool" where
  "rows_step d d' \<longleftrightarrow> (\<forall>r \<in> set (db_settlements d). \<exists>r' \<in> set (db_settlements d'). row_step r r')"

section \<open>Rows and tables\<close>

inductive_cases from_terminal: "state_step s t"

lemma state_step_not_terminal: "state_step s t \<Longrightarrow> \<not> is_terminal s"
  by (erule state_step.cases) simp_all

lemma terminal_transition_step: "terminal_transition_allowed s t \<Longrightarrow> state_step s t"
  by (cases s; cases t) (simp_all add: state_step.intros)

lemma keeps_refl [simp]: "keeps a a"
  by (simp add: keeps_def)

lemma keeps_None [simp]: "keeps None b"
  by (simp add: keeps_def)

lemma frozen_refl [simp]: "frozen_if_terminal r r"
  unfolding frozen_if_terminal_def by (intro impI exI [of _ "st_reconciliation_attempts r"]) simp

lemma frozen_trans:
  "frozen_if_terminal r r' \<Longrightarrow> frozen_if_terminal r' r'' \<Longrightarrow> frozen_if_terminal r r''"
  unfolding frozen_if_terminal_def by auto

lemma row_step_refl [simp]: "row_step r r"
  by (simp add: row_step_def same_identity_def submission_kept_def confirmations_kept_def)

lemma row_step_id: "row_step r r' \<Longrightarrow> st_id r' = st_id r"
  by (simp add: row_step_def same_identity_def)

lemma find_row_Some_mem: "find_row d i = Some r \<Longrightarrow> r \<in> set (db_settlements d) \<and> st_id r = i"
  unfolding find_row_def by (drule find_SomeD) simp

lemma find_row_mem:
  assumes "distinct (map st_id (db_settlements d))" and "r \<in> set (db_settlements d)"
  shows "find_row d (st_id r) = Some r"
proof -
  have "find (\<lambda>s. st_id s = st_id r) rs = Some r"
    if "distinct (map st_id rs)" "r \<in> set rs" for rs
    using that by (induction rs) (auto simp: rev_image_eqI)
  with assms show ?thesis by (simp add: find_row_def)
qed

lemma put_row_Inr:
  "put_row d r = Inr d' \<longleftrightarrow>
     row_checks r \<and> (\<forall>s \<in> set (db_settlements d). st_id s \<noteq> st_id r \<longrightarrow> unique_violation r s = None)
     \<and> d' = d\<lparr>db_settlements := map (\<lambda>s. if st_id s = st_id r then r else s) (db_settlements d)\<rparr>"
  using first_violation_None [of r "filter (\<lambda>s. st_id s \<noteq> st_id r) (db_settlements d)"]
  by (auto simp: put_row_def split: option.splits)

text \<open>Replacing one row in a table that satisfies the constraints.\<close>

lemma table_ok_replace:
  assumes "table_ok rs" and "row_checks r"
    and "\<forall>s \<in> set rs. st_id s \<noteq> st_id r \<longrightarrow> unique_violation r s = None"
  shows "table_ok (map (\<lambda>s. if st_id s = st_id r then r else s) rs)"
  using assms
proof (induction rs)
  case Nil
  then show ?case by simp
next
  case (Cons s rs)
  let ?f = "\<lambda>s. if st_id s = st_id r then r else s"
  from Cons have tail: "table_ok (map ?f rs)" by simp
  from Cons.prems(1) have s: "\<forall>t \<in> set rs. unique_violation s t = None" "row_checks s"
    by (simp_all add: first_violation_None)
  show ?case
  proof (cases "st_id s = st_id r")
    case True
    with s(1) have "\<forall>t \<in> set rs. st_id t \<noteq> st_id r" using no_violationD(1) by metis
    then have "map ?f rs = rs" by (simp add: map_idI)
    with True Cons.prems tail \<open>\<forall>t \<in> set rs. st_id t \<noteq> st_id r\<close> show ?thesis
      by (simp add: first_violation_None)
  next
    case False
    with Cons.prems(3) have "unique_violation s r = None"
      using unique_violation_None_sym by simp
    with s False tail show ?thesis
      by (simp add: first_violation_None) blast
  qed
qed

lemma held_replace:
  assumes "distinct (map st_id rs)" and "old \<in> set rs" and "st_id old = st_id r"
  shows "held P (map (\<lambda>s. if st_id s = st_id r then r else s) rs) + contribution P old
       = held P rs + contribution P r"
  using assms
proof (induction rs)
  case Nil
  then show ?case by simp
next
  case (Cons s rs)
  let ?f = "\<lambda>s. if st_id s = st_id r then r else s"
  show ?case
  proof (cases "st_id s = st_id r")
    case True
    with Cons.prems have "s = old" and "\<forall>t \<in> set rs. st_id t \<noteq> st_id r"
      by (auto simp: rev_image_eqI)
    then have "map ?f rs = rs" by (simp add: map_idI)
    with True \<open>s = old\<close> show ?thesis by (simp add: held_def)
  next
    case False
    with Cons show ?thesis by (auto simp: held_def)
  qed
qed

lemma held_append: "held P (rs @ [r]) = held P rs + contribution P r"
  by (simp add: held_def)

lemma contribution_le_held: "r \<in> set rs \<Longrightarrow> contribution P r \<le> held P rs"
  by (induction rs) (auto simp: held_def)

section \<open>Ledger statements\<close>

definition spent_at :: "ledger option \<Rightarrow> nat" where
  "spent_at l = (case l of None \<Rightarrow> 0 | Some l \<Rightarrow> lg_spent l)"

lemma reserved_at_simps [simp]: "reserved_at None = 0" "reserved_at (Some l) = lg_reserved l"
  by (simp_all add: reserved_at_def)

lemma spent_at_simps [simp]: "spent_at None = 0" "spent_at (Some l) = lg_spent l"
  by (simp_all add: spent_at_def)

lemma reserve_ledger_Some:
  assumes "reserve_ledger l n limit = Inr (Some l')"
  shows "lg_reserved l' = reserved_at l + n" and "lg_spent l' = spent_at l"
    and "lg_reserved l' + lg_spent l' \<le> limit"
  using assms by (auto simp: reserve_ledger_def split: option.splits if_splits)

lemma reserve_global_Some:
  assumes "reserve_global_budget d t n limit = Inr (Some d')"
  obtains l where "reserve_ledger (db_global d t) n limit = Inr (Some l)"
    and "d' = d\<lparr>db_global := (db_global d)(t \<mapsto> l)\<rparr>"
  using assms by (auto simp: reserve_global_budget_def res_simps)

lemma reserve_client_Some:
  assumes "reserve_client_budget d t c n limit = Inr (Some d')"
  obtains l where "reserve_ledger (db_clients_ledger d (t, c)) n limit = Inr (Some l)"
    and "d' = d\<lparr>db_clients_ledger := (db_clients_ledger d)((t, c) \<mapsto> l)\<rparr>"
  using assms by (auto simp: reserve_client_budget_def res_simps split: option.splits if_splits)

lemma release_ledger_Some:
  assumes "release_ledger l n actual = Inr (Some l')"
  shows "n \<le> reserved_at l" and "lg_reserved l' = reserved_at l - n"
    and "lg_spent l' = spent_at l + actual"
  using assms by (auto simp: release_ledger_def split: option.splits if_splits)

lemma release_budget_Inr:
  assumes "release_budget d t c n actual = Inr d'"
  obtains g l where "release_ledger (db_global d t) n actual = Inr (Some g)"
    and "release_ledger (db_clients_ledger d (t, c)) n actual = Inr (Some l)"
    and "d' = d\<lparr>db_global := (db_global d)(t \<mapsto> g),
                db_clients_ledger := (db_clients_ledger d)((t, c) \<mapsto> l)\<rparr>"
  using assms by (auto simp: release_budget_def res_simps split: option.splits)

section \<open>Updating one row\<close>

lemma ledger_okD:
  assumes "ledger_ok d"
  shows "reserved_at (db_global d t) = held (on_date t) (db_settlements d)"
    and "reserved_at (db_clients_ledger d (t, c)) = held (on_date_for t c) (db_settlements d)"
  using assms by (simp_all add: ledger_ok_def)

lemma db_inv_ids: "db_inv d \<Longrightarrow> distinct (map st_id (db_settlements d))"
  by (simp add: db_inv_def table_ok_distinct_ids)

lemma put_row_step:
  assumes inv: "db_inv d" and rows: "db_settlements d1 = db_settlements d"
    and old: "find_row d i = Some r" and id: "st_id r' = i"
    and step: "row_step r r'" and clean: "clean_row r'" and put: "put_row d1 r' = Inr d2"
  shows "table_ok (db_settlements d2)" and "\<forall>s \<in> set (db_settlements d2). clean_row s"
    and "rows_step d d2"
    and "held P (db_settlements d2) + contribution P r = held P (db_settlements d) + contribution P r'"
    and "db_global d2 = db_global d1" and "db_clients_ledger d2 = db_clients_ledger d1"
proof -
  let ?f = "\<lambda>s. if st_id s = st_id r' then r' else s"
  from put have d2: "d2 = d1\<lparr>db_settlements := map ?f (db_settlements d)\<rparr>" and "row_checks r'"
    and viol: "\<forall>s \<in> set (db_settlements d). st_id s \<noteq> st_id r' \<longrightarrow> unique_violation r' s = None"
    by (simp_all add: put_row_Inr rows)
  from inv have tab: "table_ok (db_settlements d)" by (simp add: db_inv_def)
  from old have mem: "r \<in> set (db_settlements d)" "st_id r = st_id r'"
    using id find_row_Some_mem by blast+
  have uniq: "s = r" if "s \<in> set (db_settlements d)" "st_id s = st_id r'" for s
    using that mem find_row_mem [OF db_inv_ids [OF inv]] by (metis option.inject)
  have d2rows: "db_settlements d2 = map ?f (db_settlements d)" by (simp add: d2)
  show "table_ok (db_settlements d2)"
    using table_ok_replace [OF tab \<open>row_checks r'\<close> viol] by (simp add: d2)
  show "\<forall>s \<in> set (db_settlements d2). clean_row s"
    using inv clean by (simp add: d2 db_inv_def) blast
  show "rows_step d d2"
    unfolding rows_step_def
  proof
    fix s assume s: "s \<in> set (db_settlements d)"
    have "?f s \<in> set (map ?f (db_settlements d))" unfolding set_map using s by (rule imageI)
    then have "?f s \<in> set (db_settlements d2)" by (simp only: d2rows)
    moreover have "row_step s (?f s)" using uniq [OF s] step by auto
    ultimately show "\<exists>s' \<in> set (db_settlements d2). row_step s s'" by blast
  qed
  show "held P (db_settlements d2) + contribution P r = held P (db_settlements d) + contribution P r'"
    using held_replace [OF db_inv_ids [OF inv] mem] by (simp add: d2)
  show "db_global d2 = db_global d1" and "db_clients_ledger d2 = db_clients_ledger d1"
    by (simp_all add: d2)
qed

lemma insert_event_simps [simp]:
  "db_settlements (insert_event d i f t c) = db_settlements d"
  "db_global (insert_event d i f t c) = db_global d"
  "db_clients_ledger (insert_event d i f t c) = db_clients_ledger d"
  "db_events (insert_event d i f t c) = db_events d @
     [\<lparr>ev_settlement_id = i, ev_from = f, ev_to = t, ev_code = c\<rparr>]"
  by (simp_all add: insert_event_def)

lemma ledger_ok_event [simp]: "ledger_ok (insert_event d i f t c) = ledger_ok d"
  by (simp add: ledger_ok_def)

lemma db_inv_event [simp]: "db_inv (insert_event d i f t c) = db_inv d"
  by (simp add: db_inv_def ledger_ok_def)

lemma rows_step_event [simp]: "rows_step d (insert_event d' i f t c) = rows_step d d'"
  by (simp add: rows_step_def)

lemma rows_step_same: "db_settlements d' = db_settlements d \<Longrightarrow> rows_step d d'"
  unfolding rows_step_def by (metis row_step_refl)

text \<open>An update that does not change what the row holds of the ledgers.\<close>

lemma put_row_neutral:
  assumes "db_inv d" and "find_row d i = Some r" and "st_id r' = i" and "row_step r r'"
    and "clean_row r'" and "put_row d r' = Inr d'"
    and date: "st_reservation_date r' = st_reservation_date r"
    and reserved: "st_reserved_yocto_near r' = st_reserved_yocto_near r"
    and active: "state_is_active (st_state r') = state_is_active (st_state r)"
  shows "db_inv d' \<and> rows_step d d'"
proof -
  note s = put_row_step [OF assms(1) refl assms(2-6)]
  have client: "st_api_client_id r' = st_api_client_id r"
    using assms(4) by (simp add: row_step_def same_identity_def)
  have c1: "contribution (on_date t) r' = contribution (on_date t) r" for t
    by (simp add: contribution_def on_date_def date reserved active)
  have c2: "contribution (on_date_for t c) r' = contribution (on_date_for t c) r" for t c
    by (simp add: contribution_def on_date_for_def date reserved active client)
  have "ledger_ok d'"
    unfolding ledger_ok_def
  proof (intro conjI allI)
    fix t c
    show "reserved_at (db_global d' t) = held (on_date t) (db_settlements d')"
      using s(4) [of "on_date t"] s(5) c1 assms(1) by (simp add: db_inv_def ledger_ok_def)
    show "reserved_at (db_clients_ledger d' (t, c)) = held (on_date_for t c) (db_settlements d')"
      using s(4) [of "on_date_for t c"] s(6) c2 assms(1) by (simp add: db_inv_def ledger_ok_def)
  qed
  with s(1-3) show ?thesis by (simp add: db_inv_def)
qed

section \<open>Every operation keeps the invariant\<close>

lemmas row_step_defs = row_step_def same_identity_def submission_kept_def confirmations_kept_def
  frozen_if_terminal_def keeps_def

lemma clean_reserved:
  assumes "db_inv d" and "find_row d i = Some r" and "st_state r = Reserved \<or> st_state r = AwaitingRetry"
  shows "no_submission r" and "st_required_confirmations r = None"
  using assms find_row_Some_mem [of d i r] by (auto simp: db_inv_def clean_row_def)

lemma mark_prepared_inv:
  assumes inv: "db_inv d" and op: "mark_prepared d e = Inr d'"
  shows "db_inv d' \<and> rows_step d d'"
proof -
  from op obtain r d1 where r: "find_row d (pe_settlement_id e) = Some r" and st: "st_state r = Reserved"
    and put: "put_row d (r\<lparr>st_state := Prepared,
                st_relayer_account_id := Some (pe_relayer_account_id e),
                st_relayer_public_key := Some (pe_relayer_public_key e),
                st_relayer_nonce := Some (pe_relayer_nonce e),
                st_outer_transaction_bytes := Some (pe_transaction_bytes e),
                st_outer_transaction_hash := Some (pe_transaction_hash e)\<rparr>) = Inr d1"
    and d': "d' = insert_event d1 (pe_settlement_id e) (Some Reserved) Prepared
                   (Some ''outer_transaction_persisted'')"
    by (auto simp: mark_prepared_def res_simps split: option.splits if_splits)
  have "db_inv d1 \<and> rows_step d d1"
    using clean_reserved [OF inv r] st find_row_Some_mem [OF r]
    by (intro put_row_neutral [OF inv r _ _ _ put])
       (simp_all add: row_step_defs clean_row_def no_submission_def state_step.intros)
  then show ?thesis by (simp add: d')
qed

lemma mark_prepared_evm_inv:
  assumes inv: "db_inv d" and op: "mark_prepared_evm d e = Inr d'"
  shows "db_inv d' \<and> rows_step d d'"
proof -
  from op obtain r d1 where r: "find_row d (ee_settlement_id e) = Some r" and st: "st_state r = Reserved"
    and put: "put_row d (r\<lparr>st_state := Prepared,
                st_signer_account_nonce := Some (ee_signer_account_nonce e),
                st_submitted_tx_rlp := Some (ee_submitted_tx_rlp e),
                st_submitted_tx_hash := Some (ee_submitted_tx_hash e),
                st_required_confirmations := Some (ee_required_confirmations e)\<rparr>) = Inr d1"
    and d': "d' = insert_event d1 (ee_settlement_id e) (Some Reserved) Prepared
                   (Some ''evm_transaction_persisted'')"
    by (auto simp: mark_prepared_evm_def res_simps split: option.splits if_splits)
  have "db_inv d1 \<and> rows_step d d1"
    using clean_reserved [OF inv r] st find_row_Some_mem [OF r]
    by (intro put_row_neutral [OF inv r _ _ _ put])
       (simp_all add: row_step_defs clean_row_def no_submission_def state_step.intros)
  then show ?thesis by (simp add: d')
qed

lemma mark_submitted_inv:
  assumes inv: "db_inv d" and op: "mark_submitted d i = Inr d'"
  shows "db_inv d' \<and> rows_step d d'"
proof -
  from op obtain r d1 where r: "find_row d i = Some r" and st: "st_state r = Prepared"
    and put: "put_row d (r\<lparr>st_state := Submitted\<rparr>) = Inr d1"
    and d': "d' = insert_event d1 i (Some Prepared) Submitted (Some ''broadcast_started'')"
    by (auto simp: mark_submitted_def res_simps split: option.splits if_splits)
  have "db_inv d1 \<and> rows_step d d1"
    using st find_row_Some_mem [OF r]
    by (intro put_row_neutral [OF inv r _ _ _ put])
       (simp_all add: row_step_defs clean_row_def state_step.intros)
  then show ?thesis by (simp add: d')
qed

lemma note_reconciliation_inv:
  assumes inv: "db_inv d" and op: "note_reconciliation d i = Inr d'"
  shows "db_inv d' \<and> rows_step d d'"
proof (cases "find_row d i")
  case None
  with op inv show ?thesis by (simp add: note_reconciliation_def rows_step_same)
next
  case (Some r)
  with op have put: "put_row d (r\<lparr>st_reconciliation_attempts := st_reconciliation_attempts r + 1\<rparr>) = Inr d'"
    by (simp add: note_reconciliation_def)
  have "clean_row r" using inv find_row_Some_mem [OF Some] by (simp add: db_inv_def)
  then show ?thesis
    using find_row_Some_mem [OF Some]
    by (intro put_row_neutral [OF inv Some _ _ _ put])
       (auto simp: row_step_defs clean_row_def no_submission_def)
qed

lemma raise_required_confirmations_inv:
  assumes inv: "db_inv d" and op: "raise_required_confirmations d i m = (res, d')"
  shows "db_inv d' \<and> rows_step d d'"
proof (cases "d' = d")
  case True
  with inv show ?thesis by (simp add: rows_step_same)
next
  case False
  with op obtain r where r: "find_row d i = Some r" and st: "st_state r = Prepared \<or> st_state r = Submitted"
    and put: "put_row d (r\<lparr>st_required_confirmations := Some (case st_required_confirmations r of
                 None \<Rightarrow> m | Some q \<Rightarrow> max q m)\<rparr>) = Inr d'"
    by (auto simp: raise_required_confirmations_def Let_def split: option.splits if_splits sum.splits)
  show ?thesis
    using st find_row_Some_mem [OF r]
    by (intro put_row_neutral [OF inv r _ _ _ put])
       (auto simp: row_step_defs clean_row_def split: option.splits)
qed

text \<open>Operations that take a reservation out of the ledgers together with the row's claim to it.\<close>

lemma release_put_inv:
  assumes inv: "db_inv d" and r: "find_row d i = Some r" and act: "state_is_active (st_state r)"
    and rel: "release_budget d (st_reservation_date r) (st_api_client_id r)
                (st_reserved_yocto_near r) actual = Inr d1"
    and id: "st_id r' = i" and step: "row_step r r'" and clean: "clean_row r'"
    and zero: "\<And>P. contribution P r' = 0" and put: "put_row d1 r' = Inr d2"
  shows "db_inv d2 \<and> rows_step d d2"
proof -
  let ?t = "st_reservation_date r" and ?c = "st_api_client_id r" and ?n = "st_reserved_yocto_near r"
  from rel obtain g l where g: "release_ledger (db_global d ?t) ?n actual = Inr (Some g)"
    and l: "release_ledger (db_clients_ledger d (?t, ?c)) ?n actual = Inr (Some l)"
    and d1: "d1 = d\<lparr>db_global := (db_global d)(?t \<mapsto> g),
                db_clients_ledger := (db_clients_ledger d)((?t, ?c) \<mapsto> l)\<rparr>"
    by (rule release_budget_Inr)
  have rows: "db_settlements d1 = db_settlements d" by (simp add: d1)
  note s = put_row_step [OF inv rows r id step clean put]
  from inv have led: "ledger_ok d" by (simp add: db_inv_def)
  have "ledger_ok d2"
    unfolding ledger_ok_def
  proof (intro conjI allI)
    fix t c
    show "reserved_at (db_global d2 t) = held (on_date t) (db_settlements d2)"
      using s(4) [of "on_date t"] s(5) zero [of "on_date t"] ledger_okD(1) [OF led, of t] act
        release_ledger_Some [OF g]
      by (auto simp: d1 contribution_def on_date_def)
    show "reserved_at (db_clients_ledger d2 (t, c)) = held (on_date_for t c) (db_settlements d2)"
      using s(4) [of "on_date_for t c"] s(6) zero [of "on_date_for t c"] ledger_okD(2) [OF led, of t c]
        act release_ledger_Some [OF l]
      by (auto simp: d1 contribution_def on_date_for_def)
  qed
  with s(1-3) show ?thesis by (simp add: db_inv_def)
qed

lemma mark_awaiting_retry_inv:
  assumes inv: "db_inv d" and op: "mark_awaiting_retry d i code = Inr d'"
  shows "db_inv d' \<and> rows_step d d'"
proof -
  from op obtain r d1 d2 where r: "find_row d i = Some r" and st: "st_state r = Reserved"
    and rel: "release_budget d (st_reservation_date r) (st_api_client_id r)
                (st_reserved_yocto_near r) 0 = Inr d1"
    and put: "put_row d1 (r\<lparr>st_state := AwaitingRetry, st_reserved_yocto_near := 0,
                        st_retry_code := Some code\<rparr>) = Inr d2"
    and d': "d' = insert_event d2 i (Some Reserved) AwaitingRetry (Some code)"
    by (auto simp: mark_awaiting_retry_def res_simps split: option.splits if_splits)
  have "db_inv d2 \<and> rows_step d d2"
    using st find_row_Some_mem [OF r] clean_reserved [OF inv r]
    by (intro release_put_inv [OF inv r _ rel _ _ _ _ put])
       (simp_all add: row_step_defs clean_row_def no_submission_def state_step.intros contribution_def)
  then show ?thesis by (simp add: d')
qed

lemma mark_terminal_inv:
  assumes inv: "db_inv d" and op: "mark_terminal now d e = Inr d'"
  shows "db_inv d' \<and> rows_step d d'"
proof (cases "d' = d")
  case True
  with inv show ?thesis by (simp add: rows_step_same)
next
  case False
  with op obtain r d1 d2 status where r: "find_row d (te_settlement_id e) = Some r"
    and nt: "\<not> is_terminal (st_state r)" and t: "is_terminal (te_state e)"
    and tr: "terminal_transition_allowed (st_state r) (te_state e)"
    and rel: "release_budget d (st_reservation_date r) (st_api_client_id r)
                (st_reserved_yocto_near r) (te_actual_yocto_near e) = Inr d1"
    and put: "put_row d1 (terminal_row now r e status) = Inr d2"
    and d': "d' = insert_event d2 (te_settlement_id e) (Some (st_state r)) (te_state e) (te_error_code e)"
    by (auto simp: mark_terminal_def res_simps split: option.splits if_splits)
  have act: "state_is_active (st_state r)" using tr by (cases "st_state r") simp_all
  have "te_state e \<noteq> Reserved" "te_state e \<noteq> AwaitingRetry" "\<not> state_is_active (te_state e)"
    using t by (cases "te_state e"; simp)+
  then have "db_inv d2 \<and> rows_step d d2"
    using nt find_row_Some_mem [OF r] terminal_transition_step [OF tr] act
    by (intro release_put_inv [OF inv r _ rel _ _ _ _ put])
       (simp_all add: row_step_defs clean_row_def terminal_row_def contribution_def)
  then show ?thesis by (simp add: d')
qed

text \<open>Operations that add a reservation.\<close>

lemma reserve_both_inv:
  assumes g: "reserve_global_budget d1 t n glimit = Inr (Some d2)"
    and c: "reserve_client_budget d2 t client n climit = Inr (Some d3)"
    and led: "ledger_ok d" and glob: "db_global d1 = db_global d"
    and cled: "db_clients_ledger d1 = db_clients_ledger d"
    and held: "\<And>P. held P (db_settlements d1) = held P (db_settlements d) + contribution P r'"
    and r': "state_is_active (st_state r')" "st_reservation_date r' = t" "st_api_client_id r' = client"
      "st_reserved_yocto_near r' = n"
  shows "ledger_ok d3" and "db_settlements d3 = db_settlements d1"
    and "reserved_at (db_global d3 t) + spent_at (db_global d3 t) \<le> glimit"
    and "reserved_at (db_clients_ledger d3 (t, client)) + spent_at (db_clients_ledger d3 (t, client)) \<le> climit"
proof -
  from g obtain gl where gl: "reserve_ledger (db_global d1 t) n glimit = Inr (Some gl)"
    and d2: "d2 = d1\<lparr>db_global := (db_global d1)(t \<mapsto> gl)\<rparr>" by (rule reserve_global_Some)
  from c obtain cl where cl: "reserve_ledger (db_clients_ledger d2 (t, client)) n climit = Inr (Some cl)"
    and d3: "d3 = d2\<lparr>db_clients_ledger := (db_clients_ledger d2)((t, client) \<mapsto> cl)\<rparr>"
    by (rule reserve_client_Some)
  show rows: "db_settlements d3 = db_settlements d1" by (simp add: d3 d2)
  show "ledger_ok d3"
    unfolding ledger_ok_def
  proof (intro conjI allI)
    fix u v
    show "reserved_at (db_global d3 u) = held (on_date u) (db_settlements d3)"
      using held [of "on_date u"] ledger_okD(1) [OF led, of u] reserve_ledger_Some [OF gl] r'
      by (auto simp: rows d3 d2 glob contribution_def on_date_def)
    show "reserved_at (db_clients_ledger d3 (u, v)) = held (on_date_for u v) (db_settlements d3)"
      using held [of "on_date_for u v"] ledger_okD(2) [OF led, of u v] reserve_ledger_Some [OF cl] r'
      by (auto simp: rows d3 d2 cled contribution_def on_date_for_def)
  qed
  show "reserved_at (db_global d3 t) + spent_at (db_global d3 t) \<le> glimit"
    using reserve_ledger_Some(3) [OF gl] by (simp add: d3 d2)
  show "reserved_at (db_clients_ledger d3 (t, client)) + spent_at (db_clients_ledger d3 (t, client)) \<le> climit"
    using reserve_ledger_Some(3) [OF cl] by (simp add: d3)
qed

lemma table_ok_append:
  "table_ok rs \<Longrightarrow> row_checks r \<Longrightarrow> first_violation r rs = None \<Longrightarrow> table_ok (rs @ [r])"
  by (induction rs)
     (auto simp: first_violation_None dest: unique_violation_None_sym split: option.splits)

lemma claim_transaction_Committed:
  assumes "claim_transaction t now d n = Inr (TxCommitted d')"
  obtains d1 d2 d3 where
    "row_checks (claim_row t now n)" "first_violation (claim_row t now n) (db_settlements d) = None"
    "d1 = d\<lparr>db_settlements := db_settlements d @ [claim_row t now n]\<rparr>"
    "reserve_global_budget d1 t (new_reservation_yocto_near n)
       (new_global_daily_budget_yocto_near n) = Inr (Some d2)"
    "reserve_client_budget d2 t (new_api_client_id n) (new_reservation_yocto_near n)
       (new_client_daily_budget_yocto_near n) = Inr (Some d3)"
    "d' = insert_event d3 (new_id n) None Reserved (Some ''claimed'')"
  using assms
  by (auto simp: claim_transaction_def insert_row_def res_simps split: option.splits if_splits)

lemma claim_row_sel [simp]:
  "st_id (claim_row t now n) = new_id n"
  "st_state (claim_row t now n) = Reserved"
  "st_api_client_id (claim_row t now n) = new_api_client_id n"
  "st_payment_identifier (claim_row t now n) = new_payment_identifier n"
  "st_payment_hash (claim_row t now n) = new_payment_hash n"
  "st_request_fingerprint (claim_row t now n) = new_request_fingerprint n"
  "st_anchor_scope (claim_row t now n) = new_anchor_scope n"
  "st_anchor_value (claim_row t now n) = new_anchor_value n"
  "st_chain_kind (claim_row t now n) = new_chain_kind n"
  "st_network (claim_row t now n) = new_network n"
  "st_signer_address (claim_row t now n) = new_signer_address n"
  "st_reservation_date (claim_row t now n) = t"
  "st_reserved_yocto_near (claim_row t now n) = new_reservation_yocto_near n"
  by (simp_all add: claim_row_def)

lemma clean_claim_row: "clean_row (claim_row t now n)"
  by (simp add: clean_row_def no_submission_def claim_row_def)

lemma claim_transaction_inv:
  assumes inv: "db_inv d" and op: "claim_transaction t now d n = Inr (TxCommitted d')"
  shows "db_inv d' \<and> rows_step d d'"
    and "db_settlements d' = db_settlements d @ [claim_row t now n]"
    and "reserved_at (db_global d' t) + spent_at (db_global d' t) \<le> new_global_daily_budget_yocto_near n"
    and "reserved_at (db_clients_ledger d' (t, new_api_client_id n))
           + spent_at (db_clients_ledger d' (t, new_api_client_id n))
         \<le> new_client_daily_budget_yocto_near n"
proof -
  let ?r = "claim_row t now n"
  from op obtain d1 d2 d3 where chk: "row_checks ?r" "first_violation ?r (db_settlements d) = None"
    and d1: "d1 = d\<lparr>db_settlements := db_settlements d @ [?r]\<rparr>"
    and g: "reserve_global_budget d1 t (new_reservation_yocto_near n)
       (new_global_daily_budget_yocto_near n) = Inr (Some d2)"
    and c: "reserve_client_budget d2 t (new_api_client_id n) (new_reservation_yocto_near n)
       (new_client_daily_budget_yocto_near n) = Inr (Some d3)"
    and d': "d' = insert_event d3 (new_id n) None Reserved (Some ''claimed'')"
    by (rule claim_transaction_Committed)
  from inv have led: "ledger_ok d" by (simp add: db_inv_def)
  have held: "held P (db_settlements d1) = held P (db_settlements d) + contribution P ?r" for P
    by (simp add: d1 held_append)
  have s: "ledger_ok d3" "db_settlements d3 = db_settlements d1"
    "reserved_at (db_global d3 t) + spent_at (db_global d3 t) \<le> new_global_daily_budget_yocto_near n"
    "reserved_at (db_clients_ledger d3 (t, new_api_client_id n))
       + spent_at (db_clients_ledger d3 (t, new_api_client_id n)) \<le> new_client_daily_budget_yocto_near n"
    using reserve_both_inv [OF g c led _ _ held] by (simp_all add: d1)
  show rows: "db_settlements d' = db_settlements d @ [?r]" by (simp add: d' s(2) d1)
  have "table_ok (db_settlements d')"
    using inv chk by (simp add: rows db_inv_def table_ok_append)
  moreover have "\<forall>r \<in> set (db_settlements d'). clean_row r"
    using inv clean_claim_row by (simp add: rows db_inv_def)
  moreover have "ledger_ok d'" using s(1) by (simp add: d' ledger_ok_def)
  moreover have "rows_step d d'" unfolding rows_step_def rows using row_step_refl by fastforce
  ultimately show "db_inv d' \<and> rows_step d d'" by (simp add: db_inv_def)
  show "reserved_at (db_global d' t) + spent_at (db_global d' t) \<le> new_global_daily_budget_yocto_near n"
    using s(3) by (simp add: d')
  show "reserved_at (db_clients_ledger d' (t, new_api_client_id n))
       + spent_at (db_clients_ledger d' (t, new_api_client_id n)) \<le> new_client_daily_budget_yocto_near n"
    using s(4) by (simp add: d')
qed

definition resumed_row :: "date \<Rightarrow> settlement \<Rightarrow> retry_reservation \<Rightarrow> settlement" where
  "resumed_row t r q = r\<lparr>st_state := Reserved, st_policy_snapshot := rr_policy_snapshot q,
     st_reservation_date := t, st_reserved_yocto_near := rr_reservation_yocto_near q,
     st_attempt_count := st_attempt_count r + 1, st_retry_code := None\<rparr>"

lemma resume_changed:
  assumes "resume_awaiting_retry t d q = (res, d')" and "d' \<noteq> d"
  obtains r d1 d2 d3 where "find_row d (rr_settlement_id q) = Some r" "st_state r = AwaitingRetry"
    "put_row d (resumed_row t r q) = Inr d1"
    "reserve_global_budget d1 t (rr_reservation_yocto_near q)
       (rr_global_daily_budget_yocto_near q) = Inr (Some d2)"
    "reserve_client_budget d2 t (st_api_client_id r) (rr_reservation_yocto_near q)
       (rr_client_daily_budget_yocto_near q) = Inr (Some d3)"
    "d' = insert_event d3 (rr_settlement_id q) (Some AwaitingRetry) Reserved (Some ''retry_resumed'')"
  using assms
  by (auto simp: resume_awaiting_retry_def resumed_row_def Let_def
      split: option.splits if_splits sum.splits)

lemma resume_inv:
  assumes inv: "db_inv d" and op: "resume_awaiting_retry t d q = (res, d')"
  shows "db_inv d' \<and> rows_step d d'"
proof (cases "d' = d")
  case True
  with inv show ?thesis by (simp add: rows_step_same)
next
  case False
  from op False obtain r d1 d2 d3 where r: "find_row d (rr_settlement_id q) = Some r"
    and st: "st_state r = AwaitingRetry" and put: "put_row d (resumed_row t r q) = Inr d1"
    and g: "reserve_global_budget d1 t (rr_reservation_yocto_near q)
       (rr_global_daily_budget_yocto_near q) = Inr (Some d2)"
    and c: "reserve_client_budget d2 t (st_api_client_id r) (rr_reservation_yocto_near q)
       (rr_client_daily_budget_yocto_near q) = Inr (Some d3)"
    and d': "d' = insert_event d3 (rr_settlement_id q) (Some AwaitingRetry) Reserved (Some ''retry_resumed'')"
    by (rule resume_changed)
  let ?r = "resumed_row t r q"
  have id: "st_id ?r = rr_settlement_id q" using find_row_Some_mem [OF r] by (simp add: resumed_row_def)
  have step: "row_step r ?r" using st by (simp add: row_step_defs resumed_row_def state_step.intros)
  have clean: "clean_row ?r"
    using clean_reserved [OF inv r] st by (simp add: clean_row_def resumed_row_def no_submission_def)
  note s = put_row_step [OF inv refl r id step clean put]
  have zero: "contribution P r = 0" for P by (simp add: contribution_def st)
  have held: "held P (db_settlements d1) = held P (db_settlements d) + contribution P ?r" for P
    using s(4) [of P] zero by simp
  from inv have led: "ledger_ok d" by (simp add: db_inv_def)
  have "ledger_ok d3" "db_settlements d3 = db_settlements d1"
    using reserve_both_inv [OF g c led s(5,6) held] by (simp_all add: resumed_row_def)
  with s(1-3) show ?thesis by (simp add: d' db_inv_def rows_step_def)
qed

end
