(* ===== verification/Journal.thy ===== *)
theory Journal
  imports Store_Invariant
begin

text \<open>
  Runs of the journal. \<open>store_step\<close> has one rule per operation of \<open>PgStore\<close> that changes the database,
  with arbitrary arguments, so a run is any interleaving of committed operations of any number of
  sessions. The locale \<open>durable_journal\<close> is the interface the service relies on: an invariant every
  step keeps and rows that are found again, evolved but never lost. Its lemmas over whole runs are
  used through the interpretation on \<open>store_step\<close>.
\<close>

section \<open>Steps and runs\<close>

inductive store_step :: "db \<Rightarrow> db \<Rightarrow> bool" where
  claim: "claim_transaction t now d n = Inr (TxCommitted d') \<Longrightarrow> store_step d d'"
| awaiting_retry: "mark_awaiting_retry d i code = Inr d' \<Longrightarrow> store_step d d'"
| resumed: "resume_awaiting_retry t d q = (res, d') \<Longrightarrow> store_step d d'"
| confirmations: "raise_required_confirmations d i m = (r, d') \<Longrightarrow> store_step d d'"
| prepared: "mark_prepared d pe = Inr d' \<Longrightarrow> store_step d d'"
| prepared_evm: "mark_prepared_evm d ee = Inr d' \<Longrightarrow> store_step d d'"
| submitted: "mark_submitted d i = Inr d' \<Longrightarrow> store_step d d'"
| terminal: "mark_terminal now d te = Inr d' \<Longrightarrow> store_step d d'"
| noted: "note_reconciliation d i = Inr d' \<Longrightarrow> store_step d d'"
| relayer: "store_step d (upsert_relayer d network account key)"
| quarantined: "quarantine_relayer d network account key reason nonce = Inr d' \<Longrightarrow> store_step d d'"
| client: "create_client d c key_id prefix digest = Inr d' \<Longrightarrow> store_step d d'"
| rotated: "rotate_client_key d cid key_id prefix digest = Inr d' \<Longrightarrow> store_step d d'"
| revoked: "revoke_client d cid = (changed, d') \<Longrightarrow> store_step d d'"
| payee: "allow_payee d cid network asset pay_to = Inr d' \<Longrightarrow> store_step d d'"
| budget: "set_client_budget d cid b = Inr (changed, d') \<Longrightarrow> store_step d d'"

definition store_run :: "db \<Rightarrow> db \<Rightarrow> bool" where
  "store_run d d' \<longleftrightarrow> store_step\<^sup>*\<^sup>* d d'"

definition row_evolves :: "settlement \<Rightarrow> settlement \<Rightarrow> bool" where
  "row_evolves r r' \<longleftrightarrow> same_identity r r' \<and> submission_kept r r' \<and> confirmations_kept r r'
     \<and> frozen_if_terminal r r' \<and> state_step\<^sup>*\<^sup>* (st_state r) (st_state r')"

section \<open>A sample run\<close>

text \<open>
  A NEAR settlement from client creation to its terminal response, used where a theorem about
  reachable states is applied to a concrete one.
\<close>

definition sample_new :: new_settlement where
  "sample_new = \<lparr>new_id = 1, new_api_client_id = 1, new_payment_identifier = None,
     new_payment_hash = 11, new_request_fingerprint = 22, new_anchor_scope = ''near'',
     new_anchor_value = 11, new_network = ''near:testnet'', new_asset = ''usdc'',
     new_pay_to = ''shop'', new_amount = 1000, new_payer = ''alice'', new_chain_kind = Near,
     new_delegate_public_key = Some ''ed25519:k'', new_delegate_nonce = Some 7,
     new_delegate_max_block_height = Some 100, new_authorization_metadata = None,
     new_signer_address = None, new_policy_snapshot = JNull, new_reservation_yocto_near = 10,
     new_global_daily_budget_yocto_near = 100, new_client_daily_budget_yocto_near = 50\<rparr>"

definition sample_prepared :: prepared_journal_entry where
  "sample_prepared = \<lparr>pe_settlement_id = 1, pe_relayer_account_id = ''relayer'',
     pe_relayer_public_key = ''ed25519:r'', pe_relayer_nonce = 5, pe_transaction_bytes = ''tx'',
     pe_transaction_hash = ''hash''\<rparr>"

definition sample_terminal :: terminal_journal_entry where
  "sample_terminal = \<lparr>te_settlement_id = 1, te_state = Succeeded, te_http_status = 200,
     te_response_bytes = ''ok'', te_error_code = None, te_error_detail = None,
     te_gas_burnt = None, te_tokens_burnt = None, te_actual_yocto_near = 4,
     te_mined_block_number = None, te_mined_block_hash = None, te_confirmations = None\<rparr>"

fun committed :: "store_error + claim_tx \<Rightarrow> db" where
  "committed (Inr (TxCommitted d)) = d"
| "committed _ = empty_db"

definition sample_db0 :: db where
  "sample_db0 = projr (create_client empty_db sample_client 7 ''abcdef'' 5)"

definition sample_db1 :: db where
  "sample_db1 = committed (claim_transaction 3 0 sample_db0 sample_new)"

definition sample_db2 :: db where
  "sample_db2 = projr (mark_prepared sample_db1 sample_prepared)"

definition sample_db3 :: db where
  "sample_db3 = projr (mark_submitted sample_db2 1)"

definition sample_db4 :: db where
  "sample_db4 = projr (mark_terminal 9 sample_db3 sample_terminal)"

section \<open>The interface\<close>

locale durable_journal =
  fixes step :: "'s \<Rightarrow> 's \<Rightarrow> bool"
    and inv :: "'s \<Rightarrow> bool"
    and lookup :: "'s \<Rightarrow> 'k \<Rightarrow> 'r option"
    and evolves :: "'r \<Rightarrow> 'r \<Rightarrow> bool"
  assumes inv_step: "inv s \<Longrightarrow> step s t \<Longrightarrow> inv t"
    and lookup_step: "inv s \<Longrightarrow> step s t \<Longrightarrow> lookup s k = Some r \<Longrightarrow>
      \<exists>r'. lookup t k = Some r' \<and> evolves r r'"
    and evolves_refl: "evolves r r"
    and evolves_trans: "evolves r r' \<Longrightarrow> evolves r' r'' \<Longrightarrow> evolves r r''"
begin

lemma inv_run: "step\<^sup>*\<^sup>* s t \<Longrightarrow> inv s \<Longrightarrow> inv t"
  by (induction rule: rtranclp_induct) (auto intro: inv_step)

lemma lookup_run:
  assumes "step\<^sup>*\<^sup>* s t" and "inv s" and "lookup s k = Some r"
  shows "\<exists>r'. lookup t k = Some r' \<and> evolves r r'"
  using assms(1)
proof (induction rule: rtranclp_induct)
  case base
  with assms(3) evolves_refl show ?case by blast
next
  case (step t u)
  then obtain r' where "lookup t k = Some r'" "evolves r r'" by blast
  moreover have "inv t" using inv_run step.hyps(1) assms(2) by blast
  ultimately show ?case using lookup_step step.hyps(2) evolves_trans by blast
qed

lemma never_lost:
  assumes "step\<^sup>*\<^sup>* s t" and "inv s" and "lookup t k = None"
  shows "lookup s k = None"
  using lookup_run [OF assms(1,2)] assms(3) by (cases "lookup s k") force+

end

section \<open>The store implements it\<close>

lemma rows_only_inv:
  assumes "db_inv d" and "db_settlements d' = db_settlements d" and "db_global d' = db_global d"
    and "db_clients_ledger d' = db_clients_ledger d"
  shows "db_inv d' \<and> rows_step d d'"
  using assms by (simp add: db_inv_def ledger_ok_def rows_step_same)

lemma store_step_inv:
  assumes "store_step d d'" and "db_inv d"
  shows "db_inv d' \<and> rows_step d d'"
  using assms
proof (cases rule: store_step.cases)
  case relayer
  then show ?thesis
    using assms(2) by (intro rows_only_inv) (simp_all add: upsert_relayer_def split: option.splits)
next
  case quarantined
  then show ?thesis
    using assms(2) by (intro rows_only_inv) (auto simp: quarantine_relayer_def split: if_splits)
next
  case client
  then show ?thesis
    using assms(2)
    by (intro rows_only_inv) (auto simp: create_client_def split: if_splits dest!: insert_api_key_Inr)
next
  case rotated
  then show ?thesis
    using assms(2)
    by (intro rows_only_inv) (auto simp: rotate_client_key_def split: if_splits dest!: insert_api_key_Inr)
next
  case (revoked cid changed)
  then have "d' = snd (revoke_client d cid)" by simp
  then show ?thesis
    using assms(2) by (intro rows_only_inv) (simp_all add: revoke_client_def)
next
  case payee
  then show ?thesis
    using assms(2) by (intro rows_only_inv) (auto simp: allow_payee_def Let_def split: if_splits)
next
  case budget
  then show ?thesis
    using assms(2) by (intro rows_only_inv) (auto simp: set_client_budget_def split: if_splits)
qed (metis assms(2) claim_transaction_inv(1) mark_awaiting_retry_inv resume_inv
      raise_required_confirmations_inv mark_prepared_inv mark_prepared_evm_inv mark_submitted_inv
      mark_terminal_inv note_reconciliation_inv)+

lemma keeps_trans: "keeps a b \<Longrightarrow> keeps b c \<Longrightarrow> keeps a c"
  by (auto simp: keeps_def)

lemma row_evolves_refl: "row_evolves r r"
  by (simp add: row_evolves_def same_identity_def submission_kept_def confirmations_kept_def)

lemma row_step_evolves: "row_step r r' \<Longrightarrow> row_evolves r r'"
  by (auto simp: row_evolves_def row_step_def)

lemma row_evolves_trans:
  assumes "row_evolves r r'" and "row_evolves r' r''"
  shows "row_evolves r r''"
proof -
  have "same_identity r r''" using assms by (simp add: row_evolves_def same_identity_def)
  moreover have "submission_kept r r''"
    using assms unfolding row_evolves_def submission_kept_def by (meson keeps_trans)
  moreover have "confirmations_kept r r''"
    using assms unfolding row_evolves_def confirmations_kept_def by (meson order_trans)
  moreover have "frozen_if_terminal r r''"
    using assms unfolding row_evolves_def by (meson frozen_trans)
  moreover have "state_step\<^sup>*\<^sup>* (st_state r) (st_state r'')"
    using assms unfolding row_evolves_def by (meson rtranclp_trans)
  ultimately show ?thesis by (simp add: row_evolves_def)
qed

lemma rows_step_lookup:
  assumes "db_inv d'" and "rows_step d d'" and "find_row d i = Some r"
  shows "\<exists>r'. find_row d' i = Some r' \<and> row_step r r'"
proof -
  have r: "r \<in> set (db_settlements d)" "st_id r = i" using find_row_Some_mem [OF assms(3)] by simp_all
  then obtain r' where r': "r' \<in> set (db_settlements d')" "row_step r r'"
    using assms(2) by (auto simp: rows_step_def)
  then have "find_row d' i = Some r'"
    using find_row_mem [OF db_inv_ids [OF assms(1)]] row_step_id r(2) by metis
  with r' show ?thesis by blast
qed

interpretation journal: durable_journal store_step db_inv find_row row_evolves
proof
  fix d d' :: db and i r
  assume "db_inv d" and "store_step d d'"
  then have s: "db_inv d'" "rows_step d d'" using store_step_inv by blast+
  show "db_inv d'" by fact
  assume "find_row d i = Some r"
  with s show "\<exists>r'. find_row d' i = Some r' \<and> row_evolves r r'"
    using rows_step_lookup row_step_evolves by blast
next
  show "row_evolves r r" for r by (rule row_evolves_refl)
  show "row_evolves r r' \<Longrightarrow> row_evolves r' r'' \<Longrightarrow> row_evolves r r''" for r r' r''
    by (rule row_evolves_trans)
qed

lemma empty_db_inv: "db_inv empty_db"
  by (simp add: db_inv_def empty_db_def ledger_ok_def held_def)

lemma reachable_inv: "store_run empty_db d \<Longrightarrow> db_inv d"
  unfolding store_run_def by (rule journal.inv_run [OF _ empty_db_inv])

section \<open>Uniqueness and replay\<close>

lemma unique_rows:
  assumes "db_inv d" and "r \<in> set (db_settlements d)" and "s \<in> set (db_settlements d)"
    and "unique_violation r s \<noteq> None"
  shows "r = s"
proof -
  from assms(1) have "\<forall>r \<in> set (db_settlements d). \<forall>s \<in> set (db_settlements d).
      r \<noteq> s \<longrightarrow> unique_violation r s = None"
    unfolding db_inv_def table_ok_iff by (elim conjE)
  with assms(2-4) show ?thesis by metis
qed

lemma unique_by_hash:
  "db_inv d \<Longrightarrow> r \<in> set (db_settlements d) \<Longrightarrow> s \<in> set (db_settlements d) \<Longrightarrow>
   st_payment_hash r = st_payment_hash s \<Longrightarrow> r = s"
  by (rule unique_rows) (simp_all add: unique_violation_None_iff)

lemma unique_by_anchor:
  "db_inv d \<Longrightarrow> r \<in> set (db_settlements d) \<Longrightarrow> s \<in> set (db_settlements d) \<Longrightarrow>
   st_anchor_scope r = st_anchor_scope s \<Longrightarrow> st_anchor_value r = st_anchor_value s \<Longrightarrow> r = s"
  by (rule unique_rows) (simp_all add: unique_violation_None_iff)

lemma unique_by_identifier:
  "db_inv d \<Longrightarrow> r \<in> set (db_settlements d) \<Longrightarrow> s \<in> set (db_settlements d) \<Longrightarrow>
   st_api_client_id r = st_api_client_id s \<Longrightarrow> st_payment_identifier r = Some i \<Longrightarrow>
   st_payment_identifier s = Some i \<Longrightarrow> r = s"
  by (rule unique_rows) (simp_all add: unique_violation_None_iff clash_def identifier_key_def)

lemma scan_existing_match:
  assumes "r \<in> set rs" and "st_api_client_id r = c" and "st_payment_identifier r = Some i"
    and uniq: "\<And>s. s \<in> set rs \<Longrightarrow> st_api_client_id s = c \<Longrightarrow> st_payment_identifier s = Some i \<Longrightarrow> s = r"
  shows "scan_existing c i h f rs b =
    (if st_request_fingerprint r = f then Some (ClaimExisting r) else Some IdentifierConflict)"
  using assms
proof (induction rs arbitrary: b)
  case Nil
  then show ?case by simp
next
  case (Cons s rs)
  show ?case
  proof (cases "st_api_client_id s = c \<and> st_payment_identifier s = Some i")
    case True
    have "s = r" by (rule Cons.prems(4)) (use True in simp_all)
    with True show ?thesis by simp
  next
    case False
    with Cons.prems(1-3) have mem: "r \<in> set rs" by auto
    have uniq: "s' = r" if "s' \<in> set rs" "st_api_client_id s' = c" "st_payment_identifier s' = Some i" for s'
      by (rule Cons.prems(4)) (use that in simp_all)
    have "scan_existing c i h f (s # rs) b = scan_existing c i h f rs (b \<or> st_payment_hash s = h)"
      using False by (simp only: scan_existing.simps if_False)
    also have "\<dots> = (if st_request_fingerprint r = f then Some (ClaimExisting r) else Some IdentifierConflict)"
      by (rule Cons.IH [OF mem Cons.prems(2,3) uniq])
    finally show ?thesis .
  qed
qed

lemma find_unique:
  assumes "x \<in> set xs" and "P x" and "\<And>y. y \<in> set xs \<Longrightarrow> P y \<Longrightarrow> y = x"
  shows "find P xs = Some x"
proof (cases "find P xs")
  case None
  with assms(1,2) show ?thesis by (simp add: find_None_all)
next
  case (Some y)
  then have "y \<in> set xs" "P y" using find_SomeD [OF Some] by simp_all
  with assms(3) have "y = x" by this
  with Some show ?thesis by simp
qed

lemma find_existing_known:
  assumes inv: "db_inv d" and r: "r \<in> set (db_settlements d)" "st_api_client_id r = c"
    "st_payment_identifier r = i" "st_payment_hash r = h" "st_request_fingerprint r = f"
  shows "find_existing_settlement d c i h f = Some (ClaimExisting r)"
proof (cases i)
  case None
  have "find (\<lambda>s. st_payment_hash s = h) (db_settlements d) = Some r"
  proof (rule find_unique)
    show "s = r" if "s \<in> set (db_settlements d)" "st_payment_hash s = h" for s
      by (rule unique_by_hash [OF inv that(1) r(1)]) (simp add: that r)
  qed (use r in simp_all)
  with None r show ?thesis by (simp add: find_existing_settlement_def)
next
  case (Some j)
  have "scan_existing c j h f (filter (\<lambda>r. st_api_client_id r = c \<and> st_payment_identifier r = Some j
          \<or> st_payment_hash r = h) (db_settlements d)) False
     = (if st_request_fingerprint r = f then Some (ClaimExisting r) else Some IdentifierConflict)"
    (is "scan_existing c j h f ?rs False = _")
  proof (rule scan_existing_match)
    show "s = r" if "s \<in> set ?rs" "st_api_client_id s = c" "st_payment_identifier s = Some j" for s
      by (rule unique_by_identifier [OF inv _ r(1), of s j]) (use that r Some in simp_all)
  qed (use r Some in simp_all)
  with Some r show ?thesis by (simp add: find_existing_settlement_def)
qed

lemma reachable_run_inv: "store_run empty_db d \<Longrightarrow> store_run d e \<Longrightarrow> db_inv e"
  using journal.inv_run reachable_inv unfolding store_run_def by blast

lemma claimed_row_persists:
  assumes "db_inv d" and "claim_transaction t now d n = Inr (TxCommitted d')" and "store_run d' e"
  obtains r where "r \<in> set (db_settlements e)" "find_row e (new_id n) = Some r"
    "row_evolves (claim_row t now n) r" "db_inv e"
proof -
  have d': "db_inv d'" "db_settlements d' = db_settlements d @ [claim_row t now n]"
    using claim_transaction_inv [OF assms(1,2)] by simp_all
  have "find_row d' (new_id n) = Some (claim_row t now n)"
    using find_row_mem [OF db_inv_ids [OF d'(1)], of "claim_row t now n"] by (simp add: d'(2))
  then obtain r where r: "find_row e (new_id n) = Some r" "row_evolves (claim_row t now n) r"
    using journal.lookup_run [OF assms(3) [unfolded store_run_def] d'(1)] by metis
  moreover have "db_inv e" using journal.inv_run assms(3) d'(1) by (auto simp: store_run_def)
  ultimately show thesis using that find_row_Some_mem by metis
qed

lemma evolved_claim_row:
  assumes "row_evolves (claim_row t now n) r"
  shows "st_payment_hash r = new_payment_hash n" "st_anchor_scope r = new_anchor_scope n"
    "st_anchor_value r = new_anchor_value n" "st_api_client_id r = new_api_client_id n"
    "st_payment_identifier r = new_payment_identifier n"
    "st_request_fingerprint r = new_request_fingerprint n"
  using assms by (simp_all add: row_evolves_def same_identity_def)

lemma claim_needs_fresh:
  assumes "claim_transaction t now d n = Inr (TxCommitted d')" and "r \<in> set (db_settlements d)"
  shows "st_payment_hash r \<noteq> new_payment_hash n"
    and "\<not> (st_anchor_scope r = new_anchor_scope n \<and> st_anchor_value r = new_anchor_value n)"
proof -
  from assms(1) have "first_violation (claim_row t now n) (db_settlements d) = None"
    by (rule claim_transaction_Committed)
  with assms(2) have "unique_violation (claim_row t now n) r = None"
    by (simp add: first_violation_None)
  then show "st_payment_hash r \<noteq> new_payment_hash n"
    and "\<not> (st_anchor_scope r = new_anchor_scope n \<and> st_anchor_value r = new_anchor_value n)"
    unfolding unique_violation_None_iff by auto
qed

section \<open>Order of states\<close>

lemma state_step_order: "state_step s t \<Longrightarrow> Prepared \<le> s \<Longrightarrow> s \<le> t"
  by (erule state_step.cases; cases t) (simp_all add: less_eq_settlement_state_def)

lemma state_run_order: "state_step\<^sup>*\<^sup>* s t \<Longrightarrow> Prepared \<le> s \<Longrightarrow> s \<le> t"
proof (induction rule: rtranclp_induct)
  case base
  then show ?case by simp
next
  case (step t u)
  then show ?case using state_step_order by (meson order_trans)
qed

section \<open>The sample run is a run\<close>

lemma projr_ok: "is_ok r \<Longrightarrow> r = Inr (projr r)"
  by (cases r) simp_all

lemmas sample_check_defs = row_checks_def payment_identifier_check_def anchor_scope_check_def
  chain_authorization_check_def nonterminal_submission_check_def awaiting_retry_check_def
  confirmations_check_def evm_success_confirmations_check_def terminal_check_def numeric_check_def
  numeric40_def numeric20_def numeric40_opt_def near_submission_def

lemma sample0: "create_client empty_db sample_client 7 ''abcdef'' 5 = Inr sample_db0"
  unfolding sample_db0_def
  by (rule projr_ok) (simp add: create_client_def insert_api_key_def empty_db_def sample_client_def
      fits_i32_def numeric40_def client_exists_def)

lemma sample_db0_eq: "sample_db0 = empty_db\<lparr>db_clients := [(sample_client, Active)],
     db_keys := [\<lparr>ak_id = 7, ak_client_id = 1, ak_prefix = ''abcdef'', ak_digest = 5, ak_status = Active\<rparr>]\<rparr>"
  unfolding sample_db0_def
  by (simp add: create_client_def insert_api_key_def empty_db_def sample_client_def
      fits_i32_def numeric40_def client_exists_def)

lemma sample1: "claim_transaction 3 0 sample_db0 sample_new = Inr (TxCommitted sample_db1)"
  unfolding sample_db1_def
  by (simp add: claim_transaction_def insert_row_def claim_row_def sample_new_def sample_db0_eq
      sample_check_defs empty_db_def client_exists_def sample_client_def reserve_global_budget_def
      reserve_client_budget_def reserve_ledger_def)

lemma sample_db1_eq:
  "db_settlements sample_db1 = [claim_row 3 0 sample_new]"
  "db_global sample_db1 = [3 \<mapsto> \<lparr>lg_reserved = 10, lg_spent = 0\<rparr>]"
  "db_clients_ledger sample_db1 = [(3, 1) \<mapsto> \<lparr>lg_reserved = 10, lg_spent = 0\<rparr>]"
  unfolding sample_db1_def
  by (simp_all add: claim_transaction_def insert_row_def claim_row_def sample_new_def sample_db0_eq
      sample_check_defs empty_db_def client_exists_def sample_client_def reserve_global_budget_def
      reserve_client_budget_def reserve_ledger_def insert_event_def)

lemma sample_db1_clients: "db_clients sample_db1 = [(sample_client, Active)]"
  unfolding sample_db1_def
  by (simp add: claim_transaction_def insert_row_def claim_row_def sample_new_def sample_db0_eq
      sample_check_defs empty_db_def client_exists_def sample_client_def reserve_global_budget_def
      reserve_client_budget_def reserve_ledger_def insert_event_def)

lemma sample2: "mark_prepared sample_db1 sample_prepared = Inr sample_db2"
  unfolding sample_db2_def
  by (rule projr_ok) (simp add: mark_prepared_def find_row_def put_row_def sample_db1_eq
      sample_prepared_def claim_row_def sample_new_def sample_check_defs)

lemma sample_db2_eq:
  "db_settlements sample_db2 = [(claim_row 3 0 sample_new)\<lparr>st_state := Prepared,
     st_relayer_account_id := Some ''relayer'', st_relayer_public_key := Some ''ed25519:r'',
     st_relayer_nonce := Some 5, st_outer_transaction_bytes := Some ''tx'',
     st_outer_transaction_hash := Some ''hash''\<rparr>]"
  "db_global sample_db2 = db_global sample_db1"
  "db_clients_ledger sample_db2 = db_clients_ledger sample_db1"
  unfolding sample_db2_def
  by (simp_all add: mark_prepared_def find_row_def put_row_def sample_db1_eq insert_event_def
      sample_prepared_def claim_row_def sample_new_def sample_check_defs)

lemma sample3: "mark_submitted sample_db2 1 = Inr sample_db3"
  unfolding sample_db3_def
  by (rule projr_ok) (simp add: mark_submitted_def find_row_def put_row_def sample_db2_eq
      claim_row_def sample_new_def sample_check_defs)

lemma sample_db3_eq:
  "db_settlements sample_db3 = [(claim_row 3 0 sample_new)\<lparr>st_state := Submitted,
     st_relayer_account_id := Some ''relayer'', st_relayer_public_key := Some ''ed25519:r'',
     st_relayer_nonce := Some 5, st_outer_transaction_bytes := Some ''tx'',
     st_outer_transaction_hash := Some ''hash''\<rparr>]"
  "db_global sample_db3 = db_global sample_db1"
  "db_clients_ledger sample_db3 = db_clients_ledger sample_db1"
  unfolding sample_db3_def
  by (simp_all add: mark_submitted_def find_row_def put_row_def sample_db2_eq insert_event_def
      claim_row_def sample_new_def sample_check_defs)

lemma sample4: "mark_terminal 9 sample_db3 sample_terminal = Inr sample_db4"
  unfolding sample_db4_def
  by (rule projr_ok) (simp add: mark_terminal_def find_row_def put_row_def sample_db3_eq
      sample_db1_eq sample_terminal_def claim_row_def sample_new_def sample_check_defs
      release_budget_def release_ledger_def http_status_i16_def terminal_row_def)

lemma sample_runs:
  "store_run empty_db sample_db0" "store_run sample_db0 sample_db1" "store_run sample_db1 sample_db2"
  "store_run sample_db2 sample_db3" "store_run sample_db3 sample_db4"
  unfolding store_run_def
  using store_step.client [OF sample0] store_step.claim [OF sample1] store_step.prepared [OF sample2]
    store_step.submitted [OF sample3] store_step.terminal [OF sample4]
  by (simp_all add: r_into_rtranclp)

lemma store_run_trans: "store_run a b \<Longrightarrow> store_run b c \<Longrightarrow> store_run a c"
  unfolding store_run_def by (rule rtranclp_trans)

lemma store_run_refl [simp]: "store_run a a"
  by (simp add: store_run_def)

end
