(* ===== verification/Journal_Theorems.thy ===== *)
theory Journal_Theorems
  imports Journal
begin

text \<open>
  The properties of the journal over reachable databases and arbitrary continuations: exactly one
  claim per payment anchor, write-once submissions, immutable terminal responses, ledgers that add
  up, and claims that are idempotent and leave nothing behind when they are refused.
\<close>

lemma scan_existing_not_new: "scan_existing c i h f rs b \<noteq> Some (ClaimNew r)"
  by (induction rs arbitrary: b) (simp_all split: if_splits)

lemma existing_not_new: "existing_for d n \<noteq> Some (ClaimNew r)"
  by (simp add: existing_for_def find_existing_settlement_def scan_existing_not_new split: option.splits)

lemma claim_settlement_ClaimNew:
  assumes "claim_settlement t now s n = (Inr (ClaimNew r), d')"
  shows "claim_transaction t now (s 5) n = Inr (TxCommitted d')" "find_row (s 6) (new_id n) = Some r"
  using assms
  by (auto simp: claim_settlement_def or_else_outcome_def existing_not_new
      split: if_splits option.splits sum.splits claim_tx.splits)

lemma held_filter:
  "held P rs = sum_list (map st_reserved_yocto_near (filter (\<lambda>r. state_is_active (st_state r) \<and> P r) rs))"
  by (induction rs) (simp_all add: held_def contribution_def)

section \<open>Exactly once\<close>

text \<open>
  C5. Exactly-once claims: in any database reachable from the empty one, after a claim has
  committed no later claim, in any continuation of the journal by any sessions, commits for the
  same replay anchor or the same payment hash, whatever client, identifier or policy it carries
  and whatever has become of the first settlement (dormant, failed or succeeded).
\<close>

theorem claim_exactly_once:
  assumes "store_run empty_db d"
    and "claim_transaction t now d n = Inr (TxCommitted d')"
    and "store_run d' e"
    and "new_anchor_scope m = new_anchor_scope n \<and> new_anchor_value m = new_anchor_value n
         \<or> new_payment_hash m = new_payment_hash n"
  shows "claim_transaction t' now' e m \<noteq> Inr (TxCommitted e')"
proof
  assume c: "claim_transaction t' now' e m = Inr (TxCommitted e')"
  from reachable_inv [OF assms(1)] assms(2,3) obtain r where r: "r \<in> set (db_settlements e)"
    and ev: "row_evolves (claim_row t now n) r"
    by (rule claimed_row_persists)
  from claim_needs_fresh [OF c r] evolved_claim_row [OF ev] assms(4) show False by auto
qed

theorem claim_exactly_once_witness:
  "claim_transaction 3 0 sample_db0 sample_new = Inr (TxCommitted sample_db1)
   \<and> (\<forall>e. claim_transaction 4 1 sample_db4 (sample_new\<lparr>new_id := 2\<rparr>) \<noteq> Inr (TxCommitted e))"
proof (intro conjI allI)
  fix e
  have run: "store_run sample_db1 sample_db4" using sample_runs(3-5) store_run_trans by blast
  show "claim_transaction 4 1 sample_db4 (sample_new\<lparr>new_id := 2\<rparr>) \<noteq> Inr (TxCommitted e)"
    by (rule claim_exactly_once [OF sample_runs(1) sample1 run]) simp
qed (rule sample1)

text \<open>
  C28. Uniqueness in every reachable journal: two different rows never share a payment hash, a
  replay anchor, or a client's payment identifier; no two active EVM rows own the same signer on
  a network, and no EVM account nonce is signed twice by a signer, even after terminalization.
\<close>

theorem reachable_rows_unique:
  assumes "store_run empty_db d" and "r \<in> set (db_settlements d)" and "s \<in> set (db_settlements d)"
    and "r \<noteq> s"
  shows "st_payment_hash r \<noteq> st_payment_hash s
       \<and> (st_anchor_scope r, st_anchor_value r) \<noteq> (st_anchor_scope s, st_anchor_value s)
       \<and> (st_payment_identifier r = None \<or> st_api_client_id r \<noteq> st_api_client_id s
           \<or> st_payment_identifier r \<noteq> st_payment_identifier s)
       \<and> (active_signer_key r = None \<or> active_signer_key r \<noteq> active_signer_key s)
       \<and> (signer_nonce_key r = None \<or> signer_nonce_key r \<noteq> signer_nonce_key s)"
proof -
  from unique_rows [OF reachable_inv [OF assms(1)] assms(2,3)] assms(4)
  have "unique_violation r s = None" by fast
  note n = no_violationD [OF this]
  have "st_payment_identifier r = None \<or> st_api_client_id r \<noteq> st_api_client_id s
      \<or> st_payment_identifier r \<noteq> st_payment_identifier s"
    using n(4) by (auto simp: clash_def identifier_key_def)
  moreover have "active_signer_key r = None \<or> active_signer_key r \<noteq> active_signer_key s"
    using n(5) unfolding clash_def by fast
  moreover have "signer_nonce_key r = None \<or> signer_nonce_key r \<noteq> signer_nonce_key s"
    using n(6) unfolding clash_def by fast
  ultimately show ?thesis using n(2,3) by simp
qed

definition second_new :: new_settlement where
  "second_new = sample_new\<lparr>new_id := 2, new_payment_hash := 12, new_anchor_value := 12\<rparr>"

definition two_row_db :: db where
  "two_row_db = committed (claim_transaction 3 1 sample_db1 second_new)"

lemma two_rows: "claim_transaction 3 1 sample_db1 second_new = Inr (TxCommitted two_row_db)"
  "db_settlements two_row_db = [claim_row 3 0 sample_new, claim_row 3 1 second_new]"
  unfolding two_row_db_def
  by (simp_all add: claim_transaction_def insert_row_def claim_row_def second_new_def sample_new_def
      sample_check_defs client_exists_def reserve_global_budget_def reserve_client_budget_def
      reserve_ledger_def insert_event_def sample_db1_eq sample_db1_clients unique_violation_def
      sample_client_def clash_def identifier_key_def relayer_nonce_key_def active_signer_key_def
      signer_nonce_key_def)

theorem reachable_rows_unique_witness:
  "claim_row 3 0 sample_new \<in> set (db_settlements two_row_db)
   \<and> st_payment_hash (claim_row 3 0 sample_new) \<noteq> st_payment_hash (claim_row 3 1 second_new)"
proof -
  have "store_run sample_db1 two_row_db"
    unfolding store_run_def using store_step.claim [OF two_rows(1)] by blast
  then have run: "store_run empty_db two_row_db"
    using sample_runs(1,2) store_run_trans by blast
  have mem: "claim_row 3 0 sample_new \<in> set (db_settlements two_row_db)"
    "claim_row 3 1 second_new \<in> set (db_settlements two_row_db)"
    "claim_row 3 0 sample_new \<noteq> claim_row 3 1 second_new"
    by (simp_all add: two_rows(2) claim_row_def second_new_def sample_new_def)
  from reachable_rows_unique [OF run mem] mem(1) show ?thesis by simp
qed

section \<open>Terminal responses and submissions\<close>

text \<open>
  C8. A terminal settlement is immutable: once a reachable journal holds a row in state succeeded
  or failed, every continuation finds that same row with its state, HTTP status, response bytes
  and every other column unchanged; only the reconciliation counter may move.
\<close>

theorem terminal_row_immutable:
  assumes "store_run empty_db d" and "find_row d i = Some r" and "is_terminal (st_state r)"
    and "store_run d e"
  shows "\<exists>k. find_row e i = Some (r\<lparr>st_reconciliation_attempts := k\<rparr>)"
proof -
  from journal.lookup_run [OF assms(4) [unfolded store_run_def] reachable_inv [OF assms(1)] assms(2)]
  obtain r' where r': "find_row e i = Some r'" "row_evolves r r'" by metis
  then have "frozen_if_terminal r r'" by (simp add: row_evolves_def)
  with assms(3) obtain k where "r' = r\<lparr>st_reconciliation_attempts := k\<rparr>"
    unfolding frozen_if_terminal_def by metis
  with r'(1) show ?thesis by metis
qed

lemma sample_db4_row:
  "\<exists>r. find_row sample_db4 1 = Some r \<and> st_state r = Succeeded \<and> st_terminal_response_bytes r = Some ''ok''"
  unfolding sample_db4_def
  by (simp add: mark_terminal_def find_row_def put_row_def sample_db3_eq insert_event_def
      sample_db1_eq sample_terminal_def claim_row_def sample_new_def sample_check_defs
      release_budget_def release_ledger_def http_status_i16_def terminal_row_def)

theorem terminal_row_immutable_witness:
  "\<exists>r k. find_row sample_db4 1 = Some r \<and> is_terminal (st_state r)
     \<and> find_row sample_db4 1 = Some (r\<lparr>st_reconciliation_attempts := k\<rparr>)"
proof -
  have run: "store_run empty_db sample_db4" using sample_runs store_run_trans by blast
  obtain r where r: "find_row sample_db4 1 = Some r" "st_state r = Succeeded" using sample_db4_row by metis
  then have final: "is_terminal (st_state r)" by simp
  obtain k where "find_row sample_db4 1 = Some (r\<lparr>st_reconciliation_attempts := k\<rparr>)"
    using terminal_row_immutable [OF run r(1) final store_run_refl] by (rule exE)
  with r(1) final show ?thesis by metis
qed

text \<open>
  C9. A signed submission is written once: when a reachable row has reached prepared (or beyond),
  every continuation keeps its signed bytes, transaction hash and nonce columns exactly, never
  lowers its required confirmation depth, never moves the state backwards, and so never returns it
  to reserved or awaiting retry, where a second, different transaction could be signed.
\<close>

theorem submission_write_once:
  assumes "store_run empty_db d" and "find_row d i = Some r" and "Prepared \<le> st_state r"
    and "store_run d e"
  shows "\<exists>r'. find_row e i = Some r' \<and> st_state r \<le> st_state r'
     \<and> keeps (st_outer_transaction_bytes r) (st_outer_transaction_bytes r')
     \<and> keeps (st_outer_transaction_hash r) (st_outer_transaction_hash r')
     \<and> keeps (st_relayer_nonce r) (st_relayer_nonce r')
     \<and> keeps (st_submitted_tx_rlp r) (st_submitted_tx_rlp r')
     \<and> keeps (st_submitted_tx_hash r) (st_submitted_tx_hash r')
     \<and> keeps (st_signer_account_nonce r) (st_signer_account_nonce r')
     \<and> (\<forall>q. st_required_confirmations r = Some q \<longrightarrow>
           (\<exists>q' \<ge> q. st_required_confirmations r' = Some q'))
     \<and> same_identity r r'"
proof -
  from journal.lookup_run [OF assms(4) [unfolded store_run_def] reachable_inv [OF assms(1)] assms(2)]
  obtain r' where r': "find_row e i = Some r'" "row_evolves r r'" by metis
  have "st_state r \<le> st_state r'"
    using r'(2) assms(3) state_run_order by (simp add: row_evolves_def)
  moreover have "\<forall>q. st_required_confirmations r = Some q \<longrightarrow>
           (\<exists>q' \<ge> q. st_required_confirmations r' = Some q')"
    using r'(2) unfolding row_evolves_def confirmations_kept_def by metis
  ultimately show ?thesis
    using r' unfolding row_evolves_def submission_kept_def by metis
qed

lemma sample_db2_row:
  "\<exists>r. find_row sample_db2 1 = Some r \<and> st_state r = Prepared \<and> st_outer_transaction_bytes r = Some ''tx''"
  by (simp add: find_row_def sample_db2_eq claim_row_def sample_new_def)

theorem submission_write_once_witness:
  "\<exists>r r'. find_row sample_db2 1 = Some r \<and> st_outer_transaction_bytes r = Some ''tx''
     \<and> find_row sample_db4 1 = Some r' \<and> st_outer_transaction_bytes r' = Some ''tx''"
proof -
  have run: "store_run empty_db sample_db2" "store_run sample_db2 sample_db4"
    using sample_runs store_run_trans by blast+
  obtain r where r: "find_row sample_db2 1 = Some r" "st_state r = Prepared"
    "st_outer_transaction_bytes r = Some ''tx''"
    using sample_db2_row by metis
  then have "Prepared \<le> st_state r" by simp
  from submission_write_once [OF run(1) r(1) this run(2)] 
  obtain r' where "find_row sample_db4 1 = Some r'"
    "keeps (st_outer_transaction_bytes r) (st_outer_transaction_bytes r')" by metis
  with r show ?thesis unfolding keeps_def by (metis option.distinct(1))
qed

section \<open>Claims between other sessions\<close>

text \<open>
  C29. Budgets and freshness hold at commit, whatever runs between the statements of a claim: the
  checks before the transaction read older snapshots, yet when \<open>claim_settlement\<close> reports a new
  settlement, the database the transaction committed on had no row with its payment hash or its
  replay anchor, both daily ledgers including spent amounts are within the limits the request
  carried, and the reported row is the claimed one with its identity unchanged.
\<close>

theorem claim_settlement_new:
  assumes "store_run empty_db (s 5)"
    and "claim_settlement t now s n = (Inr (ClaimNew r), d')"
    and "store_run d' (s 6)"
  shows "(\<forall>q \<in> set (db_settlements (s 5)). st_payment_hash q \<noteq> new_payment_hash n
            \<and> (st_anchor_scope q, st_anchor_value q) \<noteq> (new_anchor_scope n, new_anchor_value n))
       \<and> db_settlements d' = db_settlements (s 5) @ [claim_row t now n]
       \<and> reserved_at (db_global d' t) + spent_at (db_global d' t) \<le> new_global_daily_budget_yocto_near n
       \<and> reserved_at (db_clients_ledger d' (t, new_api_client_id n))
           + spent_at (db_clients_ledger d' (t, new_api_client_id n))
         \<le> new_client_daily_budget_yocto_near n
       \<and> find_row (s 6) (new_id n) = Some r \<and> same_identity (claim_row t now n) r"
proof -
  from claim_settlement_ClaimNew [OF assms(2)]
  have tx: "claim_transaction t now (s 5) n = Inr (TxCommitted d')"
    and r: "find_row (s 6) (new_id n) = Some r" .
  note inv = reachable_inv [OF assms(1)]
  obtain r' where "find_row (s 6) (new_id n) = Some r'" "row_evolves (claim_row t now n) r'"
    using claimed_row_persists [OF inv tx assms(3)] by metis
  with r have "same_identity (claim_row t now n) r" by (simp add: row_evolves_def)
  with claim_transaction_inv(2-4) [OF inv tx] claim_needs_fresh [OF tx] r show ?thesis
    by (metis prod.inject)
qed

theorem claim_settlement_new_witness:
  "claim_settlement 3 0 ((\<lambda>_. sample_db0)(6 := sample_db1)) sample_new
     = (Inr (ClaimNew (claim_row 3 0 sample_new)), sample_db1)
   \<and> reserved_at (db_global sample_db1 3) \<le> 100"
proof
  let ?s = "(\<lambda>_. sample_db0)(6 := sample_db1)"
  have reads: "existing_for sample_db0 sample_new = None"
    "\<not> anchor_is_claimed sample_db0 (new_anchor_scope sample_new) (new_anchor_value sample_new)"
    "new_chain_kind sample_new = Near"
    "find_row sample_db1 (new_id sample_new) = Some (claim_row 3 0 sample_new)"
    by (simp_all add: existing_for_def find_existing_settlement_def sample_new_def anchor_is_claimed_def
        sample_db0_eq empty_db_def find_row_def sample_db1_eq claim_row_def)
  show run: "claim_settlement 3 0 ?s sample_new = (Inr (ClaimNew (claim_row 3 0 sample_new)), sample_db1)"
    by (simp add: claim_settlement_def reads sample1 active_evm_signer_exists_def fun_upd_apply)
  from claim_settlement_new [OF _ run] sample_runs(1)
  show "reserved_at (db_global sample_db1 3) \<le> 100" by (simp add: sample_new_def)
qed

text \<open>
  C30. Replays are idempotent: after a claim has committed, repeating the request (same client,
  payment identifier, payment hash and fingerprint) at any later time returns the existing
  settlement, in its current state and with its identity unchanged, and changes nothing.
\<close>

theorem claim_replay_existing:
  assumes "store_run empty_db d"
    and "claim_transaction t now d n = Inr (TxCommitted d')"
    and "store_run d' (s 0)"
    and "new_api_client_id m = new_api_client_id n \<and> new_payment_identifier m = new_payment_identifier n
       \<and> new_payment_hash m = new_payment_hash n \<and> new_request_fingerprint m = new_request_fingerprint n"
    and "new_chain_kind m = Eip155 \<longrightarrow> (\<exists>a. new_authorization_metadata m = Some a \<and> am_version a = 2)"
  shows "\<exists>r. claim_settlement t' now' s m = (Inr (ClaimExisting r), s 5)
       \<and> find_row (s 0) (new_id n) = Some r \<and> same_identity (claim_row t now n) r"
proof -
  from claimed_row_persists [OF reachable_inv [OF assms(1)] assms(2,3)] obtain r where
    r: "r \<in> set (db_settlements (s 0))" "find_row (s 0) (new_id n) = Some r"
    and ev: "row_evolves (claim_row t now n) r" and inv: "db_inv (s 0)" by metis
  have "existing_for (s 0) m = Some (ClaimExisting r)"
    unfolding existing_for_def
    by (rule find_existing_known [OF inv r(1)]) (simp_all add: evolved_claim_row [OF ev] assms(4))
  then have "claim_settlement t' now' s m = (Inr (ClaimExisting r), s 5)"
    using assms(5) by (auto simp: claim_settlement_def)
  with r(2) ev show ?thesis unfolding row_evolves_def by metis
qed

theorem claim_replay_existing_witness:
  "\<exists>r. claim_settlement 4 9 (\<lambda>_. sample_db4) (sample_new\<lparr>new_id := 2\<rparr>) = (Inr (ClaimExisting r), sample_db4)
     \<and> find_row sample_db4 1 = Some r"
proof -
  have run: "store_run sample_db1 sample_db4" using sample_runs(3-5) store_run_trans by blast
  have eq: "new_chain_kind (sample_new\<lparr>new_id := 2\<rparr>) \<noteq> Eip155" "new_id sample_new = 1"
    by (simp_all add: sample_new_def)
  obtain r where "claim_settlement 4 9 (\<lambda>_. sample_db4) (sample_new\<lparr>new_id := 2\<rparr>)
      = (Inr (ClaimExisting r), sample_db4)" "find_row sample_db4 (new_id sample_new) = Some r"
    using claim_replay_existing [OF sample_runs(1) sample1, of "\<lambda>_. sample_db4", OF run,
        of "sample_new\<lparr>new_id := 2\<rparr>"] eq(1) by auto
  with eq(2) show ?thesis by metis
qed

section \<open>Ledgers\<close>

text \<open>
  C13. The ledgers add up: in every reachable database the reserved column of each day's global
  ledger, and of each client's ledger, is exactly the sum of the reservations of the reserved,
  prepared and submitted settlements of that day, so dormant and terminal settlements hold
  nothing and no reservation is lost or counted twice.
\<close>

theorem reachable_ledgers:
  assumes "store_run empty_db d"
  shows "reserved_at (db_global d t) = sum_list (map st_reserved_yocto_near
            (filter (\<lambda>r. state_is_active (st_state r) \<and> st_reservation_date r = t) (db_settlements d)))
       \<and> reserved_at (db_clients_ledger d (t, c)) = sum_list (map st_reserved_yocto_near
            (filter (\<lambda>r. state_is_active (st_state r) \<and> st_reservation_date r = t
                       \<and> st_api_client_id r = c) (db_settlements d)))"
proof -
  have "ledger_ok d" using reachable_inv [OF assms] by (simp add: db_inv_def)
  then show ?thesis by (simp add: ledger_ok_def held_filter on_date_def on_date_for_def)
qed

theorem reachable_ledgers_witness:
  "reserved_at (db_global sample_db1 3) = 10
   \<and> reserved_at (db_global sample_db1 3) = sum_list (map st_reserved_yocto_near
       (filter (\<lambda>r. state_is_active (st_state r) \<and> st_reservation_date r = 3) (db_settlements sample_db1)))"
  using reachable_ledgers [OF store_run_trans [OF sample_runs(1,2)], of 3]
  by (simp add: sample_db1_eq reserved_at_def)

end
