(* ===== verification/Engine_Theorems.thy ===== *)
theory Engine_Theorems
  imports Recovery Journal_Theorems
begin

text \<open>
  What the engine does to the journal and to the network, whatever other sessions, other tasks, the
  database connection and the chain do at its await points. A submission is handed to the network only
  after its exact bytes are journaled and the row is marked submitted.
\<close>

section \<open>Submission bytes of a row\<close>

definition submission_bytes :: "settlement \<Rightarrow> bytes option" where
  "submission_bytes r = (case st_chain_kind r of
     Near \<Rightarrow> st_outer_transaction_bytes r | Eip155 \<Rightarrow> st_submitted_tx_rlp r)"

definition journaled_from :: "settlement_state \<Rightarrow> uuid \<Rightarrow> bytes \<Rightarrow> db \<Rightarrow> bool" where
  "journaled_from s i b d \<longleftrightarrow>
     (\<exists>r. find_row d i = Some r \<and> submission_bytes r = Some b \<and> s \<le> st_state r)"

lemma find_row_put:
  assumes "put_row d r = Inr d'" "find_row d (st_id r) = Some old"
  shows "find_row d' (st_id r) = Some r"
proof -
  have "find (\<lambda>s. st_id s = st_id r) (map (\<lambda>s. if st_id s = st_id r then r else s) rs) = Some r"
    if "find (\<lambda>s. st_id s = st_id r) rs = Some old" for rs
    using that by (induction rs) (auto split: if_splits)
  then show ?thesis
    using assms by (auto simp: put_row_def find_row_def split: if_splits option.splits)
qed

lemma put_row_checks: "put_row d r = Inr d' \<Longrightarrow> row_checks r"
  by (auto simp: put_row_def split: if_splits)

lemma db_inv_clean: "db_inv d \<Longrightarrow> find_row d i = Some r \<Longrightarrow> clean_row r"
  using find_row_Some_mem [of d i r] by (auto simp: db_inv_def)

lemma find_row_event [simp]: "find_row (insert_event d i f t c) j = find_row d j"
  by (simp add: find_row_def)

lemma find_row_id: "find_row d i = Some r \<Longrightarrow> st_id r = i"
  using find_row_Some_mem by blast

text \<open>A prepared row has passed the schema's checks, so its chain is the one whose columns it fills.\<close>

lemma mark_prepared_Inr:
  assumes "db_inv d" "mark_prepared d e = Inr d'"
  obtains r r' d1 where "find_row d (pe_settlement_id e) = Some r" "put_row d r' = Inr d1"
    "db_settlements d' = db_settlements d1" "st_id r' = pe_settlement_id e" "st_state r' = Prepared"
    "st_chain_kind r' = Near" "st_outer_transaction_bytes r' = Some (pe_transaction_bytes e)"
    "st_submitted_tx_rlp r' = None"
proof -
  obtain r d1 where r: "find_row d (pe_settlement_id e) = Some r" "st_state r = Reserved"
    and put: "put_row d (r\<lparr>st_state := Prepared, st_relayer_account_id := Some (pe_relayer_account_id e),
        st_relayer_public_key := Some (pe_relayer_public_key e), st_relayer_nonce := Some (pe_relayer_nonce e),
        st_outer_transaction_bytes := Some (pe_transaction_bytes e),
        st_outer_transaction_hash := Some (pe_transaction_hash e)\<rparr>) = Inr d1" (is "put_row d ?r = _")
    and d': "d' = insert_event d1 (pe_settlement_id e) (Some Reserved) Prepared (Some ''outer_transaction_persisted'')"
    using assms(2) by (auto simp: mark_prepared_def bind_res_Inr_iff split: option.splits if_splits)
  have "no_submission r" "nonterminal_submission_check ?r"
    using db_inv_clean [OF assms(1) r(1)] r(2) put_row_checks [OF put] by (simp_all add: clean_row_def row_checks_def)
  then have "st_chain_kind r = Near" "st_submitted_tx_rlp r = None"
    by (auto simp: nonterminal_submission_check_def evm_submission_def no_submission_def)
  then show thesis
    using that [OF r(1) put] d' find_row_id [OF r(1)] by simp
qed

lemma mark_prepared_evm_Inr:
  assumes "db_inv d" "mark_prepared_evm d e = Inr d'"
  obtains r r' d1 where "find_row d (ee_settlement_id e) = Some r" "put_row d r' = Inr d1"
    "db_settlements d' = db_settlements d1" "st_id r' = ee_settlement_id e" "st_state r' = Prepared"
    "st_chain_kind r' = Eip155" "st_submitted_tx_rlp r' = Some (ee_submitted_tx_rlp e)"
    "st_outer_transaction_bytes r' = None"
proof -
  obtain r d1 where r: "find_row d (ee_settlement_id e) = Some r" "st_state r = Reserved"
    and put: "put_row d (r\<lparr>st_state := Prepared, st_signer_account_nonce := Some (ee_signer_account_nonce e),
        st_submitted_tx_rlp := Some (ee_submitted_tx_rlp e), st_submitted_tx_hash := Some (ee_submitted_tx_hash e),
        st_required_confirmations := Some (ee_required_confirmations e)\<rparr>) = Inr d1" (is "put_row d ?r = _")
    and d': "d' = insert_event d1 (ee_settlement_id e) (Some Reserved) Prepared (Some ''evm_transaction_persisted'')"
    using assms(2) by (auto simp: mark_prepared_evm_def bind_res_Inr_iff split: option.splits if_splits)
  have "no_submission r" "nonterminal_submission_check ?r"
    using db_inv_clean [OF assms(1) r(1)] r(2) put_row_checks [OF put] by (simp_all add: clean_row_def row_checks_def)
  then have "st_chain_kind r = Eip155" "st_outer_transaction_bytes r = None"
    by (auto simp: nonterminal_submission_check_def near_submission_def no_submission_def)
  then show thesis
    using that [OF r(1) put] d' find_row_id [OF r(1)] by simp
qed

lemma find_row_same: "db_settlements d' = db_settlements d \<Longrightarrow> find_row d' i = find_row d i"
  by (simp add: find_row_def)

lemma journaled_put:
  assumes "find_row d (st_id r') = Some r" "put_row d r' = Inr d1" "db_settlements d' = db_settlements d1"
    and "submission_bytes r' = Some b" "s \<le> st_state r'"
  shows "journaled_from s (st_id r') b d'"
  using find_row_put [OF assms(2,1)] find_row_same [OF assms(3)] assms(4,5) by (auto simp: journaled_from_def)

lemma mark_prepared_journals:
  assumes "db_inv d" "mark_prepared d e = Inr d'"
  shows "journaled_from Prepared (pe_settlement_id e) (pe_transaction_bytes e) d'"
proof -
  obtain r r' d1 where r: "find_row d (pe_settlement_id e) = Some r" "put_row d r' = Inr d1"
    "db_settlements d' = db_settlements d1" "st_id r' = pe_settlement_id e" "st_state r' = Prepared"
    "st_chain_kind r' = Near" "st_outer_transaction_bytes r' = Some (pe_transaction_bytes e)"
    using assms by (rule mark_prepared_Inr)
  show ?thesis
    using journaled_put [of d r' r d1 d' "pe_transaction_bytes e" Prepared] r
    by (simp add: submission_bytes_def)
qed

lemma mark_prepared_evm_journals:
  assumes "db_inv d" "mark_prepared_evm d e = Inr d'"
  shows "journaled_from Prepared (ee_settlement_id e) (ee_submitted_tx_rlp e) d'"
proof -
  obtain r r' d1 where r: "find_row d (ee_settlement_id e) = Some r" "put_row d r' = Inr d1"
    "db_settlements d' = db_settlements d1" "st_id r' = ee_settlement_id e" "st_state r' = Prepared"
    "st_chain_kind r' = Eip155" "st_submitted_tx_rlp r' = Some (ee_submitted_tx_rlp e)"
    using assms by (rule mark_prepared_evm_Inr)
  show ?thesis
    using journaled_put [of d r' r d1 d' "ee_submitted_tx_rlp e" Prepared] r
    by (simp add: submission_bytes_def)
qed

lemma mark_submitted_journals:
  assumes "journaled_from Prepared i b d" "mark_submitted d i = Inr d'"
  shows "journaled_from Submitted i b d'"
proof -
  obtain r d1 where r: "find_row d i = Some r" and put: "put_row d (r\<lparr>st_state := Submitted\<rparr>) = Inr d1"
    and d': "d' = insert_event d1 i (Some Prepared) Submitted (Some ''broadcast_started'')"
    using assms(2) by (auto simp: mark_submitted_def bind_res_Inr_iff split: option.splits if_splits)
  then show ?thesis
    using find_row_put [OF put] find_row_id [OF r] assms(1)
    by (auto simp: journaled_from_def submission_bytes_def split: chain_kind.splits)
qed

lemma submission_bytes_kept:
  "row_evolves r r' \<Longrightarrow> submission_bytes r = Some b \<Longrightarrow> submission_bytes r' = Some b"
  by (auto simp: row_evolves_def same_identity_def submission_kept_def keeps_def submission_bytes_def
      split: chain_kind.splits)

lemma journaled_from_stable:
  assumes "db_inv d" "store_run d d'" "Prepared \<le> s" "journaled_from s i b d"
  shows "journaled_from s i b d'"
proof -
  obtain r where r: "find_row d i = Some r" "submission_bytes r = Some b" "s \<le> st_state r"
    using assms(4) by (auto simp: journaled_from_def)
  obtain r' where r': "find_row d' i = Some r'" "row_evolves r r'"
    using journal.lookup_run [of d d' i r] assms(1,2) r(1) by (auto simp: store_run_def)
  have "st_state r \<le> st_state r'"
    using r' state_run_order r(3) assms(3) by (auto simp: row_evolves_def)
  then show ?thesis
    using r r' submission_bytes_kept [OF r'(2)] by (auto simp: journaled_from_def)
qed


section \<open>Triples\<close>

text \<open>
  \<open>triple G P m Q\<close>: from a consistent database and \<open>P\<close>, the program \<open>m\<close> moves the database by journal
  operations only, every submission it hands to the network is journaled and marked submitted, at that
  moment and since, and
  satisfies \<open>G\<close> (of its settlement, bytes and gates), and \<open>Q\<close> holds of the result. \<open>quiet m\<close>: \<open>m\<close> hands nothing to the network.
\<close>

definition world_ok :: "world \<Rightarrow> bool" where
  "world_ok w \<longleftrightarrow> (\<forall>k d. db_inv d \<longrightarrow> store_run d (wo_db w k d))"

definition submitted_entry :: "db \<Rightarrow> sent_submission \<Rightarrow> bool" where
  "submitted_entry d s \<longleftrightarrow> journaled_from Submitted (sb_settlement_id s) (sb_bytes s) (sb_db s)
     \<and> journaled_from Submitted (sb_settlement_id s) (sb_bytes s) d"

definition triple ::
  "(sent_submission \<Rightarrow> bool) \<Rightarrow> (engine \<Rightarrow> bool) \<Rightarrow> 'a act \<Rightarrow> ('a \<Rightarrow> engine \<Rightarrow> bool) \<Rightarrow> bool" where
  "triple G P m Q \<longleftrightarrow> (\<forall>e x e'. db_inv (en_db e) \<longrightarrow> P e \<longrightarrow> run_state m e = (x, e') \<longrightarrow>
     store_run (en_db e) (en_db e')
     \<and> (\<exists>l. en_sent e' = en_sent e @ l \<and> (\<forall>s \<in> set l. submitted_entry (en_db e') s \<and> G s))
     \<and> Q x e')"

definition quiet :: "'a act \<Rightarrow> bool" where
  "quiet m \<longleftrightarrow> (\<forall>e x e'. db_inv (en_db e) \<longrightarrow> run_state m e = (x, e') \<longrightarrow>
     store_run (en_db e) (en_db e') \<and> en_sent e' = en_sent e)"

definition db_stable :: "(db \<Rightarrow> bool) \<Rightarrow> bool" where
  "db_stable D \<longleftrightarrow> (\<forall>d d'. db_inv d \<longrightarrow> store_run d d' \<longrightarrow> D d \<longrightarrow> D d')"

abbreviation on_db :: "(db \<Rightarrow> bool) \<Rightarrow> engine \<Rightarrow> bool" where
  "on_db D e \<equiv> D (en_db e)"

lemma stable_journaled: "Prepared \<le> s \<Longrightarrow> db_stable (journaled_from s i b)"
  unfolding db_stable_def using journaled_from_stable by blast

lemma stable_True: "db_stable (\<lambda>_. True)"
  by (simp add: db_stable_def)

lemma submitted_entry_stable: "db_stable (\<lambda>d. submitted_entry d s)"
  using stable_journaled [of Submitted "sb_settlement_id s" "sb_bytes s"]
  by (auto simp: submitted_entry_def db_stable_def less_eq_settlement_state_def)

lemma store_run_inv: "store_run d d' \<Longrightarrow> db_inv d \<Longrightarrow> db_inv d'"
  unfolding store_run_def by (rule journal.inv_run)

lemma run_bind: "run_state (State_Monad.bind m f) e = (case run_state m e of (x, e') \<Rightarrow> run_state (f x) e')"
  by (simp add: State_Monad.bind_def split: prod.split)

lemma triple_bind:
  assumes m: "triple G P m R" and f: "\<And>x. triple G (R x) (f x) Q"
  shows "triple G P (State_Monad.bind m f) Q"
  unfolding triple_def
proof (intro allI impI)
  fix e y e''
  assume e: "db_inv (en_db e)" "P e" and run: "run_state (State_Monad.bind m f) e = (y, e'')"
  obtain x e' where 1: "run_state m e = (x, e')" and 2: "run_state (f x) e' = (y, e'')"
    using run by (auto simp: run_bind split: prod.splits)
  obtain l where l: "store_run (en_db e) (en_db e')" "en_sent e' = en_sent e @ l" "R x e'"
      "\<forall>s \<in> set l. submitted_entry (en_db e') s \<and> G s"
    using m e 1 unfolding triple_def by blast
  have inv: "db_inv (en_db e')"
    using store_run_inv l(1) e(1) by blast
  obtain l' where l': "store_run (en_db e') (en_db e'')" "en_sent e'' = en_sent e' @ l'" "Q y e''"
      "\<forall>s \<in> set l'. submitted_entry (en_db e'') s \<and> G s"
    using f [of x] inv l(3) 2 unfolding triple_def by blast
  have "\<forall>s \<in> set l. submitted_entry (en_db e'') s"
    using l(4) l'(1) inv submitted_entry_stable unfolding db_stable_def by blast
  then show "store_run (en_db e) (en_db e'')
      \<and> (\<exists>l. en_sent e'' = en_sent e @ l \<and> (\<forall>s \<in> set l. submitted_entry (en_db e'') s \<and> G s))
      \<and> Q y e''"
    using l l' store_run_trans by (intro conjI exI [of _ "l @ l'"]) auto
qed

lemma triple_weaken: "triple G P m Q \<Longrightarrow> (\<And>e. P' e \<Longrightarrow> P e) \<Longrightarrow> (\<And>x e. Q x e \<Longrightarrow> Q' x e) \<Longrightarrow> triple G P' m Q'"
  unfolding triple_def by blast

lemma triple_pre: "triple G P m Q \<Longrightarrow> (\<And>e. P' e \<Longrightarrow> P e) \<Longrightarrow> triple G P' m Q"
  by (rule triple_weaken)

lemma triple_quiet:
  assumes "quiet m" "db_stable D"
  shows "triple G (on_db D) m (\<lambda>_. on_db D)"
  unfolding triple_def
proof (intro allI impI)
  fix e x e'
  assume "db_inv (en_db e)" "on_db D e" "run_state m e = (x, e')"
  then show "store_run (en_db e) (en_db e')
      \<and> (\<exists>l. en_sent e' = en_sent e @ l \<and> (\<forall>s \<in> set l. submitted_entry (en_db e') s \<and> G s)) \<and> on_db D e'"
    using assms by (intro conjI exI [of _ "[]"]) (auto simp: quiet_def db_stable_def)
qed

lemma triple_quiet_end: "quiet m \<Longrightarrow> triple G P m (\<lambda>_ _. True)"
  by (rule triple_pre [OF triple_weaken [OF triple_quiet [OF _ stable_True]]]) auto

lemma triple_if: "(b \<Longrightarrow> triple G P m Q) \<Longrightarrow> (\<not> b \<Longrightarrow> triple G P m' Q) \<Longrightarrow> triple G P (if b then m else m') Q"
  by simp

lemma triple_gates: "triple G P gates (\<lambda>g e. P e \<and> en_gates e = g)"
  unfolding triple_def gates_def by simp

lemma triple_send:
  assumes "\<And>e. P e \<Longrightarrow> on_db (journaled_from Submitted i b) e
      \<and> G \<lparr>sb_settlement_id = i, sb_bytes = b, sb_gates = en_gates e, sb_db = en_db e\<rparr>"
  shows "triple G P (send i b) (\<lambda>_ _. True)"
  unfolding triple_def send_def using assms by (auto simp: submitted_entry_def)

section \<open>Quiet programs\<close>

lemma quiet_bind: "quiet m \<Longrightarrow> (\<And>x. quiet (f x)) \<Longrightarrow> quiet (State_Monad.bind m f)"
  unfolding quiet_def by (auto simp: run_bind split: prod.splits intro: store_run_trans store_run_inv) (metis store_run_inv store_run_trans)+

lemma quiet_return: "quiet (State_Monad.return x)"
  by (simp add: quiet_def State_Monad.return_def)

lemma quiet_pause: "world_ok w \<Longrightarrow> quiet (pause w)"
  by (auto simp: quiet_def pause_def world_ok_def)

lemma quiet_gates: "quiet gates"
  by (auto simp: quiet_def gates_def)

lemma quiet_change_gates: "quiet (change_gates f)"
  by (auto simp: quiet_def change_gates_def)

lemma quiet_apply_db: "(\<And>d. db_inv d \<Longrightarrow> store_run d (snd (f d))) \<Longrightarrow> quiet (apply_db fault f)"
  by (auto simp: quiet_def apply_db_def split: db_fault.splits)

lemma quiet_write_db:
  "world_ok w \<Longrightarrow> (\<And>now d. db_inv d \<Longrightarrow> store_run d (snd (f now d))) \<Longrightarrow> quiet (write_db w f)"
  unfolding write_db_def by (intro quiet_bind quiet_pause quiet_apply_db)

lemma quiet_update_db:
  "world_ok w \<Longrightarrow> (\<And>now d d'. f now d = Inr d' \<Longrightarrow> store_step d d') \<Longrightarrow> quiet (update_db w f)"
  unfolding update_db_def
  by (rule quiet_write_db) (auto simp: committed_or_def store_run_def split: sum.splits)

lemma quiet_read_db: "world_ok w \<Longrightarrow> quiet (read_db w f)"
  unfolding read_db_def by (rule quiet_write_db) auto

lemma quiet_ask_chain: "world_ok w \<Longrightarrow> quiet (ask_chain w f)"
  unfolding ask_chain_def by (intro quiet_bind quiet_pause quiet_return)

lemma quiet_if: "quiet m \<Longrightarrow> quiet m' \<Longrightarrow> quiet (if b then m else m')"
  by simp

lemma quiet_case_sum: "(\<And>x. quiet (f x)) \<Longrightarrow> (\<And>y. quiet (g y)) \<Longrightarrow> quiet (case r of Inl x \<Rightarrow> f x | Inr y \<Rightarrow> g y)"
  by (cases r) simp_all

lemma quiet_case_option: "quiet m \<Longrightarrow> (\<And>y. quiet (g y)) \<Longrightarrow> quiet (case r of None \<Rightarrow> m | Some y \<Rightarrow> g y)"
  by (cases r) simp_all

lemma quiet_case_broadcast:
  assumes "\<And>t. quiet (f t)" "\<And>t. quiet (g t)" "quiet m"
  shows "quiet (case r of BroadcastTerminal t \<Rightarrow> f t | BroadcastRejected t \<Rightarrow> g t | BroadcastPending \<Rightarrow> m)"
  using assms by (cases r) simp_all

lemma quiet_case_prod: "(\<And>x y. quiet (f x y)) \<Longrightarrow> quiet (case p of (x, y) \<Rightarrow> f x y)"
  by (cases p) simp

lemma quiet_and_then: "quiet m \<Longrightarrow> (\<And>x. quiet (f x)) \<Longrightarrow> quiet (and_then m f)"
  unfolding and_then_def by (intro quiet_bind quiet_case_sum quiet_return)

lemmas quiet_basics = quiet_bind quiet_return quiet_gates quiet_change_gates quiet_if quiet_case_sum
  quiet_case_option quiet_case_broadcast quiet_case_prod quiet_and_then


lemma quiet_constants: "quiet close_reconciliation" "quiet ok" "quiet (fail e)" "quiet (lift_res r)"
  unfolding close_reconciliation_def ok_def fail_def lift_res_def
  by (intro quiet_return quiet_change_gates)+

lemmas quiet_world = quiet_basics quiet_constants quiet_pause quiet_read_db quiet_ask_chain

lemma quiet_mark_terminal:
  assumes w: "world_ok w"
  shows "quiet (update_db w (\<lambda>now d. mark_terminal now d e))"
  by (rule quiet_update_db [OF w]) (rule store_step.terminal)

lemma quiet_mark_submitted:
  assumes w: "world_ok w"
  shows "quiet (update_db w (\<lambda>_ d. mark_submitted d i))"
  by (rule quiet_update_db [OF w]) (rule store_step.submitted)

lemma quiet_mark_awaiting_retry:
  assumes w: "world_ok w"
  shows "quiet (update_db w (\<lambda>_ d. mark_awaiting_retry d i code))"
  by (rule quiet_update_db [OF w]) (rule store_step.awaiting_retry)

lemma quiet_note_reconciliation:
  assumes w: "world_ok w"
  shows "quiet (update_db w (\<lambda>_ d. note_reconciliation d i))"
  by (rule quiet_update_db [OF w]) (rule store_step.noted)

lemma quiet_quarantine:
  assumes w: "world_ok w"
  shows "quiet (quarantine a w k why n)"
  unfolding quarantine_def by (rule quiet_update_db [OF w]) (rule store_step.quarantined)

lemma quiet_raise:
  assumes w: "world_ok w"
  shows "quiet (write_db w (\<lambda>_ d. raise_required_confirmations d i m))"
proof (rule quiet_write_db [OF w])
  fix d
  show "store_run d (snd (raise_required_confirmations d i m))"
    unfolding store_run_def
    by (rule r_into_rtranclp) (cases "raise_required_confirmations d i m", auto intro: store_step.confirmations)
qed

lemma quiet_finalize_terminal:
  assumes w: "world_ok w"
  shows "quiet (finalize_terminal a w i payment outcome)"
  unfolding finalize_terminal_def Let_def by (intro quiet_world w quiet_mark_terminal)

lemma quiet_terminal_protocol_failure:
  assumes w: "world_ok w"
  shows "quiet (terminal_protocol_failure a w i why payer tx)"
  unfolding terminal_protocol_failure_def by (intro quiet_world w quiet_mark_terminal)

lemma quiet_terminal_transaction_rejected:
  assumes w: "world_ok w"
  shows "quiet (terminal_transaction_rejected a w i payer h)"
  unfolding terminal_transaction_rejected_def by (intro quiet_world w quiet_mark_terminal)

lemma quiet_retryable:
  assumes w: "world_ok w"
  shows "quiet (retryable_service_failure w i code)"
  unfolding retryable_service_failure_def by (intro quiet_world w quiet_mark_awaiting_retry)

lemma quiet_fresh_signer_head:
  assumes w: "world_ok w"
  shows "quiet (fresh_signer_head a w)"
  unfolding fresh_signer_head_def by (intro quiet_world w)

lemma quiet_finalize_reconciled:
  assumes w: "world_ok w"
  shows "quiet (finalize_reconciled_terminal a w record outcome)"
  unfolding finalize_reconciled_terminal_def Let_def by (intro quiet_world w quiet_mark_terminal quiet_quarantine)

lemma quiet_recovery_balance: "quiet (require_evm_recovery_balance a record balance)"
  unfolding require_evm_recovery_balance_def Let_def by (intro quiet_world)

lemma quiet_backup_head:
  assumes w: "world_ok w"
  shows "quiet (ask_backup_head a w message)"
  unfolding ask_backup_head_def by (intro quiet_world w)

lemma quiet_mark_submitted_if:
  assumes w: "world_ok w"
  shows "quiet (mark_submitted_if_prepared w record)"
  unfolding mark_submitted_if_prepared_def by (intro quiet_world w quiet_mark_submitted)

lemma quiet_release_reserved:
  assumes w: "world_ok w"
  shows "quiet (release_reserved w records)"
  by (induction records) (simp_all add: w quiet_world quiet_note_reconciliation quiet_retryable)


section \<open>The worker\<close>

lemma triple_update:
  assumes w: "world_ok w" and D: "db_stable D"
    and f: "\<And>now d d'. db_inv d \<Longrightarrow> D d \<Longrightarrow> f now d = Inr d' \<Longrightarrow> store_step d d' \<and> D' d'"
  shows "triple G (on_db D) (update_db w f) (\<lambda>r e. is_ok r \<longrightarrow> on_db D' e)"
proof -
  have pause: "triple G (on_db D) (pause w) (\<lambda>_. on_db D)"
    by (rule triple_quiet [OF quiet_pause [OF w] D])
  have applied: "triple G (on_db D) (apply_db fault (\<lambda>d. committed_or d (f now d))) (\<lambda>r e. is_ok r \<longrightarrow> on_db D' e)"
    for fault now
    unfolding triple_def apply_db_def using f [of _ now]
    by (auto simp: committed_or_def store_run_def split: db_fault.splits sum.splits)
  show ?thesis
    unfolding update_db_def write_db_def by (rule triple_bind [OF pause applied])
qed

lemma triple_ask:
  assumes "world_ok w" "db_stable D"
  shows "triple G (on_db D) (ask_chain w f) (\<lambda>x e. on_db D e \<and> (\<exists>p. x = f p))"
proof -
  have ret: "triple G (on_db D) (State_Monad.return (f p)) (\<lambda>x e. on_db D e \<and> (\<exists>p. x = f p))" for p
    by (auto simp: triple_def State_Monad.return_def)
  show ?thesis
    unfolding ask_chain_def by (rule triple_bind [OF triple_quiet [OF quiet_pause] ret]) (use assms in auto)
qed

lemma broadcast_bytes_prepared:
  assumes "chain_prepare lib p payment h = Inr prepared" "broadcast_bytes p' prepared payment = Some b"
  shows "b = pp_submit_bytes prepared"
  using assms
  by (cases p; cases p'; cases "vd_detail payment")
     (auto simp: bind_res_Inr_iff map_err_Inr_iff)

text \<open>Broadcasting a journaled submission, under the gates read just before.\<close>

lemma triple_broadcast:
  assumes w: "world_ok w" and D: "db_stable D"
    and b: "\<And>b'. broadcast_bytes (ap_provider a) prepared payment = Some b' \<Longrightarrow> b' = b"
    and G: "\<And>s. sb_settlement_id s = i \<Longrightarrow> can_settle (sb_gates s) \<Longrightarrow> G s"
    and g: "can_settle g"
    and rest: "\<And>outcome. quiet (rest outcome)"
  shows "triple G (\<lambda>e. on_db (journaled_from Submitted i b) e \<and> en_gates e = g)
    (State_Monad.bind (broadcast_prepared a w i prepared payment) rest) (\<lambda>_ _. True)"
proof -
  let ?P = "\<lambda>e. on_db (journaled_from Submitted i b) e \<and> en_gates e = g"
  have "triple G ?P (case broadcast_bytes (ap_provider a) prepared payment of
      Some b \<Rightarrow> send i b | None \<Rightarrow> State_Monad.return ()) (\<lambda>_ _. True)"
  proof (cases "broadcast_bytes (ap_provider a) prepared payment")
    case None
    then show ?thesis by (simp add: triple_quiet_end quiet_return)
  next
    case (Some b')
    with b [of b'] G g show ?thesis by (auto intro!: triple_send)
  qed
  moreover have "triple G (\<lambda>_. True) (ask_chain w f) (\<lambda>_ _. True)" for f :: "chain_provider \<Rightarrow> broadcast_outcome"
    using w by (intro triple_quiet_end quiet_ask_chain)
  ultimately have "triple G ?P (broadcast_prepared a w i prepared payment) (\<lambda>_ _. True)"
    unfolding broadcast_prepared_def by (rule triple_bind)
  then show ?thesis
    using rest by (rule triple_bind [OF _ triple_quiet_end])
qed


text \<open>The steps a settlement goes through: an update that must succeed, a gate check, a fresh head.\<close>

lemma triple_update_then:
  assumes "triple G P (update_db w f) (\<lambda>r e. is_ok r \<longrightarrow> on_db D' e)" "quiet m"
    and "triple G (on_db D') m' (\<lambda>_ _. True)"
  shows "triple G P (State_Monad.bind (update_db w f) (\<lambda>r. if \<not> is_ok r then m else m')) (\<lambda>_ _. True)"
  by (rule triple_bind [OF assms(1)]) (auto intro: triple_quiet_end assms(2) triple_pre [OF assms(3)])

lemma triple_gates_then:
  assumes "quiet m" and "\<And>g. c g \<Longrightarrow> triple G (\<lambda>e. P e \<and> en_gates e = g) m' (\<lambda>_ _. True)"
  shows "triple G P (State_Monad.bind gates (\<lambda>g. if \<not> c g then m else m')) (\<lambda>_ _. True)"
  by (rule triple_bind [OF triple_gates]) (auto intro: triple_quiet_end assms)

lemma triple_drop_gates: "triple G (on_db D) m Q \<Longrightarrow> triple G (\<lambda>e. on_db D e \<and> en_gates e = g) m Q"
  by (erule triple_pre) simp

lemma triple_quiet_then:
  assumes "quiet m" "db_stable D" "\<And>x. triple G (on_db D) (f x) (\<lambda>_ _. True)"
  shows "triple G (on_db D) (State_Monad.bind m f) (\<lambda>_ _. True)"
  by (rule triple_bind [OF triple_quiet [OF assms(1,2)] assms(3)])

lemma triple_case_sum:
  assumes "\<And>x. triple G P (f x) Q" "\<And>y. triple G P (g y) Q"
  shows "triple G P (case r of Inl x \<Rightarrow> f x | Inr y \<Rightarrow> g y) Q"
  using assms by (cases r) simp_all

lemma prepared_le: "Prepared \<le> Prepared" "Prepared \<le> Submitted"
  by (simp_all add: less_eq_settlement_state_def)

lemma triple_mark_submitted:
  assumes "world_ok w"
  shows "triple G (on_db (journaled_from Prepared i b)) (update_db w (\<lambda>_ d. mark_submitted d i))
    (\<lambda>r e. is_ok r \<longrightarrow> on_db (journaled_from Submitted i b) e)"
  by (rule triple_update [OF assms stable_journaled [OF prepared_le(1)]])
     (auto intro: store_step.submitted mark_submitted_journals)

lemma triple_broadcast_checked:
  assumes w: "world_ok w"
    and b: "\<And>b'. broadcast_bytes (ap_provider a) prepared payment = Some b' \<Longrightarrow> b' = b"
    and G: "\<And>s. sb_settlement_id s = i \<Longrightarrow> can_settle (sb_gates s) \<Longrightarrow> G s"
    and rest: "\<And>outcome. quiet (rest outcome)"
  shows "triple G (on_db (journaled_from Submitted i b)) (State_Monad.bind gates (\<lambda>g.
    if \<not> can_settle g then close_reconciliation
    else State_Monad.bind (broadcast_prepared a w i prepared payment) rest)) (\<lambda>_ _. True)"
  by (rule triple_gates_then [OF quiet_constants(1)]) (rule triple_broadcast [OF w stable_True b G _ rest])

text \<open>Marking a journaled submission submitted, behind a gate check.\<close>

lemma triple_submit_checked:
  assumes w: "world_ok w" and rest: "triple G (on_db (journaled_from Submitted i b)) rest (\<lambda>_ _. True)"
  shows "triple G (on_db (journaled_from Prepared i b)) (State_Monad.bind gates (\<lambda>g.
    if \<not> can_settle g then close_reconciliation
    else State_Monad.bind (update_db w (\<lambda>_ d. mark_submitted d i)) (\<lambda>r.
      if \<not> is_ok r then close_reconciliation else rest))) (\<lambda>_ _. True)"
  by (rule triple_gates_then [OF quiet_constants(1)])
     (rule triple_drop_gates [OF triple_update_then [OF triple_mark_submitted [OF w] quiet_constants(1) rest]])

lemma triple_head_then:
  assumes "world_ok w" "db_stable D" "quiet m" "\<And>h. triple G (on_db D) (f h) (\<lambda>_ _. True)"
  shows "triple G (on_db D) (State_Monad.bind (fresh_signer_head a w)
    (\<lambda>r. case r of Inl _ \<Rightarrow> m | Inr h \<Rightarrow> f h)) (\<lambda>_ _. True)"
  by (rule triple_quiet_then [OF quiet_fresh_signer_head [OF assms(1)] assms(2)])
     (intro triple_case_sum triple_quiet_end [OF assms(3)] assms(4))

lemma triple_settle_near:
  assumes w: "world_ok w"
    and b: "\<And>b'. broadcast_bytes (ap_provider a) prepared payment = Some b' \<Longrightarrow> b' = ds_bytes submission"
    and G: "\<And>s. sb_settlement_id s = i \<Longrightarrow> can_settle (sb_gates s) \<Longrightarrow> G s"
  shows "triple G (on_db (\<lambda>_. True)) (settle_prepared_near a w i prepared submission payment h) (\<lambda>_ _. True)"
proof -
  have "triple G (on_db (\<lambda>_. True)) (update_db w (\<lambda>_ d. mark_prepared d
       \<lparr>pe_settlement_id = i, pe_relayer_account_id = ds_submitter submission,
        pe_relayer_public_key = pp_signer_public_key prepared, pe_relayer_nonce = unat (ds_nonce submission),
        pe_transaction_bytes = ds_bytes submission, pe_transaction_hash = ds_hash submission\<rparr>))
    (\<lambda>r e. is_ok r \<longrightarrow> on_db (journaled_from Prepared i (ds_bytes submission)) e)"
    by (rule triple_update [OF w stable_True]) (auto intro: store_step.prepared dest: mark_prepared_journals)
  then show ?thesis
    unfolding settle_prepared_near_def
    by (rule triple_update_then [OF _ quiet_constants(1) triple_head_then [OF w stable_journaled [OF prepared_le(1)]
            quiet_constants(1) triple_if [OF triple_quiet_end
              triple_submit_checked [OF w triple_broadcast_checked [OF w b G]]]]])
       (intro quiet_world quiet_quarantine w quiet_finalize_terminal quiet_terminal_transaction_rejected | assumption)+
qed

lemma triple_settle_evm:
  assumes w: "world_ok w"
    and b: "\<And>b'. broadcast_bytes (ap_provider a) prepared payment = Some b' \<Longrightarrow> b' = ds_bytes submission"
    and G: "\<And>s. sb_settlement_id s = i \<Longrightarrow> can_settle (sb_gates s) \<Longrightarrow> G s"
  shows "triple G (on_db (\<lambda>_. True)) (settle_prepared_evm a w i prepared submission payment) (\<lambda>_ _. True)"
proof (cases "ds_recovery_policy submission")
  case NearFinality
  then show ?thesis
    unfolding settle_prepared_evm_def by (simp add: triple_quiet_end quiet_constants)
next
  case (EvmConfirmations depth)
  show ?thesis
  proof (cases "i32_of_u64 depth")
    case None
    with EvmConfirmations show ?thesis
      unfolding settle_prepared_evm_def by (simp add: triple_quiet_end quiet_constants)
  next
    case (Some required)
    have "triple G (on_db (\<lambda>_. True)) (update_db w (\<lambda>_ d. mark_prepared_evm d
       \<lparr>ee_settlement_id = i, ee_signer_account_nonce = unat (ds_nonce submission),
        ee_submitted_tx_rlp = ds_bytes submission, ee_submitted_tx_hash = ds_hash submission,
        ee_required_confirmations = required\<rparr>))
      (\<lambda>r e. is_ok r \<longrightarrow> on_db (journaled_from Prepared i (ds_bytes submission)) e)"
      by (rule triple_update [OF w stable_True]) (auto intro: store_step.prepared_evm dest: mark_prepared_evm_journals)
    then show ?thesis
      unfolding settle_prepared_evm_def EvmConfirmations Some recovery_policy.case option.case
      by (rule triple_update_then [OF _ quiet_constants(1) triple_submit_checked [OF w triple_gates_then
            [OF quiet_constants(1) triple_drop_gates [OF triple_head_then [OF w stable_journaled [OF prepared_le(2)]
              quiet_constants(1) triple_if [OF triple_quiet_end triple_broadcast_checked [OF w b G]]]]]]])
         (intro quiet_world quiet_quarantine w quiet_terminal_transaction_rejected | assumption)+
  qed
qed


lemma triple_case_option:
  assumes "triple G P m Q" "\<And>y. triple G P (g y) Q"
  shows "triple G P (case r of None \<Rightarrow> m | Some y \<Rightarrow> g y) Q"
  using assms by (cases r) simp_all

lemma triple_pure: "(c \<Longrightarrow> triple G P m Q) \<Longrightarrow> triple G (\<lambda>e. P e \<and> c) m Q"
  unfolding triple_def by blast

lemma triple_submit_prepared:
  assumes w: "world_ok w" and prepared: "chain_prepare lib p payment h = Inr prepared"
    and G: "\<And>s. sb_settlement_id s = i \<Longrightarrow> can_settle (sb_gates s) \<Longrightarrow> G s"
  shows "triple G (on_db (\<lambda>_. True)) (let submission = durable_submission_of (ap_provider a) prepared in
      case pp_detail prepared of
        EvmPreparedTx evm_prepared \<Rightarrow>
          (case ep_estimated_l1_fee_wei evm_prepared of
             None \<Rightarrow> retryable_service_failure w i ''l1_fee_estimation_failed''
           | Some estimated_l1_fee \<Rightarrow>
               if \<not> evm_reservation_covers_liability (ap_config a) estimated_l1_fee
               then retryable_service_failure w i ''sponsorship_reservation_insufficient''
               else settle_prepared_evm a w i prepared submission payment)
      | NearPrepared _ \<Rightarrow> settle_prepared_near a w i prepared submission payment h) (\<lambda>_ _. True)"
proof -
  have b: "b' = ds_bytes (durable_submission_of (ap_provider a) prepared)"
    if "broadcast_bytes (ap_provider a) prepared payment = Some b'" for b'
    using broadcast_bytes_prepared [OF prepared that] by (simp add: durable_submission_of_def)
  let ?s = "durable_submission_of (ap_provider a) prepared"
  have near: "triple G (on_db (\<lambda>_. True)) (settle_prepared_near a w i prepared ?s payment h) (\<lambda>_ _. True)"
    by (rule triple_settle_near [OF w b G])
  have evm: "triple G (on_db (\<lambda>_. True)) (settle_prepared_evm a w i prepared ?s payment) (\<lambda>_ _. True)"
    by (rule triple_settle_evm [OF w b G])
  show ?thesis
    using near evm triple_quiet_end [OF quiet_retryable [OF w]]
    unfolding Let_def by (simp split: prepared_detail.split option.split)
qed

lemma triple_run_new_settlement:
  assumes w: "world_ok w" and G: "\<And>s. sb_settlement_id s = i \<Longrightarrow> can_settle (sb_gates s) \<Longrightarrow> G s"
  shows "triple G (on_db (\<lambda>_. True)) (run_new_settlement a w i request) (\<lambda>_ _. True)"
proof -
  note quiets = quiet_retryable [OF w] quiet_terminal_protocol_failure [OF w]
  have prepare: "triple G (on_db (\<lambda>_. True)) (State_Monad.bind (ask_chain w (\<lambda>p. chain_prepare (ap_lib a) p payment h)) (\<lambda>r.
      case r of Inl _ \<Rightarrow> retryable_service_failure w i ''transaction_preparation_failed''
      | Inr prepared \<Rightarrow> f prepared)) (\<lambda>_ _. True)"
    if step: "\<And>p prepared. chain_prepare (ap_lib a) p payment h = Inr prepared \<Longrightarrow>
      triple G (on_db (\<lambda>_. True)) (f prepared) (\<lambda>_ _. True)" for payment h f
  proof (rule triple_bind [OF triple_ask [OF w stable_True]])
    fix r
    have "triple G (on_db (\<lambda>_. True)) (case r of
        Inl _ \<Rightarrow> retryable_service_failure w i ''transaction_preparation_failed''
      | Inr prepared \<Rightarrow> f prepared) (\<lambda>_ _. True)" if r: "\<exists>p. r = chain_prepare (ap_lib a) p payment h"
    proof (cases r)
      case (Inl e)
      then show ?thesis by (simp add: triple_quiet_end quiets)
    next
      case (Inr prepared)
      with r obtain p where "chain_prepare (ap_lib a) p payment h = Inr prepared" by metis
      with Inr show ?thesis using step by simp
    qed
    then show "triple G (\<lambda>e. on_db (\<lambda>_. True) e \<and> (\<exists>p. r = chain_prepare (ap_lib a) p payment h))
      (case r of Inl _ \<Rightarrow> retryable_service_failure w i ''transaction_preparation_failed''
       | Inr prepared \<Rightarrow> f prepared) (\<lambda>_ _. True)"
      by (rule triple_pure)
  qed
  show ?thesis
    unfolding run_new_settlement_def
    by (rule triple_quiet_then [OF quiet_pause [OF w] stable_True], rule triple_gates_then [OF quiets(1)],
        rule triple_drop_gates, rule triple_quiet_then [OF quiet_ask_chain [OF w] stable_True],
        rule triple_case_sum, (intro triple_quiet_end quiet_if quiets)[1],
        rule triple_quiet_then [OF quiet_read_db [OF w] stable_True],
        rule triple_case_sum, (intro triple_quiet_end quiets)[1],
        rule triple_case_option, (intro triple_quiet_end quiets)[1],
        rule triple_if, (intro triple_quiet_end quiets)[1],
        rule triple_head_then [OF w stable_True quiets(1)], rule prepare,
        rule triple_submit_prepared [OF w _ G])
qed


section \<open>One submission column per chain\<close>

definition kind_columns :: "settlement \<Rightarrow> bool" where
  "kind_columns r \<longleftrightarrow> (case st_chain_kind r of
     Near \<Rightarrow> st_submitted_tx_rlp r = None | Eip155 \<Rightarrow> st_outer_transaction_bytes r = None)"

definition columns_ok :: "db \<Rightarrow> bool" where
  "columns_ok d \<longleftrightarrow> (\<forall>r \<in> set (db_settlements d). kind_columns r)"

lemma put_row_columns:
  assumes "put_row d r = Inr d'" "columns_ok d" "kind_columns r"
  shows "columns_ok d'"
  using assms by (auto simp: put_row_def columns_ok_def split: if_splits option.splits)

lemma columns_ok_find: "columns_ok d \<Longrightarrow> find_row d i = Some r \<Longrightarrow> kind_columns r"
  using find_row_Some_mem [of d i r] by (auto simp: columns_ok_def)

lemma columns_same: "db_settlements d' = db_settlements d \<Longrightarrow> columns_ok d' = columns_ok d"
  by (simp add: columns_ok_def)

lemma columns_event [simp]: "columns_ok (insert_event d i f t c) = columns_ok d"
  by (simp add: columns_ok_def)

lemma columns_put:
  assumes "columns_ok d" "db_settlements d1 = db_settlements d" "put_row d1 r = Inr d2"
    and "db_settlements d' = db_settlements d2" "kind_columns r"
  shows "columns_ok d'"
  using put_row_columns [OF assms(3)] assms columns_same by metis

lemma kind_columns_like:
  assumes "kind_columns r" "st_chain_kind r' = st_chain_kind r" "st_submitted_tx_rlp r' = st_submitted_tx_rlp r"
    and "st_outer_transaction_bytes r' = st_outer_transaction_bytes r"
  shows "kind_columns r'"
  using assms by (simp add: kind_columns_def split: chain_kind.splits)

lemma resume_columns:
  assumes "resume_awaiting_retry t d q = (res, d')" "columns_ok d"
  shows "columns_ok d'"
proof (cases "d' = d")
  case False
  obtain r d1 d2 d3 where r: "find_row d (rr_settlement_id q) = Some r"
    and put: "put_row d (resumed_row t r q) = Inr d1"
    and g: "reserve_global_budget d1 t (rr_reservation_yocto_near q)
       (rr_global_daily_budget_yocto_near q) = Inr (Some d2)"
    and c: "reserve_client_budget d2 t (st_api_client_id r) (rr_reservation_yocto_near q)
       (rr_client_daily_budget_yocto_near q) = Inr (Some d3)"
    and d': "d' = insert_event d3 (rr_settlement_id q) (Some AwaitingRetry) Reserved (Some ''retry_resumed'')"
    using assms(1) False by (rule resume_changed)
  have "db_settlements d' = db_settlements d1"
    by (rule reserve_global_Some [OF g], rule reserve_client_Some [OF c]) (simp add: d')
  then show ?thesis
    using columns_put [OF assms(2) refl put] kind_columns_like [OF columns_ok_find [OF assms(2) r]]
    by (simp add: resumed_row_def)
qed (use assms in simp)

lemma claim_columns:
  assumes "claim_transaction t now d n = Inr (TxCommitted d')" "columns_ok d" "db_inv d"
  shows "columns_ok d'"
proof -
  have "db_settlements d' = db_settlements d @ [claim_row t now n]"
    by (rule claim_transaction_inv(2) [OF assms(3,1)])
  then show ?thesis
    using assms(2) by (simp add: columns_ok_def kind_columns_def claim_row_def split: chain_kind.split)
qed

lemma mark_awaiting_retry_columns:
  assumes "mark_awaiting_retry d i code = Inr d'" "columns_ok d"
  shows "columns_ok d'"
proof -
  obtain r d1 d2 where r: "find_row d i = Some r"
    and rel: "release_budget d (st_reservation_date r) (st_api_client_id r) (st_reserved_yocto_near r) 0 = Inr d1"
    and put: "put_row d1 (r\<lparr>st_state := AwaitingRetry, st_reserved_yocto_near := 0,
                        st_retry_code := Some code\<rparr>) = Inr d2"
    and d': "d' = insert_event d2 i (Some Reserved) AwaitingRetry (Some code)"
    using assms(1) by (auto simp: mark_awaiting_retry_def bind_res_Inr_iff split: option.splits if_splits)
  have "db_settlements d1 = db_settlements d"
    by (rule release_budget_Inr [OF rel]) simp
  then show ?thesis
    using columns_put [OF assms(2) _ put] kind_columns_like [OF columns_ok_find [OF assms(2) r]] d' by simp
qed

lemma mark_terminal_columns:
  assumes "mark_terminal now d e = Inr d'" "columns_ok d"
  shows "columns_ok d'"
proof (cases "d' = d")
  case False
  obtain r d1 d2 status where r: "find_row d (te_settlement_id e) = Some r"
    and rel: "release_budget d (st_reservation_date r) (st_api_client_id r)
        (st_reserved_yocto_near r) (te_actual_yocto_near e) = Inr d1"
    and put: "put_row d1 (terminal_row now r e status) = Inr d2"
    and d': "d' = insert_event d2 (te_settlement_id e) (Some (st_state r)) (te_state e) (te_error_code e)"
    using assms(1) False by (auto simp: mark_terminal_def bind_res_Inr_iff split: option.splits if_splits)
  have "db_settlements d1 = db_settlements d"
    by (rule release_budget_Inr [OF rel]) simp
  then show ?thesis
    using columns_put [OF assms(2) _ put] kind_columns_like [OF columns_ok_find [OF assms(2) r]] d'
    by (simp add: terminal_row_def)
qed (use assms in simp)

lemma small_updates_columns:
  assumes "columns_ok d"
  shows "mark_submitted d i = Inr d' \<Longrightarrow> columns_ok d'"
    and "note_reconciliation d i = Inr d' \<Longrightarrow> columns_ok d'"
    and "raise_required_confirmations d i m = (res, d') \<Longrightarrow> columns_ok d'"
proof -
  have put: "columns_ok d1" if "find_row d i = Some r" "put_row d r' = Inr d1" "st_chain_kind r' = st_chain_kind r"
    "st_submitted_tx_rlp r' = st_submitted_tx_rlp r" "st_outer_transaction_bytes r' = st_outer_transaction_bytes r"
    for r r' d1
    using columns_put [OF assms refl that(2) refl] kind_columns_like [OF columns_ok_find [OF assms that(1)] that(3-5)]
    by simp
  show "mark_submitted d i = Inr d' \<Longrightarrow> columns_ok d'"
    by (auto simp: mark_submitted_def bind_res_Inr_iff split: option.splits if_splits dest: put)
  show "note_reconciliation d i = Inr d' \<Longrightarrow> columns_ok d'"
    using assms by (auto simp: note_reconciliation_def split: option.splits dest: put)
  show "raise_required_confirmations d i m = (res, d') \<Longrightarrow> columns_ok d'"
    using assms
    by (auto simp: raise_required_confirmations_def Let_def split: option.splits if_splits sum.splits dest: put)
qed

lemma mark_prepared_columns:
  assumes "mark_prepared d e = Inr d'" "columns_ok d" "db_inv d"
  shows "columns_ok d'"
proof -
  obtain r r' d1 where "find_row d (pe_settlement_id e) = Some r" and put: "put_row d r' = Inr d1"
    "db_settlements d' = db_settlements d1" and "st_id r' = pe_settlement_id e" "st_state r' = Prepared"
    and "st_chain_kind r' = Near" "st_outer_transaction_bytes r' = Some (pe_transaction_bytes e)"
      "st_submitted_tx_rlp r' = None"
    using assms(3,1) by (rule mark_prepared_Inr)
  then show ?thesis
    using columns_put [OF assms(2) refl put] by (simp add: kind_columns_def)
qed

lemma mark_prepared_evm_columns:
  assumes "mark_prepared_evm d e = Inr d'" "columns_ok d" "db_inv d"
  shows "columns_ok d'"
proof -
  obtain r r' d1 where "find_row d (ee_settlement_id e) = Some r" and put: "put_row d r' = Inr d1"
    "db_settlements d' = db_settlements d1" and "st_id r' = ee_settlement_id e" "st_state r' = Prepared"
    and "st_chain_kind r' = Eip155" "st_submitted_tx_rlp r' = Some (ee_submitted_tx_rlp e)"
      "st_outer_transaction_bytes r' = None"
    using assms(3,1) by (rule mark_prepared_evm_Inr)
  then show ?thesis
    using columns_put [OF assms(2) refl put] by (simp add: kind_columns_def)
qed

lemma store_step_columns:
  assumes "store_step d d'" "db_inv d" "columns_ok d"
  shows "columns_ok d'"
  using assms(1)
proof (cases rule: store_step.cases)
  case claim
  then show ?thesis using claim_columns assms(2,3) by blast
next
  case awaiting_retry
  then show ?thesis using mark_awaiting_retry_columns assms(3) by blast
next
  case resumed
  then show ?thesis using resume_columns assms(3) by blast
next
  case prepared
  then show ?thesis using mark_prepared_columns assms(2,3) by blast
next
  case prepared_evm
  then show ?thesis using mark_prepared_evm_columns assms(2,3) by blast
next
  case terminal
  then show ?thesis using mark_terminal_columns assms(3) by blast
next
  case relayer
  then show ?thesis using assms(3) by (simp add: upsert_relayer_def columns_ok_def split: option.splits)
next
  case quarantined
  then show ?thesis using assms(3) by (auto simp: quarantine_relayer_def columns_ok_def split: if_splits)
next
  case client
  then show ?thesis
    using assms(3) by (auto simp: create_client_def columns_ok_def split: if_splits dest!: insert_api_key_Inr)
next
  case rotated
  then show ?thesis
    using assms(3) by (auto simp: rotate_client_key_def columns_ok_def split: if_splits dest!: insert_api_key_Inr)
next
  case (revoked cid changed)
  then have "d' = snd (revoke_client d cid)" by simp
  then show ?thesis using assms(3) by (simp add: revoke_client_def columns_ok_def)
next
  case payee
  then show ?thesis using assms(3) by (auto simp: allow_payee_def Let_def columns_ok_def split: if_splits)
next
  case budget
  then show ?thesis using assms(3) by (auto simp: set_client_budget_def columns_ok_def split: if_splits)
qed (use small_updates_columns [OF assms(3)] in blast)+

lemma columns_stable: "db_stable columns_ok"
proof -
  have "db_inv d' \<and> columns_ok d'" if "store_step\<^sup>*\<^sup>* d d'" "db_inv d" "columns_ok d" for d d'
    using that by induction (use store_step_columns store_step_inv in blast)+
  then show ?thesis by (simp add: db_stable_def store_run_def)
qed

end
