(* ===== verification/Recovery_Theorems.thy ===== *)
theory Recovery_Theorems
  imports Engine_Theorems
begin

text \<open>
  Reconciliation hands out journaled submissions only, and the service as a whole keeps the promises of
  an abstract journal: committed bytes and committed responses never change, and only committed bytes
  are sent.
\<close>

section \<open>Rules for recovery\<close>

lemma triple_and_then:
  assumes "triple G P m (\<lambda>r e. \<forall>x. r = Inr x \<longrightarrow> R x e)" and "\<And>x. triple G (R x) (f x) (\<lambda>_ _. True)"
  shows "triple G P (and_then m f) (\<lambda>_ _. True)"
  unfolding and_then_def
proof (rule triple_bind [OF assms(1)])
  fix r
  show "triple G (\<lambda>e. \<forall>x. r = Inr x \<longrightarrow> R x e)
      (case r of Inl e \<Rightarrow> State_Monad.return (Inl e) | Inr a \<Rightarrow> f a) (\<lambda>_ _. True)"
    by (cases r) (auto intro: triple_quiet_end quiet_return assms(2))
qed

lemma triple_quiet_and_then:
  assumes "quiet m" "db_stable D" "\<And>x. triple G (on_db D) (f x) (\<lambda>_ _. True)"
  shows "triple G (on_db D) (and_then m f) (\<lambda>_ _. True)"
  by (rule triple_and_then [OF triple_weaken [OF triple_quiet [OF assms(1,2)]]]) (auto intro: assms(3))

lemma triple_lift_then:
  assumes "\<And>x. r = Inr x \<Longrightarrow> triple G P (f x) (\<lambda>_ _. True)"
  shows "triple G P (and_then (lift_res r) f) (\<lambda>_ _. True)"
proof (rule triple_and_then)
  show "triple G P (lift_res r) (\<lambda>r' e. \<forall>x. r' = Inr x \<longrightarrow> P e \<and> r = Inr x)"
    by (auto simp: triple_def lift_res_def State_Monad.return_def)
  show "triple G (\<lambda>e. P e \<and> r = Inr x) (f x) (\<lambda>_ _. True)" for x
    by (rule triple_pure) (rule assms)
qed

text \<open>What is stable is kept by every program.\<close>

lemma triple_frame:
  assumes "triple G P m Q" "db_stable D"
  shows "triple G (\<lambda>e. P e \<and> on_db D e) m (\<lambda>x e. Q x e \<and> on_db D e)"
  using assms unfolding triple_def db_stable_def by blast

lemma triple_read:
  assumes "world_ok w" "db_stable D"
  shows "triple G (on_db D) (read_db w f) (\<lambda>r e. \<forall>x. r = Inr x \<longrightarrow> on_db D e \<and> x = f (en_db e))"
proof -
  have applied: "triple G (on_db D) (apply_db fault (\<lambda>d. (Inr (f d), d)))
      (\<lambda>r e. \<forall>x. r = Inr x \<longrightarrow> on_db D e \<and> x = f (en_db e))" for fault
    unfolding triple_def apply_db_def by (auto simp: store_run_def split: db_fault.splits)
  show ?thesis
    unfolding read_db_def write_db_def
    by (rule triple_bind [OF triple_quiet [OF quiet_pause] applied]) (use assms in auto)
qed

section \<open>Rebroadcasting\<close>

lemma corrupt_Inr [simp]: "corrupt v message = Inr x \<longleftrightarrow> v = Some x"
  by (simp add: corrupt_def ok_or_def split: option.split)

lemma triple_rebroadcast:
  assumes w: "world_ok w"
    and P: "\<And>e. P e \<Longrightarrow> on_db (journaled_from Submitted (st_id record) b) e
      \<and> G \<lparr>sb_settlement_id = st_id record, sb_bytes = b, sb_gates = en_gates e, sb_db = en_db e\<rparr>"
  shows "triple G P (rebroadcast_stored a w record b hash_text) (\<lambda>_ _. True)"
  unfolding rebroadcast_stored_def
  by (rule triple_bind [OF triple_send triple_quiet_end], rule P, assumption)
     (intro quiet_world w quiet_finalize_reconciled quiet_terminal_transaction_rejected)

lemma triple_mark_submitted_if:
  assumes w: "world_ok w" and st: "st_state record = Prepared \<or> st_state record = Submitted"
    and rest: "triple G (on_db (journaled_from Submitted (st_id record) b)) m (\<lambda>_ _. True)"
  shows "triple G (on_db (journaled_from (st_state record) (st_id record) b))
    (and_then (mark_submitted_if_prepared w record) (\<lambda>_. m)) (\<lambda>_ _. True)"
proof (rule triple_and_then [OF _ rest])
  let ?J = "\<lambda>s. on_db (journaled_from s (st_id record) b)"
  show "triple G (?J (st_state record)) (mark_submitted_if_prepared w record) (\<lambda>r e. \<forall>x. r = Inr x \<longrightarrow> ?J Submitted e)"
  proof (cases "st_state record = Prepared")
    case True
    then show ?thesis
      unfolding mark_submitted_if_prepared_def
      by (simp, intro triple_weaken [OF triple_mark_submitted [OF w]]) auto
  next
    case False
    with st show ?thesis
      unfolding mark_submitted_if_prepared_def
      by (simp, intro triple_weaken [OF triple_quiet [OF quiet_constants(2) stable_journaled [OF prepared_le(2)]]]) auto
  qed
qed

lemma state_prepared_le: "s = Prepared \<or> s = Submitted \<Longrightarrow> Prepared \<le> s"
  using prepared_le by auto

lemma triple_recover_evm:
  assumes w: "world_ok w" and st: "st_state record = Prepared \<or> st_state record = Submitted"
    and G: "\<And>s. sb_settlement_id s = st_id record \<Longrightarrow> can_reconciliation_broadcast (sb_gates s) \<Longrightarrow> G s"
  shows "triple G (on_db (journaled_from (st_state record) (st_id record) b))
    (recover_unknown_evm a w record b hash_text nonce) (\<lambda>_ _. True)"
  unfolding recover_unknown_evm_def
  apply (rule triple_mark_submitted_if [OF w st])
  apply (rule triple_gates_then [OF quiet_constants(3)])
  apply (rule triple_drop_gates)
  apply (rule triple_quiet_and_then [OF quiet_fresh_signer_head [OF w] stable_journaled [OF prepared_le(2)]])
  apply (rule triple_quiet_and_then [OF quiet_recovery_balance stable_journaled [OF prepared_le(2)]])
  apply (rule triple_if, (intro triple_quiet_end quiet_world quiet_quarantine w)[1])
  apply (rule triple_if, (intro triple_quiet_end quiet_world)[1])
  apply (rule triple_gates_then [OF quiet_constants(3)])
  apply (rule triple_rebroadcast [OF w])
  apply (simp add: G)
  done

lemma triple_recover_near:
  assumes w: "world_ok w" and st: "st_state record = Prepared \<or> st_state record = Submitted"
    and G: "\<And>s. sb_settlement_id s = st_id record \<Longrightarrow> G s"
  shows "triple G (on_db (journaled_from (st_state record) (st_id record) b))
    (recover_unknown_near a w record b hash_text) (\<lambda>_ _. True)"
  unfolding recover_unknown_near_def
  apply (rule triple_quiet_and_then [OF quiet_fresh_signer_head [OF w] stable_journaled [OF state_prepared_le [OF st]]])
  apply (rule triple_quiet_and_then [OF quiet_backup_head [OF w] stable_journaled [OF state_prepared_le [OF st]]])
  apply (rule triple_lift_then)
  apply (rule triple_if, (intro triple_quiet_end quiet_world quiet_quarantine w)[1])
  apply (rule triple_lift_then)
  apply (rule triple_if, (intro triple_quiet_end quiet_world quiet_terminal_protocol_failure w)[1])
  apply (rule triple_mark_submitted_if [OF w st])
  apply (rule triple_gates_then [OF quiet_constants(3)])
  apply (rule triple_drop_gates)
  apply (rule triple_quiet_and_then [OF quiet_fresh_signer_head [OF w] stable_journaled [OF prepared_le(2)]])
  apply (rule triple_quiet_and_then [OF quiet_backup_head [OF w] stable_journaled [OF prepared_le(2)]])
  apply (rule triple_if, (intro triple_quiet_end quiet_world)[1])
  apply (rule triple_rebroadcast [OF w])
  apply (simp add: G)
  done

section \<open>One row\<close>

lemma triple_verdict:
  assumes "\<And>outcome. triple G P (f outcome) Q" "triple G P m1 Q" "\<And>e. triple G P (g e) Q" "triple G P m2 Q"
    "triple G P m3 Q" "triple G P m4 Q"
  shows "triple G P (case v of VerdictTerminal outcome \<Rightarrow> f outcome | VerdictPending \<Rightarrow> m1
     | VerdictIndeterminate e \<Rightarrow> g e | VerdictUnknown \<Rightarrow> m2 | VerdictConflict \<Rightarrow> m3 | VerdictAmbiguous \<Rightarrow> m4) Q"
  using assms by (cases v) simp_all

text \<open>A row read earlier is still there, evolved.\<close>

definition recorded :: "settlement \<Rightarrow> db \<Rightarrow> bool" where
  "recorded record d \<longleftrightarrow> (\<exists>r. find_row d (st_id record) = Some r \<and> row_evolves record r)"

lemma recorded_stable: "db_stable (recorded record)"
  unfolding db_stable_def recorded_def store_run_def using journal.lookup_run row_evolves_trans by blast

lemma recorded_journaled:
  assumes "recorded record d" "submission_bytes record = Some b" "Prepared \<le> st_state record"
  shows "journaled_from (st_state record) (st_id record) b d"
proof -
  obtain r where r: "find_row d (st_id record) = Some r" "row_evolves record r"
    using assms(1) by (auto simp: recorded_def)
  have "st_state record \<le> st_state r"
    using r(2) state_run_order assms(3) by (auto simp: row_evolves_def)
  then show ?thesis
    using r submission_bytes_kept [OF r(2) assms(2)] by (auto simp: journaled_from_def)
qed

lemma kind_columns_bytes:
  assumes "kind_columns r"
  shows "st_submitted_tx_rlp r = Some b \<Longrightarrow> submission_bytes r = Some b"
    and "st_outer_transaction_bytes r = Some b \<Longrightarrow> submission_bytes r = Some b"
  using assms by (auto simp: kind_columns_def submission_bytes_def split: chain_kind.splits)

text \<open>Once the stored bytes are read, the rest of a row's reconciliation may rely on their being journaled.\<close>

lemma triple_from_recorded:
  assumes "triple G (on_db (journaled_from (st_state record) (st_id record) b)) m Q"
    and "submission_bytes record = Some b" "st_state record = Prepared \<or> st_state record = Submitted"
  shows "triple G (on_db (recorded record)) m Q"
  by (rule triple_pre [OF assms(1)]) (rule recorded_journaled [OF _ assms(2) state_prepared_le [OF assms(3)]])

lemma triple_reconcile_evm:
  assumes w: "world_ok w" and st: "st_state record = Prepared \<or> st_state record = Submitted"
    and G: "\<And>s. sb_settlement_id s = st_id record \<Longrightarrow> can_reconciliation_broadcast (sb_gates s) \<Longrightarrow> G s"
    and columns: "kind_columns record"
  shows "triple G (on_db (recorded record)) (reconcile_prepared_evm a w record) (\<lambda>_ _. True)"
proof -
  have D: "db_stable (journaled_from (st_state record) (st_id record) b)" for b
    by (rule stable_journaled [OF state_prepared_le [OF st]])
  show ?thesis
    unfolding reconcile_prepared_evm_def corrupt_Inr
    apply (rule triple_lift_then)
    apply (rule triple_if, (intro triple_quiet_end quiet_world)[1])
    apply (rule triple_lift_then)
    apply (rule triple_lift_then)
    subgoal for signer hash_text b
      apply (rule triple_from_recorded [OF _ _ st, of _ b])
       apply (rule triple_lift_then)
       apply (rule triple_quiet_and_then [OF quiet_raise [OF w] D])
       apply (rule triple_lift_then)
       apply (rule triple_lift_then)
       apply (rule triple_if, (intro triple_quiet_end quiet_world)[1])
       apply (rule triple_lift_then)
       apply (simp only: split_beta)
       apply (rule triple_if, (intro triple_quiet_end quiet_world)[1])
       apply (rule triple_lift_then)
       apply (rule triple_case_sum, (intro triple_quiet_end quiet_world)[1])
       apply (rule triple_quiet_then [OF quiet_ask_chain [OF w] D])
       apply (intro triple_verdict triple_recover_evm [OF w st G] triple_quiet_end quiet_world quiet_finalize_reconciled w)
        apply assumption+
      apply (simp add: kind_columns_bytes [OF columns])
      done
    done
qed

lemma triple_reconcile_near:
  assumes w: "world_ok w" and st: "st_state record = Prepared \<or> st_state record = Submitted"
    and G: "\<And>s. sb_settlement_id s = st_id record \<Longrightarrow> G s" and columns: "kind_columns record"
  shows "triple G (on_db (recorded record)) (reconcile_prepared_near a w record) (\<lambda>_ _. True)"
proof -
  have D: "db_stable (journaled_from (st_state record) (st_id record) b)" for b
    by (rule stable_journaled [OF state_prepared_le [OF st]])
  show ?thesis
    unfolding reconcile_prepared_near_def Let_def
    apply (rule triple_if, (intro triple_quiet_end quiet_world)[1])
    apply (rule triple_lift_then)
    apply (rule triple_lift_then)
    apply (rule triple_lift_then)
    subgoal for hash_text h b
      apply (rule triple_from_recorded [OF _ _ st, of _ b])
       apply (rule triple_lift_then)
       apply (rule triple_lift_then)
       apply (rule triple_case_sum, (intro triple_quiet_end quiet_world)[1])
       apply (rule triple_quiet_then [OF quiet_ask_chain [OF w] D])
       apply (intro triple_verdict triple_recover_near [OF w st G] triple_quiet_end quiet_world quiet_finalize_reconciled w)
       apply assumption+
      apply (simp add: kind_columns_bytes [OF columns])
      done
    done
qed

text \<open>On an EVM provider the gates are checked in the step before the rebroadcast.\<close>

fun recovery_gates_ok :: "chain_provider \<Rightarrow> sent_submission \<Rightarrow> bool" where
  "recovery_gates_ok (EvmProvider _ _) s = can_reconciliation_broadcast (sb_gates s)"
| "recovery_gates_ok (NearProvider _ _) s = True"

lemma triple_reconcile_prepared:
  assumes "world_ok w" "st_state record = Prepared \<or> st_state record = Submitted" "kind_columns record"
    and "\<And>s. sb_settlement_id s = st_id record \<Longrightarrow> recovery_gates_ok (ap_provider a) s \<Longrightarrow> G s"
  shows "triple G (on_db (recorded record)) (reconcile_prepared a w record) (\<lambda>_ _. True)"
  using assms unfolding reconcile_prepared_def
  by (cases "ap_provider a") (simp_all add: triple_reconcile_evm triple_reconcile_near)

section \<open>The pass\<close>

definition all_recorded :: "settlement list \<Rightarrow> db \<Rightarrow> bool" where
  "all_recorded records d \<longleftrightarrow> (\<forall>r \<in> set records. recorded r d)"

lemma all_recorded_stable: "db_stable (all_recorded records)"
  using recorded_stable unfolding db_stable_def all_recorded_def by blast

lemma triple_reconcile_rows:
  assumes w: "world_ok w" and G: "\<And>s. sb_settlement_id s \<in> st_id ` set records \<Longrightarrow> recovery_gates_ok (ap_provider a) s \<Longrightarrow> G s"
    and columns: "\<forall>r \<in> set records. kind_columns r"
  shows "triple G (on_db (all_recorded records)) (reconcile_rows a w records) (\<lambda>_ _. True)"
  using G columns
proof (induction records)
  case Nil
  then show ?case by (simp add: triple_quiet_end quiet_constants)
next
  case (Cons rw records)
  let ?D = "all_recorded (rw # records)"
  have IH: "triple G (on_db ?D) (reconcile_rows a w records) (\<lambda>_ _. True)"
    by (rule triple_pre [OF Cons.IH]) (use Cons.prems in \<open>auto simp: all_recorded_def\<close>)
  have tail: "triple G (on_db ?D) (and_then (read_db w (\<lambda>d. find_row d (st_id rw))) (\<lambda>current.
      if (case current of Some current \<Rightarrow> \<not> is_terminal (st_state current) | None \<Rightarrow> False) then ok
      else reconcile_rows a w records)) (\<lambda>_ _. True)"
    by (rule triple_quiet_and_then [OF quiet_read_db [OF w] all_recorded_stable])
       (intro triple_if triple_quiet_end quiet_constants IH)
  have row: "triple G (on_db ?D) (reconcile_prepared a w rw) (\<lambda>r e. \<forall>x. r = Inr x \<longrightarrow> on_db ?D e)"
    if "st_state rw = Prepared \<or> st_state rw = Submitted"
    by (rule triple_weaken [OF triple_frame [OF triple_reconcile_prepared [OF w that]
          all_recorded_stable [of "rw # records"]]])
       (use Cons.prems in \<open>auto simp: all_recorded_def\<close>)
  show ?case
    unfolding reconcile_rows.simps
    by (intro triple_if triple_quiet_and_then [OF quiet_note_reconciliation [OF w] all_recorded_stable] IH
        triple_and_then [OF row tail])
qed

lemma triple_pre_inv:
  "triple G P m Q \<Longrightarrow> (\<And>e. db_inv (en_db e) \<Longrightarrow> P' e \<Longrightarrow> P e) \<Longrightarrow> triple G P' m Q"
  unfolding triple_def by blast

lemma nonterminal_recorded:
  assumes "db_inv d"
  shows "all_recorded (nonterminal_settlements d) d"
  using find_row_mem [OF db_inv_ids [OF assms]] row_evolves_refl
  by (fastforce simp: all_recorded_def recorded_def nonterminal_settlements_def)

lemma nonterminal_columns: "columns_ok d \<Longrightarrow> \<forall>r \<in> set (nonterminal_settlements d). kind_columns r"
  by (simp add: columns_ok_def nonterminal_settlements_def)

lemma triple_reconcile:
  assumes w: "world_ok w" and G: "\<And>s. recovery_gates_ok (ap_provider a) s \<Longrightarrow> G s"
  shows "triple G (on_db columns_ok) (reconcile a w) (\<lambda>_ _. True)"
proof -
  have remaining: "quiet (and_then (read_db w nonterminal_settlements) (\<lambda>remaining.
      State_Monad.bind (change_gates (set_reconciliation (remaining = []))) (\<lambda>_. ok)))"
    by (intro quiet_world w)
  have pass: "triple G (\<lambda>e. on_db columns_ok e \<and> records = nonterminal_settlements (en_db e))
      (and_then (release_reserved w records) (\<lambda>_. and_then (reconcile_rows a w records) (\<lambda>_. m))) (\<lambda>_ _. True)"
    if m: "quiet m" for records and m :: "(store_error + unit) act"
  proof (rule triple_pre_inv [of _ "\<lambda>e. on_db (all_recorded records) e \<and> (\<forall>r \<in> set records. kind_columns r)"])
    show "triple G (\<lambda>e. on_db (all_recorded records) e \<and> (\<forall>r \<in> set records. kind_columns r))
      (and_then (release_reserved w records) (\<lambda>_. and_then (reconcile_rows a w records) (\<lambda>_. m))) (\<lambda>_ _. True)"
      by (rule triple_pure, rule triple_quiet_and_then [OF quiet_release_reserved [OF w] all_recorded_stable],
          rule triple_and_then [OF triple_weaken [OF triple_reconcile_rows [OF w G]]])
         (auto intro: triple_quiet_end m)
  qed (use nonterminal_recorded nonterminal_columns in blast)
  show ?thesis
    unfolding reconcile_def
    by (rule triple_gates_then [OF quiet_constants(3)], rule triple_drop_gates,
        rule triple_quiet_then [OF quiet_constants(1) columns_stable],
        rule triple_quiet_then [OF quiet_pause [OF w] columns_stable],
        rule triple_and_then [OF triple_read [OF w columns_stable] pass [OF remaining]])
qed

end
