(* ===== verification/Canonical.thy ===== *)
theory Canonical
  imports Protocol
begin

text \<open>
  What the request fingerprint commits to. \<open>canon\<close> sorts every object of a value by its keys; two
  requests have the same canonical text exactly when they are equal up to the order of keys, and the
  text hashed separates the request from the payment hash.
\<close>

section \<open>Canonical values\<close>

fun canon :: "json \<Rightarrow> json" where
  "canon (JArray vs) = JArray (map canon vs)"
| "canon (JObject m) = JObject (sort_key fst (map (\<lambda>kv. (fst kv, canon (snd kv))) m))"
| "canon JNull = JNull"
| "canon (JBool b) = JBool b"
| "canon (JNumber n) = JNumber n"
| "canon (JString s) = JString s"

fun in_order :: "(string \<Rightarrow> string) \<Rightarrow> json \<Rightarrow> string" where
  "in_order q JNull = ''null''"
| "in_order q (JBool b) = (if b then ''true'' else ''false'')"
| "in_order q (JNumber n) = number_text n"
| "in_order q (JString s) = q s"
| "in_order q (JArray vs) = ''['' @ comma_join (map (in_order q) vs) @ '']''"
| "in_order q (JObject m) = ''{'' @ comma_join (map (\<lambda>kv. q (fst kv) @ '':'' @ in_order q (snd kv)) m) @ ''}''"

lemma map_fst_sort_key: "map fst (sort_key fst m) = sort (map fst (m :: ('a::linorder \<times> 'b) list))"
proof -
  have ins: "map fst (insort_key fst x ys) = insort (fst x) (map fst ys)" for x :: "'a \<times> 'b" and ys
    by (induction ys) auto
  show ?thesis
    by (induction m) (simp_all add: ins)
qed

lemma sorted_lookup_entries:
  assumes "distinct (map fst m)"
  shows "map (\<lambda>k. f k (map_of m k)) (sort (map fst m)) = map (\<lambda>kv. f (fst kv) (Some (snd kv))) (sort_key fst m)"
proof -
  have "map (\<lambda>k. f k (map_of m k)) (map fst (sort_key fst m))
      = map (\<lambda>kv. f (fst kv) (Some (snd kv))) (sort_key fst m)"
    using assms by (auto simp: map_of_eq_Some_iff)
  then show ?thesis
    by (simp only: map_fst_sort_key)
qed

lemma sort_key_map_snd:
  "sort_key fst (map (\<lambda>kv. (fst kv, g (snd kv))) m) = map (\<lambda>kv. (fst kv, g (snd kv))) (sort_key fst m)"
proof -
  have ins: "insort_key fst (fst x, g (snd x)) (map (\<lambda>kv. (fst kv, g (snd kv))) ys)
      = map (\<lambda>kv. (fst kv, g (snd kv))) (insort_key fst x ys)" for x ys
    by (induction ys) auto
  show ?thesis
    by (induction m) (simp_all add: ins)
qed

lemma write_canonical_in_order: "json_wf v \<Longrightarrow> write_canonical_json q v = in_order q (canon v)"
proof (induction q v rule: write_canonical_json.induct)
  case (5 q vs)
  then show ?case
    by (simp add: comp_def cong: map_cong)
next
  case (6 q m)
  define w where "w = map (\<lambda>kv. (fst kv, write_canonical_json q (snd kv))) m"
  have keys: "map fst w = map fst m" and d: "distinct (map fst w)"
    using 6 by (simp_all add: w_def comp_def)
  have w: "w = map (\<lambda>kv. (fst kv, in_order q (canon (snd kv)))) m"
    using 6 by (auto simp: w_def)
  have "map (\<lambda>k. q k @ '':'' @ (case map_of w k of Some t \<Rightarrow> t | None \<Rightarrow> [])) (sort (map fst w))
      = map (\<lambda>kv. q (fst kv) @ '':'' @ snd kv) (sort_key fst w)"
    using sorted_lookup_entries [OF d, of "\<lambda>k t. q k @ '':'' @ (case t of Some t \<Rightarrow> t | None \<Rightarrow> [])"] by simp
  also have "\<dots> = map (\<lambda>kv. q (fst kv) @ '':'' @ in_order q (snd kv))
      (sort_key fst (map (\<lambda>kv. (fst kv, canon (snd kv))) m))"
    by (simp add: w sort_key_map_snd [of "\<lambda>v. in_order q (canon v)"] sort_key_map_snd [of canon] comp_def)
  finally show ?case
    by (simp add: Let_def jkeys_def flip: w_def keys)
qed auto

section \<open>Reading canonical text back\<close>

text \<open>
  The laws of JSON text the fingerprint relies on: a string literal starts with a quotation mark and
  ends where it ends whatever follows it, and the text of a float is made of the characters of JSON
  numbers and has a point or an exponent.
\<close>

definition string_literals :: "(string \<Rightarrow> string) \<Rightarrow> bool" where
  "string_literals q \<longleftrightarrow>
     (\<forall>s. \<exists>r. q s = CHR 0x22 # r) \<and> (\<forall>s t u v. q s @ u = q t @ v \<longrightarrow> s = t \<and> u = v)"

definition number_char :: "char \<Rightarrow> bool" where
  "number_char c \<longleftrightarrow> is_ascii_digit c \<or> c \<in> set ''-+.eE''"

fun number_wf :: "number \<Rightarrow> bool" where
  "number_wf (PosInt n) = True"
| "number_wf (NegInt i) = (i < 0)"
| "number_wf (Float s) = (list_all number_char s \<and> list_ex (\<lambda>c. c \<in> set ''.eE'') s)"

fun numbers_wf :: "json \<Rightarrow> bool" where
  "numbers_wf (JNumber n) = number_wf n"
| "numbers_wf (JArray vs) = (\<forall>v \<in> set vs. numbers_wf v)"
| "numbers_wf (JObject m) = (\<forall>kv \<in> set m. numbers_wf (snd kv))"
| "numbers_wf _ = True"

definition delimited :: "string \<Rightarrow> bool" where
  "delimited u \<longleftrightarrow> (case u of [] \<Rightarrow> True | c # _ \<Rightarrow> c \<in> set '',]}'')"

lemma delimited_simps [simp]:
  "delimited []" "delimited (c # u) \<longleftrightarrow> c = CHR '','' \<or> c = CHR '']'' \<or> c = CHR ''}''"
  by (auto simp: delimited_def)

lemma digits_number_text: "all_digits s \<Longrightarrow> list_all number_char s \<and> \<not> list_ex (\<lambda>c. c \<in> set ''.eE'') s
    \<and> CHR ''-'' \<notin> set s"
  by (induction s) (auto simp: all_digits_def number_char_def is_ascii_digit_def)

lemma decimal_text_inj: "decimal_text m = decimal_text n \<Longrightarrow> m = n"
  by (metis decimal_text_value)

lemma number_text_chars: "number_wf n \<Longrightarrow> list_all number_char (number_text n) \<and> number_text n \<noteq> []"
  by (cases n) (auto simp: number_text_def number_char_def
      digits_number_text decimal_text_digits)


lemma number_text_unambiguous:
  assumes "number_wf a" "number_wf b" "number_text a = number_text b"
  shows "a = b"
proof -
  note d = digits_number_text [OF decimal_text_digits [THEN conjunct1]]
  have hd_digit: "CHR ''-'' # decimal_text m \<noteq> decimal_text n" for m n
    using d [of n] by (metis list.set_intros(1))
  have no_float: "\<not> list_ex (\<lambda>c. c \<in> set ''.eE'') (CHR ''-'' # decimal_text m)" for m
    using d [of m] by simp
  show ?thesis
    using assms hd_digit hd_digit [symmetric] no_float d
    by (cases a; cases b) (auto simp: number_text_def word_unat_eq_iff dest!: decimal_text_inj)
qed

lemma span_unique:
  assumes "list_all P s" "list_all P t" "s @ u = t @ v"
    and "case u of [] \<Rightarrow> True | c # _ \<Rightarrow> \<not> P c" "case v of [] \<Rightarrow> True | c # _ \<Rightarrow> \<not> P c"
  shows "s = t \<and> u = v"
proof -
  have take: "takeWhile P (x @ y) = x" if "list_all P x" "case y of [] \<Rightarrow> True | c # _ \<Rightarrow> \<not> P c" for x y
    using that by (induction x) (auto split: list.splits)
  have "s = t"
    using take [of s u] take [of t v] assms by simp
  then show ?thesis
    using assms by simp
qed

lemma number_delimited:
  assumes "number_wf a" "number_wf b" "delimited u" "delimited v" "number_text a @ u = number_text b @ v"
  shows "a = b \<and> u = v"
proof -
  have "case w of [] \<Rightarrow> True | c # _ \<Rightarrow> \<not> number_char c" if "delimited w" for w
    using that by (auto simp: number_char_def is_ascii_digit_def split: list.splits)
  then have "number_text a = number_text b \<and> u = v"
    using span_unique [of number_char "number_text a" "number_text b" u v] assms number_text_chars by blast
  then show ?thesis
    using assms number_text_unambiguous by blast
qed

definition separable :: "('a \<Rightarrow> string) \<Rightarrow> 'a set \<Rightarrow> 'a \<Rightarrow> bool" where
  "separable f Y x \<longleftrightarrow>
     (\<forall>y \<in> Y. \<forall>u v. delimited u \<longrightarrow> delimited v \<longrightarrow> f x @ u = f y @ v \<longrightarrow> x = y \<and> u = v)"

lemma separableD: "separable f Y x \<Longrightarrow> y \<in> Y \<Longrightarrow> f x = f y \<Longrightarrow> x = y"
  unfolding separable_def by (metis append_Nil2 delimited_simps(1))

lemma comma_join_Cons: "comma_join (x # xs) = x @ concat (map (\<lambda>y. CHR '','' # y) xs)"
  by (induction xs arbitrary: x) auto

lemma separable_tail:
  assumes "\<forall>x \<in> set xs. separable f Y x" "set ys \<subseteq> Y" "c = CHR '']'' \<or> c = CHR ''}''"
    and "concat (map (\<lambda>y. CHR '','' # f y) xs) @ c # u = concat (map (\<lambda>y. CHR '','' # f y) ys) @ c # v"
  shows "xs = ys \<and> u = v"
  using assms
proof (induction xs arbitrary: ys)
  case Nil
  then show ?case by (cases ys) auto
next
  case (Cons x xs)
  from Cons.prems obtain y ys' where ys: "ys = y # ys'"
    by (cases ys) auto
  let ?t = "\<lambda>zs w. concat (map (\<lambda>y. CHR '','' # f y) zs) @ c # w"
  have delim: "delimited (?t zs w)" for zs w
    using Cons.prems(3) by (cases zs) auto
  have "f x @ ?t xs u = f y @ ?t ys' v"
    using Cons.prems(4) ys by simp
  then have "x = y" "?t xs u = ?t ys' v"
    using Cons.prems(1,2) ys delim [of xs u] delim [of ys' v]
    by (auto simp: separable_def)
  then show ?case
    using Cons.IH [of ys'] Cons.prems ys by auto
qed

lemma separable_list:
  assumes sep: "\<forall>x \<in> set xs. separable f Y x" and Y: "set ys \<subseteq> Y" and c: "c = CHR '']'' \<or> c = CHR ''}''"
    and first: "\<forall>x \<in> set xs \<union> set ys. \<exists>a r. f x = a # r \<and> a \<noteq> c"
    and eq: "comma_join (map f xs) @ c # u = comma_join (map f ys) @ c # v"
  shows "xs = ys \<and> u = v"
proof (cases "xs = [] \<or> ys = []")
  case True
  then show ?thesis
    using first eq by (cases xs; cases ys) (auto simp: comma_join_Cons simp del: comma_join.simps(2))
next
  case False
  then obtain x xs' y ys' where xs: "xs = x # xs'" and ys: "ys = y # ys'"
    by (auto simp: neq_Nil_conv)
  have "concat (map (\<lambda>y. CHR '','' # f y) xs) @ c # u = concat (map (\<lambda>y. CHR '','' # f y) ys) @ c # v"
    using eq by (simp add: xs ys comma_join_Cons comp_def del: comma_join.simps(2))
  then show ?thesis
    using separable_tail [OF sep Y c] by blast
qed


lemma number_text_first: "number_wf n \<Longrightarrow> \<exists>c r. number_text n = c # r \<and> number_char c"
  using number_text_chars [of n] by (cases "number_text n") auto

definition leads :: "json \<Rightarrow> char \<Rightarrow> bool" where
  "leads v c \<longleftrightarrow> (case v of
       JNull \<Rightarrow> c = CHR ''n''
     | JBool b \<Rightarrow> c = (if b then CHR ''t'' else CHR ''f'')
     | JNumber n \<Rightarrow> number_char c
     | JString s \<Rightarrow> c = CHR 0x22
     | JArray vs \<Rightarrow> c = CHR ''[''
     | JObject m \<Rightarrow> c = CHR ''{'')"

lemma literal_first: "string_literals q \<Longrightarrow> \<exists>r. q s = CHR 0x22 # r"
  unfolding string_literals_def by blast

lemma literal_separates: "string_literals q \<Longrightarrow> q s @ u = q t @ v \<Longrightarrow> s = t \<and> u = v"
  unfolding string_literals_def by blast

lemma in_order_first:
  assumes "string_literals q" "numbers_wf v"
  shows "\<exists>c r. in_order q v = c # r \<and> leads v c"
  using assms number_text_first literal_first [OF assms(1)] by (cases v) (simp_all add: leads_def)

lemma number_char_not: "number_char c \<Longrightarrow> c \<notin> set ''ntf[{]},'' \<and> c \<noteq> CHR 0x22"
  by (auto simp: number_char_def is_ascii_digit_def)

lemma leads_not_closing: "leads v c \<Longrightarrow> c \<noteq> CHR '']'' \<and> c \<noteq> CHR ''}''"
  using number_char_not by (cases v) (auto simp: leads_def split: if_splits)

text \<open>Equal texts start alike, so the two values have the same constructor.\<close>

lemma same_lead:
  assumes "string_literals q" "numbers_wf a" "numbers_wf b" "in_order q a @ u = in_order q b @ v"
  obtains c where "leads a c" "leads b c"
  using in_order_first [OF assms(1,2)] in_order_first [OF assms(1,3)] assms(4) by auto

lemma leads_shared:
  assumes "leads a c" "leads b c"
  shows "(a = JNull \<longrightarrow> b = JNull) \<and> (\<forall>t. a = JBool t \<longrightarrow> b = JBool t) \<and> (\<forall>n. a = JNumber n \<longrightarrow> (\<exists>k. b = JNumber k))
    \<and> (\<forall>s. a = JString s \<longrightarrow> (\<exists>t. b = JString t)) \<and> (\<forall>vs. a = JArray vs \<longrightarrow> (\<exists>xs. b = JArray xs))
    \<and> (\<forall>m. a = JObject m \<longrightarrow> (\<exists>m'. b = JObject m'))"
  using assms number_char_not [of c] by (cases a; cases b) (simp_all add: leads_def split: if_splits)

lemma separableI:
  assumes "string_literals q" "numbers_wf a"
    and "\<And>b u v c. numbers_wf b \<Longrightarrow> leads a c \<Longrightarrow> leads b c \<Longrightarrow> delimited u \<Longrightarrow> delimited v \<Longrightarrow>
      in_order q a @ u = in_order q b @ v \<Longrightarrow> a = b \<and> u = v"
  shows "separable (in_order q) {b. numbers_wf b} a"
  unfolding separable_def
proof (intro ballI allI impI)
  fix b u v
  assume *: "b \<in> {b. numbers_wf b}" "delimited u" "delimited v" "in_order q a @ u = in_order q b @ v"
  then have b: "numbers_wf b" by simp
  obtain c where "leads a c" "leads b c"
    using same_lead [OF assms(1,2) b *(4)] .
  then show "a = b \<and> u = v"
    using assms(3) [OF b _ _ *(2-4)] by simp
qed

definition entry_text :: "(string \<Rightarrow> string) \<Rightarrow> string \<times> json \<Rightarrow> string" where
  "entry_text q kv = q (fst kv) @ '':'' @ in_order q (snd kv)"

lemma entry_first: "string_literals q \<Longrightarrow> \<exists>r. entry_text q kv = CHR 0x22 # r"
  using literal_first [of q "fst kv"] by (auto simp: entry_text_def)

lemma entry_separable:
  assumes "string_literals q" "separable (in_order q) Y (snd kv)"
  shows "separable (entry_text q) {kv'. snd kv' \<in> Y} kv"
  unfolding separable_def
proof (intro ballI allI impI)
  fix kv' u v
  assume *: "kv' \<in> {kv'. snd kv' \<in> Y}" "delimited u" "delimited v" "entry_text q kv @ u = entry_text q kv' @ v"
  have "q (fst kv) @ CHR '':'' # in_order q (snd kv) @ u = q (fst kv') @ CHR '':'' # in_order q (snd kv') @ v"
    using *(4) by (simp add: entry_text_def)
  then have "fst kv = fst kv'" "in_order q (snd kv) @ u = in_order q (snd kv') @ v"
    using literal_separates [OF assms(1)] by blast+
  then show "kv = kv' \<and> u = v"
    using assms(2) * by (auto simp: separable_def prod_eq_iff)
qed

lemma array_separable:
  assumes q: "string_literals q" and wf: "\<forall>x \<in> set vs \<union> set xs. numbers_wf x"
    and sep: "\<forall>x \<in> set vs. separable (in_order q) {b. numbers_wf b} x"
    and eq: "in_order q (JArray vs) @ u = in_order q (JArray xs) @ v"
  shows "vs = xs \<and> u = v"
proof (rule separable_list [OF sep, where c = "CHR '']''"])
  show "\<forall>x \<in> set vs \<union> set xs. \<exists>a r. in_order q x = a # r \<and> a \<noteq> CHR '']''"
    using in_order_first [OF q] leads_not_closing wf by blast
qed (use wf eq in auto)

lemma object_separable:
  assumes q: "string_literals q" and wf: "\<forall>kv \<in> set m \<union> set m'. numbers_wf (snd kv)"
    and sep: "\<forall>kv \<in> set m. separable (in_order q) {b. numbers_wf b} (snd kv)"
    and eq: "in_order q (JObject m) @ u = in_order q (JObject m') @ v"
  shows "m = m' \<and> u = v"
proof (rule separable_list [where f = "entry_text q" and Y = "{kv'. snd kv' \<in> {b. numbers_wf b}}" and c = "CHR ''}''"])
  show "\<forall>kv \<in> set m. separable (entry_text q) {kv'. snd kv' \<in> {b. numbers_wf b}} kv"
    using sep entry_separable [OF q] by blast
  show "\<forall>x \<in> set m \<union> set m'. \<exists>a r. entry_text q x = a # r \<and> a \<noteq> CHR ''}''"
    using entry_first [OF q] by fastforce
  show "comma_join (map (entry_text q) m) @ CHR ''}'' # u = comma_join (map (entry_text q) m') @ CHR ''}'' # v"
    using eq by (simp add: entry_text_def [abs_def])
qed (use wf in auto)

lemma in_order_separable:
  assumes q: "string_literals q"
  shows "numbers_wf a \<Longrightarrow> separable (in_order q) {b. numbers_wf b} a"
proof (induction a)
  case (JArray vs)
  show ?case
  proof (rule separableI [OF q JArray.prems])
    fix b u v c
    assume *: "numbers_wf b" "leads (JArray vs) c" "leads b c" "in_order q (JArray vs) @ u = in_order q b @ v"
    then obtain xs where "b = JArray xs"
      using leads_shared by blast
    then show "JArray vs = b \<and> u = v"
      using array_separable [OF q, of vs xs u v] * JArray by auto
  qed
next
  case (JObject m)
  have sep: "\<forall>kv \<in> set m. separable (in_order q) {b. numbers_wf b} (snd kv)"
    using JObject by (auto intro: snds.intros)
  show ?case
  proof (rule separableI [OF q JObject.prems])
    fix b u v c
    assume *: "numbers_wf b" "leads (JObject m) c" "leads b c" "in_order q (JObject m) @ u = in_order q b @ v"
    then obtain m' where "b = JObject m'"
      using leads_shared by blast
    then show "JObject m = b \<and> u = v"
      using object_separable [OF q _ sep, of m' u v] * JObject.prems by auto
  qed
next
  case (JNumber n)
  show ?case
  proof (rule separableI [OF q JNumber.prems])
    fix b u v c
    assume *: "numbers_wf b" "leads (JNumber n) c" "leads b c" "delimited u" "delimited v"
      "in_order q (JNumber n) @ u = in_order q b @ v"
    then obtain k where "b = JNumber k"
      using leads_shared by blast
    then show "JNumber n = b \<and> u = v"
      using number_delimited [of n k u v] * JNumber.prems by simp
  qed
next
  case (JString s)
  show ?case
  proof (rule separableI [OF q JString.prems])
    fix b u v c
    assume *: "leads (JString s) c" "leads b c" "in_order q (JString s) @ u = in_order q b @ v"
    then obtain t where "b = JString t"
      using leads_shared by blast
    then show "JString s = b \<and> u = v"
      using literal_separates [OF q, of s u t v] * by simp
  qed
next
  case (JBool t)
  show ?case
    by (rule separableI [OF q JBool.prems]) (use leads_shared [of "JBool t"] in fastforce)
next
  case JNull
  show ?case
    by (rule separableI [OF q JNull.prems]) (use leads_shared [of JNull] in fastforce)
qed


section \<open>What the fingerprint identifies\<close>

definition same_request :: "json \<Rightarrow> json \<Rightarrow> bool" where
  "same_request a b \<longleftrightarrow> canon a = canon b"

lemma numbers_wf_canon: "numbers_wf (canon v) \<longleftrightarrow> numbers_wf v"
  by (induction v rule: canon.induct) auto

lemma canonical_text_iff:
  assumes "string_literals q" "json_wf a" "json_wf b" "numbers_wf a" "numbers_wf b"
  shows "write_canonical_json q a = write_canonical_json q b \<longleftrightarrow> same_request a b"
proof -
  have "in_order q (canon a) = in_order q (canon b) \<Longrightarrow> canon a = canon b"
    using separableD [OF in_order_separable [OF assms(1), of "canon a"], of "canon b"] assms(4,5)
    by (simp add: numbers_wf_canon)
  then show ?thesis
    using assms(2,3) by (auto simp: same_request_def write_canonical_in_order)
qed

lemma fingerprint_input_iff:
  assumes "string_literals q" "json_wf a" "json_wf b" "numbers_wf a" "numbers_wf b" "length h = length h'"
  shows "fingerprint_input q a h = fingerprint_input q b h' \<longleftrightarrow> same_request a b \<and> h = h'"
  using canonical_text_iff [OF assms(1-5)] assms(6) by (simp add: fingerprint_input_def append_eq_append_conv)

text \<open>
  C19. Two requests get the same fingerprint exactly when they are equal up to the order of object keys
  and pay with the same payment hash, as long as SHA-256 does not collide on the two texts hashed: the
  canonical text is independent of key order and no two different requests share it, whatever their
  nesting, their string contents and their numbers.
\<close>

theorem fingerprint_identifies_request:
  assumes "string_literals quote" "json_wf a" "json_wf b" "numbers_wf a" "numbers_wf b"
    and "length h = 32" "length h' = 32"
    and "sha256 (fingerprint_input quote a h) = sha256 (fingerprint_input quote b h') \<Longrightarrow>
      fingerprint_input quote a h = fingerprint_input quote b h'"
  shows "request_fingerprint sha256 quote a h = request_fingerprint sha256 quote b h' \<longleftrightarrow> same_request a b \<and> h = h'"
proof -
  have "fingerprint_input quote a h = fingerprint_input quote b h' \<longleftrightarrow> same_request a b \<and> h = h'"
    using fingerprint_input_iff [OF assms(1-5)] assms(6,7) by simp
  then show ?thesis
    using assms(8) by (auto simp: request_fingerprint_def)
qed

text \<open>A quoting function with the laws above: it escapes quotation marks and backslashes.\<close>

fun escape :: "string \<Rightarrow> string" where
  "escape [] = []"
| "escape (c # s) = (if c = CHR 0x22 \<or> c = CHR 0x5C then [CHR 0x5C, c] else [c]) @ escape s"

definition sample_quote :: "string \<Rightarrow> string" where
  "sample_quote s = CHR 0x22 # escape s @ [CHR 0x22]"

lemma escape_separates: "escape s @ CHR 0x22 # u = escape t @ CHR 0x22 # v \<Longrightarrow> s = t \<and> u = v"
proof (induction s arbitrary: t)
  case Nil
  then show ?case by (cases t) (auto split: if_splits)
next
  case (Cons c s)
  then show ?case by (cases t) (auto split: if_splits)
qed

lemma sample_quote_literals: "string_literals sample_quote"
proof -
  have "s = t \<and> u = v" if "sample_quote s @ u = sample_quote t @ v" for s t u v
    by (rule escape_separates) (use that in \<open>simp add: sample_quote_def\<close>)
  moreover have "\<exists>r. sample_quote s = CHR 0x22 # r" for s
    by (simp add: sample_quote_def)
  ultimately show ?thesis
    unfolding string_literals_def by blast
qed

definition sample_request :: json where
  "sample_request = JObject [(''x402Version'', JNumber (PosInt 2)), (''a'', JArray [JString ''x'', JNull])]"

definition sample_request_reordered :: json where
  "sample_request_reordered = JObject [(''a'', JArray [JString ''x'', JNull]), (''x402Version'', JNumber (PosInt 2))]"

theorem fingerprint_identifies_request_witness:
  "request_fingerprint id sample_quote sample_request (replicate 32 CHR 0x01)
     = request_fingerprint id sample_quote sample_request_reordered (replicate 32 CHR 0x01)"
proof -
  have "same_request sample_request sample_request_reordered"
    by (simp add: same_request_def sample_request_def sample_request_reordered_def)
  then show ?thesis
    using fingerprint_identifies_request [OF sample_quote_literals, of sample_request sample_request_reordered
        "replicate 32 CHR 0x01" "replicate 32 CHR 0x01" id]
    by (simp add: sample_request_def sample_request_reordered_def)
qed

end
