(* ===== verification/Protocol_Theorems.thy ===== *)
theory Protocol_Theorems
  imports Protocol
begin

text \<open>
  What an accepted request promises to the rest of the service, and that the legacy dialect is only a
  different spelling of the same request.
\<close>

section \<open>Accepted fields\<close>

lemma bind_res_InrE:
  assumes "bind_res r f = Inr b"
  obtains a where "r = Inr a" "f a = Inr b"
  using assms by (cases r) simp_all

lemma ensure_allowed_keys_Inr [res_simps]:
  "ensure_allowed_keys object allowed path = Inr u \<longleftrightarrow> set (jkeys object) \<subseteq> set allowed"
  by (auto simp: ensure_allowed_keys_def list_ex_iff)

lemma required_string_Inr [res_simps]:
  "required_string object key path = Inr s \<longleftrightarrow> jget object key = Some (JString s) \<and> s \<noteq> []"
  by (auto simp: required_string_def split: option.splits Option.bind_splits)

lemma required_object_Inr [res_simps]:
  "required_object object key path = Inr m \<longleftrightarrow> jget object key = Some (JObject m)"
  by (auto simp: required_object_def res_simps split: Option.bind_splits)

lemma required_decimal_string_Inr [res_simps]:
  "required_decimal_string object key path = Inr s \<longleftrightarrow>
     jget object key = Some (JString s) \<and> s \<noteq> [] \<and> all_digits s"
  by (auto simp: required_decimal_string_def res_simps all_digits_def list_all_iff)

lemma required_u8_Inr [res_simps]:
  "required_u8 object key path = Inr v \<longleftrightarrow>
     (\<exists>n. jget object key = Some (JNumber (PosInt n)) \<and> unat n < 256 \<and> v = ucast n)"
  by (auto simp: required_u8_def json_u8_def res_simps split: Option.bind_splits)

lemma validate_identifier_Inr [res_simps]:
  "validate_identifier i policy = Inr u \<longleftrightarrow>
     unat (pi_min_length policy) \<le> length i \<and> length i \<le> unat (pi_max_length policy) \<and> list_all identifier_char i"
  by (auto simp: validate_identifier_def identifier_char_def list_all_iff)

lemma extract_payment_identifier_Some:
  "extract_payment_identifier payload policy = Inr (Some i) \<Longrightarrow> validate_identifier i policy = Inr ()"
  by (auto simp: extract_payment_identifier_def elim!: bind_res_InrE
      split: option.split_asm if_split_asm json.split_asm)

lemma extract_payment_identifier_required:
  "extract_payment_identifier payload policy = Inr None \<Longrightarrow> \<not> pi_required policy"
  by (auto simp: extract_payment_identifier_def elim!: bind_res_InrE
      split: option.split_asm if_split_asm json.split_asm)

lemma validate_identifier_bounds:
  assumes "validate account_ok c = Inr ()"
  shows "pi_min_length (cfg_payment_identifier c) = 16 \<and> pi_max_length (cfg_payment_identifier c) = 128"
  using assms by (auto simp: validate_def Let_def bind_res_Inr_iff split: if_splits)

section \<open>Routing\<close>

text \<open>
  The mechanism payload a route needs: an ERC-3009 authorization with a 32-byte nonce and decimal
  amounts on an EVM network, a signed delegate otherwise, and nothing when NEAR asks for a transfer
  method the facilitator does not route.
\<close>

definition evm_mechanism :: "json_map \<Rightarrow> bool" where
  "evm_mechanism mechanism \<longleftrightarrow>
     (\<exists>authorization signature nonce hex.
        set (jkeys mechanism) \<subseteq> {''authorization'', ''signature''}
      \<and> jget mechanism ''authorization'' = Some (JObject authorization)
      \<and> jget mechanism ''signature'' = Some (JString signature) \<and> signature \<noteq> []
      \<and> set (jkeys authorization) \<subseteq> {''from'', ''to'', ''value'', ''validAfter'', ''validBefore'', ''nonce''}
      \<and> (\<forall>k \<in> {''value'', ''validAfter'', ''validBefore''}.
           \<exists>s. jget authorization k = Some (JString s) \<and> s \<noteq> [] \<and> all_digits s)
      \<and> jget authorization ''nonce'' = Some (JString nonce) \<and> nonce = ''0x'' @ hex
      \<and> length hex = 64 \<and> list_all is_ascii_hexdigit hex)"

lemma parse_mechanism_payload_evm:
  assumes "parse_mechanism_payload mechanism network = Inr sda" "starts_with network ''eip155:''"
  shows "sda = None \<and> evm_mechanism mechanism"
  using assms
  by (auto simp: parse_mechanism_payload_def validate_eip155_authorization_def Let_def res_simps
      evm_mechanism_def strip_prefix_Some_iff split: option.splits if_splits)

lemma parse_mechanism_payload_other:
  assumes "parse_mechanism_payload mechanism network = Inr sda" "\<not> starts_with network ''eip155:''"
  shows "\<exists>s. sda = Some s \<and> jget mechanism ''signedDelegateAction'' = Some (JString s) \<and> s \<noteq> []
      \<and> set (jkeys mechanism) \<subseteq> {''signedDelegateAction''}"
  using assms by (auto simp: parse_mechanism_payload_def res_simps)

definition routed :: "json_map \<Rightarrow> request_meta \<Rightarrow> bool" where
  "routed mechanism m \<longleftrightarrow>
     (rm_near_asset_transfer_method m \<noteq> None \<longleftrightarrow> starts_with (rm_network m) ''near:'')
   \<and> (starts_with (rm_network m) ''eip155:'' \<longrightarrow> rm_signed_delegate_action m = None \<and> evm_mechanism mechanism)
   \<and> (rm_near_asset_transfer_method m = Some DelegateTransfer \<longrightarrow>
        (\<exists>s. rm_signed_delegate_action m = Some s \<and> jget mechanism ''signedDelegateAction'' = Some (JString s)))
   \<and> (rm_near_asset_transfer_method m = Some UnsupportedTransfer \<longrightarrow> rm_signed_delegate_action m = None)"

lemma network_prefixes_disjoint: "starts_with network ''near:'' \<Longrightarrow> \<not> starts_with network ''eip155:''"
  by (auto simp: starts_with_def strip_prefix_Some_iff)

lemma parse_routed_sound:
  assumes "parse_routed_mechanism_payload accepted requirements mechanism (rm_network m) = Inr (sda, tm)"
    and "rm_signed_delegate_action m = sda" "rm_near_asset_transfer_method m = tm"
  shows "routed mechanism m"
proof (cases "starts_with (rm_network m) ''near:''")
  case True
  then show ?thesis
    unfolding routed_def assms(2,3)
    using assms(1) network_prefixes_disjoint [OF True] parse_mechanism_payload_other [of mechanism "rm_network m"]
    by (auto simp: parse_routed_mechanism_payload_def Let_def elim!: bind_res_InrE split: if_split_asm)
next
  case False
  then show ?thesis
    unfolding routed_def assms(2,3)
    using assms(1) parse_mechanism_payload_evm [of mechanism "rm_network m"]
    by (auto simp: parse_routed_mechanism_payload_def elim!: bind_res_InrE)
qed

section \<open>Soundness of the parser\<close>

definition describes :: "json \<Rightarrow> request_meta \<Rightarrow> json_map \<Rightarrow> bool" where
  "describes value m mechanism \<longleftrightarrow>
     (\<exists>object payload requirements accepted.
        value = JObject object
      \<and> set (jkeys object) \<subseteq> {''x402Version'', ''paymentPayload'', ''paymentRequirements''}
      \<and> jget object ''paymentPayload'' = Some (JObject payload)
      \<and> jget object ''paymentRequirements'' = Some (JObject requirements)
      \<and> jget payload ''accepted'' = Some (JObject accepted)
      \<and> jget payload ''payload'' = Some (JObject mechanism)
      \<and> jget requirements ''scheme'' = Some (JString (rm_scheme m)) \<and> rm_scheme m \<noteq> []
      \<and> jget requirements ''network'' = Some (JString (rm_network m)) \<and> rm_network m \<noteq> []
      \<and> jget requirements ''asset'' = Some (JString (rm_asset m)) \<and> rm_asset m \<noteq> []
      \<and> jget requirements ''amount'' = Some (JString (rm_amount m)) \<and> rm_amount m \<noteq> [] \<and> all_digits (rm_amount m)
      \<and> jget requirements ''payTo'' = Some (JString (rm_pay_to m)) \<and> rm_pay_to m \<noteq> [])"

lemma parse_v2_sound:
  assumes "parse_v2 to_raw value policy wire = Inr p"
  shows "pr_value p = value \<and> pr_wire p = wire
    \<and> (\<exists>mechanism. describes value (pr_meta p) mechanism \<and> routed mechanism (pr_meta p))
    \<and> (\<exists>payload. extract_payment_identifier payload policy = Inr (rm_payment_identifier (pr_meta p)))"
proof -
  obtain object payload requirements accepted mechanism sda tm where
    "value = JObject object" "set (jkeys object) \<subseteq> {''x402Version'', ''paymentPayload'', ''paymentRequirements''}"
    "jget object ''paymentPayload'' = Some (JObject payload)"
    "jget object ''paymentRequirements'' = Some (JObject requirements)"
    "jget payload ''accepted'' = Some (JObject accepted)" "jget payload ''payload'' = Some (JObject mechanism)"
    and fields: "required_string requirements ''scheme'' ''paymentRequirements.scheme'' = Inr (rm_scheme (pr_meta p))"
    "required_string requirements ''network'' ''paymentRequirements.network'' = Inr (rm_network (pr_meta p))"
    "required_string requirements ''asset'' ''paymentRequirements.asset'' = Inr (rm_asset (pr_meta p))"
    "required_decimal_string requirements ''amount'' ''paymentRequirements.amount'' = Inr (rm_amount (pr_meta p))"
    "required_string requirements ''payTo'' ''paymentRequirements.payTo'' = Inr (rm_pay_to (pr_meta p))"
    and route: "parse_routed_mechanism_payload accepted requirements mechanism (rm_network (pr_meta p)) = Inr (sda, tm)"
    "rm_signed_delegate_action (pr_meta p) = sda" "rm_near_asset_transfer_method (pr_meta p) = tm"
    and ident: "extract_payment_identifier payload policy = Inr (rm_payment_identifier (pr_meta p))"
    and result: "pr_value p = value" "pr_wire p = wire"
    using assms unfolding parse_v2_def
    by (elim bind_res_InrE; simp only: ok_or_Inr_iff as_object_Some_iff required_object_Inr split: if_split_asm)
       (auto simp: ensure_allowed_keys_Inr elim!: bind_res_InrE)
  then have "describes value (pr_meta p) mechanism"
    unfolding describes_def required_string_Inr required_decimal_string_Inr by blast
  moreover have "routed mechanism (pr_meta p)"
    using route by (rule parse_routed_sound)
  ultimately show ?thesis
    using ident result by blast
qed


lemma parse_request_walk:
  assumes "parse_request from_slice to_raw body policy accept_v1 = Inr p"
  obtains v where "parse_v2 to_raw v policy (pr_wire p) = Inr p"
  using assms parse_v2_sound unfolding parse_request_def Let_def by (elim bind_res_InrE) metis

text \<open>
  C20. Under a valid configuration every request the parser accepts is well typed for the rest of the
  service: its metadata are the non-empty strings of the requirements it carries, the amount is a digit
  string, the route has exactly the mechanism payload that route needs (an ERC-3009 authorization with
  decimal amounts and a 32-byte nonce on EVM networks, a signed delegate on NEAR, none for a transfer
  method NEAR does not route), a required payment identifier is there, and any identifier fits the
  journal's column check.
\<close>

theorem parse_request_typed:
  assumes "validate account_ok c = Inr ()"
    and "parse_request from_slice to_raw body (cfg_payment_identifier c) accept_v1 = Inr p"
  shows "(\<exists>mechanism. describes (pr_value p) (pr_meta p) mechanism \<and> routed mechanism (pr_meta p))
    \<and> (pi_required (cfg_payment_identifier c) \<longrightarrow> rm_payment_identifier (pr_meta p) \<noteq> None)
    \<and> payment_identifier_check (r\<lparr>st_payment_identifier := rm_payment_identifier (pr_meta p)\<rparr>)"
proof -
  obtain v where walk: "parse_v2 to_raw v (cfg_payment_identifier c) (pr_wire p) = Inr p"
    using parse_request_walk [OF assms(2)] .
  from parse_v2_sound [OF walk] obtain payload where
    ident: "extract_payment_identifier payload (cfg_payment_identifier c) = Inr (rm_payment_identifier (pr_meta p))"
    by blast
  then have "payment_identifier_check (r\<lparr>st_payment_identifier := rm_payment_identifier (pr_meta p)\<rparr>)"
    using validate_identifier_bounds [OF assms(1)] extract_payment_identifier_Some [of payload "cfg_payment_identifier c"]
    by (auto simp: payment_identifier_check_def validate_identifier_Inr split: option.splits)
  moreover have "pi_required (cfg_payment_identifier c) \<longrightarrow> rm_payment_identifier (pr_meta p) \<noteq> None"
    using ident extract_payment_identifier_required [of payload "cfg_payment_identifier c"] by auto
  ultimately show ?thesis
    using parse_v2_sound [OF walk] by simp
qed

section \<open>The legacy dialect\<close>

lemma map_sum_bind: "map_sum id g (bind_res r f) = bind_res r (\<lambda>a. map_sum id g (f a))"
  by (cases r) simp_all

lemma map_sum_if: "map_sum id g (if b then x else y) = (if b then map_sum id g x else map_sum id g y)"
  by simp

lemma parse_v2_wire:
  "map_sum id (pr_wire_update (\<lambda>_. w)) (parse_v2 to_raw value policy w') = parse_v2 to_raw value policy w"
  unfolding parse_v2_def map_sum_bind map_sum_if case_prod_unfold
  by (simp only: map_sum.simps id_apply parsed_request.update_convs)

lemma v1_network_roundtrip:
  "caip2_for_v1_network alias = Some network \<Longrightarrow> v1_network_name network = Some alias"
  by (auto simp: caip2_for_v1_network_def v1_network_name_def V1_NETWORKS_def split: if_splits)

lemma translate_v1_version:
  assumes "translate_v1_to_v2 o1 = Inr v2"
  shows "\<exists>o2. v2 = JObject o2 \<and> jget o2 ''x402Version'' = Some (JNumber (PosInt 2))"
  using assms by (auto simp: translate_v1_to_v2_def jget_def elim!: bind_res_InrE split: if_split_asm)

lemma translate_v1_network:
  assumes "translate_v1_to_v2 o1 = Inr (JObject o2)" "jget o2 ''paymentRequirements'' = Some (JObject requirements2)"
    and "jget requirements2 ''network'' = Some (JString network)"
  shows "\<exists>requirements alias. jget o1 ''paymentRequirements'' = Some (JObject requirements)
    \<and> jget requirements ''network'' = Some (JString alias) \<and> caip2_for_v1_network alias = Some network"
  using assms
  by (auto simp: translate_v1_to_v2_def translate_requirements_def jget_def required_object_Inr [unfolded jget_def]
      required_string_Inr [unfolded jget_def] ok_or_Inr_iff elim!: bind_res_InrE split: if_split_asm option.split_asm)

definition v1_alias :: "json_map \<Rightarrow> string option" where
  "v1_alias object = Option.bind (Option.bind (jget object ''paymentRequirements'') as_object)
     (\<lambda>requirements. Option.bind (jget requirements ''network'') as_str)"

text \<open>
  C39. A legacy request is only another spelling of the canonical request it translates to: parsing it
  gives the same value, raw text and metadata (hence the same fingerprint and settlement), or the same
  error, and only the dialect tag differs. The network it was translated to turns back into the alias
  the client wrote when the response is formatted.
\<close>

theorem v1_request_is_v2_request:
  assumes "from_slice b1 = Some (JObject o1)" "is_v1_request o1"
    and "translate_v1_to_v2 o1 = Inr v2" "from_slice b2 = Some v2"
  shows "parse_request from_slice to_raw b1 policy True
      = map_sum id (pr_wire_update (\<lambda>_. V1)) (parse_request from_slice to_raw b2 policy accept_v1)
    \<and> (\<forall>p. parse_request from_slice to_raw b1 policy True = Inr p \<longrightarrow>
          v1_alias o1 = v1_network_name (rm_network (pr_meta p)) \<and> v1_alias o1 \<noteq> None)"
proof -
  obtain o2 where o2: "v2 = JObject o2" "jget o2 ''x402Version'' = Some (JNumber (PosInt 2))"
    using translate_v1_version [OF assms(3)] by blast
  have v1: "parse_request from_slice to_raw b1 policy True = parse_v2 to_raw v2 policy V1"
    using assms(1-3) by (simp add: parse_request_def wire_of_def)
  have v2: "parse_request from_slice to_raw b2 policy accept_v1 = parse_v2 to_raw v2 policy V2"
    using assms(4) o2 by (simp add: parse_request_def wire_of_def is_v1_request_def)
  have "v1_alias o1 = v1_network_name (rm_network (pr_meta p)) \<and> v1_alias o1 \<noteq> None"
    if walk: "parse_v2 to_raw v2 policy V1 = Inr p" for p
  proof -
    obtain requirements2 where "jget o2 ''paymentRequirements'' = Some (JObject requirements2)"
      "jget requirements2 ''network'' = Some (JString (rm_network (pr_meta p)))"
      using parse_v2_sound [OF walk] o2 by (auto simp: describes_def)
    then show ?thesis
      using translate_v1_network [of o1 o2] assms(3) o2 v1_network_roundtrip by (fastforce simp: v1_alias_def)
  qed
  then show ?thesis
    unfolding v1 v2 parse_v2_wire by blast
qed


section \<open>Sample requests\<close>

definition sample_v1_requirements :: json_map where
  "sample_v1_requirements = [(''scheme'', JString ''exact''), (''network'', JString ''base-sepolia''),
     (''maxAmountRequired'', JString ''1000''), (''payTo'', JString ''0xb''), (''asset'', JString ''0xa''),
     (''maxTimeoutSeconds'', JNumber (PosInt 60))]"

definition sample_mechanism :: json_map where
  "sample_mechanism = [(''signature'', JString ''0x1''), (''authorization'', JObject
     [(''from'', JString ''0xc''), (''to'', JString ''0xb''), (''value'', JString ''1000''),
      (''validAfter'', JString ''0''), (''validBefore'', JString ''9''),
      (''nonce'', JString (''0x'' @ replicate 64 CHR ''0''))])]"

definition sample_v1_request :: json_map where
  "sample_v1_request = [(''x402Version'', JNumber (PosInt 1)),
     (''paymentPayload'', JObject [(''x402Version'', JNumber (PosInt 1)), (''scheme'', JString ''exact''),
        (''network'', JString ''base-sepolia''), (''payload'', JObject sample_mechanism)]),
     (''paymentRequirements'', JObject sample_v1_requirements)]"

definition sample_v2_requirements :: json where
  "sample_v2_requirements = JObject [(''scheme'', JString ''exact''), (''network'', JString ''eip155:84532''),
     (''asset'', JString ''0xa''), (''amount'', JString ''1000''), (''payTo'', JString ''0xb''),
     (''maxTimeoutSeconds'', JNumber (PosInt 60))]"

definition sample_v2_request :: json where
  "sample_v2_request = JObject [(''x402Version'', JNumber (PosInt 2)),
     (''paymentPayload'', JObject [(''x402Version'', JNumber (PosInt 2)), (''accepted'', sample_v2_requirements),
        (''payload'', JObject sample_mechanism)]),
     (''paymentRequirements'', sample_v2_requirements)]"

definition sample_from_slice :: "bytes \<Rightarrow> json option" where
  "sample_from_slice b = (if b = ''v1'' then Some (JObject sample_v1_request)
     else if b = ''v2'' then Some sample_v2_request else None)"

definition sample_meta :: request_meta where
  "sample_meta = \<lparr>rm_x402_version = 2, rm_scheme = ''exact'', rm_network = ''eip155:84532'', rm_asset = ''0xa'',
     rm_amount = ''1000'', rm_pay_to = ''0xb'', rm_signed_delegate_action = None,
     rm_near_asset_transfer_method = None, rm_payment_identifier = None\<rparr>"

lemma sample_v1_translates: "translate_v1_to_v2 sample_v1_request = Inr sample_v2_request"
  by (simp add: translate_v1_to_v2_def translate_requirements_def sample_v1_request_def sample_v1_requirements_def
      sample_v2_request_def sample_v2_requirements_def ensure_allowed_keys_def required_object_def
      required_string_def jget_def jkeys_def caip2_for_v1_network_def V1_NETWORKS_def)

lemma sample_v2_parses:
  "parse_v2 (\<lambda>_. Some ''raw'') sample_v2_request (cfg_payment_identifier sample_config) w
     = Inr \<lparr>pr_raw = ''raw'', pr_value = sample_v2_request, pr_wire = w, pr_meta = sample_meta\<rparr>"
  by (simp add: parse_v2_def sample_v2_request_def sample_v2_requirements_def sample_mechanism_def sample_meta_def
      sample_config_def ensure_allowed_keys_def required_object_def required_string_def required_decimal_string_def
      required_u8_def json_u8_def validate_resource_def validate_requirements_shape_def
      parse_routed_mechanism_payload_def parse_mechanism_payload_def validate_eip155_authorization_def
      starts_with_def extract_payment_identifier_def jget_def jkeys_def is_object_def is_ascii_digit_def
      is_ascii_hexdigit_def Let_def list_all_iff
      default_payment_identifier_config_def)

theorem v1_request_is_v2_request_witness:
  "parse_request sample_from_slice (\<lambda>_. Some ''raw'') ''v1'' (cfg_payment_identifier sample_config) True
     = map_sum id (pr_wire_update (\<lambda>_. V1))
         (parse_request sample_from_slice (\<lambda>_. Some ''raw'') ''v2'' (cfg_payment_identifier sample_config) False)
   \<and> v1_alias sample_v1_request = Some ''base-sepolia''"
  using v1_request_is_v2_request [of sample_from_slice "''v1''" sample_v1_request sample_v2_request "''v2''"
      "\<lambda>_. Some ''raw''" "cfg_payment_identifier sample_config" False] sample_v1_translates
  by (simp add: sample_from_slice_def is_v1_request_def v1_alias_def sample_v1_request_def
      sample_v1_requirements_def jget_def)

theorem parse_request_typed_witness:
  "\<exists>p. parse_request sample_from_slice (\<lambda>_. Some ''raw'') ''v2'' (cfg_payment_identifier sample_config) False = Inr p
     \<and> (\<exists>mechanism. describes (pr_value p) (pr_meta p) mechanism \<and> routed mechanism (pr_meta p))"
proof -
  have "parse_request sample_from_slice (\<lambda>_. Some ''raw'') ''v2'' (cfg_payment_identifier sample_config) False
      = Inr \<lparr>pr_raw = ''raw'', pr_value = sample_v2_request, pr_wire = V2, pr_meta = sample_meta\<rparr>"
    by (simp add: parse_request_def sample_from_slice_def wire_of_def sample_v2_parses)
  then show ?thesis
    using parse_request_typed [OF sample_config_valid [of "\<lambda>_. True"], of sample_from_slice] by blast
qed

end
