(* ===== verification/Service_Sample.thy ===== *)
theory Service_Sample
  imports Recovery_Theorems Canonical Protocol_Theorems
begin

text \<open>
  A deployment with one NEAR settlement, claimed and settled while nothing else happens: the concrete
  service, world and database the theorems about the engine are applied to.
\<close>

section \<open>The deployment\<close>

definition service_reader :: near_reader where
  "service_reader = sample_reader\<lparr>rd_view_account := (\<lambda>_ _. Inr \<lparr>av_amount = 5000, av_code_hash = 9\<rparr>)\<rparr>"

definition service_rpc :: near_rpc where
  "service_rpc = near_reader.extend service_reader
     \<lparr>rp_send_tx = (\<lambda>_. CallTimeout), rp_tx_status = (\<lambda>_ _. CallError UnknownTransaction)\<rparr>"

definition service_provider :: near_chain_provider where
  "service_provider = \<lparr>nc_network = NearTestnet, nc_relayer_account_id = ''relayer'',
     nc_relayer_public_key = ''ed25519:r'', nc_relayer_sign = (\<lambda>_. ''sig''), nc_rpc = service_rpc,
     nc_backup_rpc = Some service_rpc\<rparr>"

definition service_signed :: near_signed_transaction where
  "service_signed = \<lparr>ns_signature = ''sig'', ns_transaction =
     \<lparr>nt_signer_id = ''relayer'', nt_public_key = ''ed25519:r'', nt_nonce = 8, nt_receiver_id = ''alice'',
      nt_block_hash = 7, nt_actions = [Delegate sample_delegate]\<rparr>\<rparr>"

definition service_codec :: near_tx_codec where
  "service_codec = \<lparr>
     signed_tx_from_slice = (\<lambda>b. if b = ''tx'' then Some service_signed else None),
     signed_tx_to_vec = (\<lambda>t. if t = service_signed then Some ''tx'' else None),
     near_tx_hash = (\<lambda>_. 7), signature_verify = (\<lambda>s _ _. s = ''sig'')\<rparr>"

definition service_lib :: chain_lib where
  "service_lib = sample_lib\<lparr>lib_near_tx := service_codec, lib_hash_parse := (\<lambda>_. Some 7)\<rparr>"

definition service_app :: app_state where
  "service_app = \<lparr>ap_lib = service_lib,
     ap_config = sample_config\<lparr>cfg_chain_kind := Near, cfg_network := ''near:testnet'',
       cfg_max_inner_gas := default_max_sponsored_gas\<rparr>,
     ap_provider = NearProvider service_provider (\<lambda>_. sample_reader), ap_to_vec = (\<lambda>_. Some ''response''),
     ap_json_error_text = ''json'', ap_from_slice = sample_from_slice, ap_to_raw = (\<lambda>_. Some ''r''),
     ap_quote = sample_quote, ap_sha256 = (\<lambda>b. b), ap_auth = sample_auth_lib, ap_pepper = sample_bytes 32,
     ap_facilitator = True, ap_date = (\<lambda>_. 3)\<rparr>"

definition still_world :: world where
  "still_world = \<lparr>wo_db = (\<lambda>_ d. d), wo_gates = (\<lambda>_ g. g), wo_fault = (\<lambda>_. Answered),
     wo_chain = (\<lambda>_. ap_provider service_app), wo_now = (\<lambda>k. k),
     wo_instant = (\<lambda>k. k), wo_facilitator = (\<lambda>_ _. Inr (JObject [(''isValid'', JBool True)])), wo_polls = (\<lambda>_. 1),
     wo_slot = (\<lambda>_. True), wo_uuid = (\<lambda>_. 1)\<rparr>"

definition service_new :: new_settlement where
  "service_new = sample_new\<lparr>new_payment_hash := 33, new_anchor_value := 33, new_amount := 5,
     new_delegate_public_key := Some ''pk'', new_delegate_nonce := Some 8, new_delegate_max_block_height := Some 130\<rparr>"

definition service_db :: db where
  "service_db = upsert_relayer (committed (claim_transaction 3 0 sample_db0 service_new))
     ''near:testnet'' ''relayer'' ''ed25519:r''"

definition open_gates :: readiness where
  "open_gates = set_leadership True (set_reconciliation True (set_rpc True (set_relayer True initial_readiness)))"

definition service_start :: engine where
  "service_start = \<lparr>en_clock = 0, en_db = service_db, en_gates = open_gates, en_sent = [],
     en_rates = Map.empty, en_spawned = []\<rparr>"

section \<open>What it answers\<close>

lemma still_world_ok: "world_ok still_world"
  by (simp add: world_ok_def still_world_def)

lemma still_pause: "run_state (pause still_world) e = (en_clock e, e\<lparr>en_clock := en_clock e + 1\<rparr>)"
  by (simp add: pause_def still_world_def)

definition service_payment :: verified_payment where
  "service_payment = near_payment_to_neutral sample_near_payment"

definition service_head :: signer_head where
  "service_head = \<lparr>sg_chain_block_height = 100, sg_chain_block_ref = ''h'', sg_signer_nonce = 7,
     sg_signer_id = ''relayer'', sg_signer_public_key = ''ed25519:r'', sg_signer_balance_atomic = 5000\<rparr>"

definition service_prepared :: chain_prepared where
  "service_prepared = \<lparr>pp_submit_bytes = ''tx'', pp_submit_hash = ''h'', pp_signer_id = ''relayer'',
     pp_signer_public_key = ''ed25519:r'', pp_signer_nonce = 8,
     pp_detail = NearPrepared \<lparr>pt_transaction_hash = 7, pt_relayer_nonce = 8, pt_signer_id = ''relayer'',
       pt_signer_public_key = ''ed25519:r'', pt_signed_transaction_bytes = ''tx''\<rparr>\<rparr>"

lemma service_verifies:
  "chain_verify service_lib (ap_provider service_app) \<lparr>po_max_sponsored_gas = default_max_sponsored_gas\<rparr> ''r''
     = Inr service_payment"
  using sample_verified
  by (simp add: service_app_def service_lib_def sample_lib_def service_provider_def retry_while_transient_def
      rpc_retry_delays_def default_verification_policy_def service_payment_def)

lemma service_signer: "signer_head_of service_lib (ap_provider service_app) = Inr service_head"
  by (simp add: service_app_def service_lib_def sample_lib_def service_provider_def relayer_status_of_def
      service_rpc_def service_reader_def sample_reader_def near_reader.defs near_rpc.defs service_head_def)

lemma service_prepares:
  "chain_prepare service_lib (ap_provider service_app) service_payment service_head = Inr service_prepared"
  by (simp add: service_app_def service_payment_def near_payment_to_neutral_def Let_def service_head_def
      nonce_u64_def prepare_outer_transaction_def checked_add_def service_lib_def sample_lib_def ok_or_def
      service_provider_def service_codec_def service_signed_def sample_near_payment_def new_verified_payment_def
      sample_delegate_def service_prepared_def)

lemma service_broadcasts:
  "chain_broadcast service_lib (ap_provider service_app) service_prepared service_payment = BroadcastPending"
  "broadcast_bytes (ap_provider service_app) service_prepared service_payment = Some ''tx''"
  by (simp_all add: service_app_def service_prepared_def service_payment_def near_payment_to_neutral_def Let_def
      broadcast_exact_def decode_signed_transaction_def service_lib_def sample_lib_def service_codec_def service_signed_def ok_or_def
      send_transaction_final_def service_provider_def service_rpc_def near_reader.defs near_rpc.defs)

section \<open>The journal\<close>

definition service_row :: settlement where
  "service_row = claim_row 3 0 service_new"

lemma service_claim:
  "claim_transaction 3 0 sample_db0 service_new = Inr (TxCommitted (committed (claim_transaction 3 0 sample_db0 service_new)))"
  by (simp add: claim_transaction_def insert_row_def claim_row_def service_new_def sample_new_def sample_db0_eq
      sample_check_defs empty_db_def client_exists_def sample_client_def reserve_global_budget_def
      reserve_client_budget_def reserve_ledger_def)

lemma service_db_eq:
  "db_settlements service_db = [service_row]"
  "db_relayers service_db (''near:testnet'', ''relayer'', ''ed25519:r'')
     = Some \<lparr>ry_status = RelayerActive, ry_quarantine_reason = None, ry_last_observed_nonce = None\<rparr>"
  unfolding service_db_def
  by (simp_all add: upsert_relayer_def claim_transaction_def insert_row_def claim_row_def service_new_def sample_new_def sample_db0_eq
      sample_check_defs empty_db_def client_exists_def sample_client_def reserve_global_budget_def
      reserve_client_budget_def reserve_ledger_def insert_event_def service_row_def)

lemma service_db_run: "store_run empty_db service_db"
proof -
  have "store_run sample_db0 (committed (claim_transaction 3 0 sample_db0 service_new))"
    unfolding store_run_def by (rule r_into_rtranclp) (rule store_step.claim [OF service_claim])
  moreover have "store_run (committed (claim_transaction 3 0 sample_db0 service_new)) service_db"
    unfolding store_run_def service_db_def by (rule r_into_rtranclp) (rule store_step.relayer)
  ultimately show ?thesis
    using sample_runs(1) by (blast intro: store_run_trans)
qed

definition service_entry :: prepared_journal_entry where
  "service_entry = \<lparr>pe_settlement_id = 1, pe_relayer_account_id = ''relayer'', pe_relayer_public_key = ''ed25519:r'',
     pe_relayer_nonce = 8, pe_transaction_bytes = ''tx'', pe_transaction_hash = ''h''\<rparr>"

definition service_db_prepared :: db where
  "service_db_prepared = projr (mark_prepared service_db service_entry)"

definition service_db_submitted :: db where
  "service_db_submitted = projr (mark_submitted service_db_prepared 1)"

lemma service_marks_prepared: "mark_prepared service_db service_entry = Inr service_db_prepared"
  unfolding service_db_prepared_def
  by (rule projr_ok) (simp add: mark_prepared_def find_row_def put_row_def service_db_eq service_row_def
      service_entry_def claim_row_def service_new_def sample_new_def sample_check_defs)

lemma service_db_prepared_eq:
  "db_settlements service_db_prepared = [service_row\<lparr>st_state := Prepared,
     st_relayer_account_id := Some ''relayer'', st_relayer_public_key := Some ''ed25519:r'',
     st_relayer_nonce := Some 8, st_outer_transaction_bytes := Some ''tx'',
     st_outer_transaction_hash := Some ''h''\<rparr>]"
  "db_relayers service_db_prepared = db_relayers service_db"
  unfolding service_db_prepared_def
  by (simp_all add: mark_prepared_def find_row_def put_row_def service_db_eq insert_event_def service_row_def
      service_entry_def claim_row_def service_new_def sample_new_def sample_check_defs)

lemma service_marks_submitted: "mark_submitted service_db_prepared 1 = Inr service_db_submitted"
  unfolding service_db_submitted_def
  by (rule projr_ok) (simp add: mark_submitted_def find_row_def put_row_def service_db_prepared_eq service_row_def
      claim_row_def service_new_def sample_new_def sample_check_defs)

lemma service_amount: "decimal_is_at_least (decimal_text 5) ''5''" "decimal_is_at_least ''5'' (decimal_text 5)"
  by code_simp+

lemma service_claim_matches: "claim_matches service_lib service_row service_payment"
  by (simp add: claim_matches_def service_row_def claim_row_def service_new_def sample_new_def service_payment_def
      near_payment_to_neutral_def Let_def sample_near_payment_def new_verified_payment_def identity_def
      sample_delegate_def eq_ignore_ascii_case_def service_amount)

section \<open>The run\<close>

lemma still_answers: "wo_fault still_world k = Answered" "wo_now still_world k = k"
    "wo_chain still_world k = ap_provider service_app"
  by (simp_all add: still_world_def)

lemma run_write: "run_state (write_db still_world f) e =
    (fst (f (en_clock e) (en_db e)), e\<lparr>en_clock := en_clock e + 1, en_db := snd (f (en_clock e) (en_db e))\<rparr>)"
  by (simp add: write_db_def run_bind still_pause apply_db_def still_answers)

lemma run_ask: "run_state (ask_chain still_world f) e = (f (ap_provider service_app), e\<lparr>en_clock := en_clock e + 1\<rparr>)"
  by (simp add: ask_chain_def run_bind still_pause still_answers State_Monad.return_def)

lemma run_simple:
  "run_state gates e = (en_gates e, e)" "run_state (change_gates g) e = ((), e\<lparr>en_gates := g (en_gates e)\<rparr>)"
  "run_state (State_Monad.return x) e = (x, e)"
  "run_state (send i b) e = ((), e\<lparr>en_sent := en_sent e
     @ [\<lparr>sb_settlement_id = i, sb_bytes = b, sb_gates = en_gates e, sb_db = en_db e\<rparr>]\<rparr>)"
  by (simp_all add: gates_def change_gates_def State_Monad.return_def send_def)

lemma service_config:
  "cfg_network (ap_config service_app) = ''near:testnet''"
  "cfg_max_inner_gas (ap_config service_app) = default_max_sponsored_gas" "ap_lib service_app = service_lib"
  "signer_account_id service_lib (ap_provider service_app) = ''relayer''"
  "signer_is_funded (ap_config service_app) 5000"
  by (simp_all add: service_app_def service_provider_def signer_is_funded_def sample_config_def str_parse_def
      is_ascii_digit_def parse_digits_def digit_value_def)

lemma run_fresh_head:
  assumes "db_relayers (en_db e) = db_relayers service_db"
  shows "run_state (fresh_signer_head service_app still_world) e =
    (Inr service_head, e\<lparr>en_clock := en_clock e + 2, en_gates := set_relayer True (en_gates e)\<rparr>)"
  using assms
  by (simp add: fresh_signer_head_def run_bind run_ask run_simple service_config service_signer and_then_def
      read_db_def run_write relayer_is_active_def service_db_eq service_head_def lift_res_def)

definition service_end :: engine where
  "service_end = snd (run_state (run_new_settlement service_app still_world 1 ''r'') service_start)"

definition service_submission :: durable_submission where
  "service_submission = durable_submission_of (ap_provider service_app) service_prepared"

definition sent_gates :: readiness where
  "sent_gates = set_relayer True (set_relayer True open_gates)"

lemma gates_open: "can_settle open_gates" "can_settle sent_gates"
  by (simp_all add: can_settle_def sent_gates_def open_gates_def)

lemma service_claims: "run_state (run_new_settlement service_app still_world 1 ''r'') service_start =
    run_state (settle_prepared_near service_app still_world 1 service_prepared service_submission service_payment service_head)
      \<lparr>en_clock = 6, en_db = service_db, en_gates = set_relayer True open_gates, en_sent = [],
        en_rates = Map.empty, en_spawned = []\<rparr>"
proof -
  have found: "find_row service_db 1 = Some service_row"
    by (simp add: find_row_def service_db_eq service_row_def service_new_def sample_new_def)
  have detail: "pp_detail service_prepared = NearPrepared \<lparr>pt_transaction_hash = 7, pt_relayer_nonce = 8, pt_signer_id = ''relayer'',
       pt_signer_public_key = ''ed25519:r'', pt_signed_transaction_bytes = ''tx''\<rparr>"
    by (simp add: service_prepared_def)
  show ?thesis
    unfolding run_new_settlement_def Let_def
    by (simp add: run_bind still_pause run_simple run_ask service_config service_verifies run_fresh_head gates_open
      service_start_def read_db_def run_write found service_claim_matches service_prepares detail
      service_submission_def del: One_nat_def)
qed

lemma service_settles:
  "run_state (settle_prepared_near service_app still_world 1 service_prepared service_submission service_payment service_head)
      \<lparr>en_clock = 6, en_db = service_db, en_gates = set_relayer True open_gates, en_sent = [],
        en_rates = Map.empty, en_spawned = []\<rparr> =
   ((), \<lparr>en_clock = 11, en_db = service_db_submitted, en_gates = set_reconciliation False sent_gates,
     en_sent = [\<lparr>sb_settlement_id = 1, sb_bytes = ''tx'', sb_gates = sent_gates, sb_db = service_db_submitted\<rparr>],
     en_rates = Map.empty, en_spawned = []\<rparr>)"
proof -
  have entry: "\<lparr>pe_settlement_id = 1, pe_relayer_account_id = ds_submitter service_submission,
        pe_relayer_public_key = pp_signer_public_key service_prepared, pe_relayer_nonce = unat (ds_nonce service_submission),
        pe_transaction_bytes = ds_bytes service_submission, pe_transaction_hash = ds_hash service_submission\<rparr> = service_entry"
    by (simp add: service_submission_def durable_submission_of_def service_prepared_def service_entry_def)
  show ?thesis
    unfolding settle_prepared_near_def entry
    by (simp add: run_bind run_simple run_ask update_db_def run_write committed_or_def service_marks_prepared
        run_fresh_head service_db_prepared_eq sent_gates_def [symmetric] gates_open service_marks_submitted
        broadcast_prepared_def service_broadcasts service_config close_reconciliation_def del: One_nat_def)
qed

lemma service_run:
  "run_state (run_new_settlement service_app still_world 1 ''r'') service_start = ((), service_end)"
  "en_sent service_end = [\<lparr>sb_settlement_id = 1, sb_bytes = ''tx'', sb_gates = sent_gates, sb_db = service_db_submitted\<rparr>]"
  "en_db service_end = service_db_submitted" "en_clock service_end = 11"
  "en_gates service_end = set_reconciliation False sent_gates"
  unfolding service_end_def service_claims service_settles by simp_all

section \<open>Recovery after a lost answer\<close>

text \<open>The submission above was never answered; reconciliation finds its row and sends the same bytes again.\<close>

definition submitted_row :: settlement where
  "submitted_row = service_row\<lparr>st_state := Submitted,
     st_relayer_account_id := Some ''relayer'', st_relayer_public_key := Some ''ed25519:r'',
     st_relayer_nonce := Some 8, st_outer_transaction_bytes := Some ''tx'',
     st_outer_transaction_hash := Some ''h''\<rparr>"

lemma service_db_submitted_eq:
  "db_settlements service_db_submitted = [submitted_row]"
  "db_relayers service_db_submitted = db_relayers service_db"
  unfolding service_db_submitted_def
  by (simp_all add: mark_submitted_def find_row_def put_row_def service_db_prepared_eq insert_event_def service_row_def
      claim_row_def service_new_def sample_new_def sample_check_defs submitted_row_def)

definition noted_db :: db where
  "noted_db = projr (note_reconciliation service_db_submitted 1)"

lemma service_notes: "note_reconciliation service_db_submitted 1 = Inr noted_db"
  unfolding noted_db_def
  by (rule projr_ok) (simp add: note_reconciliation_def find_row_def put_row_def service_db_submitted_eq submitted_row_def
      service_row_def claim_row_def service_new_def sample_new_def sample_check_defs)

lemma noted_db_eq:
  "db_settlements noted_db = [submitted_row\<lparr>st_reconciliation_attempts := st_reconciliation_attempts submitted_row + 1\<rparr>]"
  "db_relayers noted_db = db_relayers service_db"
  unfolding noted_db_def
  by (simp_all add: note_reconciliation_def find_row_def put_row_def service_db_submitted_eq submitted_row_def
      service_row_def claim_row_def service_new_def sample_new_def sample_check_defs)

lemma submitted_row_sel:
  "st_id submitted_row = 1" "st_state submitted_row = Submitted" "st_payer submitted_row = ''alice''"
  "st_asset submitted_row = ''usdc''" "st_relayer_account_id submitted_row = Some ''relayer''"
  "st_relayer_public_key submitted_row = Some ''ed25519:r''" "st_relayer_nonce submitted_row = Some 8"
  "st_outer_transaction_bytes submitted_row = Some ''tx''" "st_outer_transaction_hash submitted_row = Some ''h''"
  "st_delegate_max_block_height submitted_row = Some 130" "st_delegate_nonce submitted_row = Some 8"
  "st_delegate_public_key submitted_row = Some ''pk''" "st_payment_hash submitted_row = 33"
  by (simp_all add: submitted_row_def service_row_def claim_row_def service_new_def sample_new_def)

lemma service_stored: "validate_stored_transaction service_lib submitted_row ''tx'' 7 ''relayer'' = Inr ()"
  by (simp add: validate_stored_transaction_def Let_def submitted_row_sel decode_signed_transaction_def
      signed_transaction_hash_def service_lib_def sample_lib_def service_codec_def service_signed_def ok_or_def
      corrupt_def column_word_def sample_near_codec_def sample_delegate_def signed_delegate_hash_def
      hash_signed_delegate_bytes_def)

lemma service_status:
  "chain_reconcile_status service_lib (ap_provider service_app) ''h'' ''relayer'' ''alice'' ''usdc'' NearFinality
     = status_verdict VerdictUnknown"
  by (simp add: service_app_def service_lib_def sample_lib_def near_reconcile_status_def query_transaction_def
      query_transaction_backup_def transaction_status_final_def backup_of_def service_provider_def service_rpc_def
      ok_or_def near_reader.defs near_rpc.defs sample_near_codec_def)

definition service_backup_head :: signer_head where
  "service_backup_head = service_head\<lparr>sg_signer_balance_atomic := 0\<rparr>"

lemma service_backup: "backup_signer_head service_lib (ap_provider service_app) = Inr service_backup_head"
  by (simp add: service_app_def service_lib_def sample_lib_def service_provider_def backup_relayer_head_def
      backup_of_def ok_or_def relayer_head_from_def service_rpc_def service_reader_def sample_reader_def
      near_reader.defs near_rpc.defs service_head_def service_backup_head_def)

lemma service_rebroadcasts:
  "chain_rebroadcast service_lib (ap_provider service_app) ''tx'' ''h'' ''alice'' ''usdc'' = BroadcastPending"
  by (simp add: service_app_def broadcast_exact_def decode_signed_transaction_def service_lib_def sample_lib_def
      service_codec_def service_signed_def ok_or_def send_transaction_final_def service_provider_def service_rpc_def
      near_reader.defs near_rpc.defs)

lemma run_and_then: "run_state (and_then m f) e = (case run_state m e of
    (Inl x, e') \<Rightarrow> (Inl x, e') | (Inr a, e') \<Rightarrow> run_state (f a) e')"
  by (simp add: and_then_def run_bind run_simple split: prod.split sum.split)

lemma run_results: "run_state ok e = (Inr (), e)" "run_state (fail x) e = (Inl x, e)" "run_state (lift_res r) e = (r, e)"
  by (simp_all add: ok_def fail_def lift_res_def run_simple)

lemmas run_rules = run_bind run_and_then run_results run_simple still_pause run_ask run_write

lemma service_recovers_row:
  assumes "en_db e = noted_db" "sn_leadership (snapshot (en_gates e))" "sn_rpc (snapshot (en_gates e))"
  shows "run_state (reconcile_prepared service_app still_world submitted_row) e =
    (Inr (), e\<lparr>en_clock := en_clock e + 8, en_gates := set_relayer True (set_relayer True (en_gates e)),
       en_sent := en_sent e @ [\<lparr>sb_settlement_id = 1, sb_bytes = ''tx'',
         sb_gates = set_relayer True (set_relayer True (en_gates e)), sb_db = noted_db\<rparr>]\<rparr>)"
proof -
  have near: "reconcile_prepared service_app still_world submitted_row
      = reconcile_prepared_near service_app still_world submitted_row"
    by (simp add: reconcile_prepared_def service_app_def)
  have key: "signer_public_key service_lib (ap_provider service_app) = ''ed25519:r''"
    "is_account_id (lib_near service_lib) ''relayer''" "lib_hash_text service_lib 7 = ''h''"
    "lib_hash_parse service_lib ''h'' = Some 7"
    by (simp_all add: service_app_def service_provider_def service_lib_def sample_lib_def sample_near_codec_def)
  have nonces: "sg_signer_nonce service_head = 7" "sg_signer_nonce service_backup_head = 7"
    "sg_chain_block_height service_head = 100" "sg_chain_block_height service_backup_head = 100"
    by (simp_all add: service_head_def service_backup_head_def)
  have unknown: "rc_verdict (status_verdict VerdictUnknown) = VerdictUnknown"
    by (simp add: status_verdict_def)
  have clock: "Suc (Suc (Suc (Suc (n + 1 + 1 + 1 + 1)))) = n + 8" for n :: nat
    by simp
  show ?thesis
    unfolding near reconcile_prepared_near_def Let_def
    using assms
    by (simp add: run_rules service_config key submitted_row_sel corrupt_def ok_or_def service_stored service_status
        unknown recover_unknown_near_def run_fresh_head noted_db_eq ask_backup_head_def service_backup column_word_def
        nonces mark_submitted_if_prepared_def rebroadcast_stored_def service_rebroadcasts
        can_reconciliation_broadcast_def clock del: One_nat_def)
qed

definition service_recovered :: engine where
  "service_recovered = snd (run_state (reconcile service_app still_world) service_end)"

lemma service_nonterminal:
  "nonterminal_settlements service_db_submitted = [submitted_row]"
  "nonterminal_settlements noted_db = [submitted_row\<lparr>st_reconciliation_attempts := st_reconciliation_attempts submitted_row + 1\<rparr>]"
  by (simp_all add: nonterminal_settlements_def service_db_submitted_eq noted_db_eq submitted_row_sel)

lemma service_recovery:
  "run_state (reconcile service_app still_world) service_end = (Inr (), service_recovered)"
  "en_db service_recovered = noted_db" "map sb_bytes (en_sent service_recovered) = [''tx'', ''tx'']"
  "\<not> sn_reconciliation (snapshot (en_gates service_recovered))"
proof -
  let ?g = "set_relayer True (set_relayer True (set_reconciliation False (set_reconciliation False sent_gates)))"
  have current: "find_row noted_db 1 = Some (submitted_row\<lparr>st_reconciliation_attempts := st_reconciliation_attempts submitted_row + 1\<rparr>)"
    by (simp add: find_row_def noted_db_eq submitted_row_sel)
  have open1: "sn_leadership (snapshot sent_gates)" "sn_rpc (snapshot sent_gates)"
    by (simp_all add: sent_gates_def open_gates_def)
  have run: "run_state (reconcile service_app still_world) service_end =
    (Inr (), \<lparr>en_clock = 24, en_db = noted_db, en_gates = set_reconciliation False ?g,
      en_sent = en_sent service_end @ [\<lparr>sb_settlement_id = 1, sb_bytes = ''tx'', sb_gates = ?g, sb_db = noted_db\<rparr>],
      en_rates = en_rates service_end, en_spawned = en_spawned service_end\<rparr>)"
    unfolding reconcile_def
    by (simp add: run_rules service_run(3-5) close_reconciliation_def read_db_def service_nonterminal submitted_row_sel
        update_db_def committed_or_def service_notes service_recovers_row current open1 del: One_nat_def)
  show "run_state (reconcile service_app still_world) service_end = (Inr (), service_recovered)"
    "en_db service_recovered = noted_db" "map sb_bytes (en_sent service_recovered) = [''tx'', ''tx'']"
    "\<not> sn_reconciliation (snapshot (en_gates service_recovered))"
    unfolding service_recovered_def run by (simp_all add: service_run(2))
qed

end
