(* ===== verification/Http.thy ===== *)
theory Http
  imports Engine
begin

text \<open>
  The request handlers of \<open>service.rs\<close>: authentication, rate limits, body limits and parsing, the static
  checks, the replay of earlier settlements, admission to the journal, and the responses. A handler runs
  against the same await points as the worker; the workers it starts are recorded in the engine's state.
  The deadlines around whole handlers, metrics and tracing are left out.
\<close>

section \<open>Responses\<close>

text \<open>A response with a JSON body, with or without a retry-after header.\<close>

record http_response =
  hr_status :: nat
  hr_body :: bytes
  hr_retry_after :: bool

record api_error =
  ae_status :: nat
  ae_code :: string
  ae_message :: string
  ae_retry :: bool

definition api_error_new :: "nat \<Rightarrow> string \<Rightarrow> string \<Rightarrow> api_error" where
  "api_error_new status code message = \<lparr>ae_status = status, ae_code = code, ae_message = message, ae_retry = False\<rparr>"

definition unavailable :: "string \<Rightarrow> string \<Rightarrow> api_error" where
  "unavailable code message = \<lparr>ae_status = 503, ae_code = code, ae_message = message, ae_retry = True\<rparr>"

definition rate_limited :: "string \<Rightarrow> string \<Rightarrow> api_error" where
  "rate_limited code message = \<lparr>ae_status = 429, ae_code = code, ae_message = message, ae_retry = True\<rparr>"

definition error_value :: "string \<Rightarrow> string \<Rightarrow> json" where
  "error_value code message =
     JObject [(''error'', JObject [(''code'', JString code), (''message'', JString message)])]"

text \<open>\<open>axum::Json\<close> answers 500 with the error's text when the body cannot be written.\<close>

definition axum_json :: "app_state \<Rightarrow> nat \<Rightarrow> json \<Rightarrow> http_response" where
  "axum_json a status body = (case ap_to_vec a body of
     Some b \<Rightarrow> \<lparr>hr_status = status, hr_body = b, hr_retry_after = False\<rparr>
   | None \<Rightarrow> \<lparr>hr_status = 500, hr_body = ap_json_error_text a, hr_retry_after = False\<rparr>)"

definition error_response :: "app_state \<Rightarrow> api_error \<Rightarrow> http_response" where
  "error_response a e = (axum_json a (ae_status e) (error_value (ae_code e) (ae_message e)))\<lparr>hr_retry_after := ae_retry e\<rparr>"

definition raw_json :: "nat \<Rightarrow> bytes \<Rightarrow> http_response" where
  "raw_json status b = \<lparr>hr_status = status, hr_body = b, hr_retry_after = False\<rparr>"

definition protocol_json :: "app_state \<Rightarrow> nat \<Rightarrow> json \<Rightarrow> http_response" where
  "protocol_json a status body = (case ap_to_vec a body of
     Some b \<Rightarrow> raw_json status b
   | None \<Rightarrow> error_response a (unavailable ''response_serialization_failed'' ''response serialization failed''))"

definition service_error_bytes :: "app_state \<Rightarrow> string \<Rightarrow> string \<Rightarrow> bytes" where
  "service_error_bytes a code message = (case ap_to_vec a (error_value code message) of
     Some b \<Rightarrow> b
   | None \<Rightarrow> ''{'' @ [CHR 0x22] @ ''error'' @ [CHR 0x22] @ '':{'' @ [CHR 0x22] @ ''code'' @ [CHR 0x22] @ '':''
       @ [CHR 0x22] @ ''internal_error'' @ [CHR 0x22] @ '','' @ [CHR 0x22] @ ''message'' @ [CHR 0x22] @ '':''
       @ [CHR 0x22] @ ''internal error'' @ [CHR 0x22] @ ''}}'')"

text \<open>\<open>StatusCode::from_u16\<close> accepts 100 to 999.\<close>

definition status_from_u16 :: "nat \<Rightarrow> nat option" where
  "status_from_u16 n = (if 100 \<le> n \<and> n < 1000 then Some n else None)"

definition stored_terminal_response :: "app_state \<Rightarrow> settlement \<Rightarrow> http_response" where
  "stored_terminal_response a record =
     (let status = (case Option.bind (st_terminal_http_status record) status_from_u16 of Some s \<Rightarrow> s | None \<Rightarrow> 503);
          b = (case st_terminal_response_bytes record of
                 Some b \<Rightarrow> b
               | None \<Rightarrow> service_error_bytes a ''journal_incomplete'' ''terminal settlement response is unavailable'')
      in (raw_json status b)\<lparr>hr_retry_after := (status = 503)\<rparr>)"

definition completed_settlement_response :: "app_state \<Rightarrow> settlement \<Rightarrow> http_response" where
  "completed_settlement_response a record =
     (if is_terminal (st_state record) then stored_terminal_response a record
      else error_response a (unavailable ''settlement_retryable'' ''settlement can be retried with the same request''))"

definition finalize_wire_response :: "app_state \<Rightarrow> http_response \<Rightarrow> wire_version \<Rightarrow> http_response" where
  "finalize_wire_response a response wire =
     (if wire = V2 \<or> hr_status response \<noteq> 200 then response
      else if length (hr_body response) > 1048576
      then error_response a (unavailable ''response_serialization_failed'' ''response serialization failed'')
      else case ap_from_slice a (hr_body response) of
        None \<Rightarrow> response
      | Some body \<Rightarrow>
          (case ap_to_vec a (translate_response_value_to_v1 body) of
             Some translated \<Rightarrow> response\<lparr>hr_body := translated\<rparr>
           | None \<Rightarrow> error_response a (unavailable ''response_serialization_failed'' ''response serialization failed'')))"

text \<open>The await point a handler is at, without awaiting.\<close>

definition here :: "nat act" where
  "here = State (\<lambda>e. (en_clock e, e))"

section \<open>Admission of a request\<close>

text \<open>A request, with the body's bytes unless reading it failed.\<close>

record http_request =
  hq_headers :: headers
  hq_body :: "bytes option"

definition authenticate_request ::
  "app_state \<Rightarrow> world \<Rightarrow> headers \<Rightarrow> (api_error + authenticated_client) act" where
  "authenticate_request a w hs =
     (let unauthorized = api_error_new 401 ''invalid_api_key'' ''missing or invalid API key'';
          unreachable = unavailable ''authentication_unavailable'' ''authentication is temporarily unavailable'' in
      case presented_key (ap_auth a) (cfg_environment (ap_config a)) (ap_pepper a) hs of
        Inl _ \<Rightarrow> fail unauthorized
      | Inr (prefix, calculated) \<Rightarrow> do {
          candidate \<leftarrow> read_db w (\<lambda>d. lookup_api_key d prefix);
          case candidate of
            Inl _ \<Rightarrow> fail unreachable
          | Inr candidate \<Rightarrow>
              lift_res (map_err (\<lambda>_. unauthorized)
                (admit_candidate (cfg_environment (ap_config a)) prefix calculated candidate))
        })"

definition check_rate :: "world \<Rightarrow> string \<Rightarrow> operation \<Rightarrow> u32 \<Rightarrow> bool act" where
  "check_rate w key_prefix operation limit = do {
     k \<leftarrow> pause w;
     State (\<lambda>e. let (admitted, windows) = rate_check (wo_instant w k) key_prefix operation limit (en_rates e)
       in (admitted, e\<lparr>en_rates := windows\<rparr>))
   }"

text \<open>\<open>str::trim\<close> on the ASCII text of a header.\<close>

definition is_trimmed :: "char \<Rightarrow> bool" where
  "is_trimmed c \<longleftrightarrow> byte_of c = 32 \<or> 9 \<le> byte_of c \<and> byte_of c \<le> 13"

definition trim :: "string \<Rightarrow> string" where
  "trim s = rev (dropWhile is_trimmed (rev (dropWhile is_trimmed s)))"

definition ensure_json :: "headers \<Rightarrow> api_error + unit" where
  "ensure_json hs =
     (let unsupported = api_error_new 415 ''unsupported_media_type'' ''Content-Type must be application/json'' in
      case find (\<lambda>h. fst h = ''content-type'') hs of
        None \<Rightarrow> Inl unsupported
      | Some (_, None) \<Rightarrow> Inl unsupported
      | Some (_, Some content_type) \<Rightarrow>
          if eq_ignore_ascii_case (trim (takeWhile (\<lambda>c. c \<noteq> CHR '';'') content_type)) ''application/json''
          then Inr () else Inl unsupported)"

definition read_and_parse :: "app_state \<Rightarrow> http_request \<Rightarrow> api_error + parsed_request" where
  "read_and_parse a request =
     bind_res (ensure_json (hq_headers request)) (\<lambda>_.
     bind_res (ok_or (case hq_body request of
         Some b \<Rightarrow> if length b \<le> unat (rl_body_bytes (cfg_request_limits (ap_config a))) then Some b else None
       | None \<Rightarrow> None) (api_error_new 413 ''request_too_large'' ''request body exceeds 64 KiB'')) (\<lambda>b.
     map_err (\<lambda>_. api_error_new 400 ''malformed_request'' ''request body is not a canonical x402 request'')
       (parse_request (ap_from_slice a) (ap_to_raw a) b (cfg_payment_identifier (ap_config a))
         (cfg_accept_v1 (ap_config a)))))"

definition configured_asset_matches :: "chain_kind \<Rightarrow> string \<Rightarrow> string \<Rightarrow> bool" where
  "configured_asset_matches kind configured requested =
     (case kind of Near \<Rightarrow> requested = configured | Eip155 \<Rightarrow> eq_ignore_ascii_case requested configured)"

definition static_failure_reason :: "app_state \<Rightarrow> parsed_request \<Rightarrow> string option" where
  "static_failure_reason a request =
     (let meta = pr_meta request; config = ap_config a in
      if rm_x402_version meta \<noteq> 2 then Some ''invalid_x402_version''
      else if rm_scheme meta \<noteq> ''exact'' then Some ''unsupported_scheme''
      else if rm_network meta \<noteq> cfg_network config then Some ''invalid_network''
      else if (case rm_near_asset_transfer_method meta of Some m \<Rightarrow> m \<noteq> DelegateTransfer | None \<Rightarrow> False)
      then Some ''unsupported_asset_transfer_method''
      else if \<not> configured_asset_matches (cfg_chain_kind config) (cfg_asset config) (rm_asset meta) then Some ''invalid_asset''
      else if \<not> decimal_is_at_least (rm_amount meta) (cfg_minimum_amount config) then Some ''amount_below_minimum''
      else None)"

definition response_is_rpc_ambiguous :: "json \<Rightarrow> bool" where
  "response_is_rpc_ambiguous body =
     (case Option.bind (Option.bind (as_object body) (\<lambda>m. jget m ''invalidReason'')) as_str of
        None \<Rightarrow> False
      | Some why \<Rightarrow> why \<in> set [''invalid_exact_near_current_block_height_unavailable'',
          ''invalid_exact_near_access_key_lookup_failed'', ''invalid_exact_near_account_lookup_failed'',
          ''invalid_exact_near_token_account_lookup_failed'', ''invalid_exact_near_balance_check_failed'',
          ''invalid_exact_near_storage_check_failed''])"

definition settle_failed :: "app_state \<Rightarrow> string \<Rightarrow> string option \<Rightarrow> http_response" where
  "settle_failed a why payer =
     protocol_json a 200 (settle_response_value (settle_failure why None payer [] (cfg_network (ap_config a))))"

definition settle_from_verify_failure :: "app_state \<Rightarrow> json \<Rightarrow> http_response" where
  "settle_from_verify_failure a body =
     (let field = (\<lambda>name. Option.bind (Option.bind (as_object body) (\<lambda>m. jget m name)) as_str) in
      settle_failed a (case field ''invalidReason'' of Some why \<Rightarrow> why | None \<Rightarrow> ''invalid_payment'') (field ''payer''))"

section \<open>Earlier settlements\<close>

text \<open>\<open>wait_for_terminal\<close> under its deadline: nothing if the deadline passes first.\<close>

primrec wait_polls :: "world \<Rightarrow> uuid \<Rightarrow> nat \<Rightarrow> (store_error + settlement) option act" where
  "wait_polls w settlement_id 0 = State_Monad.return None"
| "wait_polls w settlement_id (Suc n) = do {
     r \<leftarrow> read_db w (\<lambda>d. find_row d settlement_id);
     case r of
       Inl e \<Rightarrow> State_Monad.return (Some (Inl e))
     | Inr None \<Rightarrow> State_Monad.return (Some (Inl (Corrupt ''settlement disappeared'')))
     | Inr (Some record) \<Rightarrow>
         if is_terminal (st_state record) \<or> st_state record = AwaitingRetry
         then State_Monad.return (Some (Inr record)) else wait_polls w settlement_id n
   }"

definition wait_for_terminal :: "world \<Rightarrow> uuid \<Rightarrow> (store_error + settlement) option act" where
  "wait_for_terminal w settlement_id = do { k \<leftarrow> here; wait_polls w settlement_id (wo_polls w k) }"

definition journal_unavailable :: api_error where
  "journal_unavailable = unavailable ''database_unavailable'' ''settlement journal is temporarily unavailable''"

definition settlement_pending :: api_error where
  "settlement_pending = unavailable ''settlement_pending''
     ''settlement is still pending; retry with the same payment identifier''"

definition identifier_conflict :: api_error where
  "identifier_conflict = api_error_new 409 ''payment_identifier_conflict''
     ''payment identifier was already used for another request''"

text \<open>What a request is known by: its client, payment identifier, payment hash and fingerprint.\<close>

record request_key =
  ky_client :: uuid
  ky_identifier :: "string option"
  ky_payment_hash :: hash32
  ky_fingerprint :: hash32

definition prior_settlement_response ::
  "app_state \<Rightarrow> world \<Rightarrow> request_key \<Rightarrow> (store_error + http_response option) act" where
  "prior_settlement_response a w key =
     and_then (read_db w (\<lambda>d. find_existing_settlement d (ky_client key) (ky_identifier key) (ky_payment_hash key)
       (ky_fingerprint key))) (\<lambda>claim.
     case claim of
       None \<Rightarrow> State_Monad.return (Inr None)
     | Some (ClaimExisting record) \<Rightarrow>
         if st_state record = AwaitingRetry then State_Monad.return (Inr None)
         else if is_terminal (st_state record)
         then State_Monad.return (Inr (Some (stored_terminal_response a record)))
         else do {
           settled \<leftarrow> wait_for_terminal w (st_id record);
           case settled of
             Some (Inr record) \<Rightarrow> State_Monad.return (Inr (Some (completed_settlement_response a record)))
           | Some (Inl e) \<Rightarrow> fail e
           | None \<Rightarrow> State_Monad.return (Inr (Some (error_response a settlement_pending)))
         }
     | Some IdentifierConflict \<Rightarrow> State_Monad.return (Inr (Some (error_response a identifier_conflict)))
     | Some DuplicateSettlement \<Rightarrow> State_Monad.return (Inr (Some (settle_failed a ''duplicate_settlement'' None)))
     | Some _ \<Rightarrow> fail (Corrupt ''existing-settlement lookup returned a non-existing outcome''))"

definition prior_settlement_race_response ::
  "app_state \<Rightarrow> world \<Rightarrow> request_key \<Rightarrow> http_response option act" where
  "prior_settlement_race_response a w key = do {
     r \<leftarrow> prior_settlement_response a w key;
     case r of
       Inr response \<Rightarrow> State_Monad.return response
     | Inl _ \<Rightarrow> State_Monad.return (Some (error_response a journal_unavailable))
   }"

text \<open>The refusals of \<open>settle_inner\<close> that first defer to a settlement that came in meanwhile.\<close>

definition unless_settled :: "app_state \<Rightarrow> world \<Rightarrow> request_key \<Rightarrow> http_response \<Rightarrow> http_response act" where
  "unless_settled a w key refusal = do {
     r \<leftarrow> prior_settlement_race_response a w key;
     State_Monad.return (case r of Some response \<Rightarrow> response | None \<Rightarrow> refusal)
   }"

definition facilitator_is_valid :: "json \<Rightarrow> bool" where
  "facilitator_is_valid body \<longleftrightarrow>
     (case Option.bind (as_object body) (\<lambda>m. jget m ''isValid'') of Some (JBool b) \<Rightarrow> b | _ \<Rightarrow> False)"

definition route_facilitator :: "world \<Rightarrow> (unit + json) act" where
  "route_facilitator w = do {
     k \<leftarrow> pause w;
     State_Monad.return (fst (retry_while_transient (wo_facilitator w k)
       (\<lambda>r. case r of Inr body \<Rightarrow> response_is_rpc_ambiguous body | Inl _ \<Rightarrow> False)))
   }"

definition near_unavailable :: "string \<Rightarrow> api_error" where
  "near_unavailable code = unavailable code ''NEAR verification is temporarily unavailable''"

definition facilitator_verify_gate :: "app_state \<Rightarrow> world \<Rightarrow> request_key \<Rightarrow> http_response option act" where
  "facilitator_verify_gate a w key = do {
     routed \<leftarrow> route_facilitator w;
     case routed of
       Inl _ \<Rightarrow> do {
         r \<leftarrow> unless_settled a w key (error_response a (near_unavailable ''verification_unavailable''));
         State_Monad.return (Some r)
       }
     | Inr body \<Rightarrow>
         if \<not> facilitator_is_valid body then do {
           r \<leftarrow> unless_settled a w key
             (if response_is_rpc_ambiguous body then error_response a (near_unavailable ''rpc_unavailable'')
              else settle_from_verify_failure a body);
           State_Monad.return (Some r)
         } else State_Monad.return None
   }"

section \<open>Settling\<close>

text \<open>Thirty-two bytes as a word, most significant byte first, and back.\<close>

definition hash_bytes :: "hash32 \<Rightarrow> bytes" where
  "hash_bytes h = map (\<lambda>i. char_of (unat (drop_bit (8 * (31 - i)) h) mod 256)) [0..<32]"

definition hash_of_bytes :: "bytes \<Rightarrow> hash32" where
  "hash_of_bytes b = foldl (\<lambda>h c. h * 256 + of_nat (byte_of c)) 0 b"

definition fingerprint_of :: "app_state \<Rightarrow> json \<Rightarrow> hash32 \<Rightarrow> hash32" where
  "fingerprint_of a body payment_hash =
     hash_of_bytes (request_fingerprint (ap_sha256 a) (ap_quote a) body (hash_bytes payment_hash))"

text \<open>The payment's identity before anything is asked of the chain, or why it has none.\<close>

definition offline_identity :: "app_state \<Rightarrow> parsed_request \<Rightarrow> string + hash32" where
  "offline_identity a parsed =
     (case cfg_chain_kind (ap_config a) of
        Near \<Rightarrow>
          bind_res (map_err reason (decode_signed_delegate (lib_near (ap_lib a))
            (case rm_signed_delegate_action (pr_meta parsed) of Some s \<Rightarrow> s | None \<Rightarrow> []))) (\<lambda>decoded.
          if \<not> delegate_verify (lib_near (ap_lib a)) (dd_signed_delegate decoded)
          then Inl (reason InvalidSignature) else Inr (dd_payment_hash decoded))
      | Eip155 \<Rightarrow> provider_offline_payment_hash (ap_lib a) (ap_provider a) (pr_raw parsed))"

text \<open>The row a verified payment is claimed with.\<close>

definition new_settlement_of ::
  "app_state \<Rightarrow> uuid \<Rightarrow> api_client \<Rightarrow> parsed_request \<Rightarrow> hash32 \<Rightarrow> verified_payment \<Rightarrow> new_settlement" where
  "new_settlement_of a settlement_id client parsed fingerprint verified =
     (let payment_identity = identity (ap_lib a) verified; meta = pr_meta parsed;
          sponsorship = cfg_sponsorship (ap_config a);
          (kind, public_key, nonce, max_height, metadata, signer) =
            (case pi_authorization payment_identity of
               NearAuthorization public_key nonce max_height \<Rightarrow>
                 (Near, Some public_key, Some (decimal_value nonce), Some (decimal_value max_height), None, None)
             | EvmAuthorization version valid_after valid_before \<Rightarrow>
                 (Eip155, None, None, None,
                  Some \<lparr>am_version = version, am_valid_after = valid_after, am_valid_before = valid_before\<rparr>,
                  Some (signer_account_id (ap_lib a) (ap_provider a))))
      in \<lparr>new_id = settlement_id, new_api_client_id = cl_id client,
          new_payment_identifier = rm_payment_identifier meta, new_payment_hash = pi_request_hash payment_identity,
          new_request_fingerprint = fingerprint, new_anchor_scope = pi_anchor_scope payment_identity,
          new_anchor_value = pi_anchor_value payment_identity, new_network = rm_network meta,
          new_asset = rm_asset meta, new_pay_to = rm_pay_to meta, new_amount = decimal_value (rm_amount meta),
          new_payer = vd_payer verified, new_chain_kind = kind, new_delegate_public_key = public_key,
          new_delegate_nonce = nonce, new_delegate_max_block_height = max_height,
          new_authorization_metadata = metadata, new_signer_address = signer,
          new_policy_snapshot = policy_snapshot (ap_config a),
          new_reservation_yocto_near = decimal_value (sp_reservation_yocto_near sponsorship),
          new_global_daily_budget_yocto_near = decimal_value (sp_global_daily_yocto_near sponsorship),
          new_client_daily_budget_yocto_near = cl_daily_budget_yocto_near client\<rparr>)"

text \<open>
  \<open>claim_settlement\<close> as the handler awaits it: other sessions act before each of its nine statements;
  statement 5 is the transaction. Without an answer the caller sees an error, and the transaction may or may
  not have been applied.
\<close>

primrec drift :: "world \<Rightarrow> nat \<Rightarrow> nat \<Rightarrow> db \<Rightarrow> db" where
  "drift w k 0 d = d"
| "drift w k (Suc n) d = wo_db w (k + n) (drift w k n d)"

primrec drift_gates :: "world \<Rightarrow> nat \<Rightarrow> nat \<Rightarrow> readiness \<Rightarrow> readiness" where
  "drift_gates w k 0 g = g"
| "drift_gates w k (Suc n) g = wo_gates w (k + n) (drift_gates w k n g)"

definition claimed_db :: "app_state \<Rightarrow> world \<Rightarrow> new_settlement \<Rightarrow> nat \<Rightarrow> db \<Rightarrow> db" where
  "claimed_db a w n k d = snd (claim_settlement (ap_date a (wo_now w k)) (wo_now w k) (\<lambda>j. drift w k (Suc j) d) n)"

definition statement_db :: "app_state \<Rightarrow> world \<Rightarrow> new_settlement \<Rightarrow> nat \<Rightarrow> db \<Rightarrow> nat \<Rightarrow> db" where
  "statement_db a w n k d j =
     (if j \<le> 5 then drift w k (Suc j) d else drift w (k + 6) (j - 5) (claimed_db a w n k d))"

definition claim_act :: "app_state \<Rightarrow> world \<Rightarrow> new_settlement \<Rightarrow> (store_error + claim_outcome) act" where
  "claim_act a w n = State (\<lambda>e.
     let k = en_clock e; d = en_db e;
         later = e\<lparr>en_clock := k + 9, en_gates := drift_gates w k 9 (en_gates e)\<rparr> in
     case wo_fault w k of
       Answered \<Rightarrow>
         (fst (claim_settlement (ap_date a (wo_now w k)) (wo_now w k) (statement_db a w n k d) n),
          later\<lparr>en_db := statement_db a w n k d 8\<rparr>)
     | NotApplied \<Rightarrow> (Inl (Database None), later\<lparr>en_db := drift w k 9 d\<rparr>)
     | Unacknowledged \<Rightarrow> (Inl (Database None), later\<lparr>en_db := statement_db a w n k d 8\<rparr>))"

definition spawn_settlement_worker :: "uuid \<Rightarrow> string \<Rightarrow> unit act" where
  "spawn_settlement_worker settlement_id request =
     State (\<lambda>e. ((), e\<lparr>en_spawned := en_spawned e @ [(settlement_id, request)]\<rparr>))"

definition retry_reservation_of :: "app_state \<Rightarrow> api_client \<Rightarrow> uuid \<Rightarrow> retry_reservation" where
  "retry_reservation_of a client settlement_id =
     (let sponsorship = cfg_sponsorship (ap_config a) in
      \<lparr>rr_settlement_id = settlement_id, rr_policy_snapshot = policy_snapshot (ap_config a),
       rr_reservation_yocto_near = decimal_value (sp_reservation_yocto_near sponsorship),
       rr_global_daily_budget_yocto_near = decimal_value (sp_global_daily_yocto_near sponsorship),
       rr_client_daily_budget_yocto_near = cl_daily_budget_yocto_near client\<rparr>)"

definition settlement_busy :: api_error where
  "settlement_busy = unavailable ''settlement_busy'' ''the configured signer is settling another payment''"

definition budget_exhausted :: api_error where
  "budget_exhausted = rate_limited ''sponsorship_budget_exhausted'' ''sponsorship budget is exhausted''"

text \<open>Resuming a row that awaits a retry: the settlement to wait for, or the response.\<close>

definition resume_settlement ::
  "app_state \<Rightarrow> world \<Rightarrow> api_client \<Rightarrow> uuid \<Rightarrow> string \<Rightarrow> (http_response + uuid) act" where
  "resume_settlement a w client settlement_id request = do {
     r \<leftarrow> write_db w (\<lambda>now d. resume_awaiting_retry (ap_date a now) d (retry_reservation_of a client settlement_id));
     case r of
       Inr (Resumed resumed) \<Rightarrow> do {
         spawn_settlement_worker (st_id resumed) request;
         State_Monad.return (Inr (st_id resumed))
       }
     | Inr RetryBusy \<Rightarrow> fail (error_response a settlement_busy)
     | Inr RetryBudgetExceeded \<Rightarrow> fail (error_response a budget_exhausted)
     | Inl (Transition _ _) \<Rightarrow> do {
         current \<leftarrow> read_db w (\<lambda>d. find_row d settlement_id);
         case current of
           Inr (Some current) \<Rightarrow>
             if st_state current \<noteq> AwaitingRetry then State_Monad.return (Inr (st_id current))
             else fail (error_response a (unavailable ''settlement_retryable''
                    ''settlement can be retried with the same request''))
         | _ \<Rightarrow> fail (error_response a journal_unavailable)
       }
     | Inl _ \<Rightarrow> fail (error_response a journal_unavailable)
   }"

text \<open>What \<open>settle_inner\<close> makes of a claim: the settlement to wait for, or the response.\<close>

definition follow_claim ::
  "app_state \<Rightarrow> world \<Rightarrow> api_client \<Rightarrow> string \<Rightarrow> string \<Rightarrow> store_error + claim_outcome \<Rightarrow> (http_response + uuid) act" where
  "follow_claim a w client request payer claim =
     (case claim of
        Inl _ \<Rightarrow> fail (error_response a journal_unavailable)
      | Inr (ClaimNew record) \<Rightarrow> do {
          spawn_settlement_worker (st_id record) request;
          State_Monad.return (Inr (st_id record))
        }
      | Inr (ClaimExisting record) \<Rightarrow>
          if is_terminal (st_state record) then fail (stored_terminal_response a record)
          else if st_state record = AwaitingRetry then resume_settlement a w client (st_id record) request
          else State_Monad.return (Inr (st_id record))
      | Inr IdentifierConflict \<Rightarrow> fail (error_response a identifier_conflict)
      | Inr DuplicateSettlement \<Rightarrow> fail (settle_failed a ''duplicate_settlement'' (Some payer))
      | Inr SettlementBusy \<Rightarrow> fail (error_response a settlement_busy)
      | Inr BudgetExceeded \<Rightarrow> fail (error_response a budget_exhausted))"

text \<open>The end of \<open>settle_inner\<close>: wait for the claimed settlement.\<close>

definition await_settlement :: "app_state \<Rightarrow> world \<Rightarrow> http_response + uuid \<Rightarrow> http_response act" where
  "await_settlement a w claimed =
     (case claimed of
        Inl response \<Rightarrow> State_Monad.return response
      | Inr settlement_id \<Rightarrow> do {
          settled \<leftarrow> wait_for_terminal w settlement_id;
          State_Monad.return (case settled of
            Some (Inr record) \<Rightarrow> completed_settlement_response a record
          | Some (Inl _) \<Rightarrow> error_response a journal_unavailable
          | None \<Rightarrow> error_response a settlement_pending)
        })"

text \<open>A payment accepted for settlement: verified once more, claimed, and waited for.\<close>

definition verify_and_claim ::
  "app_state \<Rightarrow> world \<Rightarrow> api_client \<Rightarrow> parsed_request \<Rightarrow> request_key \<Rightarrow> http_response act" where
  "verify_and_claim a w client parsed key = do {
     verified \<leftarrow> ask_chain w (\<lambda>p. chain_verify (ap_lib a) p
       \<lparr>po_max_sponsored_gas = cfg_max_inner_gas (ap_config a)\<rparr> (pr_raw parsed));
     case verified of
       Inl rejection \<Rightarrow>
         unless_settled a w key
           (if rj_rpc_ambiguous rejection
            then error_response a (unavailable ''rpc_unavailable'' ''verification is temporarily unavailable'')
            else settle_failed a (rj_reason rejection) None)
     | Inr verified \<Rightarrow>
         if vd_payment_hash verified \<noteq> ky_payment_hash key
         then State_Monad.return (error_response a (unavailable ''verification_inconsistent''
                ''payment verification was internally inconsistent''))
         else do {
           k \<leftarrow> here;
           claim \<leftarrow> claim_act a w (new_settlement_of a (wo_uuid w k) client parsed (ky_fingerprint key) verified);
           claimed \<leftarrow> follow_claim a w client (pr_raw parsed) (vd_payer verified) claim;
           await_settlement a w claimed
         }
   }"

text \<open>What \<open>settle_inner\<close> does with a request that has an identity and no answer in the journal yet.\<close>

definition admit_payment ::
  "app_state \<Rightarrow> world \<Rightarrow> api_client \<Rightarrow> parsed_request \<Rightarrow> request_key \<Rightarrow> http_response act" where
  "admit_payment a w client parsed key = do {
     g \<leftarrow> gates;
     if \<not> can_settle g
     then unless_settled a w key (error_response a (unavailable ''settlement_unavailable''
            ''settlement is temporarily unavailable''))
     else do {
     allowed \<leftarrow> read_db w (\<lambda>d. payee_allowed d (cl_id client) (rm_network (pr_meta parsed))
       (rm_asset (pr_meta parsed)) (rm_pay_to (pr_meta parsed)));
     case allowed of
       Inl _ \<Rightarrow> State_Monad.return (error_response a (unavailable ''database_unavailable''
                 ''settlement policy is temporarily unavailable''))
     | Inr False \<Rightarrow> unless_settled a w key (settle_failed a ''payee_not_allowed'' None)
     | Inr True \<Rightarrow> do {
         gated \<leftarrow> (if ap_facilitator a then facilitator_verify_gate a w key else State_Monad.return None);
         case gated of
           Some response \<Rightarrow> State_Monad.return response
         | None \<Rightarrow> verify_and_claim a w client parsed key
       }
     }}"

definition settle_parsed ::
  "app_state \<Rightarrow> world \<Rightarrow> api_client \<Rightarrow> parsed_request \<Rightarrow> http_response act" where
  "settle_parsed a w client parsed =
     (case static_failure_reason a parsed of
        Some why \<Rightarrow> State_Monad.return (settle_failed a why None)
      | None \<Rightarrow>
     (case offline_identity a parsed of
        Inl why \<Rightarrow> State_Monad.return (settle_failed a why None)
      | Inr payment_hash \<Rightarrow>
     (let key = \<lparr>ky_client = cl_id client, ky_identifier = rm_payment_identifier (pr_meta parsed),
                 ky_payment_hash = payment_hash, ky_fingerprint = fingerprint_of a (pr_value parsed) payment_hash\<rparr> in do {
     prior \<leftarrow> prior_settlement_response a w key;
     case prior of
       Inl _ \<Rightarrow> State_Monad.return (error_response a journal_unavailable)
     | Inr (Some response) \<Rightarrow> State_Monad.return response
     | Inr None \<Rightarrow> admit_payment a w client parsed key
     })))"

definition settle_inner :: "app_state \<Rightarrow> world \<Rightarrow> http_request \<Rightarrow> http_response act" where
  "settle_inner a w request = do {
     authenticated \<leftarrow> authenticate_request a w (hq_headers request);
     case authenticated of
       Inl e \<Rightarrow> State_Monad.return (error_response a e)
     | Inr authenticated \<Rightarrow> do {
     admitted \<leftarrow> check_rate w (ac_key_prefix authenticated) SettleOp
       (min (cl_settle_rate_per_minute (ac_client authenticated)) (rl_settle_per_minute (cfg_request_limits (ap_config a))));
     if \<not> admitted
     then State_Monad.return (error_response a (rate_limited ''rate_limit_exceeded'' ''settlement rate limit exceeded''))
     else case read_and_parse a request of
       Inl e \<Rightarrow> State_Monad.return (error_response a e)
     | Inr parsed \<Rightarrow> do {
         response \<leftarrow> settle_parsed a w (ac_client authenticated) parsed;
         State_Monad.return (finalize_wire_response a response (pr_wire parsed))
       }
     }}"

section \<open>Verifying\<close>

definition near_routed_verify :: "app_state \<Rightarrow> world \<Rightarrow> http_response act" where
  "near_routed_verify a w = do {
     routed \<leftarrow> route_facilitator w;
     State_Monad.return (case routed of
       Inr body \<Rightarrow>
         if response_is_rpc_ambiguous body then error_response a (near_unavailable ''rpc_unavailable'')
         else axum_json a 200 body
     | Inl _ \<Rightarrow> error_response a (near_unavailable ''verification_unavailable''))
   }"

definition evm_routed_verify :: "app_state \<Rightarrow> world \<Rightarrow> parsed_request \<Rightarrow> http_response act" where
  "evm_routed_verify a w parsed = do {
     verified \<leftarrow> ask_chain w (\<lambda>p. chain_verify (ap_lib a) p
       \<lparr>po_max_sponsored_gas = cfg_max_inner_gas (ap_config a)\<rparr> (pr_raw parsed));
     State_Monad.return (case verified of
       Inr verified \<Rightarrow> protocol_json a 200 (verify_response_value (verify_valid (vd_payer verified)))
     | Inl rejection \<Rightarrow>
         if rj_rpc_ambiguous rejection
         then error_response a (unavailable ''rpc_unavailable'' ''EVM verification is temporarily unavailable'')
         else protocol_json a 200 (verify_response_value (verify_invalid (rj_reason rejection) None None)))
   }"

definition verify_parsed :: "app_state \<Rightarrow> world \<Rightarrow> api_client \<Rightarrow> parsed_request \<Rightarrow> http_response act" where
  "verify_parsed a w client parsed =
     (case static_failure_reason a parsed of
        Some why \<Rightarrow> State_Monad.return (protocol_json a 200 (verify_response_value (verify_invalid why None None)))
      | None \<Rightarrow> do {
     allowed \<leftarrow> read_db w (\<lambda>d. payee_allowed d (cl_id client) (rm_network (pr_meta parsed))
       (rm_asset (pr_meta parsed)) (rm_pay_to (pr_meta parsed)));
     case allowed of
       Inl _ \<Rightarrow> State_Monad.return (error_response a (unavailable ''database_unavailable''
                 ''verification policy is temporarily unavailable''))
     | Inr False \<Rightarrow> State_Monad.return (protocol_json a 200
                 (verify_response_value (verify_invalid ''payee_not_allowed'' None None)))
     | Inr True \<Rightarrow> do {
         k \<leftarrow> here;
         if \<not> wo_slot w k
         then State_Monad.return (error_response a (unavailable ''verification_capacity_exhausted''
                ''verification capacity is temporarily exhausted''))
         else if ap_facilitator a then near_routed_verify a w
         else do {
           response \<leftarrow> evm_routed_verify a w parsed;
           State_Monad.return (if wo_polls w k = 0
             then error_response a (unavailable ''verification_timeout'' ''EVM verification timed out'') else response)
         }
       }
     })"

definition verify_inner :: "app_state \<Rightarrow> world \<Rightarrow> http_request \<Rightarrow> http_response act" where
  "verify_inner a w request = do {
     authenticated \<leftarrow> authenticate_request a w (hq_headers request);
     case authenticated of
       Inl e \<Rightarrow> State_Monad.return (error_response a e)
     | Inr authenticated \<Rightarrow> do {
     admitted \<leftarrow> check_rate w (ac_key_prefix authenticated) VerifyOp
       (min (cl_verify_rate_per_minute (ac_client authenticated)) (rl_verify_per_minute (cfg_request_limits (ap_config a))));
     if \<not> admitted
     then State_Monad.return (error_response a (rate_limited ''rate_limit_exceeded'' ''verification rate limit exceeded''))
     else case read_and_parse a request of
       Inl e \<Rightarrow> State_Monad.return (error_response a e)
     | Inr parsed \<Rightarrow> do {
         response \<leftarrow> verify_parsed a w (ac_client authenticated) parsed;
         State_Monad.return (finalize_wire_response a response (pr_wire parsed))
       }
     }}"

text \<open>The \<open>/supported\<close> document of an EVM instance.\<close>

record supported_kind =
  sk_x402_version :: nat
  sk_scheme :: string
  sk_network :: string

record supported_response =
  sup_kinds :: "supported_kind list"
  sup_extensions :: "string list"
  sup_signers :: "(string \<times> string list) list"

text \<open>\<open>chain_id\<close> is whether the network reads as a chain identifier.\<close>

definition evm_supported_for :: "bool \<Rightarrow> string \<Rightarrow> bool \<Rightarrow> string \<Rightarrow> supported_response" where
  "evm_supported_for chain_id network accept_v1 signer =
     \<lparr>sup_kinds = \<lparr>sk_x402_version = 2, sk_scheme = ''exact'', sk_network = network\<rparr>
        # (if accept_v1 then (case v1_network_name network of
             Some name \<Rightarrow> [\<lparr>sk_x402_version = 1, sk_scheme = ''exact'', sk_network = name\<rparr>] | None \<Rightarrow> []) else []),
      sup_extensions = [''payment-identifier''],
      sup_signers = (if chain_id then [(network, [signer])] else [])\<rparr>"

end
