(* ===== verification/Http_Theorems.thy ===== *)
theory Http_Theorems
  imports Http Recovery_Theorems
begin

text \<open>
  What the handlers do to the journal and what they answer. A handler hands nothing to the network itself,
  moves the database by journal operations only, and answers a settlement request with status 200 only from
  the journal or with a failure of the protocol.
\<close>

section \<open>Handlers are quiet\<close>

lemma drift_run: "world_ok w \<Longrightarrow> db_inv d \<Longrightarrow> store_run d (drift w k n d)"
  by (induction n) (auto simp: world_ok_def intro: store_run_trans store_run_inv)

lemma claimed_run:
  "snd (claim_settlement t now s n) = s 5 \<or> store_step (s 5) (snd (claim_settlement t now s n))"
  unfolding claim_settlement_def
  by (auto split: option.split sum.split claim_tx.split if_split intro: store_step.claim)

lemma statement_run:
  assumes w: "world_ok w" and inv: "db_inv d" and le: "i \<le> j"
  shows "db_inv (statement_db a w n k d i) \<and> store_run (statement_db a w n k d i) (statement_db a w n k d j)"
proof -
  have drift_from: "store_run (drift w k i d) (drift w k j d)" if "i \<le> j" "db_inv d" for i j d k
    using that
  proof (induction rule: dec_induct)
    case (step j)
    then show ?case
      using w drift_run [OF w step.prems, of k j] store_run_inv by (auto simp: world_ok_def intro: store_run_trans)
  qed simp
  have pre: "db_inv (drift w k m d)" for m
    by (rule store_run_inv [OF drift_run [OF w inv] inv])
  have claimed: "store_run (drift w k (Suc 5) d) (claimed_db a w n k d)"
    using claimed_run [of "ap_date a (wo_now w k)" "wo_now w k" "\<lambda>j. drift w k (Suc j) d" n]
    unfolding claimed_db_def store_run_def by (elim disjE) (simp only: rtranclp.rtrancl_refl, rule r_into_rtranclp)
  have post: "db_inv (claimed_db a w n k d)"
    by (rule store_run_inv [OF claimed pre])
  have to_claimed: "store_run (statement_db a w n k d i) (claimed_db a w n k d)" if "i \<le> 5" for i
    using drift_from [of "Suc i" "Suc 5" d k] claimed that inv by (auto simp: statement_db_def intro: store_run_trans)
  show ?thesis
  proof (cases "j \<le> 5")
    case True
    then show ?thesis
      using le drift_from [of "Suc i" "Suc j" d k] pre [of "Suc i"] inv unfolding statement_db_def by simp
  next
    case j: False
    have rest: "store_run (claimed_db a w n k d) (statement_db a w n k d j)"
      using j drift_run [OF w post] by (simp add: statement_db_def)
    show ?thesis
    proof (cases "i \<le> 5")
      case True
      have "db_inv (statement_db a w n k d i)"
        using pre [of "Suc i"] True by (simp add: statement_db_def)
      then show ?thesis
        using store_run_trans [OF to_claimed [OF True] rest] by simp
    next
      case False
      then show ?thesis
        using j le drift_from [of "i - 5" "j - 5" "claimed_db a w n k d" "k + 6"] post
          store_run_inv [OF drift_run [OF w post] post]
        by (simp add: statement_db_def)
    qed
  qed
qed

lemma quiet_here: "quiet here"
  by (simp add: quiet_def here_def)

lemma quiet_spawn: "quiet (spawn_settlement_worker i r)"
  by (auto simp: quiet_def spawn_settlement_worker_def)

lemma quiet_check_rate:
  assumes w: "world_ok w"
  shows "quiet (check_rate w key operation limit)"
  unfolding check_rate_def
  by (rule quiet_bind [OF quiet_pause [OF w]]) (auto simp: quiet_def split: prod.splits)

lemma statement_0: "statement_db a w n k d 0 = wo_db w k d"
  by (simp add: statement_db_def)

lemma statement_from_start:
  assumes "world_ok w" "db_inv d"
  shows "store_run d (statement_db a w n k d j)"
  using statement_run [OF assms, of 0 j a n k] assms
  by (auto simp: statement_0 world_ok_def intro: store_run_trans)

lemma quiet_claim_act:
  assumes w: "world_ok w"
  shows "quiet (claim_act a w n)"
  unfolding quiet_def claim_act_def
  using statement_from_start [OF w] drift_run [OF w] by (auto simp: Let_def split: db_fault.splits)

section \<open>Rules for answers\<close>

abbreviation answers :: "(db \<Rightarrow> bool) \<Rightarrow> 'a act \<Rightarrow> ('a \<Rightarrow> db \<Rightarrow> bool) \<Rightarrow> bool" where
  "answers D m Q \<equiv> triple (\<lambda>_. False) (on_db D) m (\<lambda>x. on_db (Q x))"

lemma answers_return: "(\<And>d. db_inv d \<Longrightarrow> D d \<Longrightarrow> Q x d) \<Longrightarrow> answers D (State_Monad.return x) Q"
  unfolding triple_def by (auto simp: State_Monad.return_def)

lemma answers_bind: "answers D m R \<Longrightarrow> (\<And>x. answers (R x) (f x) Q) \<Longrightarrow> answers D (State_Monad.bind m f) Q"
  by (rule triple_bind)

lemma answers_weaken:
  "answers D m Q \<Longrightarrow> (\<And>d. db_inv d \<Longrightarrow> D' d \<Longrightarrow> D d) \<Longrightarrow> (\<And>x d. Q x d \<Longrightarrow> Q' x d) \<Longrightarrow> answers D' m Q'"
  unfolding triple_def by blast

lemma answers_quiet_bind:
  assumes "quiet m" "db_stable D" "\<And>x. answers D (f x) Q"
  shows "answers D (State_Monad.bind m f) Q"
  by (rule triple_bind [OF triple_quiet [OF assms(1,2)] assms(3)])

lemma answers_case_sum:
  "(\<And>x. r = Inl x \<Longrightarrow> answers D (f x) Q) \<Longrightarrow> (\<And>y. r = Inr y \<Longrightarrow> answers D (g y) Q) \<Longrightarrow>
   answers D (case r of Inl x \<Rightarrow> f x | Inr y \<Rightarrow> g y) Q"
  by (cases r) simp_all

lemma answers_pure: "(P \<Longrightarrow> answers D m Q) \<Longrightarrow> answers (\<lambda>d. D d \<and> P) m Q"
  unfolding triple_def by blast

lemma answers_quiet_post:
  assumes m: "quiet m"
    and Q: "\<And>e x e'. db_inv (en_db e) \<Longrightarrow> D (en_db e) \<Longrightarrow> run_state m e = (x, e') \<Longrightarrow> Q x (en_db e')"
  shows "answers D m Q"
  unfolding triple_def
proof (intro allI impI)
  fix e x e'
  assume "db_inv (en_db e)" "D (en_db e)" "run_state m e = (x, e')"
  then show "store_run (en_db e) (en_db e')
      \<and> (\<exists>l. en_sent e' = en_sent e @ l \<and> (\<forall>s \<in> set l. submitted_entry (en_db e') s \<and> False)) \<and> on_db (Q x) e'"
    using assms by (intro conjI exI [of _ "[]"]) (auto simp: quiet_def)
qed

lemma answers_read:
  assumes "world_ok w" "db_stable D"
  shows "answers D (read_db w f) (\<lambda>r d. \<forall>x. r = Inr x \<longrightarrow> D d \<and> x = f d)"
  by (rule triple_read [OF assms])

section \<open>What is answered\<close>

definition terminal_response :: "settlement \<Rightarrow> (nat \<times> bytes) option" where
  "terminal_response r = (if is_terminal (st_state r) then
     Option.bind (st_terminal_http_status r) (\<lambda>s. map_option (Pair s) (st_terminal_response_bytes r)) else None)"

lemma terminal_response_kept:
  "row_evolves r r' \<Longrightarrow> terminal_response r = Some x \<Longrightarrow> terminal_response r' = Some x"
  by (auto simp: row_evolves_def frozen_if_terminal_def terminal_response_def split: if_splits)

definition key_matches :: "request_key \<Rightarrow> settlement \<Rightarrow> bool" where
  "key_matches key r \<longleftrightarrow> st_api_client_id r = ky_client key \<and> st_request_fingerprint r = ky_fingerprint key"

text \<open>The response replays a terminal row of this client's request.\<close>

definition replayed :: "request_key \<Rightarrow> http_response \<Rightarrow> db \<Rightarrow> bool" where
  "replayed key response d \<longleftrightarrow> (\<exists>i r. find_row d i = Some r \<and> key_matches key r
     \<and> terminal_response r = Some (hr_status response, hr_body response))"

text \<open>The response is a protocol failure: it says that nothing was settled.\<close>

definition failure_answer :: "app_state \<Rightarrow> http_response \<Rightarrow> bool" where
  "failure_answer a response \<longleftrightarrow> (\<exists>why payer. ap_to_vec a (settle_response_value
     (settle_failure why None payer [] (cfg_network (ap_config a)))) = Some (hr_body response))"

definition accounted :: "app_state \<Rightarrow> request_key \<Rightarrow> http_response \<Rightarrow> db \<Rightarrow> bool" where
  "accounted a key response d \<longleftrightarrow> hr_status response = 200 \<longrightarrow> failure_answer a response \<or> replayed key response d"

text \<open>A refusal needs no row.\<close>

definition refusal :: "app_state \<Rightarrow> http_response \<Rightarrow> bool" where
  "refusal a response \<longleftrightarrow> (hr_status response = 200 \<longrightarrow> failure_answer a response)"

lemma refusal_accounted: "refusal a response \<Longrightarrow> accounted a key response d"
  by (simp add: refusal_def accounted_def)

lemma error_refusal: "ae_status e \<noteq> 200 \<Longrightarrow> refusal a (error_response a e)"
  by (simp add: refusal_def error_response_def axum_json_def split: option.split)

lemma api_error_status [simp]:
  "ae_status (unavailable code message) = 503" "ae_status (rate_limited code message) = 429"
  "ae_status (api_error_new s code message) = s"
  "ae_status journal_unavailable = 503" "ae_status settlement_pending = 503" "ae_status identifier_conflict = 409"
  "ae_status (near_unavailable code) = 503" "ae_status settlement_busy = 503" "ae_status budget_exhausted = 429"
  by (simp_all add: unavailable_def rate_limited_def api_error_new_def journal_unavailable_def settlement_pending_def
      identifier_conflict_def near_unavailable_def settlement_busy_def budget_exhausted_def)

lemma settle_failed_refusal: "refusal a (settle_failed a why payer)"
proof (cases "ap_to_vec a (settle_response_value (settle_failure why None payer [] (cfg_network (ap_config a))))")
  case None
  then show ?thesis by (simp add: settle_failed_def protocol_json_def error_refusal)
next
  case (Some b)
  then show ?thesis
    by (auto simp: settle_failed_def protocol_json_def raw_json_def refusal_def failure_answer_def)
qed

lemma refusals:
  "refusal a (error_response a (unavailable code message))" "refusal a (error_response a (rate_limited code message))"
  "refusal a (error_response a journal_unavailable)" "refusal a (error_response a settlement_pending)"
  "refusal a (error_response a identifier_conflict)" "refusal a (error_response a (near_unavailable code))"
  "refusal a (error_response a settlement_busy)" "refusal a (error_response a budget_exhausted)"
  "refusal a (settle_failed a why payer)" "refusal a (settle_from_verify_failure a body)"
  by (simp_all add: error_refusal settle_failed_refusal settle_from_verify_failure_def Let_def)

lemmas refusals_accounted = refusals [THEN refusal_accounted]

text \<open>A row read at some point of the run, of this client's request.\<close>

definition known :: "request_key \<Rightarrow> settlement \<Rightarrow> db \<Rightarrow> bool" where
  "known key r d \<longleftrightarrow> (\<exists>d0. db_inv d0 \<and> store_run d0 d \<and> find_row d0 (st_id r) = Some r \<and> key_matches key r)"

definition owned :: "request_key \<Rightarrow> uuid \<Rightarrow> db \<Rightarrow> bool" where
  "owned key i d \<longleftrightarrow> (\<exists>r. find_row d i = Some r \<and> key_matches key r)"

lemma key_matches_kept: "row_evolves r r' \<Longrightarrow> key_matches key r \<Longrightarrow> key_matches key r'"
  by (simp add: row_evolves_def same_identity_def key_matches_def)

lemma found_run:
  assumes "db_inv d" "store_run d d'" "find_row d i = Some r"
  obtains r' where "find_row d' i = Some r'" "row_evolves r r'"
  using journal.lookup_run [of d d' i r] assms unfolding store_run_def by blast

lemma known_stable: "db_stable (known key r)"
  unfolding db_stable_def known_def using store_run_trans by blast

lemma owned_stable: "db_stable (owned key i)"
  unfolding db_stable_def owned_def using found_run key_matches_kept by metis

lemma replayed_stable: "db_stable (replayed key response)"
  unfolding db_stable_def replayed_def
proof (intro allI impI, elim conjE exE)
  fix d d' i r
  assume run: "db_inv d" "store_run d d'" and r: "find_row d i = Some r" "key_matches key r"
    "terminal_response r = Some (hr_status response, hr_body response)"
  obtain r' where r': "find_row d' i = Some r'" "row_evolves r r'"
    using run r(1) by (rule found_run)
  show "\<exists>i r. find_row d' i = Some r \<and> key_matches key r
      \<and> terminal_response r = Some (hr_status response, hr_body response)"
    using r'(1) key_matches_kept [OF r'(2) r(2)] terminal_response_kept [OF r'(2) r(3)] by blast
qed

lemma accounted_stable: "db_stable (accounted a key response)"
  using replayed_stable unfolding db_stable_def accounted_def by blast

lemma known_owned:
  assumes "known key r d"
  shows "owned key (st_id r) d"
proof -
  obtain d0 where d0: "db_inv d0" "store_run d0 d" "find_row d0 (st_id r) = Some r" "key_matches key r"
    using assms by (auto simp: known_def)
  obtain r' where "find_row d (st_id r) = Some r'" "row_evolves r r'"
    using d0(1-3) by (rule found_run)
  then show ?thesis
    using key_matches_kept d0(4) unfolding owned_def by blast
qed

lemma owned_known:
  assumes "db_inv d" "owned key i d" "find_row d i = Some r"
  shows "known key r d"
proof -
  have "st_id r = i" using assms(3) by (rule find_row_id)
  then show ?thesis
    using assms store_run_refl unfolding known_def owned_def by auto
qed

lemma known_replayed:
  assumes "known key r d" "is_terminal (st_state r)"
  shows "accounted a key (stored_terminal_response a r) d"
proof -
  obtain d0 where d0: "db_inv d0" "store_run d0 d" "find_row d0 (st_id r) = Some r" "key_matches key r"
    using assms(1) by (auto simp: known_def)
  have "row_checks r"
    using d0(1) find_row_Some_mem [OF d0(3)] by (simp add: db_inv_def table_ok_iff)
  then obtain s b where sb: "st_terminal_http_status r = Some s" "st_terminal_response_bytes r = Some b"
    using assms(2) by (auto simp: row_checks_def terminal_check_def)
  obtain r' where r': "find_row d (st_id r) = Some r'" "row_evolves r r'"
    using d0(1-3) by (rule found_run)
  have "terminal_response r' = Some (s, b)"
    by (rule terminal_response_kept [OF r'(2)]) (simp add: terminal_response_def assms(2) sb)
  then have "replayed key \<lparr>hr_status = s, hr_body = b, hr_retry_after = x\<rparr> d" for x
    using r' key_matches_kept [OF r'(2) d0(4)] by (auto simp: replayed_def)
  then show ?thesis
    by (auto simp: accounted_def stored_terminal_response_def sb status_from_u16_def raw_json_def Let_def)
qed

lemma completed_accounted: "known key r d \<Longrightarrow> accounted a key (completed_settlement_response a r) d"
  using known_replayed refusal_accounted refusals(1) by (simp add: completed_settlement_response_def)


section \<open>Looking for an earlier settlement\<close>

lemma scan_existing_matches:
  "scan_existing c i h f rs b = Some (ClaimExisting r) \<Longrightarrow>
   r \<in> set rs \<and> st_api_client_id r = c \<and> st_request_fingerprint r = f"
  by (induction rs arbitrary: b) (auto split: if_splits)

lemma find_existing_matches:
  assumes "find_existing_settlement d c i h f = Some (ClaimExisting r)"
  shows "r \<in> set (db_settlements d) \<and> st_api_client_id r = c \<and> st_request_fingerprint r = f"
proof (cases i)
  case None
  then show ?thesis
    using assms by (auto simp: find_existing_settlement_def find_Some_iff split: option.splits if_splits)
next
  case (Some name)
  then show ?thesis
    using assms scan_existing_matches [of c name h f _ False r] by (fastforce simp: find_existing_settlement_def)
qed

lemma find_existing_not_new: "find_existing_settlement d c i h f \<noteq> Some (ClaimNew r)"
  by (simp add: find_existing_settlement_def scan_existing_not_new split: option.splits)

lemma found_known:
  assumes "db_inv d" "r \<in> set (db_settlements d)" "key_matches key r"
  shows "known key r d"
  using assms store_run_refl find_row_mem [OF db_inv_ids [OF assms(1)]] by (auto simp: known_def)

text \<open>What a claim or a lookup answers about a known settlement.\<close>

definition claim_known :: "request_key \<Rightarrow> claim_outcome \<Rightarrow> db \<Rightarrow> bool" where
  "claim_known key claim d = (case claim of ClaimNew r \<Rightarrow> known key r d | ClaimExisting r \<Rightarrow> known key r d | _ \<Rightarrow> True)"

lemma existing_claim_known:
  assumes "db_inv d" "find_existing_settlement d (ky_client key) i h (ky_fingerprint key) = Some claim"
  shows "claim_known key claim d"
proof (cases claim)
  case (ClaimNew r)
  then show ?thesis
    using assms(2) find_existing_not_new by blast
next
  case (ClaimExisting r)
  then show ?thesis
    using find_existing_matches [of d _ i h _ r] assms found_known [OF assms(1), of r key]
    by (simp add: claim_known_def key_matches_def)
qed (simp_all add: claim_known_def)


section \<open>Waiting and replaying\<close>

lemma answers_refusal: "refusal a response \<Longrightarrow> answers D (State_Monad.return response) (accounted a key)"
  by (rule answers_return) (rule refusal_accounted)

lemma answers_read_stable:
  assumes "world_ok w" "db_stable D" "\<And>d. db_inv d \<Longrightarrow> D d \<Longrightarrow> Q (f d) d"
  shows "answers D (read_db w f) (\<lambda>r d. \<forall>x. r = Inr x \<longrightarrow> Q x d)"
  using answers_read [OF assms(1,2), of f] assms(3) store_run_inv unfolding triple_def by blast

abbreviation settled_known :: "request_key \<Rightarrow> (store_error + settlement) option \<Rightarrow> db \<Rightarrow> bool" where
  "settled_known key settled d \<equiv> \<forall>r. settled = Some (Inr r) \<longrightarrow> known key r d"

lemma answers_wait_polls:
  assumes w: "world_ok w"
  shows "answers (owned key i) (wait_polls w i n) (settled_known key)"
proof (induction n)
  case 0
  show ?case unfolding wait_polls.simps by (rule answers_return) simp
next
  case (Suc n)
  show ?case
    unfolding wait_polls.simps
  proof (rule answers_bind [OF answers_read [OF w owned_stable]])
    fix r :: "store_error + settlement option"
    show "answers (\<lambda>d. \<forall>x. r = Inr x \<longrightarrow> owned key i d \<and> x = find_row d i)
      (case r of Inl e \<Rightarrow> State_Monad.return (Some (Inl e))
       | Inr None \<Rightarrow> State_Monad.return (Some (Inl (Corrupt ''settlement disappeared'')))
       | Inr (Some record) \<Rightarrow>
           if is_terminal (st_state record) \<or> st_state record = AwaitingRetry
           then State_Monad.return (Some (Inr record)) else wait_polls w i n) (settled_known key)"
      by (auto split: sum.split option.split intro!: answers_return answers_weaken [OF Suc] intro: owned_known sym)
  qed
qed

lemma answers_wait:
  assumes w: "world_ok w"
  shows "answers (owned key i) (wait_for_terminal w i) (settled_known key)"
  unfolding wait_for_terminal_def
  by (rule answers_quiet_bind [OF quiet_here owned_stable answers_wait_polls [OF w]])

abbreviation some_accounted :: "app_state \<Rightarrow> request_key \<Rightarrow> http_response option \<Rightarrow> db \<Rightarrow> bool" where
  "some_accounted a key r d \<equiv> \<forall>x. r = Some x \<longrightarrow> accounted a key x d"

lemma answers_prior:
  assumes w: "world_ok w"
  shows "answers (\<lambda>_. True) (prior_settlement_response a w key) (\<lambda>r d. \<forall>x. r = Inr x \<longrightarrow> some_accounted a key x d)"
    (is "answers _ _ ?Q")
  unfolding prior_settlement_response_def and_then_def
proof (rule answers_bind [OF answers_read_stable [OF w stable_True, where Q = "\<lambda>c d. \<forall>x. c = Some x \<longrightarrow> claim_known key x d"]])
  fix d assume "db_inv d"
  then show "\<forall>x. find_existing_settlement d (ky_client key) (ky_identifier key) (ky_payment_hash key)
      (ky_fingerprint key) = Some x \<longrightarrow> claim_known key x d"
    using existing_claim_known by blast
next
  have wait: "answers (known key r)
      (State_Monad.bind (wait_for_terminal w (st_id r)) (\<lambda>settled. case settled of
         Some (Inr record) \<Rightarrow> State_Monad.return (Inr (Some (completed_settlement_response a record)))
       | Some (Inl e) \<Rightarrow> fail e
       | None \<Rightarrow> State_Monad.return (Inr (Some (error_response a settlement_pending))))) ?Q" for r
    by (rule answers_bind [OF answers_weaken [OF answers_wait [OF w] known_owned]], assumption, assumption)
       (auto simp: fail_def split: option.split sum.split
         intro!: answers_return completed_accounted refusals_accounted)
  show "answers (\<lambda>d. \<forall>x. r = Inr x \<longrightarrow> (\<forall>y. x = Some y \<longrightarrow> claim_known key y d))
     (case r of Inl e \<Rightarrow> State_Monad.return (Inl e) | Inr claim \<Rightarrow>
       (case claim of
         None \<Rightarrow> State_Monad.return (Inr None)
       | Some (ClaimExisting record) \<Rightarrow>
           if st_state record = AwaitingRetry then State_Monad.return (Inr None)
           else if is_terminal (st_state record)
           then State_Monad.return (Inr (Some (stored_terminal_response a record)))
           else State_Monad.bind (wait_for_terminal w (st_id record)) (\<lambda>settled. case settled of
               Some (Inr record) \<Rightarrow> State_Monad.return (Inr (Some (completed_settlement_response a record)))
             | Some (Inl e) \<Rightarrow> fail e
             | None \<Rightarrow> State_Monad.return (Inr (Some (error_response a settlement_pending))))
       | Some IdentifierConflict \<Rightarrow> State_Monad.return (Inr (Some (error_response a identifier_conflict)))
       | Some DuplicateSettlement \<Rightarrow> State_Monad.return (Inr (Some (settle_failed a ''duplicate_settlement'' None)))
       | Some _ \<Rightarrow> fail (Corrupt ''existing-settlement lookup returned a non-existing outcome''))) ?Q" for r
    by (auto simp: fail_def claim_known_def split: sum.split option.split claim_outcome.split
        intro!: answers_return answers_weaken [OF wait] known_replayed refusals_accounted)
qed

lemma answers_unless_settled:
  assumes "world_ok w" "refusal a response"
  shows "answers (\<lambda>_. True) (unless_settled a w key response) (accounted a key)"
proof -
  have "answers (\<lambda>_. True) (prior_settlement_race_response a w key) (some_accounted a key)"
    unfolding prior_settlement_race_response_def
    by (rule answers_bind [OF answers_prior [OF assms(1)]])
       (auto split: sum.split intro!: answers_return refusals_accounted)
  then show ?thesis
    unfolding unless_settled_def
    by (rule answers_bind) (auto split: option.split intro!: answers_return refusal_accounted [OF assms(2)])
qed


section \<open>Claiming\<close>

lemma claim_known_stable: "db_stable (claim_known key claim)"
  using known_stable [of key] stable_True by (cases claim) (simp_all add: claim_known_def [abs_def])

lemma claim_outcome_cases:
  assumes "claim_settlement t now s n = (Inr c, d')"
  obtains "c \<in> {DuplicateSettlement, SettlementBusy, BudgetExceeded}"
  | i where "i \<le> 8" "existing_for (s i) n = Some c"
  | r where "c = ClaimNew r"
proof -
  have "c \<in> {DuplicateSettlement, SettlementBusy, BudgetExceeded} \<or> existing_for (s 0) n = Some c
      \<or> existing_for (s 2) n = Some c \<or> existing_for (s 4) n = Some c \<or> existing_for (s 6) n = Some c
      \<or> (\<exists>r. c = ClaimNew r)"
    using assms
    by (simp add: claim_settlement_def or_else_outcome_def split: if_splits option.splits sum.splits claim_tx.splits) auto
  then show thesis
    using that(1,3) that(2) [of 0] that(2) [of 2] that(2) [of 4] that(2) [of 6] by (elim disjE exE) simp_all
qed

lemma claim_settlement_state:
  "snd (claim_settlement t now s n) =
     (if new_chain_kind n = Eip155 \<and> (case new_authorization_metadata n of None \<Rightarrow> True | Some m \<Rightarrow> am_version m \<noteq> 2)
         \<or> existing_for (s 0) n \<noteq> None \<or> anchor_is_claimed (s 1) (new_anchor_scope n) (new_anchor_value n)
         \<or> active_evm_signer_exists (s 3) (new_chain_kind n) (new_network n) (new_signer_address n)
      then s 5 else case claim_transaction t now (s 5) n of Inr (TxCommitted d) \<Rightarrow> d | _ \<Rightarrow> s 5)"
  unfolding claim_settlement_def by (simp split: option.split sum.split claim_tx.split)

lemma claim_state_early:
  assumes "\<And>i. i \<le> 5 \<Longrightarrow> s i = s' i"
  shows "snd (claim_settlement t now s n) = snd (claim_settlement t now s' n)"
proof -
  have "s 0 = s' 0" "s 1 = s' 1" "s 3 = s' 3" "s 5 = s' 5" using assms by simp_all
  then show ?thesis by (simp only: claim_settlement_state)
qed

lemma claimed_new_known:
  assumes w: "world_ok w" and inv: "db_inv d"
    and key: "new_api_client_id n = ky_client key" "new_request_fingerprint n = ky_fingerprint key"
    and claim: "claim_settlement t now (statement_db a w n k d) n = (Inr (ClaimNew r), d')"
    and t: "t = ap_date a (wo_now w k)" "now = wo_now w k"
  shows "known key r (statement_db a w n k d 8)"
proof -
  let ?s = "statement_db a w n k d"
  note new = claim_settlement_ClaimNew [OF claim]
  have "claimed_db a w n k d = d'"
    using claim claim_state_early [of ?s "\<lambda>j. drift w k (Suc j) d" t now n] t
    unfolding claimed_db_def statement_db_def by simp
  then have "store_run d' (?s 6)"
    using drift_run [OF w, of d' "k + 6" 1] claim_transaction_inv(1) [OF _ new(1)] statement_run [OF w inv, of 5 5]
    by (simp add: statement_db_def)
  then obtain r0 where "r0 \<in> set (db_settlements (?s 6))" "row_evolves (claim_row t now n) r0"
    using claimed_row_persists [OF _ new(1)] statement_run [OF w inv, of 5 5 a n k] by blast
  moreover from this have "find_row (?s 6) (new_id n) = Some r0"
    using find_row_mem [OF db_inv_ids, of "?s 6" r0] statement_run [OF w inv, of 6 6 a n k]
    by (simp add: row_evolves_def same_identity_def)
  ultimately have "r \<in> set (db_settlements (?s 6))" "row_evolves (claim_row t now n) r"
    using new(2) by simp_all
  moreover from this have "key_matches key r"
    using key_matches_kept [of "claim_row t now n" r key] by (simp add: key_matches_def key)
  ultimately have "known key r (?s 6)"
    using found_known statement_run [OF w inv, of 6 6 a n k] by blast
  then show ?thesis
    using known_stable [of key r] statement_run [OF w inv, of 6 8 a n k] unfolding db_stable_def by auto
qed

lemma answers_claim:
  assumes w: "world_ok w" and key: "new_api_client_id n = ky_client key" "new_request_fingerprint n = ky_fingerprint key"
  shows "answers (\<lambda>_. True) (claim_act a w n) (\<lambda>r d. \<forall>c. r = Inr c \<longrightarrow> claim_known key c d)"
proof -
  have "on_db (claim_known key c) e'" if e: "db_inv (en_db e)" "run_state (claim_act a w n) e = (Inr c, e')" for e c e'
  proof -
    let ?k = "en_clock e" let ?d = "en_db e"
    let ?s = "statement_db a w n ?k ?d"
    obtain d' where claim: "claim_settlement (ap_date a (wo_now w ?k)) (wo_now w ?k) ?s n = (Inr c, d')"
      and e': "en_db e' = ?s 8"
      using e(2) by (cases "wo_fault w ?k") (auto simp: claim_act_def Let_def prod_eq_iff)
    from claim show ?thesis
    proof (cases rule: claim_outcome_cases)
      case 1
      then show ?thesis by (auto simp: claim_known_def)
    next
      case (2 i)
      have "claim_known key c (?s i)"
        using existing_claim_known [of "?s i" key] 2 key statement_run [OF w e(1), of i i a n ?k]
        by (simp add: existing_for_def)
      then show ?thesis
        using claim_known_stable [of key c] statement_run [OF w e(1) 2(1), of a n ?k]
        unfolding e' db_stable_def by blast
    next
      case (3 r)
      then show ?thesis
        using claimed_new_known [OF w e(1) key claim [unfolded 3] refl refl] e' by (simp add: claim_known_def)
    qed
  qed
  then show ?thesis
    by (auto intro!: answers_quiet_post [OF quiet_claim_act [OF w]])
qed


section \<open>Settling\<close>

fun claimed_ok :: "app_state \<Rightarrow> request_key \<Rightarrow> http_response + uuid \<Rightarrow> db \<Rightarrow> bool" where
  "claimed_ok a key (Inl response) d = accounted a key response d"
| "claimed_ok a key (Inr i) d = owned key i d"

lemma answers_fail: "refusal a response \<Longrightarrow> triple (\<lambda>_. False) P (fail response) (\<lambda>x. on_db (claimed_ok a key x))"
  by (simp add: triple_def fail_def State_Monad.return_def refusal_accounted)

lemma answers_write:
  assumes w: "world_ok w" and D: "db_stable D" and f: "\<And>now d. db_inv d \<Longrightarrow> store_run d (snd (f now d))"
    and R: "\<And>now d x. fst (f now d) = Inr x \<Longrightarrow> R x"
  shows "answers D (write_db w f) (\<lambda>r d. D d \<and> (\<forall>x. r = Inr x \<longrightarrow> R x))"
proof -
  have "R x" if "run_state (write_db w f) e = (Inr x, e')" for e x e'
    using that R by (auto simp: write_db_def run_bind pause_def apply_db_def split: db_fault.splits prod.splits)
  then show ?thesis
    using quiet_write_db [OF w f] D
    by (auto simp: db_stable_def quiet_def intro!: answers_quiet_post [OF quiet_write_db [OF w f]])
qed

lemma resumed_id: "fst (resume_awaiting_retry t d q) = Inr (Resumed r) \<Longrightarrow> st_id r = rr_settlement_id q"
  by (auto simp: resume_awaiting_retry_def Let_def dest!: find_row_id split: option.splits if_splits sum.splits)

lemma resume_run: "store_run d (snd (resume_awaiting_retry t d q))"
  using store_step.resumed [of t d q] by (cases "resume_awaiting_retry t d q") (auto simp: store_run_def)

lemma answers_spawn:
  "answers (owned key i) (State_Monad.bind (spawn_settlement_worker i request) (\<lambda>_. State_Monad.return (Inr i))) (claimed_ok a key)"
  by (rule answers_quiet_bind [OF quiet_spawn owned_stable answers_return]) simp

lemma answers_reread:
  assumes w: "world_ok w"
  shows "answers (owned key i)
      (State_Monad.bind (read_db w (\<lambda>d. find_row d i)) (\<lambda>current. case current of
           Inr (Some current) \<Rightarrow>
             if st_state current \<noteq> AwaitingRetry then State_Monad.return (Inr (st_id current))
             else fail (error_response a (unavailable ''settlement_retryable''
                    ''settlement can be retried with the same request''))
         | _ \<Rightarrow> fail (error_response a journal_unavailable))) (claimed_ok a key)"
  by (rule answers_bind [OF answers_read [OF w owned_stable]])
     (auto simp: fail_def dest!: sym [of "Some _"] find_row_id split: sum.split option.split
       intro!: answers_return refusals_accounted)

lemma answers_resume:
  assumes w: "world_ok w"
  shows "answers (owned key i) (resume_settlement a w client i request) (claimed_ok a key)"
proof -
  have id: "\<forall>r. x = Resumed r \<longrightarrow> st_id r = i"
    if "fst (resume_awaiting_retry (ap_date a now) d (retry_reservation_of a client i)) = Inr x" for now d x
    using that resumed_id [of "ap_date a now" d "retry_reservation_of a client i"]
    by (auto simp: retry_reservation_of_def Let_def)
  show ?thesis
    unfolding resume_settlement_def
    apply (rule answers_bind [OF answers_write [OF w owned_stable resume_run id]], assumption)
    apply (rule answers_pure)
    subgoal for r
      using answers_reread [OF w, of key i a] answers_spawn [of key i request a]
      by (auto simp: answers_fail refusals split: sum.split retry_outcome.split store_error.split)
    done
qed

lemma answers_follow:
  assumes w: "world_ok w"
  shows "answers (\<lambda>d. \<forall>c. claim = Inr c \<longrightarrow> claim_known key c d) (follow_claim a w client request payer claim) (claimed_ok a key)"
proof -
  have spawn: "answers (known key r) (State_Monad.bind (spawn_settlement_worker (st_id r) request)
      (\<lambda>_. State_Monad.return (Inr (st_id r)))) (claimed_ok a key)" for r
    by (rule answers_quiet_bind [OF quiet_spawn known_stable answers_return]) (simp add: known_owned)
  have existing: "answers (known key r)
      (if is_terminal (st_state r) then fail (stored_terminal_response a r)
       else if st_state r = AwaitingRetry then resume_settlement a w client (st_id r) request
       else State_Monad.return (Inr (st_id r))) (claimed_ok a key)" for r
    by (auto simp: fail_def intro!: answers_return known_replayed known_owned
        answers_weaken [OF answers_resume [OF w, of key "st_id r"]])
  show ?thesis
  proof (cases claim)
    case (Inl e)
    then show ?thesis by (simp add: follow_claim_def answers_fail refusals)
  next
    case (Inr c)
    then show ?thesis
      using spawn existing by (cases c) (simp_all add: follow_claim_def claim_known_def answers_fail refusals)
  qed
qed

lemma answers_await:
  assumes w: "world_ok w"
  shows "answers (claimed_ok a key claimed) (await_settlement a w claimed) (accounted a key)"
proof (cases claimed)
  case (Inl response)
  then show ?thesis by (simp add: await_settlement_def) (rule answers_return)
next
  case (Inr i)
  have "answers (owned key i) (await_settlement a w (Inr i)) (accounted a key)"
    unfolding await_settlement_def
    by (simp, rule answers_bind [OF answers_wait [OF w]])
       (auto split: option.split sum.split intro!: answers_return completed_accounted refusals_accounted)
  then show ?thesis using Inr by simp
qed

lemma new_settlement_of_key:
  "new_api_client_id (new_settlement_of a i client parsed fingerprint verified) = cl_id client"
  "new_request_fingerprint (new_settlement_of a i client parsed fingerprint verified) = fingerprint"
  by (simp_all add: new_settlement_of_def Let_def split: prod.split)

lemma answers_verify_and_claim:
  assumes w: "world_ok w" and key: "ky_client key = cl_id client"
  shows "answers (\<lambda>_. True) (verify_and_claim a w client parsed key) (accounted a key)"
proof -
  have claim: "answers (\<lambda>_. True) (State_Monad.bind here (\<lambda>k.
      State_Monad.bind (claim_act a w (new_settlement_of a (wo_uuid w k) client parsed (ky_fingerprint key) verified)) (\<lambda>claim.
      State_Monad.bind (follow_claim a w client (pr_raw parsed) (vd_payer verified) claim)
        (await_settlement a w)))) (accounted a key)" for verified
    by (rule answers_quiet_bind [OF quiet_here stable_True])
       (rule answers_bind [OF answers_claim [OF w] answers_bind [OF answers_follow [OF w] answers_await [OF w]]],
        simp_all add: new_settlement_of_key key)
  show ?thesis
    unfolding verify_and_claim_def
    by (rule answers_quiet_bind [OF quiet_ask_chain [OF w] stable_True])
       (auto split: sum.split intro!: answers_unless_settled [OF w] answers_refusal refusals claim)
qed

lemma answers_gate:
  assumes w: "world_ok w"
  shows "answers (\<lambda>_. True) (facilitator_verify_gate a w key) (some_accounted a key)"
proof -
  have some: "answers (\<lambda>_. True) (State_Monad.bind (unless_settled a w key response)
      (\<lambda>r. State_Monad.return (Some r))) (some_accounted a key)" if "refusal a response" for response
    by (rule answers_bind [OF answers_unless_settled [OF w that] answers_return]) simp
  have route: "quiet (route_facilitator w)"
    unfolding route_facilitator_def by (intro quiet_world w)
  show ?thesis
    unfolding facilitator_verify_gate_def
    by (rule answers_quiet_bind [OF route stable_True])
       (auto split: sum.split intro!: some answers_return refusals)
qed

lemma answers_admit:
  assumes w: "world_ok w" and key: "ky_client key = cl_id client"
  shows "answers (\<lambda>_. True) (admit_payment a w client parsed key) (accounted a key)"
proof -
  have gated: "answers (\<lambda>_. True) (State_Monad.bind (facilitator_verify_gate a w key)
      (case_option (verify_and_claim a w client parsed key) State_Monad.return)) (accounted a key)"
    by (rule answers_bind [OF answers_gate [OF w]])
       (auto split: option.split intro!: answers_return answers_weaken [OF answers_verify_and_claim [OF w key]])
  show ?thesis
    unfolding admit_payment_def
    by (rule answers_quiet_bind [OF quiet_gates stable_True])
       (auto intro!: answers_unless_settled [OF w] refusals answers_refusal gated answers_verify_and_claim [OF w key]
         answers_quiet_bind [OF quiet_read_db [OF w] stable_True] split: sum.split bool.split)
qed


definition key_of :: "app_state \<Rightarrow> uuid \<Rightarrow> parsed_request \<Rightarrow> hash32 \<Rightarrow> request_key" where
  "key_of a client parsed payment_hash =
     \<lparr>ky_client = client, ky_identifier = rm_payment_identifier (pr_meta parsed), ky_payment_hash = payment_hash,
      ky_fingerprint = fingerprint_of a (pr_value parsed) payment_hash\<rparr>"

text \<open>A settlement response of a parsed request is a refusal or is accounted for by the journal.\<close>

definition settled_for :: "app_state \<Rightarrow> parsed_request \<Rightarrow> uuid \<Rightarrow> http_response \<Rightarrow> db \<Rightarrow> bool" where
  "settled_for a parsed client response d \<longleftrightarrow> refusal a response
     \<or> (\<exists>h. offline_identity a parsed = Inr h \<and> accounted a (key_of a client parsed h) response d)"

lemma answers_settle_parsed:
  assumes w: "world_ok w"
  shows "answers (\<lambda>_. True) (settle_parsed a w client parsed) (settled_for a parsed (cl_id client))"
proof (cases "static_failure_reason a parsed = None \<and> (\<exists>h. offline_identity a parsed = Inr h)")
  case True
  then obtain h where h: "static_failure_reason a parsed = None" "offline_identity a parsed = Inr h" by auto
  let ?key = "key_of a (cl_id client) parsed h"
  have "answers (\<lambda>_. True) (settle_parsed a w client parsed) (accounted a ?key)"
    unfolding settle_parsed_def h option.case sum.case Let_def
    by (fold key_of_def, rule answers_bind [OF answers_prior [OF w]])
       (auto split: sum.split option.split intro!: answers_return refusals_accounted
         answers_weaken [OF answers_admit [OF w]] simp: key_of_def)
  then show ?thesis
    by (rule answers_weaken) (auto simp: settled_for_def h)
next
  case False
  then obtain why where "settle_parsed a w client parsed = State_Monad.return (settle_failed a why None)"
    unfolding settle_parsed_def by (cases "static_failure_reason a parsed"; cases "offline_identity a parsed") auto
  then show ?thesis
    by (auto simp: settled_for_def intro!: answers_return refusals)
qed

lemma quiet_authenticate:
  assumes "world_ok w"
  shows "quiet (authenticate_request a w hs)"
  unfolding authenticate_request_def Let_def
  by (auto split: sum.split intro!: quiet_world assms)

text \<open>The whole response: the answer, translated for a version 1 client.\<close>

definition settle_answer :: "app_state \<Rightarrow> http_request \<Rightarrow> uuid \<Rightarrow> http_response \<Rightarrow> db \<Rightarrow> bool" where
  "settle_answer a request client response d \<longleftrightarrow> hr_status response \<noteq> 200
     \<or> (\<exists>parsed answer. read_and_parse a request = Inr parsed \<and> settled_for a parsed client answer d
          \<and> response = finalize_wire_response a answer (pr_wire parsed))"

lemma error_not_ok: "ae_status e \<noteq> 200 \<Longrightarrow> hr_status (error_response a e) \<noteq> 200"
  by (simp add: error_response_def axum_json_def split: option.split)

lemma finalize_ok: "hr_status (finalize_wire_response a answer wire) = 200 \<Longrightarrow> hr_status answer = 200"
  using error_not_ok [of "unavailable ''response_serialization_failed'' ''response serialization failed''" a]
  by (auto simp: finalize_wire_response_def split: if_splits option.splits)

lemma read_and_parse_error: "read_and_parse a request = Inl e \<Longrightarrow> ae_status e \<noteq> 200"
  by (auto simp: read_and_parse_def ensure_json_def ok_or_def Let_def bind_res_def map_err_def split: sum.splits if_splits option.splits)


definition settle_admitted :: "app_state \<Rightarrow> world \<Rightarrow> http_request \<Rightarrow> authenticated_client \<Rightarrow> http_response act" where
  "settle_admitted a w request authenticated = do {
     admitted \<leftarrow> check_rate w (ac_key_prefix authenticated) SettleOp
       (min (cl_settle_rate_per_minute (ac_client authenticated)) (rl_settle_per_minute (cfg_request_limits (ap_config a))));
     if \<not> admitted
     then State_Monad.return (error_response a (rate_limited ''rate_limit_exceeded'' ''settlement rate limit exceeded''))
     else case read_and_parse a request of
       Inl e \<Rightarrow> State_Monad.return (error_response a e)
     | Inr parsed \<Rightarrow> do {
         response \<leftarrow> settle_parsed a w (ac_client authenticated) parsed;
         State_Monad.return (finalize_wire_response a response (pr_wire parsed))
       }
     }"

lemma settle_inner_admitted:
  "settle_inner a w request = State_Monad.bind (authenticate_request a w (hq_headers request))
     (\<lambda>r. case r of Inl e \<Rightarrow> State_Monad.return (error_response a e) | Inr authenticated \<Rightarrow> settle_admitted a w request authenticated)"
  unfolding settle_inner_def settle_admitted_def ..

lemma answers_settle_admitted:
  assumes w: "world_ok w"
  shows "answers (\<lambda>_. True) (settle_admitted a w request authenticated)
    (settle_answer a request (cl_id (ac_client authenticated)))"
proof -
  have "answers (\<lambda>_. True) (State_Monad.bind (settle_parsed a w (ac_client authenticated) parsed)
      (\<lambda>response. State_Monad.return (finalize_wire_response a response (pr_wire parsed))))
      (settle_answer a request (cl_id (ac_client authenticated)))" if "read_and_parse a request = Inr parsed" for parsed
    by (rule answers_bind [OF answers_settle_parsed [OF w] answers_return]) (use that in \<open>auto simp: settle_answer_def\<close>)
  then show ?thesis
    unfolding settle_admitted_def
    by (intro answers_quiet_bind [OF quiet_check_rate [OF w] stable_True])
       (auto split: sum.split intro!: answers_return simp: settle_answer_def error_not_ok read_and_parse_error)
qed

lemma authenticate_error_status:
  "run_state (authenticate_request a w hs) e = (Inl x, e') \<Longrightarrow> ae_status x \<noteq> 200"
  by (auto simp: authenticate_request_def Let_def fail_def lift_res_def map_err_def run_bind State_Monad.return_def
      split: sum.splits prod.splits)

lemma answers_quiet: "answers (\<lambda>_. True) m Q \<Longrightarrow> quiet m"
  unfolding triple_def quiet_def by fastforce

lemma quiet_settle_inner:
  assumes w: "world_ok w"
  shows "quiet (settle_inner a w request)"
  unfolding settle_inner_admitted
  by (rule quiet_bind [OF quiet_authenticate [OF w]])
     (auto split: sum.split intro!: quiet_return answers_quiet [OF answers_settle_admitted [OF w]])

lemma quiet_verify_parsed:
  assumes w: "world_ok w"
  shows "quiet (verify_parsed a w client parsed)"
proof -
  have "quiet (near_routed_verify a w)" "quiet (evm_routed_verify a w parsed)"
    unfolding near_routed_verify_def evm_routed_verify_def route_facilitator_def by (intro quiet_world w)+
  then show ?thesis
    unfolding verify_parsed_def
    by (auto split: option.split sum.split bool.split intro!: quiet_bind quiet_return quiet_read_db [OF w] quiet_here)
qed

lemma quiet_verify_inner:
  assumes w: "world_ok w"
  shows "quiet (verify_inner a w request)"
  unfolding verify_inner_def
  by (auto split: sum.split intro!: quiet_bind quiet_return quiet_authenticate quiet_check_rate quiet_verify_parsed w)

text \<open>
  C3. A settlement request that is answered with status 200 is answered from the journal: the handler hands
  nothing to the network itself, moves the database by journal operations only, and its answer (before the
  translation for a version 1 client) is either a failure of the protocol, which says that nothing was
  settled, or exactly the bytes stored in a terminal row of the authenticated client with the fingerprint of
  this very request. This holds whatever other sessions commit in between and whichever of the handler's
  database calls lose their answer.
\<close>

theorem settle_answers_from_journal:
  assumes w: "world_ok w" and e: "store_run empty_db (en_db e)"
    and run: "run_state (settle_inner a w request) e = (response, e')" and ok: "hr_status response = 200"
  shows "en_sent e' = en_sent e \<and> store_run (en_db e) (en_db e')
    \<and> (\<exists>authenticated e1 parsed answer.
         run_state (authenticate_request a w (hq_headers request)) e = (Inr authenticated, e1)
         \<and> read_and_parse a request = Inr parsed \<and> response = finalize_wire_response a answer (pr_wire parsed)
         \<and> (failure_answer a answer
            \<or> (\<exists>h i r. offline_identity a parsed = Inr h \<and> find_row (en_db e') i = Some r
                 \<and> st_api_client_id r = cl_id (ac_client authenticated)
                 \<and> st_request_fingerprint r = fingerprint_of a (pr_value parsed) h
                 \<and> is_terminal (st_state r) \<and> st_terminal_http_status r = Some 200
                 \<and> st_terminal_response_bytes r = Some (hr_body answer))))"
proof -
  obtain r e1 where r: "run_state (authenticate_request a w (hq_headers request)) e = (r, e1)"
    by (cases "run_state (authenticate_request a w (hq_headers request)) e")
  have inv: "db_inv (en_db e)" by (rule reachable_inv [OF e])
  have quiet: "store_run (en_db e) (en_db e1)" "en_sent e1 = en_sent e"
    using quiet_authenticate [OF w, of a "hq_headers request"] inv r unfolding quiet_def by blast+
  obtain authenticated where auth: "r = Inr authenticated"
    using run r ok authenticate_error_status [of a w _ e _ e1] error_not_ok [of _ a]
    by (cases r) (auto simp: settle_inner_admitted run_bind State_Monad.return_def)
  have rest: "run_state (settle_admitted a w request authenticated) e1 = (response, e')"
    using run r auth by (simp add: settle_inner_admitted run_bind)
  have answer: "store_run (en_db e1) (en_db e')" "en_sent e' = en_sent e1"
    "settle_answer a request (cl_id (ac_client authenticated)) response (en_db e')"
    using answers_settle_admitted [OF w, of a request authenticated] rest store_run_inv [OF quiet(1) inv]
    unfolding triple_def by fastforce+
  obtain parsed answer where parsed: "read_and_parse a request = Inr parsed"
    "settled_for a parsed (cl_id (ac_client authenticated)) answer (en_db e')"
    "response = finalize_wire_response a answer (pr_wire parsed)"
    using answer(3) ok by (auto simp: settle_answer_def)
  have "hr_status answer = 200" using finalize_ok ok parsed(3) by blast
  then have "failure_answer a answer
      \<or> (\<exists>h. offline_identity a parsed = Inr h \<and> replayed (key_of a (cl_id (ac_client authenticated)) parsed h) answer (en_db e'))"
    using parsed(2) by (auto simp: settled_for_def refusal_def accounted_def)
  then show ?thesis
    using quiet answer(1,2) store_run_trans [OF quiet(1) answer(1)] r auth parsed(1,3) \<open>hr_status answer = 200\<close>
    by (fastforce simp: replayed_def key_matches_def key_of_def terminal_response_def bind_eq_Some_conv split: if_splits)
qed

end
