(* ===== verification/Service_Theorems.thy ===== *)
theory Service_Theorems
  imports Service_Sample Http_Theorems
begin

text \<open>
  The service as a whole: request handlers, workers, reconciliation passes and whatever other sessions commit, in any order.
  Its runs refine an abstract journal of promises, in which the bytes committed for a settlement and the
  response committed for it never change and only committed bytes are sent.
\<close>

section \<open>Service runs\<close>

inductive service_step :: "app_state \<Rightarrow> engine \<Rightarrow> engine \<Rightarrow> bool" for a where
  worker: "world_ok w \<Longrightarrow> run_state (run_new_settlement a w i request) e = (u, e') \<Longrightarrow> service_step a e e'"
| recovery: "world_ok w \<Longrightarrow> run_state (reconcile a w) e = (r, e') \<Longrightarrow> service_step a e e'"
| settle: "world_ok w \<Longrightarrow> run_state (settle_inner a w query) e = (response, e') \<Longrightarrow> service_step a e e'"
| verify: "world_ok w \<Longrightarrow> run_state (verify_inner a w query) e = (response, e') \<Longrightarrow> service_step a e e'"
| sessions: "store_run (en_db e) d \<Longrightarrow> service_step a e (e\<lparr>en_db := d\<rparr>)"
| tasks: "service_step a e (e\<lparr>en_gates := g\<rparr>)"

definition engine_inv :: "engine \<Rightarrow> bool" where
  "engine_inv e \<longleftrightarrow> db_inv (en_db e) \<and> columns_ok (en_db e)"

lemma engine_inv_run: "engine_inv e \<Longrightarrow> store_run (en_db e) (en_db e') \<Longrightarrow> engine_inv e'"
  using columns_stable store_run_inv by (auto simp: engine_inv_def db_stable_def)

lemma engine_inv_reachable: "store_run empty_db (en_db e) \<Longrightarrow> engine_inv e"
  using engine_inv_run [of "e\<lparr>en_db := empty_db\<rparr>" e] empty_db_inv
  by (simp add: engine_inv_def columns_ok_def empty_db_def)

lemma can_settle_recovery: "can_settle (sb_gates s) \<Longrightarrow> recovery_gates_ok p s"
  by (cases p) (simp_all add: can_settle_def can_reconciliation_broadcast_def)

text \<open>Every step moves the database by journal operations and sends journaled submissions only.\<close>

lemma service_step_effect:
  assumes "service_step a e e'" "engine_inv e"
  shows "store_run (en_db e) (en_db e') \<and> (\<exists>l. en_sent e' = en_sent e @ l
    \<and> (\<forall>s \<in> set l. submitted_entry (en_db e') s \<and> recovery_gates_ok (ap_provider a) s))"
  using assms(1)
proof cases
  case (worker w i request u)
  then show ?thesis
    using triple_run_new_settlement [of w i "recovery_gates_ok (ap_provider a)" a request] assms(2) can_settle_recovery
    unfolding triple_def engine_inv_def by metis
next
  case (recovery w r)
  then show ?thesis
    using triple_reconcile [of w a "recovery_gates_ok (ap_provider a)"] assms(2)
    unfolding triple_def engine_inv_def by blast
next
  case (settle w query response)
  then show ?thesis
    using quiet_settle_inner [of w a query] assms(2) unfolding quiet_def engine_inv_def by fastforce
next
  case (verify w query response)
  then show ?thesis
    using quiet_verify_inner [of w a query] assms(2) unfolding quiet_def engine_inv_def by fastforce
qed auto

section \<open>Simulation\<close>

locale forward_simulation =
  fixes cstep :: "'c \<Rightarrow> 'c \<Rightarrow> bool" and inv :: "'c \<Rightarrow> bool"
    and astep :: "'a \<Rightarrow> 'a \<Rightarrow> bool" and abs :: "'c \<Rightarrow> 'a"
  assumes inv_step: "inv c \<Longrightarrow> cstep c c' \<Longrightarrow> inv c'"
    and sim_step: "inv c \<Longrightarrow> cstep c c' \<Longrightarrow> astep\<^sup>*\<^sup>* (abs c) (abs c')"
begin

lemma sim_run:
  assumes "cstep\<^sup>*\<^sup>* c c'" "inv c"
  shows "inv c' \<and> astep\<^sup>*\<^sup>* (abs c) (abs c')"
  using assms by induction (auto intro: inv_step rtranclp_trans sim_step)

text \<open>An invariant of the abstract machine holds of the concrete one through the abstraction.\<close>

lemma invariant_transfer:
  assumes "cstep\<^sup>*\<^sup>* c c'" "inv c" "J (abs c)" "\<And>s t. astep s t \<Longrightarrow> J s \<Longrightarrow> J t"
  shows "J (abs c')"
proof -
  have "J t" if "astep\<^sup>*\<^sup>* s t" "J s" for s t
    using that by induction (auto intro: assms(4))
  then show ?thesis using sim_run [OF assms(1,2)] assms(3) by blast
qed

end

section \<open>The journal of promises\<close>

record promise =
  pm_bytes :: "uuid \<rightharpoonup> bytes"
  pm_response :: "uuid \<rightharpoonup> nat \<times> bytes"
  pm_sent :: "(uuid \<times> bytes) list"

inductive promise_step :: "promise \<Rightarrow> promise \<Rightarrow> bool" where
  commit: "pm_bytes p \<subseteq>\<^sub>m b \<Longrightarrow> pm_response p \<subseteq>\<^sub>m r \<Longrightarrow> promise_step p (p\<lparr>pm_bytes := b, pm_response := r\<rparr>)"
| sent: "pm_bytes p i = Some b \<Longrightarrow> promise_step p (p\<lparr>pm_sent := pm_sent p @ [(i, b)]\<rparr>)"

definition sent_committed :: "promise \<Rightarrow> bool" where
  "sent_committed p \<longleftrightarrow> (\<forall>(i, b) \<in> set (pm_sent p). pm_bytes p i = Some b)"

lemma sent_committed_step: "promise_step p q \<Longrightarrow> sent_committed p \<Longrightarrow> sent_committed q"
  by (induction rule: promise_step.induct) (fastforce simp: sent_committed_def map_le_def dom_def)+

definition committed_bytes :: "db \<Rightarrow> uuid \<rightharpoonup> bytes" where
  "committed_bytes d i = Option.bind (find_row d i) submission_bytes"

definition committed_response :: "db \<Rightarrow> uuid \<rightharpoonup> nat \<times> bytes" where
  "committed_response d i = Option.bind (find_row d i) terminal_response"

definition promise_of :: "engine \<Rightarrow> promise" where
  "promise_of e = \<lparr>pm_bytes = committed_bytes (en_db e), pm_response = committed_response (en_db e),
     pm_sent = map (\<lambda>s. (sb_settlement_id s, sb_bytes s)) (en_sent e)\<rparr>"

lemma committed_run:
  assumes "db_inv d" "store_run d d'"
  shows "committed_bytes d \<subseteq>\<^sub>m committed_bytes d'" and "committed_response d \<subseteq>\<^sub>m committed_response d'"
proof -
  have evolved: "\<exists>r'. find_row d' i = Some r' \<and> row_evolves r r'" if "find_row d i = Some r" for i r
    using journal.lookup_run assms that unfolding store_run_def by blast
  show "committed_bytes d \<subseteq>\<^sub>m committed_bytes d'"
    unfolding map_le_def committed_bytes_def
    using evolved submission_bytes_kept by (fastforce simp: bind_eq_Some_conv)
  show "committed_response d \<subseteq>\<^sub>m committed_response d'"
    unfolding map_le_def committed_response_def
    using evolved terminal_response_kept by (fastforce simp: bind_eq_Some_conv)
qed

lemma promise_sends:
  assumes "\<forall>s \<in> set l. pm_bytes p (fst s) = Some (snd s)"
  shows "promise_step\<^sup>*\<^sup>* p (p\<lparr>pm_sent := pm_sent p @ l\<rparr>)"
  using assms
proof (induction l arbitrary: p)
  case (Cons s l)
  let ?p = "p\<lparr>pm_sent := pm_sent p @ [s]\<rparr>"
  have "promise_step p ?p"
    using promise_step.sent [of p "fst s" "snd s"] Cons.prems by simp
  moreover have "promise_step\<^sup>*\<^sup>* ?p (?p\<lparr>pm_sent := pm_sent ?p @ l\<rparr>)"
    by (rule Cons.IH) (use Cons.prems in simp)
  ultimately show ?case
    by (simp add: converse_rtranclp_into_rtranclp)
qed simp

lemma service_step_promise:
  assumes "engine_inv e" "service_step a e e'"
  shows "engine_inv e'" and "promise_step\<^sup>*\<^sup>* (promise_of e) (promise_of e')"
proof -
  obtain l where l: "store_run (en_db e) (en_db e')" "en_sent e' = en_sent e @ l"
    "\<forall>s \<in> set l. submitted_entry (en_db e') s"
    using service_step_effect [OF assms(2,1)] by blast
  show "engine_inv e'" by (rule engine_inv_run [OF assms(1) l(1)])
  let ?p = "(promise_of e)\<lparr>pm_bytes := committed_bytes (en_db e'), pm_response := committed_response (en_db e')\<rparr>"
  let ?l = "map (\<lambda>s. (sb_settlement_id s, sb_bytes s)) l"
  have "promise_step (promise_of e) ?p"
    by (rule promise_step.commit) (use committed_run [OF _ l(1)] assms(1) in \<open>simp_all add: promise_of_def engine_inv_def\<close>)
  moreover have "promise_step\<^sup>*\<^sup>* ?p (?p\<lparr>pm_sent := pm_sent ?p @ ?l\<rparr>)"
    by (rule promise_sends) (use l(3) in \<open>auto simp: submitted_entry_def journaled_from_def committed_bytes_def\<close>)
  moreover have "?p\<lparr>pm_sent := pm_sent ?p @ ?l\<rparr> = promise_of e'"
    by (simp add: promise_of_def l(2))
  ultimately show "promise_step\<^sup>*\<^sup>* (promise_of e) (promise_of e')"
    by (metis converse_rtranclp_into_rtranclp)
qed

interpretation promises: forward_simulation "service_step a" engine_inv promise_step promise_of for a
  by unfold_locales (rule service_step_promise; assumption)+

section \<open>What is sent\<close>

definition sends_journaled :: "app_state \<Rightarrow> engine \<Rightarrow> bool" where
  "sends_journaled a e \<longleftrightarrow>
     (\<forall>s \<in> set (en_sent e). submitted_entry (en_db e) s \<and> recovery_gates_ok (ap_provider a) s)"

lemma sends_journaled_run:
  assumes "(service_step a)\<^sup>*\<^sup>* e e'" "engine_inv e" "sends_journaled a e"
  shows "sends_journaled a e'"
proof -
  have "engine_inv e' \<and> sends_journaled a e'"
    using assms
  proof induction
    case (step e1 e2)
    then have inv: "engine_inv e1" "sends_journaled a e1" by blast+
    obtain l where l: "store_run (en_db e1) (en_db e2)" "en_sent e2 = en_sent e1 @ l"
      "\<forall>s \<in> set l. submitted_entry (en_db e2) s \<and> recovery_gates_ok (ap_provider a) s"
      using service_step_effect [OF step.hyps(2) inv(1)] by blast
    have "\<forall>s \<in> set (en_sent e1). submitted_entry (en_db e2) s"
      using inv submitted_entry_stable l(1) unfolding db_stable_def sends_journaled_def engine_inv_def by blast
    then show ?case
      using l inv(2) engine_inv_run [OF inv(1) l(1)] by (auto simp: sends_journaled_def)
  qed simp
  then show ?thesis by blast
qed

lemma submitted_entry_unique:
  "submitted_entry d s \<Longrightarrow> submitted_entry d t \<Longrightarrow> sb_settlement_id s = sb_settlement_id t \<Longrightarrow> sb_bytes s = sb_bytes t"
  by (auto simp: submitted_entry_def journaled_from_def)

text \<open>
  C2. The worker sends only what it may: whatever other sessions, other tasks, the database connection
  and the chain do at its await points, every submission a settlement worker hands to the network is for
  its own settlement, leadership, reconciliation, RPC and relayer were all ready at that moment, and the
  database then held exactly those bytes in a row already marked submitted.
\<close>

theorem worker_sends_when_ready:
  assumes "world_ok w" "store_run empty_db (en_db e)"
    and "run_state (run_new_settlement a w i request) e = (u, e')"
  shows "\<exists>l. en_sent e' = en_sent e @ l \<and> (\<forall>s \<in> set l. sb_settlement_id s = i \<and> can_settle (sb_gates s)
    \<and> journaled_from Submitted i (sb_bytes s) (sb_db s))"
proof -
  have inv: "db_inv (en_db e)"
    using store_run_inv [OF assms(2) empty_db_inv] .
  have "triple (\<lambda>s. sb_settlement_id s = i \<and> can_settle (sb_gates s)) (on_db (\<lambda>_. True))
      (run_new_settlement a w i request) (\<lambda>_ _. True)"
    by (rule triple_run_new_settlement [OF assms(1)]) simp
  then obtain l where "en_sent e' = en_sent e @ l"
    "\<forall>s \<in> set l. submitted_entry (en_db e') s \<and> sb_settlement_id s = i \<and> can_settle (sb_gates s)"
    using inv assms(3) unfolding triple_def by blast
  then show ?thesis by (auto simp: submitted_entry_def)
qed

theorem worker_sends_when_ready_witness:
  "en_sent service_start = [] \<and> length (en_sent service_end) = 1
   \<and> list_all (\<lambda>s. can_settle (sb_gates s) \<and> journaled_from Submitted 1 (sb_bytes s) (sb_db s)) (en_sent service_end)"
proof -
  have "store_run empty_db (en_db service_start)"
    using service_db_run by (simp add: service_start_def)
  from worker_sends_when_ready [OF still_world_ok this service_run(1)] show ?thesis
    using service_run(2) by (auto simp: service_start_def)
qed

text \<open>
  C1. One submission per settlement: in every run of the service that starts with nothing sent, through
  any number of workers, reconciliation passes, restarts and other sessions, each submission handed to
  the network was journaled and marked submitted at that moment, is still journaled at the end, and every
  other submission of the same settlement had the same bytes. An EVM submission was moreover sent
  while leadership, RPC and relayer were ready.
\<close>

theorem one_submission_per_settlement:
  assumes "store_run empty_db (en_db e)" "en_sent e = []" "(service_step a)\<^sup>*\<^sup>* e e'"
    and "s \<in> set (en_sent e')"
  shows "journaled_from Submitted (sb_settlement_id s) (sb_bytes s) (sb_db s)
    \<and> journaled_from Submitted (sb_settlement_id s) (sb_bytes s) (en_db e')
    \<and> recovery_gates_ok (ap_provider a) s
    \<and> (\<forall>t \<in> set (en_sent e'). sb_settlement_id t = sb_settlement_id s \<longrightarrow> sb_bytes t = sb_bytes s)"
proof -
  have "sends_journaled a e'"
    by (rule sends_journaled_run [OF assms(3) engine_inv_reachable [OF assms(1)]]) (simp add: sends_journaled_def assms(2))
  then show ?thesis
    using assms(4) submitted_entry_unique unfolding sends_journaled_def submitted_entry_def by blast
qed

lemma service_worker_then_recovery:
  "store_run empty_db (en_db service_start)" "en_sent service_start = []"
  "(service_step service_app)\<^sup>*\<^sup>* service_start service_recovered"
  "map sb_bytes (en_sent service_recovered) = [''tx'', ''tx'']"
proof -
  show "store_run empty_db (en_db service_start)" "en_sent service_start = []"
    using service_db_run by (simp_all add: service_start_def)
  show "(service_step service_app)\<^sup>*\<^sup>* service_start service_recovered"
    using service_step.worker [OF still_world_ok service_run(1)] service_step.recovery [OF still_world_ok service_recovery(1)]
    by (meson converse_rtranclp_into_rtranclp r_into_rtranclp)
  show "map sb_bytes (en_sent service_recovered) = [''tx'', ''tx'']"
    by (rule service_recovery(3))
qed

theorem one_submission_per_settlement_witness:
  "length (en_sent service_recovered) = 2
   \<and> list_all (\<lambda>s. journaled_from Submitted (sb_settlement_id s) (sb_bytes s) (en_db service_recovered))
        (en_sent service_recovered)"
proof
  show "length (en_sent service_recovered) = 2"
    using arg_cong [OF service_worker_then_recovery(4), of length] by simp
  show "list_all (\<lambda>s. journaled_from Submitted (sb_settlement_id s) (sb_bytes s) (en_db service_recovered))
      (en_sent service_recovered)"
    unfolding list_all_iff
    using one_submission_per_settlement [OF service_worker_then_recovery(1-3)] by blast
qed

text \<open>
  C4. The service refines the journal of promises: every run of workers, reconciliation passes, other
  sessions and gate changes is a run of the abstract machine whose steps only extend the maps of
  committed submissions and committed responses and send committed submissions. Hence a committed
  response is never replaced and a committed submission is never re-signed.
\<close>

theorem service_keeps_promises:
  assumes "store_run empty_db (en_db e)" "(service_step a)\<^sup>*\<^sup>* e e'"
  shows "promise_step\<^sup>*\<^sup>* (promise_of e) (promise_of e')"
  using promises.sim_run [OF assms(2) engine_inv_reachable [OF assms(1)]] by blast

theorem service_keeps_promises_witness:
  "promise_step\<^sup>*\<^sup>* (promise_of service_start) (promise_of service_recovered)
   \<and> map snd (pm_sent (promise_of service_recovered)) = [''tx'', ''tx'']"
  using service_keeps_promises [OF service_worker_then_recovery(1,3)] service_worker_then_recovery(4)
  by (simp add: promise_of_def comp_def)

section \<open>The gate after a pass\<close>

lemma and_then_Inr:
  assumes "run_state (and_then m f) e = (Inr x, e')"
  obtains y e1 where "run_state m e = (Inr y, e1)" "run_state (f y) e1 = (Inr x, e')"
  using assms by (auto simp: run_and_then split: prod.splits sum.splits)

lemma read_db_Inr: "run_state (read_db w f) e = (Inr x, e') \<Longrightarrow> x = f (en_db e')"
  by (auto simp: read_db_def write_db_def run_bind apply_db_def split: prod.splits db_fault.splits)

lemma nonterminal_empty:
  "nonterminal_settlements d = [] \<longleftrightarrow> (\<forall>r \<in> set (db_settlements d). \<not> state_is_active (st_state r))"
proof -
  have "nonterminal_settlements d = [] \<longleftrightarrow> set (nonterminal_settlements d) = {}" by simp
  then show ?thesis by (auto simp: nonterminal_settlements_def)
qed

text \<open>
  C17. Settlement reopens only over a clean journal: whenever a reconciliation pass succeeds, whatever
  happened at its await points, it leaves the reconciliation gate ready exactly when no row of the
  database is reserved, prepared or submitted.
\<close>

theorem reconcile_opens_iff_clean:
  assumes "run_state (reconcile a w) e = (Inr (), e')"
  shows "sn_reconciliation (snapshot (en_gates e')) \<longleftrightarrow>
    (\<forall>r \<in> set (db_settlements (en_db e')). \<not> state_is_active (st_state r))"
proof -
  obtain remaining e1 where read: "remaining = nonterminal_settlements (en_db e1)"
    and gate: "e' = e1\<lparr>en_gates := set_reconciliation (remaining = []) (en_gates e1)\<rparr>"
    using assms
    by (auto simp: reconcile_def run_bind run_simple run_results split: prod.splits if_splits
        elim!: and_then_Inr dest!: read_db_Inr)
  show ?thesis
    by (simp add: gate read nonterminal_empty)
qed

theorem reconcile_opens_iff_clean_witness:
  "\<not> sn_reconciliation (snapshot (en_gates service_recovered))
   \<and> list_ex (\<lambda>r. state_is_active (st_state r)) (db_settlements (en_db service_recovered))"
  using reconcile_opens_iff_clean [OF service_recovery(1)] service_recovery(4) by (auto simp: list_ex_iff)

end
