(* ===== verification/Http_Sample.thy ===== *)
theory Http_Sample
  imports Http_Theorems Service_Sample
begin

text \<open>
  A request that is replayed: a client whose settlement is already terminal sends the same request again and
  is answered from the journal. This is the run the theorem about the settlement handler is applied to.
\<close>

section \<open>The journal and the request\<close>

definition replay_db :: db where
  "replay_db = projr (rotate_client_key sample_db4 1 8 (gk_prefix sample_key) (gk_digest sample_key))"

definition replay_requirements :: json where
  "replay_requirements = JObject [(''scheme'', JString ''exact''), (''network'', JString ''near:testnet''),
     (''asset'', JString ''usdc''), (''amount'', JString ''1000''), (''payTo'', JString ''shop''),
     (''maxTimeoutSeconds'', JNumber (PosInt 60))]"

definition replay_body :: json where
  "replay_body = JObject [(''x402Version'', JNumber (PosInt 2)),
     (''paymentPayload'', JObject [(''x402Version'', JNumber (PosInt 2)), (''accepted'', replay_requirements),
        (''payload'', JObject [(''signedDelegateAction'', JString ''enc'')])]),
     (''paymentRequirements'', replay_requirements)]"

definition replay_app :: app_state where
  "replay_app = service_app\<lparr>ap_lib := service_lib\<lparr>lib_near := sample_near_codec\<lparr>sha256 := (\<lambda>_. 11)\<rparr>\<rparr>,
     ap_config := (ap_config service_app)\<lparr>cfg_asset := ''usdc''\<rparr>,
     ap_from_slice := (\<lambda>_. Some replay_body), ap_sha256 := (\<lambda>_. [char_of (22::nat)])\<rparr>"

definition replay_request :: http_request where
  "replay_request = \<lparr>hq_headers = [(''x-api-key'', Some (gk_raw sample_key)), (''content-type'', Some ''application/json'')],
     hq_body = Some ''body''\<rparr>"

definition replay_start :: engine where
  "replay_start = \<lparr>en_clock = 0, en_db = replay_db, en_gates = initial_readiness, en_sent = [],
     en_rates = Map.empty, en_spawned = []\<rparr>"

section \<open>The run\<close>

lemma sample_db4_eq:
  "db_clients sample_db4 = [(sample_client, Active)]"
  "db_keys sample_db4 = [\<lparr>ak_id = 7, ak_client_id = 1, ak_prefix = ''abcdef'', ak_digest = 5, ak_status = Active\<rparr>]"
proof -
  have keys: "db_keys sample_db1 = [\<lparr>ak_id = 7, ak_client_id = 1, ak_prefix = ''abcdef'', ak_digest = 5, ak_status = Active\<rparr>]"
    unfolding sample_db1_def
    by (simp add: claim_transaction_def insert_row_def claim_row_def sample_new_def sample_db0_eq
        sample_check_defs empty_db_def client_exists_def sample_client_def reserve_global_budget_def
        reserve_client_budget_def reserve_ledger_def insert_event_def)
  have two: "db_clients sample_db2 = db_clients sample_db1" "db_keys sample_db2 = db_keys sample_db1"
    unfolding sample_db2_def
    by (simp_all add: mark_prepared_def find_row_def put_row_def sample_db1_eq insert_event_def
        sample_prepared_def claim_row_def sample_new_def sample_check_defs)
  have three: "db_clients sample_db3 = db_clients sample_db2" "db_keys sample_db3 = db_keys sample_db2"
    unfolding sample_db3_def
    by (simp_all add: mark_submitted_def find_row_def put_row_def sample_db2_eq insert_event_def
        claim_row_def sample_new_def sample_check_defs)
  have four: "db_clients sample_db4 = db_clients sample_db3" "db_keys sample_db4 = db_keys sample_db3"
    unfolding sample_db4_def
    by (simp_all add: mark_terminal_def find_row_def put_row_def sample_db3_eq
      sample_db1_eq sample_terminal_def claim_row_def sample_new_def sample_check_defs
      release_budget_def release_ledger_def http_status_i16_def terminal_row_def insert_event_def)
  show "db_clients sample_db4 = [(sample_client, Active)]"
    "db_keys sample_db4 = [\<lparr>ak_id = 7, ak_client_id = 1, ak_prefix = ''abcdef'', ak_digest = 5, ak_status = Active\<rparr>]"
    by (simp_all add: two three four keys sample_db1_clients)
qed

lemma sample_prefix: "gk_prefix sample_key = ''x402_test_aaaaaaaaaaaaaaaaaaaaaaaa''" "gk_digest sample_key = 5"
  by code_simp+

lemma replay_rotated:
  "rotate_client_key sample_db4 1 8 (gk_prefix sample_key) (gk_digest sample_key) = Inr replay_db"
  unfolding replay_db_def
  by (rule projr_ok) (simp add: rotate_client_key_def insert_api_key_def sample_db4_eq sample_prefix
      client_is_active_def client_exists_def sample_client_def revoke_keys_def)

lemma replay_db_eq:
  "db_settlements replay_db = db_settlements sample_db4" "db_clients replay_db = [(sample_client, Active)]"
  "db_keys replay_db = [\<lparr>ak_id = 7, ak_client_id = 1, ak_prefix = ''abcdef'', ak_digest = 5, ak_status = Revoked\<rparr>,
     \<lparr>ak_id = 8, ak_client_id = 1, ak_prefix = gk_prefix sample_key, ak_digest = 5, ak_status = Active\<rparr>]"
  unfolding replay_db_def
  by (simp_all add: rotate_client_key_def insert_api_key_def sample_db4_eq sample_prefix
      client_is_active_def client_exists_def sample_client_def revoke_keys_def)

lemma replay_found: "lookup_api_key replay_db (gk_prefix sample_key) = Some (sample_client, 5)"
  by (simp add: lookup_api_key_def replay_db_eq client_is_active_def sample_client_def)

lemma replay_db_run: "store_run empty_db replay_db"
  using sample_runs store_step.rotated [OF replay_rotated] unfolding store_run_def
  by (meson rtranclp.rtrancl_into_rtrancl rtranclp_trans)

lemma replay_presented:
  "presented_key sample_auth_lib Testnet (sample_bytes 32) (hq_headers replay_request) = Inr (gk_prefix sample_key, 5)"
proof -
  have raw: "gk_raw sample_key = (''x402_'' @ api_key_label Testnet @ ''_'' @ au_hex sample_auth_lib (sample_bytes 12))
      @ ''.'' @ au_hex sample_auth_lib (sample_bytes 32)"
    "gk_prefix sample_key = ''x402_'' @ api_key_label Testnet @ ''_'' @ au_hex sample_auth_lib (sample_bytes 12)"
    by (simp_all add: sample_key_def generate_api_key_def Let_def digest_api_key_def sample_auth_lib_def sample_bytes_def ok_or_def)
  have "digest_api_key sample_auth_lib (sample_bytes 32) (gk_raw sample_key) = Inr 5"
    by (simp add: digest_api_key_def sample_auth_lib_def sample_bytes_def ok_or_def)
  moreover have "parse_api_key (gk_raw sample_key) Testnet = Inr (gk_prefix sample_key)"
    unfolding raw by (rule parse_generated [OF sample_key_setup(1-3)])
  ultimately show ?thesis
    by (simp add: presented_key_def extract_presented_key_def single_header_def replay_request_def)
qed

definition replay_parsed :: parsed_request where
  "replay_parsed = \<lparr>pr_raw = ''r'', pr_value = replay_body, pr_wire = V2, pr_meta =
     \<lparr>rm_x402_version = 2, rm_scheme = ''exact'', rm_network = ''near:testnet'', rm_asset = ''usdc'',
      rm_amount = ''1000'', rm_pay_to = ''shop'', rm_signed_delegate_action = Some ''enc'',
      rm_near_asset_transfer_method = Some DelegateTransfer, rm_payment_identifier = None\<rparr>\<rparr>"

lemma replay_parses: "read_and_parse replay_app replay_request = Inr replay_parsed"
proof -
  have json: "ensure_json (hq_headers replay_request) = Inr ()"
    by (simp add: ensure_json_def replay_request_def) code_simp
  have "parse_v2 (\<lambda>_. Some ''r'') replay_body default_payment_identifier_config V2 = Inr replay_parsed"
    by (simp add: parse_v2_def replay_body_def replay_requirements_def replay_parsed_def
      ensure_allowed_keys_def required_object_def required_string_def required_decimal_string_def
      required_u8_def json_u8_def validate_resource_def validate_requirements_shape_def
      parse_routed_mechanism_payload_def parse_mechanism_payload_def parse_near_asset_transfer_method_def
      starts_with_def extract_payment_identifier_def jget_def jkeys_def is_object_def is_ascii_digit_def
      Let_def list_all_iff default_payment_identifier_config_def)
  moreover have "wire_of replay_body True = V2"
    by (simp add: wire_of_def is_v1_request_def replay_body_def jget_def)
  ultimately show ?thesis
    unfolding read_and_parse_def json
    by (simp add: replay_request_def replay_app_def service_app_def sample_config_def default_request_limits_def
        parse_request_def ok_or_def)
qed


lemma replay_identity:
  "static_failure_reason replay_app replay_parsed = None" "offline_identity replay_app replay_parsed = Inr 11"
  "fingerprint_of replay_app replay_body 11 = 22"
proof -
  have "decimal_is_at_least ''1000'' ''1000''" by code_simp
  then show "static_failure_reason replay_app replay_parsed = None"
    by (simp add: static_failure_reason_def replay_app_def replay_parsed_def service_app_def sample_config_def
        configured_asset_matches_def)
  show "offline_identity replay_app replay_parsed = Inr 11"
    by (simp add: offline_identity_def replay_app_def service_app_def sample_config_def decode_signed_delegate_def
        sample_near_codec_def ok_or_def hash_signed_delegate_bytes_def sample_delegate_def Let_def)
  show "fingerprint_of replay_app replay_body 11 = 22"
    by (simp add: fingerprint_of_def request_fingerprint_def replay_app_def hash_of_bytes_def)
qed

definition replay_row :: settlement where
  "replay_row = hd (db_settlements sample_db4)"

lemma replay_row_eq:
  "db_settlements sample_db4 = [replay_row]" "st_id replay_row = 1" "st_payment_hash replay_row = 11"
  "st_api_client_id replay_row = 1" "st_request_fingerprint replay_row = 22" "st_state replay_row = Succeeded"
  "st_terminal_http_status replay_row = Some 200" "st_terminal_response_bytes replay_row = Some ''ok''"
  unfolding replay_row_def sample_db4_def
  by (simp_all add: mark_terminal_def find_row_def put_row_def sample_db3_eq
      sample_db1_eq sample_terminal_def claim_row_def sample_new_def sample_check_defs
      release_budget_def release_ledger_def http_status_i16_def terminal_row_def insert_event_def)

lemma replay_authenticates:
  "run_state (authenticate_request replay_app still_world (hq_headers replay_request)) replay_start
     = (Inr \<lparr>ac_client = sample_client, ac_key_prefix = gk_prefix sample_key\<rparr>, replay_start\<lparr>en_clock := 1\<rparr>)"
  by (simp add: authenticate_request_def replay_app_def service_app_def sample_config_def replay_presented
      run_rules read_db_def replay_start_def replay_found admit_candidate_def sample_client_def)

lemma replay_answer:
  assumes "en_db e = replay_db"
  shows "run_state (settle_parsed replay_app still_world sample_client replay_parsed) e
    = (\<lparr>hr_status = 200, hr_body = ''ok'', hr_retry_after = False\<rparr>, e\<lparr>en_clock := en_clock e + 1\<rparr>)"
proof -
  have "find_existing_settlement replay_db 1 None 11 22 = Some (ClaimExisting replay_row)"
    by (simp add: find_existing_settlement_def replay_db_eq replay_row_eq)
  then show ?thesis
    using assms unfolding settle_parsed_def replay_identity option.case sum.case Let_def
    by (simp add: prior_settlement_response_def run_rules read_db_def replay_identity replay_parsed_def
        sample_client_def replay_row_eq stored_terminal_response_def status_from_u16_def raw_json_def)
qed

definition replay_response :: http_response where
  "replay_response = \<lparr>hr_status = 200, hr_body = ''ok'', hr_retry_after = False\<rparr>"

lemma replay_wire: "pr_wire replay_parsed = V2"
  by (simp add: replay_parsed_def)

lemma replay_run: "\<exists>e. run_state (settle_inner replay_app still_world replay_request) replay_start = (replay_response, e)"
proof -
  have limit: "min (cl_settle_rate_per_minute sample_client) (rl_settle_per_minute (cfg_request_limits (ap_config replay_app))) > 0"
    by (simp add: sample_client_def replay_app_def service_app_def sample_config_def default_request_limits_def)
  have rate: "\<exists>e. run_state (check_rate still_world key SettleOp n) (replay_start\<lparr>en_clock := 1\<rparr>) = (True, e)
      \<and> en_db e = replay_db" if "n > 0" for key n
    using that by (simp add: check_rate_def run_bind still_pause rate_check_def current_window_def Let_def
        replay_start_def word_le_nat_alt word_less_nat_alt)
  obtain e where "run_state (check_rate still_world (gk_prefix sample_key) SettleOp
      (min (cl_settle_rate_per_minute sample_client) (rl_settle_per_minute (cfg_request_limits (ap_config replay_app)))))
      (replay_start\<lparr>en_clock := 1\<rparr>) = (True, e)" "en_db e = replay_db"
    using rate [OF limit] by blast
  then show ?thesis
    unfolding settle_inner_admitted settle_admitted_def
    by (simp add: run_bind replay_authenticates replay_parses replay_answer run_simple replay_response_def
        finalize_wire_response_def replay_wire del: One_nat_def)
qed

theorem settle_answers_from_journal_witness:
  "\<exists>e' i r. run_state (settle_inner replay_app still_world replay_request) replay_start = (replay_response, e')
     \<and> en_sent e' = [] \<and> find_row (en_db e') i = Some r \<and> is_terminal (st_state r)
     \<and> st_api_client_id r = 1 \<and> st_terminal_response_bytes r = Some (hr_body replay_response)"
proof -
  obtain e' where run: "run_state (settle_inner replay_app still_world replay_request) replay_start = (replay_response, e')"
    using replay_run by blast
  have start: "store_run empty_db (en_db replay_start)" "hr_status replay_response = 200"
    "en_sent replay_start = []" "cl_id sample_client = 1"
    by (simp_all add: replay_start_def replay_db_run replay_response_def sample_client_def)
  have "\<not> failure_answer replay_app replay_response"
    by (simp add: failure_answer_def replay_app_def service_app_def replay_response_def)
  then show ?thesis
    using settle_answers_from_journal [OF still_world_ok start(1) run start(2)] run
    by (auto simp: replay_authenticates replay_parses replay_wire finalize_wire_response_def start)
qed

end
