(* ===== verification/Utf8.thy ===== *)
theory Utf8
  imports Prelude
begin

text \<open>
  The encoding of Rust's strings: which byte strings are UTF-8, and the character classes the sources ask
  for, read off the bytes of an encoded text.
\<close>

text \<open>\<open>std::str::from_utf8\<close>: the well-formed byte sequences of Unicode.\<close>

abbreviation continuation :: "nat \<Rightarrow> bool" where
  "continuation b \<equiv> 128 \<le> b \<and> b \<le> 191"

fun utf8 :: "nat list \<Rightarrow> bool" where
  "utf8 [] = True"
| "utf8 (b # bs) =
     (if b < 128 then utf8 bs
      else if 194 \<le> b \<and> b \<le> 223 then (case bs of c # cs \<Rightarrow> continuation c \<and> utf8 cs | _ \<Rightarrow> False)
      else if 224 \<le> b \<and> b \<le> 239 then
        (case bs of
           c # d # cs \<Rightarrow> continuation c \<and> (b = 224 \<longrightarrow> 160 \<le> c) \<and> (b = 237 \<longrightarrow> c \<le> 159) \<and> continuation d \<and> utf8 cs
         | _ \<Rightarrow> False)
      else if 240 \<le> b \<and> b \<le> 244 then
        (case bs of
           c # d # e # cs \<Rightarrow> continuation c \<and> (b = 240 \<longrightarrow> 144 \<le> c) \<and> (b = 244 \<longrightarrow> c \<le> 143)
             \<and> continuation d \<and> continuation e \<and> utf8 cs
         | _ \<Rightarrow> False)
      else False)"

text \<open>
  \<open>char::is_control\<close>, the class Cc: a byte below 32, the byte 127, or the two bytes of a code point from
  128 to 159.
\<close>

fun has_control :: "string \<Rightarrow> bool" where
  "has_control [] = False"
| "has_control (c # cs) = (byte_of c < 32 \<or> byte_of c = 127
     \<or> byte_of c = 194 \<and> (case cs of d # _ \<Rightarrow> 128 \<le> byte_of d \<and> byte_of d < 160 | [] \<Rightarrow> False) \<or> has_control cs)"

text \<open>
  \<open>char::is_whitespace\<close>, the white space of Unicode: the ASCII spaces, U+0085, U+00A0, U+1680, U+2000 to
  U+200A, U+2028, U+2029, U+202F, U+205F and U+3000.
\<close>

fun starts_whitespace :: "nat list \<Rightarrow> bool" where
  "starts_whitespace (b # c # d # _) = (9 \<le> b \<and> b \<le> 13 \<or> b = 32 \<or> b = 194 \<and> (c = 133 \<or> c = 160)
     \<or> b = 225 \<and> c = 154 \<and> d = 128
     \<or> b = 226 \<and> c = 128 \<and> (d \<le> 138 \<or> d = 168 \<or> d = 169 \<or> d = 175) \<or> b = 226 \<and> c = 129 \<and> d = 159
     \<or> b = 227 \<and> c = 128 \<and> d = 128)"
| "starts_whitespace [b, c] = (9 \<le> b \<and> b \<le> 13 \<or> b = 32 \<or> b = 194 \<and> (c = 133 \<or> c = 160))"
| "starts_whitespace [b] = (9 \<le> b \<and> b \<le> 13 \<or> b = 32)"
| "starts_whitespace [] = False"

fun has_whitespace :: "string \<Rightarrow> bool" where
  "has_whitespace [] = False"
| "has_whitespace (c # cs) = (starts_whitespace (map byte_of (c # cs)) \<or> has_whitespace cs)"

definition is_ascii_text :: "string \<Rightarrow> bool" where
  "is_ascii_text s = list_all (\<lambda>c. byte_of c < 128) s"

lemma utf8_ascii: "is_ascii_text s \<Longrightarrow> utf8 (map byte_of s)"
  by (induction s) (auto simp: is_ascii_text_def)

lemma no_whitespace_byte: "\<not> has_whitespace s \<Longrightarrow> c \<in> set s \<Longrightarrow> \<not> (9 \<le> byte_of c \<and> byte_of c \<le> 13) \<and> byte_of c \<noteq> 32"
proof (induction s)
  case (Cons x xs)
  have "starts_whitespace (map byte_of (x # xs))" if "9 \<le> byte_of x \<and> byte_of x \<le> 13 \<or> byte_of x = (32::nat)"
    using that by (cases "(byte_of x # map byte_of xs) :: nat list" rule: starts_whitespace.cases) auto
  then show ?case using Cons by auto
qed simp

end
