(* ===== verification/Secrets.thy ===== *)
theory Secrets
  imports Config Utf8
begin

text \<open>
  Where the service's secrets come from: \<open>SecretFiles\<close>, \<open>read_secret\<close> and the exporter settings of
  \<open>config.rs\<close>. The environment and the file system are parameters: each call sees whatever they answer.
\<close>

unbundle bit_operations_syntax

section \<open>The operating system\<close>

record file_meta =
  fm_is_file :: bool
  fm_mode :: u32

text \<open>Failing calls answer the text of the error; a canonical path is the list of its components.\<close>

record system_calls =
  sy_env :: "string \<Rightarrow> string option"
  sy_metadata :: "string \<Rightarrow> string + file_meta"
  sy_read :: "string \<Rightarrow> string + bytes"
  sy_canonicalize :: "string \<Rightarrow> string + string list"
  sy_utf8_error :: "bytes \<Rightarrow> string"

datatype secret_error =
    SecretRead string
  | MissingEnvironment string
  | SecretInvalid string
  | SecretEnvironment string string
  | InsecureSecretMode string
  | InvalidSecretFileType string

section \<open>Reading one secret\<close>

definition path_is_within :: "system_calls \<Rightarrow> string \<Rightarrow> string \<Rightarrow> bool" where
  "path_is_within sys directory path =
     (if directory = [] then False else
      case (sy_canonicalize sys directory, sy_canonicalize sys path) of
        (Inr directory, Inr path) \<Rightarrow> take (length directory) path = directory
      | _ \<Rightarrow> False)"

definition is_within_systemd_credentials :: "system_calls \<Rightarrow> string \<Rightarrow> bool" where
  "is_within_systemd_credentials sys path =
     (case sy_env sys ''CREDENTIALS_DIRECTORY'' of Some dir \<Rightarrow> path_is_within sys dir path | None \<Rightarrow> False)"

definition ensure_private_mode :: "system_calls \<Rightarrow> string \<Rightarrow> secret_error + unit" where
  "ensure_private_mode sys path =
     bind_res (map_err SecretRead (sy_metadata sys path)) (\<lambda>metadata.
     if \<not> fm_is_file metadata then Inl (InvalidSecretFileType path)
     else if is_within_systemd_credentials sys path then Inr ()
     else if fm_mode metadata AND 63 \<noteq> 0 then Inl (InsecureSecretMode path)
     else Inr ())"

definition strip_suffix :: "string \<Rightarrow> string \<Rightarrow> string option" where
  "strip_suffix p s = map_option rev (strip_prefix (rev p) (rev s))"

definition CR :: char where "CR = CHR 0x0D"
definition LF :: char where "LF = CHR 0x0A"

definition read_secret :: "system_calls \<Rightarrow> string \<Rightarrow> secret_error + string" where
  "read_secret sys path =
     bind_res (ensure_private_mode sys path) (\<lambda>_.
     bind_res (map_err SecretRead (sy_read sys path)) (\<lambda>content.
     if length content > 65536 then Inl (SecretInvalid (''secret file '' @ path @ '' is unexpectedly large''))
     else if \<not> utf8 (map byte_of content) then Inl (SecretInvalid (''secret file '' @ path @ '' is not UTF-8: '' @ sy_utf8_error sys content))
     else bind_res (case strip_suffix [CR, LF] content of
         Some v \<Rightarrow> Inr v
       | None \<Rightarrow>
           (case strip_suffix [LF] content of
              Some v \<Rightarrow> Inr v
            | None \<Rightarrow> Inl (SecretInvalid (''secret file '' @ path @ '' must end with exactly one newline'')))) (\<lambda>v.
     if v = [] \<or> has_whitespace v
     then Inl (SecretInvalid (''secret file '' @ path @ '' is empty or contains non-terminal whitespace''))
     else Inr v)))"

section \<open>All secrets\<close>

record secret_files =
  sf_database_url :: string
  sf_database_direct_url :: string
  sf_relayer_key :: string
  sf_api_key_pepper :: string
  sf_primary_rpc_url :: "string option"
  sf_backup_rpc_url :: "string option"

record runtime_secrets =
  rs_database_url :: string
  rs_database_direct_url :: string
  rs_relayer_key :: string
  rs_api_key_pepper :: string
  rs_primary_rpc_url :: "string option"
  rs_backup_rpc_url :: "string option"

definition optional_path :: "system_calls \<Rightarrow> string \<Rightarrow> string option" where
  "optional_path sys name = (case sy_env sys name of Some v \<Rightarrow> if v = [] then None else Some v | None \<Rightarrow> None)"

definition required_path :: "system_calls \<Rightarrow> string \<Rightarrow> secret_error + string" where
  "required_path sys name = ok_or (optional_path sys name) (MissingEnvironment name)"

definition secret_files_from_environment :: "system_calls \<Rightarrow> secret_error + secret_files" where
  "secret_files_from_environment sys =
     bind_res (required_path sys ''DATABASE_URL_FILE'') (\<lambda>database_url.
     bind_res (required_path sys ''RELAYER_KEY_FILE'') (\<lambda>relayer_key.
     bind_res (required_path sys ''API_KEY_PEPPER_FILE'') (\<lambda>api_key_pepper.
     Inr \<lparr>sf_database_url = database_url,
          sf_database_direct_url = (case optional_path sys ''DATABASE_DIRECT_URL_FILE'' of Some p \<Rightarrow> p | None \<Rightarrow> database_url),
          sf_relayer_key = relayer_key, sf_api_key_pepper = api_key_pepper,
          sf_primary_rpc_url = optional_path sys ''PRIMARY_RPC_URL_FILE'',
          sf_backup_rpc_url = optional_path sys ''BACKUP_RPC_URL_FILE''\<rparr>)))"

definition read_optional_secret :: "system_calls \<Rightarrow> string option \<Rightarrow> secret_error + string option" where
  "read_optional_secret sys path =
     (case path of None \<Rightarrow> Inr None | Some path \<Rightarrow> bind_res (read_secret sys path) (\<lambda>v. Inr (Some v)))"

definition load_secrets :: "system_calls \<Rightarrow> secret_files \<Rightarrow> secret_error + runtime_secrets" where
  "load_secrets sys files =
     bind_res (read_secret sys (sf_database_url files)) (\<lambda>database_url.
     bind_res (read_secret sys (sf_database_direct_url files)) (\<lambda>database_direct_url.
     bind_res (read_secret sys (sf_relayer_key files)) (\<lambda>relayer_key.
     bind_res (read_secret sys (sf_api_key_pepper files)) (\<lambda>api_key_pepper.
     bind_res (read_optional_secret sys (sf_primary_rpc_url files)) (\<lambda>primary_rpc_url.
     bind_res (read_optional_secret sys (sf_backup_rpc_url files)) (\<lambda>backup_rpc_url.
     Inr \<lparr>rs_database_url = database_url, rs_database_direct_url = database_direct_url, rs_relayer_key = relayer_key,
          rs_api_key_pepper = api_key_pepper, rs_primary_rpc_url = primary_rpc_url, rs_backup_rpc_url = backup_rpc_url\<rparr>))))))"

section \<open>The telemetry exporter\<close>

record otel_url =
  ou_scheme :: string
  ou_path :: string
  ou_query :: "string option"
  ou_fragment :: "string option"
  ou_username :: string
  ou_password :: "string option"

definition validate_otel_endpoint :: "otel_url \<Rightarrow> secret_error + unit" where
  "validate_otel_endpoint endpoint =
     (if ou_scheme endpoint \<noteq> ''https'' then Inl (SecretInvalid ''OTEL_EXPORTER_OTLP_ENDPOINT must use HTTPS'')
      else if ou_path endpoint \<noteq> ''/'' \<or> ou_query endpoint \<noteq> None \<or> ou_fragment endpoint \<noteq> None
         \<or> ou_username endpoint \<noteq> [] \<or> ou_password endpoint \<noteq> None
      then Inl (SecretInvalid (''OTEL_EXPORTER_OTLP_ENDPOINT must be an HTTPS origin without ''
        @ ''credentials, a path, query, or fragment''))
      else Inr ())"

definition otel_from_environment ::
  "(string \<Rightarrow> string + otel_url) \<Rightarrow> system_calls \<Rightarrow> secret_error + (otel_url \<times> string) option" where
  "otel_from_environment url_parse sys =
     (case (sy_env sys ''OTEL_EXPORTER_OTLP_ENDPOINT'', optional_path sys ''OTEL_EXPORTER_OTLP_HEADERS_FILE'') of
        (None, None) \<Rightarrow> Inr None
      | (Some endpoint, Some headers_file) \<Rightarrow>
          bind_res (map_err (SecretEnvironment ''OTEL_EXPORTER_OTLP_ENDPOINT'') (url_parse endpoint)) (\<lambda>endpoint.
          bind_res (validate_otel_endpoint endpoint) (\<lambda>_. Inr (Some (endpoint, headers_file))))
      | _ \<Rightarrow> Inl (SecretInvalid (''OTLP is enabled only when both OTEL_EXPORTER_OTLP_ENDPOINT and ''
          @ ''OTEL_EXPORTER_OTLP_HEADERS_FILE are set'')))"

section \<open>Secrets are private\<close>

text \<open>
  A private secret: the whole content of a regular file, of one line without white space, that only its
  owner can read or that lies in the credentials directory of the unit.
\<close>

definition private_secret :: "system_calls \<Rightarrow> string \<Rightarrow> string \<Rightarrow> bool" where
  "private_secret sys path v \<longleftrightarrow>
     (\<exists>m. sy_metadata sys path = Inr m \<and> fm_is_file m
        \<and> (fm_mode m AND 63 = 0
           \<or> (\<exists>dir d p. sy_env sys ''CREDENTIALS_DIRECTORY'' = Some dir \<and> dir \<noteq> [] \<and> sy_canonicalize sys dir = Inr d
                \<and> sy_canonicalize sys path = Inr (d @ p))))
     \<and> (\<exists>content. sy_read sys path = Inr content \<and> content \<in> {v @ [LF], v @ [CR, LF]} \<and> length content \<le> 65536
          \<and> utf8 (map byte_of content))
     \<and> v \<noteq> [] \<and> \<not> has_whitespace v"

lemma strip_suffix_Some: "strip_suffix p s = Some v \<longleftrightarrow> s = v @ p"
proof -
  have "strip_prefix (rev p) (rev s) = Some (rev v) \<longleftrightarrow> rev s = rev p @ rev v"
    by (rule strip_prefix_Some_iff)
  then show ?thesis
    by (auto simp: strip_suffix_def simp flip: rev_append)
qed

lemma within_prefix: "take (length d) p = d \<longleftrightarrow> (\<exists>q. p = d @ q)"
  by (metis append_eq_conv_conj)

lemma read_secret_private:
  assumes "read_secret sys path = Inr v"
  shows "private_secret sys path v"
proof -
  obtain content where mode: "ensure_private_mode sys path = Inr ()" and read: "sy_read sys path = Inr content"
    "length content \<le> 65536" "utf8 (map byte_of content)" "content \<in> {v @ [LF], v @ [CR, LF]}"
    and v: "v \<noteq> []" "\<not> has_whitespace v"
    using assms unfolding read_secret_def
    by (auto simp: bind_res_Inr_iff map_err_Inr_iff strip_suffix_Some split: if_splits option.splits)
  obtain m where "sy_metadata sys path = Inr m" "fm_is_file m"
    "is_within_systemd_credentials sys path \<or> fm_mode m AND 63 = 0"
    using mode by (auto simp: ensure_private_mode_def bind_res_Inr_iff map_err_Inr_iff split: if_splits)
  moreover have "\<exists>dir d p. sy_env sys ''CREDENTIALS_DIRECTORY'' = Some dir \<and> dir \<noteq> [] \<and> sy_canonicalize sys dir = Inr d
      \<and> sy_canonicalize sys path = Inr (d @ p)" if "is_within_systemd_credentials sys path"
    using that
    by (auto simp: is_within_systemd_credentials_def path_is_within_def within_prefix split: option.splits if_splits sum.splits)
  ultimately show ?thesis
    using read v unfolding private_secret_def by blast
qed

text \<open>
  Secrets are private: every secret the service starts with is the content of a regular file named by
  the environment, a single line free of white space, of a file that only its owner can read or that lies
  (symbolic links and parent directories resolved) within the credentials directory of the unit.
\<close>

lemma loaded_secrets_private:
  assumes "secret_files_from_environment sys = Inr files" "load_secrets sys files = Inr secrets"
  shows "private_secret sys (sf_database_url files) (rs_database_url secrets)
    \<and> private_secret sys (sf_database_direct_url files) (rs_database_direct_url secrets)
    \<and> private_secret sys (sf_relayer_key files) (rs_relayer_key secrets)
    \<and> private_secret sys (sf_api_key_pepper files) (rs_api_key_pepper secrets)
    \<and> rel_option (private_secret sys) (sf_primary_rpc_url files) (rs_primary_rpc_url secrets)
    \<and> rel_option (private_secret sys) (sf_backup_rpc_url files) (rs_backup_rpc_url secrets)
    \<and> sy_env sys ''RELAYER_KEY_FILE'' = Some (sf_relayer_key files)"
proof -
  have optional: "rel_option (private_secret sys) p v" if "read_optional_secret sys p = Inr v" for p v
    using that read_secret_private by (auto simp: read_optional_secret_def bind_res_Inr_iff split: option.splits)
  have named: "sy_env sys name = Some path" if "required_path sys name = Inr path" for name path
    using that by (simp add: required_path_def ok_or_Inr_iff optional_path_def split: option.splits if_splits)
  have "required_path sys ''RELAYER_KEY_FILE'' = Inr (sf_relayer_key files)"
    using assms(1) unfolding secret_files_from_environment_def bind_res_Inr_iff by clarsimp
  moreover have "read_secret sys (sf_database_url files) = Inr (rs_database_url secrets)
    \<and> read_secret sys (sf_database_direct_url files) = Inr (rs_database_direct_url secrets)
    \<and> read_secret sys (sf_relayer_key files) = Inr (rs_relayer_key secrets)
    \<and> read_secret sys (sf_api_key_pepper files) = Inr (rs_api_key_pepper secrets)
    \<and> read_optional_secret sys (sf_primary_rpc_url files) = Inr (rs_primary_rpc_url secrets)
    \<and> read_optional_secret sys (sf_backup_rpc_url files) = Inr (rs_backup_rpc_url secrets)"
    using assms(2) unfolding load_secrets_def bind_res_Inr_iff by clarsimp
  ultimately show ?thesis
    by (simp add: read_secret_private optional named)
qed

section \<open>A system with private files\<close>

definition sample_line :: string where
  "sample_line = replicate 32 (CHR ''k'')"

definition sample_system :: system_calls where
  "sample_system = \<lparr>sy_env = [''DATABASE_URL_FILE'' \<mapsto> ''/db'', ''RELAYER_KEY_FILE'' \<mapsto> ''/key'', ''API_KEY_PEPPER_FILE'' \<mapsto> ''/pepper''],
     sy_metadata = (\<lambda>_. Inr \<lparr>fm_is_file = True, fm_mode = 384\<rparr>), sy_read = (\<lambda>_. Inr (sample_line @ [LF])),
     sy_canonicalize = (\<lambda>_. Inl ''none''), sy_utf8_error = (\<lambda>_. [])\<rparr>"

definition sample_files :: secret_files where
  "sample_files = \<lparr>sf_database_url = ''/db'', sf_database_direct_url = ''/db'', sf_relayer_key = ''/key'',
     sf_api_key_pepper = ''/pepper'', sf_primary_rpc_url = None, sf_backup_rpc_url = None\<rparr>"

definition sample_secrets :: runtime_secrets where
  "sample_secrets = \<lparr>rs_database_url = sample_line, rs_database_direct_url = sample_line, rs_relayer_key = sample_line,
     rs_api_key_pepper = sample_line, rs_primary_rpc_url = None, rs_backup_rpc_url = None\<rparr>"

lemma sample_read: "read_secret sample_system path = Inr sample_line"
proof -
  have "strip_suffix [CR, LF] (sample_line @ [LF]) = None" "strip_suffix [LF] (sample_line @ [LF]) = Some sample_line"
    "utf8 (map byte_of (sample_line @ [LF]))" "\<not> has_whitespace sample_line"
    by code_simp+
  then show ?thesis
    by (simp add: read_secret_def ensure_private_mode_def is_within_systemd_credentials_def sample_system_def sample_line_def)
qed

lemma sample_secrets_load:
  "secret_files_from_environment sample_system = Inr sample_files" "load_secrets sample_system sample_files = Inr sample_secrets"
  "otel_from_environment url_parse sample_system = Inr None"
proof -
  show "secret_files_from_environment sample_system = Inr sample_files" "otel_from_environment url_parse sample_system = Inr None"
    by (simp_all add: secret_files_from_environment_def required_path_def optional_path_def sample_system_def ok_or_def
        sample_files_def otel_from_environment_def)
  show "load_secrets sample_system sample_files = Inr sample_secrets"
    by (simp add: load_secrets_def read_optional_secret_def sample_read sample_files_def sample_secrets_def)
qed

end
