(* ===== verification/Admin.thy ===== *)
theory Admin
  imports Secrets Access
begin

text \<open>
  The offline administration of clients, \<open>bin/admin.rs\<close>: creating a client with its first key, rotating and
  revoking keys, allowing payees and setting budgets. Each statement of a command sees the database other
  sessions have left, so a command that first reads the client's environment and then writes gets two.
\<close>

section \<open>Commands\<close>

datatype client_command =
    CreateClient environment string u32 u32 "string option"
  | RotateKey uuid
  | RevokeClient uuid
  | AllowPayee uuid string string string
  | SetBudget uuid string

datatype admin_error =
    AdminSecret secret_error
  | AdminConnect
  | AdminAuth auth_error
  | AdminStore store_error
  | AdminBail string

text \<open>
  What a command runs with: the operating system, the files it is given, whether the database accepts the
  connection, the libraries, the random bytes and identifiers it draws, and the text of an identifier.
\<close>

record admin_world =
  aw_system :: system_calls
  aw_database_url_file :: string
  aw_pepper_file :: string
  aw_connects :: "string \<Rightarrow> bool"
  aw_auth :: auth_lib
  aw_account :: "string \<Rightarrow> bool"
  aw_public_id :: "bytes option"
  aw_secret :: "bytes option"
  aw_client_id :: uuid
  aw_key_id :: uuid
  aw_uuid_text :: "uuid \<Rightarrow> string"

definition admin_connect :: "admin_world \<Rightarrow> admin_error + unit" where
  "admin_connect w =
     bind_res (map_err AdminSecret (read_secret (aw_system w) (aw_database_url_file w))) (\<lambda>database_url.
     if aw_connects w database_url then Inr () else Inl AdminConnect)"

definition admin_validate_decimal :: "string \<Rightarrow> admin_error + unit" where
  "admin_validate_decimal v =
     (if v = [] \<or> \<not> list_all is_ascii_digit v then Inl (AdminBail ''value must be an unsigned base-10 integer'') else Inr ())"

definition validate_exact_policy :: "(string \<Rightarrow> bool) \<Rightarrow> string \<Rightarrow> string \<Rightarrow> string \<Rightarrow> admin_error + unit" where
  "validate_exact_policy account network asset pay_to =
     (if network = ''near:mainnet'' \<or> network = ''near:testnet'' then
        (if \<not> account asset then Inl (AdminBail ''parse asset account'')
         else if \<not> account pay_to then Inl (AdminBail ''parse payee account'') else Inr ())
      else if network = ''eip155:8453'' \<or> network = ''eip155:84532'' then
        (if \<not> is_evm_address asset then Inl (AdminBail (''asset must be a 0x EVM address for '' @ network))
         else if \<not> is_evm_address pay_to then Inl (AdminBail (''pay_to must be a 0x EVM address for '' @ network))
         else Inr ())
      else Inl (AdminBail ''network must be a supported near or eip155 network''))"

definition parse_environment :: "string \<Rightarrow> admin_error + environment" where
  "parse_environment v =
     (if v = ''mainnet'' then Inr Mainnet else if v = ''testnet'' then Inr Testnet
      else Inl (AdminBail ''invalid client environment''))"

definition admin_generate :: "admin_world \<Rightarrow> environment \<Rightarrow> admin_error + generated_api_key" where
  "admin_generate w env =
     bind_res (map_err AdminSecret (read_secret (aw_system w) (aw_pepper_file w))) (\<lambda>pepper.
     map_err AdminAuth (generate_api_key (aw_auth w) env pepper (aw_public_id w) (aw_secret w)))"

section \<open>Running a command\<close>

text \<open>
  The steps of a command: an error before its write, or what it prints (or fails with) after the write and
  the database the write leaves. \<open>d0\<close> is the database its read sees, \<open>d\<close> the one its write sees.
\<close>

type_synonym admin_result = "(admin_error + string list) \<times> db"

fun admin_steps :: "admin_world \<Rightarrow> db \<Rightarrow> db \<Rightarrow> client_command \<Rightarrow> admin_error + admin_result" where
  "admin_steps w d0 d (CreateClient env name verify_rate settle_rate daily_yocto_near) =
     bind_res (admin_connect w) (\<lambda>_.
     bind_res (admin_generate w env) (\<lambda>generated.
     let budget = (case daily_yocto_near of Some b \<Rightarrow> b | None \<Rightarrow> default_client_budget env);
         client = \<lparr>cl_id = aw_client_id w, cl_name = name, cl_environment = environment_name env,
           cl_daily_budget_yocto_near = decimal_value budget, cl_verify_rate_per_minute = verify_rate,
           cl_settle_rate_per_minute = settle_rate\<rparr> in
     bind_res (admin_validate_decimal budget) (\<lambda>_.
     bind_res (map_err AdminStore (create_client d client (aw_key_id w) (gk_prefix generated) (gk_digest generated))) (\<lambda>d'.
     Inr (Inr [''client_id='' @ aw_uuid_text w (aw_client_id w), ''api_key='' @ gk_raw generated], d')))))"
| "admin_steps w d0 d (RotateKey client_id) =
     bind_res (admin_connect w) (\<lambda>_.
     bind_res (map_err AdminStore (client_environment d0 client_id)) (\<lambda>tier.
     bind_res (parse_environment tier) (\<lambda>env.
     bind_res (admin_generate w env) (\<lambda>generated.
     bind_res (map_err AdminStore (rotate_client_key d client_id (aw_key_id w) (gk_prefix generated) (gk_digest generated))) (\<lambda>d'.
     Inr (Inr [''client_id='' @ aw_uuid_text w client_id, ''api_key='' @ gk_raw generated], d'))))))"
| "admin_steps w d0 d (RevokeClient client_id) =
     bind_res (admin_connect w) (\<lambda>_.
     let (found, d') = revoke_client d client_id in
     Inr (if \<not> found then Inl (AdminBail ''active client not found'')
          else Inr [''revoked_client_id='' @ aw_uuid_text w client_id], d'))"
| "admin_steps w d0 d (AllowPayee client_id network asset pay_to) =
     bind_res (admin_connect w) (\<lambda>_.
     bind_res (map_err AdminStore (client_environment d0 client_id)) (\<lambda>tier.
     bind_res (parse_environment tier) (\<lambda>env.
     if network_environment network \<noteq> Some env
     then Inl (AdminBail (''payee network '' @ network @ '' does not match the client environment tier '' @ environment_name env))
     else
     bind_res (validate_exact_policy (aw_account w) network asset pay_to) (\<lambda>_.
     bind_res (map_err AdminStore (allow_payee d client_id network asset pay_to)) (\<lambda>d'.
     Inr (Inr [''updated_client_id='' @ aw_uuid_text w client_id], d'))))))"
| "admin_steps w d0 d (SetBudget client_id daily_yocto_near) =
     bind_res (admin_validate_decimal daily_yocto_near) (\<lambda>_.
     bind_res (admin_connect w) (\<lambda>_.
     bind_res (map_err AdminStore (set_client_budget d client_id (decimal_value daily_yocto_near))) (\<lambda>(found, d').
     Inr (if \<not> found then Inl (AdminBail ''active client not found'')
          else Inr [''updated_client_id='' @ aw_uuid_text w client_id], d'))))"

definition admin_client :: "admin_world \<Rightarrow> db \<Rightarrow> db \<Rightarrow> client_command \<Rightarrow> admin_result" where
  "admin_client w d0 d command = (case admin_steps w d0 d command of Inl e \<Rightarrow> (Inl e, d) | Inr r \<Rightarrow> r)"


section \<open>Provisioning\<close>

lemma find_last: "\<not> list_ex P xs \<Longrightarrow> P x \<Longrightarrow> find P (xs @ [x]) = Some x"
  by (induction xs) auto

lemma created_clients:
  assumes "create_client d c key_id prefix digest = Inr d'"
  shows "\<not> client_exists d (cl_id c)" "db_clients d' = db_clients d @ [(c, Active)]"
  using assms by (auto simp: create_client_def insert_api_key_def split: if_splits)

lemma created_environment:
  assumes "create_client d c key_id prefix digest = Inr d'"
  shows "client_environment d' (cl_id c) = Inr (cl_environment c)"
proof -
  note d' = created_clients [OF assms]
  then have "find (\<lambda>x. cl_id (fst x) = cl_id c \<and> snd x = Active) (db_clients d') = Some (c, Active)"
    unfolding d'(2) by (intro find_last) (auto simp: client_exists_def list_ex_iff)
  then show ?thesis by (simp add: client_environment_def)
qed

lemma environment_name_parses: "parse_environment (environment_name env) = Inr env"
  by (cases env) (simp_all add: parse_environment_def)

lemma create_steps:
  assumes "admin_client w d0 d (CreateClient env name verify_rate settle_rate budget) = (Inr out, d')"
  obtains key c where "admin_generate w env = Inr key" "cl_id c = aw_client_id w" "cl_environment c = environment_name env"
    "create_client d c (aw_key_id w) (gk_prefix key) (gk_digest key) = Inr d'"
    "out = [''client_id='' @ aw_uuid_text w (aw_client_id w), ''api_key='' @ gk_raw key]"
proof -
  obtain key where key: "admin_generate w env = Inr key"
    using assms by (auto simp: admin_client_def bind_res_Inr_iff split: sum.splits)
  let ?b = "case budget of Some b \<Rightarrow> b | None \<Rightarrow> default_client_budget env"
  let ?c = "\<lparr>cl_id = aw_client_id w, cl_name = name, cl_environment = environment_name env,
    cl_daily_budget_yocto_near = decimal_value ?b, cl_verify_rate_per_minute = verify_rate, cl_settle_rate_per_minute = settle_rate\<rparr>"
  have "create_client d ?c (aw_key_id w) (gk_prefix key) (gk_digest key) = Inr d'"
    "out = [''client_id='' @ aw_uuid_text w (aw_client_id w), ''api_key='' @ gk_raw key]"
    using assms key by (auto simp: admin_client_def bind_res_Inr_iff map_err_Inr_iff Let_def split: sum.splits)
  then show thesis using that [OF key, of ?c] by simp
qed

lemma allow_steps:
  assumes "admin_client w d0 d (AllowPayee i network asset pay_to) = (Inr out, d')"
  obtains tier env where "client_environment d0 i = Inr tier" "parse_environment tier = Inr env"
    "network_environment network = Some env" "allow_payee d i network asset pay_to = Inr d'"
  using assms by (auto simp: admin_client_def bind_res_Inr_iff map_err_Inr_iff split: sum.splits if_splits)

text \<open>
  C22. A client provisioned by the administrator can pay at once: after \<open>client create\<close> and
  \<open>client allow-payee\<close> the printed key, presented to a service of that environment with the same pepper,
  authenticates as exactly the created client, the payee is allowed for it, and the payee's network belongs
  to the client's own deployment tier.
\<close>

theorem provisioned_client_can_pay:
  assumes lib: "hex_laws (aw_auth w)" "aw_public_id w = Some public_id" "length public_id = 12"
      "aw_secret w = Some secret" "length secret = 32" "read_secret (aw_system w) (aw_pepper_file w) = Inr pepper"
    and create: "admin_client w d0 d (CreateClient env name verify_rate settle_rate budget) = (Inr out, d1)"
    and allow: "admin_client w' d1 d1 (AllowPayee (aw_client_id w) network asset pay_to) = (Inr out', d2)"
  shows "\<exists>raw auth. out = [''client_id='' @ aw_uuid_text w (aw_client_id w), ''api_key='' @ raw]
    \<and> authenticate (aw_auth w) env pepper (\<lambda>p. Inr (lookup_api_key d2 p)) [(''authorization'', Some (''Bearer '' @ raw))] = Inr auth
    \<and> cl_id (ac_client auth) = aw_client_id w \<and> cl_environment (ac_client auth) = environment_name env
    \<and> network_environment network = Some env \<and> payee_allowed d2 (cl_id (ac_client auth)) network asset pay_to"
proof -
  obtain key c where key: "admin_generate w env = Inr key" and c: "cl_id c = aw_client_id w" "cl_environment c = environment_name env"
    and created: "create_client d c (aw_key_id w) (gk_prefix key) (gk_digest key) = Inr d1"
    and out: "out = [''client_id='' @ aw_uuid_text w (aw_client_id w), ''api_key='' @ gk_raw key]"
    using create by (rule create_steps)
  have generated: "generate_api_key (aw_auth w) env pepper (Some public_id) (Some secret) = Inr key"
    using key lib by (simp add: admin_generate_def map_err_Inr_iff)
  obtain tier env' where tier: "client_environment d1 (aw_client_id w) = Inr tier" "parse_environment tier = Inr env'"
    "network_environment network = Some env'" and allowed: "allow_payee d1 (aw_client_id w) network asset pay_to = Inr d2"
    using allow by (rule allow_steps)
  have env: "network_environment network = Some env"
    using tier created_environment [OF created] c environment_name_parses [of env] by simp
  have "db_keys d2 = db_keys d1" "db_clients d2 = db_clients d1"
    using allowed by (auto simp: allow_payee_def Let_def split: if_splits)
  then have same: "lookup_api_key d2 = lookup_api_key d1"
    by (intro ext) (simp add: lookup_api_key_def client_is_active_def cong: option.case_cong)
  have "authenticate (aw_auth w) env pepper (\<lambda>p. Inr (lookup_api_key d2 p)) [(''authorization'', Some (''Bearer '' @ gk_raw key))]
      = Inr \<lparr>ac_client = c, ac_key_prefix = gk_prefix key\<rparr>"
    unfolding same by (rule generated_key [OF lib(1,3,5) generated created c(2)]) simp
  moreover have "payee_allowed d2 (aw_client_id w) network asset pay_to"
    using allow_payee_then_allowed [OF allowed] by (simp add: eq_ignore_ascii_case_def)
  ultimately show ?thesis
    using out c env by auto
qed


definition sample_admin :: admin_world where
  "sample_admin = \<lparr>aw_system = sample_system, aw_database_url_file = ''/db'',
     aw_pepper_file = ''/pepper'', aw_connects = (\<lambda>_. True), aw_auth = sample_auth_lib, aw_account = (\<lambda>_. True),
     aw_public_id = Some (sample_bytes 12), aw_secret = Some (sample_bytes 32), aw_client_id = 1, aw_key_id = 7,
     aw_uuid_text = (\<lambda>_. ''one'')\<rparr>"

theorem provisioned_client_can_pay_witness:
  "\<exists>out d1 out' d2. admin_client sample_admin empty_db empty_db (CreateClient Testnet ''acme'' 60 10 (Some ''1000'')) = (Inr out, d1)
     \<and> admin_client sample_admin d1 d1 (AllowPayee 1 ''near:testnet'' ''usdc'' ''shop'') = (Inr out', d2)
     \<and> payee_allowed d2 1 ''near:testnet'' ''usdc'' ''shop''"
proof -
  let ?pepper = "sample_bytes 32"
  have read: "read_secret (aw_system sample_admin) p = Inr ?pepper" for p
    using sample_read by (simp add: sample_admin_def sample_line_def sample_bytes_def)
  have "admin_generate sample_admin Testnet = Inr sample_key"
    using sample_key_setup(4) read by (simp add: admin_generate_def) (simp add: sample_admin_def)
  moreover have connect: "admin_connect sample_admin = Inr ()"
    using read by (simp add: admin_connect_def) (simp add: sample_admin_def)
  moreover have "create_client empty_db sample_client 7 (gk_prefix sample_key) (gk_digest sample_key) = Inr sample_key_db"
    by (rule sample_key_setup(5))
  ultimately have create: "admin_client sample_admin empty_db empty_db (CreateClient Testnet ''acme'' 60 10 (Some ''1000''))
      = (Inr [''client_id=one'', ''api_key='' @ gk_raw sample_key], sample_key_db)"
    by (simp add: admin_client_def admin_validate_decimal_def is_ascii_digit_def digit_value_def sample_admin_def sample_client_def)
  have "client_environment sample_key_db 1 = Inr ''testnet''"
    using created_environment [OF sample_key_setup(5)] by (simp add: sample_client_def)
  moreover obtain d2 where "allow_payee sample_key_db 1 ''near:testnet'' ''usdc'' ''shop'' = Inr d2"
  proof -
    have "client_exists sample_key_db 1"
      using created_clients(2) [OF sample_key_setup(5)] by (simp add: client_exists_def sample_client_def)
    then have "\<exists>d2. allow_payee sample_key_db 1 ''near:testnet'' ''usdc'' ''shop'' = Inr d2"
      by (simp add: allow_payee_def Let_def)
    then show thesis using that by blast
  qed
  ultimately have allow: "admin_client sample_admin sample_key_db sample_key_db (AllowPayee 1 ''near:testnet'' ''usdc'' ''shop'')
      = (Inr [''updated_client_id=one''], d2)"
    using connect by (simp add: admin_client_def parse_environment_def network_environment_def MAINNET_def TESTNET_def
        validate_exact_policy_def sample_admin_def)
  have lib: "hex_laws (aw_auth sample_admin)" "aw_public_id sample_admin = Some (sample_bytes 12)" "length (sample_bytes 12) = 12"
    "aw_secret sample_admin = Some (sample_bytes 32)" "length (sample_bytes 32) = 32"
    using sample_key_setup(1-3) by (simp_all add: sample_admin_def)
  have "aw_client_id sample_admin = 1" by (simp add: sample_admin_def)
  then show ?thesis
    using provisioned_client_can_pay [OF lib read create allow [folded \<open>aw_client_id sample_admin = 1\<close>]] create allow by auto
qed

end
