(* ===== verification/Catalog.thy ===== *)
theory Catalog
  imports Config Json Utf8 "HOL-Library.Multiset"
begin

text \<open>
  The discovery catalog of \<open>catalog.rs\<close>: the admission rules every entry of the embedded manifest has to
  pass, the choice of the instance's network and asset, the order of the listing, the query parameters and
  the pages. The manifest's deserializer, the URL, address, account, timestamp and form parsers and the
  serializer of the extensions are parameters.
\<close>

section \<open>Data\<close>

datatype catalog_error = CatalogJson | CatalogInvalid string

record catalog_query =
  cq_resource_type :: "string option"
  cq_pay_to :: "string option"
  cq_scheme :: "string option"
  cq_network :: "string option"
  cq_extension :: "string option"
  cq_limit :: u64
  cq_offset :: u64

datatype payment_extra = ExtraEvm string string | ExtraNear

record discovery_requirements =
  dp_scheme :: string
  dp_network :: string
  dp_asset :: string
  dp_amount :: string
  dp_pay_to :: string
  dp_max_timeout_seconds :: u64
  dp_extra :: "payment_extra option"

record discovery_resource =
  dr_resource :: string
  dr_resource_type :: string
  dr_x402_version :: nat
  dr_accepts :: "discovery_requirements list"
  dr_last_updated :: string
  dr_description :: "string option"
  dr_mime_type :: "string option"
  dr_service_name :: "string option"
  dr_tags :: "string list option"
  dr_icon_url :: "string option"
  dr_extensions :: "json_map option"
  dr_updated_at :: int

record discovery_response =
  ds_x402_version :: nat
  ds_items :: "discovery_resource list"
  ds_limit :: u64
  ds_offset :: u64
  ds_total :: nat

record admission =
  ad_reviewed_at :: string
  ad_opt_in_evidence_url :: string
  ad_pay_to_control_evidence_url :: string

record catalog_entry =
  ce_resource :: string
  ce_resource_type :: string
  ce_x402_version :: nat
  ce_accepts :: "discovery_requirements list"
  ce_last_updated :: string
  ce_description :: "string option"
  ce_mime_type :: "string option"
  ce_service_name :: "string option"
  ce_tags :: "string list option"
  ce_icon_url :: "string option"
  ce_extensions :: "json_map option"
  ce_admission :: admission

record catalog_manifest =
  cm_schema_version :: nat
  cm_resources :: "catalog_entry list"

text \<open>A URL as the \<open>url\<close> crate reads it.\<close>

record parsed_url =
  pu_text :: string
  pu_scheme :: string
  pu_username :: string
  pu_password :: "string option"
  pu_fragment :: "string option"
  pu_host :: "string option"

text \<open>The library code: each parser returns its error text or the value; timestamps are instants.\<close>

record catalog_lib =
  cb_manifest :: "string \<Rightarrow> catalog_manifest option"
  cb_url :: "string \<Rightarrow> string + parsed_url"
  cb_is_ip :: "string \<Rightarrow> bool"
  cb_timestamp :: "string \<Rightarrow> string + int"
  cb_account :: "string \<Rightarrow> string + unit"
  cb_to_vec :: "json_map \<Rightarrow> bytes option"
  cb_form :: "bytes \<Rightarrow> (string \<times> string) list"

abbreviation invalid :: "string \<Rightarrow> catalog_error + 'a" where
  "invalid message \<equiv> Inl (CatalogInvalid message)"

section \<open>Text\<close>

definition MAX_MANIFEST_BYTES :: nat where "MAX_MANIFEST_BYTES = 262144"
definition MAX_RESOURCES :: nat where "MAX_RESOURCES = 1000"
definition MAX_ACCEPTS :: nat where "MAX_ACCEPTS = 4"
definition MAX_URL_BYTES :: nat where "MAX_URL_BYTES = 2048"
definition MAX_TAGS :: nat where "MAX_TAGS = 5"
definition MAX_EXTENSIONS_BYTES :: nat where "MAX_EXTENSIONS_BYTES = 65536"
definition MAX_JSON_DEPTH :: nat where "MAX_JSON_DEPTH = 16"
definition MAX_QUERY_BYTES :: nat where "MAX_QUERY_BYTES = 4096"
definition DEFAULT_LIMIT :: u64 where "DEFAULT_LIMIT = 100"
definition MAX_LIMIT :: u64 where "MAX_LIMIT = 1000"

definition OPERATOR_OWNED_RESOURCE_HOSTS :: "string list" where
  "OPERATOR_OWNED_RESOURCE_HOSTS = [''x402-demo.mikedotexe.com'', ''x402-demo-test.mikedotexe.com'',
     ''x402-demo-base.mikedotexe.com'', ''merchant-near.mikedotexe.com'', ''merchant-base.mikedotexe.com'']"

definition validate_text :: "string \<Rightarrow> string \<Rightarrow> nat \<Rightarrow> bool \<Rightarrow> catalog_error + unit" where
  "validate_text name value maximum ascii_only =
     (if value = [] \<or> length value > maximum \<or> has_control value \<or> (ascii_only \<and> \<not> is_ascii_text value)
      then invalid (name @ '' must be non-empty, bounded, and free of control characters'') else Inr ())"

definition validate_optional_text :: "string \<Rightarrow> string option \<Rightarrow> nat \<Rightarrow> bool \<Rightarrow> catalog_error + unit" where
  "validate_optional_text name value maximum ascii_only =
     (case value of Some value \<Rightarrow> validate_text name value maximum ascii_only | None \<Rightarrow> Inr ())"

definition validate_filter :: "string \<Rightarrow> string \<Rightarrow> catalog_error + string" where
  "validate_filter name value = bind_res (validate_text name value 200 False) (\<lambda>_. Inr value)"

definition validate_timestamp :: "catalog_lib \<Rightarrow> string \<Rightarrow> string \<Rightarrow> catalog_error + int" where
  "validate_timestamp lib name value =
     map_err (\<lambda>error. CatalogInvalid (name @ '' is not RFC 3339: '' @ error)) (cb_timestamp lib value)"

definition validate_public_https_url :: "catalog_lib \<Rightarrow> string \<Rightarrow> string \<Rightarrow> catalog_error + parsed_url" where
  "validate_public_https_url lib name value =
     (if value = [] \<or> length value > MAX_URL_BYTES
      then invalid (name @ '' must contain at most '' @ decimal_text MAX_URL_BYTES @ '' bytes'') else
      bind_res (map_err (\<lambda>error. CatalogInvalid (name @ '' is not a valid URL: '' @ error)) (cb_url lib value)) (\<lambda>parsed.
      if pu_scheme parsed \<noteq> ''https'' \<or> pu_username parsed \<noteq> [] \<or> pu_password parsed \<noteq> None
         \<or> pu_fragment parsed \<noteq> None
      then invalid (name @ '' must be HTTPS without credentials or a fragment'') else
      case pu_host parsed of
        None \<Rightarrow> invalid (name @ '' must contain a host'')
      | Some host \<Rightarrow>
          if eq_ignore_ascii_case host ''localhost'' \<or> cb_is_ip lib host
          then invalid (name @ '' must use a public DNS hostname'') else Inr parsed))"

fun json_depth :: "json \<Rightarrow> nat" where
  "json_depth (JArray values) = 1 + fold max (map json_depth values) 0"
| "json_depth (JObject values) = 1 + fold max (map (\<lambda>kv. json_depth (snd kv)) values) 0"
| "json_depth _ = 1"

definition asset_matches :: "string \<Rightarrow> string \<Rightarrow> string \<Rightarrow> bool" where
  "asset_matches network left right =
     (if starts_with network ''eip155:'' then eq_ignore_ascii_case left right else left = right)"

section \<open>Entries\<close>

definition validate_requirements :: "catalog_lib \<Rightarrow> discovery_requirements \<Rightarrow> catalog_error + unit" where
  "validate_requirements lib q =
     (if dp_scheme q \<noteq> ''exact'' then invalid ''accepts.scheme must be exact'' else
      case canonical_usdc_asset (dp_network q) of
        None \<Rightarrow> invalid ''accepts.network is not a supported repository profile''
      | Some expected_asset \<Rightarrow>
      if \<not> asset_matches (dp_network q) (dp_asset q) expected_asset
      then invalid ''accepts.asset is not canonical Circle USDC for its network''
      else if dp_amount q = [] \<or> starts_with (dp_amount q) ''0'' \<or> \<not> list_all is_ascii_digit (dp_amount q)
         \<or> (str_parse (dp_amount q) :: u128 option) = None
      then invalid ''accepts.amount must be a canonical positive atomic integer''
      else if dp_max_timeout_seconds q = 0 then invalid ''accepts.maxTimeoutSeconds must be positive''
      else if starts_with (dp_network q) ''eip155:'' then
        (if \<not> is_evm_address (dp_pay_to q) then invalid ''accepts.payTo must be a 20-byte EVM address'' else
         case canonical_eip712_domain (dp_network q) of
           None \<Rightarrow> invalid ''Base requirements are missing a canonical EIP-712 domain''
         | Some (expected_name, expected_version) \<Rightarrow>
             (case dp_extra q of
                Some (ExtraEvm name version) \<Rightarrow>
                  if name \<noteq> expected_name \<or> version \<noteq> expected_version
                  then invalid ''Base requirements use the wrong EIP-712 domain'' else Inr ()
              | _ \<Rightarrow> invalid ''Base requirements must include the canonical EIP-712 domain''))
      else
        bind_res (map_err (\<lambda>error. CatalogInvalid (''accepts.payTo is not a NEAR account ID: '' @ error))
          (cb_account lib (dp_pay_to q))) (\<lambda>_.
        case dp_extra q of
          Some (ExtraEvm _ _) \<Rightarrow> invalid ''NEAR requirements cannot carry an EIP-712 domain''
        | _ \<Rightarrow> Inr ()))"

fun validate_accepts ::
  "catalog_lib \<Rightarrow> string \<Rightarrow> string \<Rightarrow> discovery_requirements list \<Rightarrow> catalog_error + unit" where
  "validate_accepts lib network asset [] = Inr ()"
| "validate_accepts lib network asset (q # qs) =
     bind_res (validate_requirements lib q) (\<lambda>_.
     if dp_network q \<noteq> network \<or> \<not> asset_matches network (dp_asset q) asset
     then invalid ''all accepts entries must use one network and canonical asset''
     else validate_accepts lib network asset qs)"

fun validate_tags :: "string list \<Rightarrow> string list \<Rightarrow> catalog_error + unit" where
  "validate_tags seen [] = Inr ()"
| "validate_tags seen (tag # tags) =
     bind_res (validate_text ''tag'' tag 32 True) (\<lambda>_.
     if to_ascii_lowercase tag \<in> set seen then invalid ''tags must be unique ignoring ASCII case''
     else validate_tags (to_ascii_lowercase tag # seen) tags)"

fun validate_extension_names :: "string list \<Rightarrow> catalog_error + unit" where
  "validate_extension_names [] = Inr ()"
| "validate_extension_names (key # keys) =
     bind_res (validate_text ''extension name'' key 64 True) (\<lambda>_. validate_extension_names keys)"

definition object_field :: "json_map \<Rightarrow> string \<Rightarrow> bool" where
  "object_field m k = (case jget m k of Some v \<Rightarrow> is_object v | None \<Rightarrow> False)"

definition validate_extensions :: "catalog_lib \<Rightarrow> json_map option \<Rightarrow> catalog_error + unit" where
  "validate_extensions lib extensions =
     (case extensions of
        None \<Rightarrow> invalid ''extensions.bazaar is required''
      | Some extensions \<Rightarrow>
      bind_res (ok_or (cb_to_vec lib extensions) CatalogJson) (\<lambda>serialized.
      if length serialized > MAX_EXTENSIONS_BYTES then invalid ''extensions exceed the 64 KiB bound'' else
      bind_res (validate_extension_names (map fst extensions)) (\<lambda>_.
      if list_ex (\<lambda>kv. json_depth (snd kv) > MAX_JSON_DEPTH) extensions
      then invalid ''extensions exceed the maximum JSON depth'' else
      case jget extensions ''bazaar'' of
        Some (JObject bazaar) \<Rightarrow>
          if \<not> object_field bazaar ''info'' \<or> \<not> object_field bazaar ''schema''
          then invalid ''extensions.bazaar must contain object info and schema fields'' else Inr ()
      | _ \<Rightarrow> invalid ''extensions.bazaar must be an object'')))"


definition validate_entry :: "catalog_lib \<Rightarrow> catalog_entry \<Rightarrow> catalog_error + string \<times> int" where
  "validate_entry lib entry =
     bind_res (validate_public_https_url lib ''resource'' (ce_resource entry)) (\<lambda>resource.
     if (case pu_host resource of
           Some host \<Rightarrow> list_ex (\<lambda>owned. eq_ignore_ascii_case host owned) OPERATOR_OWNED_RESOURCE_HOSTS
         | None \<Rightarrow> False)
     then invalid ''operator-owned reference resources cannot enter the public catalog''
     else if ce_resource_type entry \<noteq> ''http'' then invalid ''type must be http''
     else if ce_x402_version entry \<noteq> 2 then invalid ''x402Version must be 2''
     else case ce_accepts entry of
       [] \<Rightarrow> invalid ''accepts must contain between one and four requirements''
     | first # _ \<Rightarrow>
     if length (ce_accepts entry) > MAX_ACCEPTS
     then invalid ''accepts must contain between one and four requirements'' else
     bind_res (validate_accepts lib (dp_network first) (dp_asset first) (ce_accepts entry)) (\<lambda>_.
     bind_res (validate_timestamp lib ''lastUpdated'' (ce_last_updated entry)) (\<lambda>updated_at.
     bind_res (validate_timestamp lib ''admission.reviewedAt'' (ad_reviewed_at (ce_admission entry))) (\<lambda>_.
     bind_res (validate_public_https_url lib ''admission.optInEvidenceUrl''
       (ad_opt_in_evidence_url (ce_admission entry))) (\<lambda>_.
     bind_res (validate_public_https_url lib ''admission.payToControlEvidenceUrl''
       (ad_pay_to_control_evidence_url (ce_admission entry))) (\<lambda>_.
     bind_res (validate_optional_text ''description'' (ce_description entry) 512 False) (\<lambda>_.
     bind_res (validate_optional_text ''mimeType'' (ce_mime_type entry) 128 True) (\<lambda>_.
     bind_res (validate_optional_text ''serviceName'' (ce_service_name entry) 32 True) (\<lambda>_.
     bind_res (case ce_tags entry of
         None \<Rightarrow> Inr ()
       | Some tags \<Rightarrow>
           if tags = [] \<or> length tags > MAX_TAGS then invalid ''tags must contain between one and five values''
           else validate_tags [] tags) (\<lambda>_.
     bind_res (case ce_icon_url entry of
         None \<Rightarrow> Inr ()
       | Some icon_url \<Rightarrow> bind_res (validate_public_https_url lib ''iconUrl'' icon_url) (\<lambda>_. Inr ())) (\<lambda>_.
     bind_res (validate_extensions lib (ce_extensions entry)) (\<lambda>_.
     Inr (pu_text resource, updated_at)))))))))))))"

definition into_resource :: "catalog_entry \<Rightarrow> int \<Rightarrow> discovery_resource" where
  "into_resource entry updated_at =
     \<lparr>dr_resource = ce_resource entry, dr_resource_type = ce_resource_type entry, dr_x402_version = ce_x402_version entry,
      dr_accepts = ce_accepts entry, dr_last_updated = ce_last_updated entry, dr_description = ce_description entry,
      dr_mime_type = ce_mime_type entry, dr_service_name = ce_service_name entry, dr_tags = ce_tags entry,
      dr_icon_url = ce_icon_url entry, dr_extensions = ce_extensions entry, dr_updated_at = updated_at\<rparr>"

section \<open>Loading\<close>

text \<open>The order of the listing: newest first, then by resource. \<open>sort_by\<close> is stable.\<close>

definition resource_cmp :: "discovery_resource \<Rightarrow> discovery_resource \<Rightarrow> ordering" where
  "resource_cmp left right =
     then_with (cmp (dr_updated_at right) (dr_updated_at left)) (cmp (dr_resource left) (dr_resource right))"

fun insert_resource :: "discovery_resource \<Rightarrow> discovery_resource list \<Rightarrow> discovery_resource list" where
  "insert_resource r [] = [r]"
| "insert_resource r (x # xs) = (if resource_cmp r x = Greater then x # insert_resource r xs else r # x # xs)"

definition sort_resources :: "discovery_resource list \<Rightarrow> discovery_resource list" where
  "sort_resources rs = foldr insert_resource rs []"

fun select_entries ::
  "catalog_lib \<Rightarrow> string \<Rightarrow> string \<Rightarrow> string list \<Rightarrow> catalog_entry list \<Rightarrow> catalog_error + discovery_resource list" where
  "select_entries lib network asset seen [] = Inr []"
| "select_entries lib network asset seen (entry # entries) =
     bind_res (validate_entry lib entry) (\<lambda>(normalized_resource, updated_at).
     if normalized_resource \<in> set seen then invalid ''resource URLs must be unique''
     else let first = hd (ce_accepts entry) in
       bind_res (select_entries lib network asset (normalized_resource # seen) entries) (\<lambda>selected.
       Inr (if dp_network first = network \<and> asset_matches network (dp_asset first) asset
            then into_resource entry updated_at # selected else selected)))"

definition from_json_for :: "catalog_lib \<Rightarrow> string \<Rightarrow> string \<Rightarrow> string \<Rightarrow> catalog_error + discovery_resource list" where
  "from_json_for lib source network asset =
     (if length source > MAX_MANIFEST_BYTES then invalid ''manifest exceeds the 256 KiB bound'' else
      bind_res (ok_or (cb_manifest lib source) CatalogJson) (\<lambda>manifest.
      if cm_schema_version manifest \<noteq> 1 then invalid ''schemaVersion must be 1''
      else if length (cm_resources manifest) > MAX_RESOURCES
      then invalid ''resources must contain at most 1000 entries'' else
      bind_res (select_entries lib network asset [] (cm_resources manifest)) (\<lambda>selected.
      Inr (sort_resources selected))))"

section \<open>Queries\<close>

definition hex_value :: "char \<Rightarrow> nat" where
  "hex_value c = (let b = byte_of c in
     if 48 \<le> b \<and> b \<le> 57 then b - 48 else if 97 \<le> b \<and> b \<le> 102 then b - 97 + 10
     else if 65 \<le> b \<and> b \<le> 70 then b - 65 + 10 else 0)"

fun percent_decode :: "bytes \<Rightarrow> bytes option" where
  "percent_decode [] = Some []"
| "percent_decode (c # cs) =
     (if c = CHR ''%'' then
        (case cs of
           high # low # rest \<Rightarrow>
             if is_ascii_hexdigit high \<and> is_ascii_hexdigit low
             then map_option (Cons (char_of (16 * hex_value high + hex_value low))) (percent_decode rest) else None
         | _ \<Rightarrow> None)
      else map_option (Cons (if c = CHR ''+'' then CHR '' '' else c)) (percent_decode cs))"

fun split_on :: "char \<Rightarrow> string \<Rightarrow> string list" where
  "split_on c [] = [[]]"
| "split_on c (x # xs) = (if x = c then [] # split_on c xs
     else case split_on c xs of part # parts \<Rightarrow> (x # part) # parts | [] \<Rightarrow> [[x]])"

fun validate_components :: "bytes list \<Rightarrow> catalog_error + unit" where
  "validate_components [] = Inr ()"
| "validate_components (component # components) =
     (case percent_decode component of
        None \<Rightarrow> invalid ''query contains invalid percent encoding''
      | Some decoded \<Rightarrow>
          if \<not> utf8 (map byte_of decoded) then invalid ''query must be valid UTF-8''
          else validate_components components)"

definition validate_raw_query :: "bytes \<Rightarrow> catalog_error + unit" where
  "validate_raw_query raw = validate_components (split_on (CHR ''&'') raw)"

definition parse_bounded_integer :: "string \<Rightarrow> string \<Rightarrow> u64 \<Rightarrow> u64 \<Rightarrow> catalog_error + u64" where
  "parse_bounded_integer name value minimum maximum =
     (if value = [] \<or> (length value > 1 \<and> starts_with value ''0'') \<or> \<not> list_all is_ascii_digit value
      then invalid (name @ '' must be an unsigned integer'') else
      bind_res (ok_or (str_parse value) (CatalogInvalid (name @ '' is too large''))) (\<lambda>parsed.
      if \<not> (minimum \<le> parsed \<and> parsed \<le> maximum)
      then invalid (name @ '' must be between '' @ decimal_text (unat minimum) @ '' and '' @ decimal_text (unat maximum))
      else Inr parsed))"

definition set_parameter :: "catalog_query \<Rightarrow> string \<Rightarrow> string \<Rightarrow> catalog_error + catalog_query" where
  "set_parameter query key value =
     (if key = ''type'' then bind_res (validate_filter key value) (\<lambda>v. Inr (query\<lparr>cq_resource_type := Some v\<rparr>))
      else if key = ''payTo'' then bind_res (validate_filter key value) (\<lambda>v. Inr (query\<lparr>cq_pay_to := Some v\<rparr>))
      else if key = ''scheme'' then bind_res (validate_filter key value) (\<lambda>v. Inr (query\<lparr>cq_scheme := Some v\<rparr>))
      else if key = ''network'' then bind_res (validate_filter key value) (\<lambda>v. Inr (query\<lparr>cq_network := Some v\<rparr>))
      else if key = ''extensions'' then bind_res (validate_filter key value) (\<lambda>v. Inr (query\<lparr>cq_extension := Some v\<rparr>))
      else if key = ''limit''
      then bind_res (parse_bounded_integer ''limit'' value 1 MAX_LIMIT) (\<lambda>v. Inr (query\<lparr>cq_limit := v\<rparr>))
      else if key = ''offset''
      then bind_res (parse_bounded_integer ''offset'' value 0 (- 1)) (\<lambda>v. Inr (query\<lparr>cq_offset := v\<rparr>))
      else invalid (''unknown query parameter '' @ key))"

fun set_parameters :: "catalog_query \<Rightarrow> string list \<Rightarrow> (string \<times> string) list \<Rightarrow> catalog_error + catalog_query" where
  "set_parameters query seen [] = Inr query"
| "set_parameters query seen ((key, value) # rest) =
     (if key \<in> set seen then invalid (''duplicate query parameter '' @ key)
      else bind_res (set_parameter query key value) (\<lambda>query. set_parameters query (key # seen) rest))"

definition default_query :: catalog_query where
  "default_query = \<lparr>cq_resource_type = None, cq_pay_to = None, cq_scheme = None, cq_network = None,
     cq_extension = None, cq_limit = DEFAULT_LIMIT, cq_offset = 0\<rparr>"

definition parse_catalog_query :: "catalog_lib \<Rightarrow> bytes option \<Rightarrow> catalog_error + catalog_query" where
  "parse_catalog_query lib raw =
     (let raw = (case raw of Some raw \<Rightarrow> raw | None \<Rightarrow> []) in
      if length raw > MAX_QUERY_BYTES then invalid ''discovery query exceeds the 4 KiB bound'' else
      bind_res (validate_raw_query raw) (\<lambda>_.
      set_parameters default_query [] (cb_form lib raw)))"

section \<open>Listing\<close>

definition is_none_or :: "'a option \<Rightarrow> ('a \<Rightarrow> bool) \<Rightarrow> bool" where
  "is_none_or v f = (case v of None \<Rightarrow> True | Some x \<Rightarrow> f x)"

definition resource_matches :: "discovery_resource \<Rightarrow> catalog_query \<Rightarrow> bool" where
  "resource_matches resource query \<longleftrightarrow>
     is_none_or (cq_resource_type query) (\<lambda>v. dr_resource_type resource = v)
     \<and> is_none_or (cq_network query) (\<lambda>v. list_ex (\<lambda>q. dp_network q = v) (dr_accepts resource))
     \<and> is_none_or (cq_scheme query) (\<lambda>v. list_ex (\<lambda>q. dp_scheme q = v) (dr_accepts resource))
     \<and> is_none_or (cq_pay_to query) (\<lambda>v. list_ex (\<lambda>q. if starts_with (dp_network q) ''eip155:''
          then eq_ignore_ascii_case (dp_pay_to q) v else dp_pay_to q = v) (dr_accepts resource))
     \<and> is_none_or (cq_extension query) (\<lambda>v. case dr_extensions resource of
          Some extensions \<Rightarrow> jget extensions v \<noteq> None | None \<Rightarrow> False)"

definition catalog_list :: "discovery_resource list \<Rightarrow> catalog_query \<Rightarrow> discovery_response" where
  "catalog_list resources query =
     (let matching = filter (\<lambda>resource. resource_matches resource query) resources in
      \<lparr>ds_x402_version = 2, ds_items = take (unat (cq_limit query)) (drop (unat (cq_offset query)) matching),
       ds_limit = cq_limit query, ds_offset = cq_offset query, ds_total = length matching\<rparr>)"


section \<open>The order of the listing\<close>

definition listed_before :: "discovery_resource \<Rightarrow> discovery_resource \<Rightarrow> bool" where
  "listed_before x y \<longleftrightarrow> dr_updated_at y < dr_updated_at x
     \<or> dr_updated_at x = dr_updated_at y \<and> dr_resource x \<le> dr_resource y"

lemma resource_cmp_iff: "resource_cmp x y \<noteq> Greater \<longleftrightarrow> listed_before x y"
  by (auto simp: resource_cmp_def listed_before_def then_with_def cmp_def)

lemma listed_before_total: "\<not> listed_before x y \<Longrightarrow> listed_before y x"
  by (auto simp: listed_before_def)

lemma listed_before_trans: "listed_before x y \<Longrightarrow> listed_before y z \<Longrightarrow> listed_before x z"
  by (auto simp: listed_before_def)

lemma insert_resource_mset: "mset (insert_resource r xs) = add_mset r (mset xs)"
  by (induction xs) auto

lemma insert_resource_sorted:
  "sorted_wrt listed_before xs \<Longrightarrow> sorted_wrt listed_before (insert_resource r xs)"
proof (induction xs)
  case (Cons x xs)
  have set: "set (insert_resource r xs) = insert r (set xs)"
    using insert_resource_mset [of r xs] by (metis set_mset_add_mset_insert set_mset_mset)
  show ?case
    using Cons resource_cmp_iff [of r x] listed_before_total [of r x] listed_before_trans [of r x]
    by (auto simp: set)
qed simp

lemma sort_resources_mset: "mset (sort_resources rs) = mset rs"
  by (induction rs) (simp_all add: sort_resources_def insert_resource_mset)

lemma sort_resources_sorted: "sorted_wrt listed_before (sort_resources rs)"
  by (induction rs) (simp_all add: sort_resources_def insert_resource_sorted)

section \<open>What is admitted\<close>

lemma asset_matches_trans: "asset_matches n a b \<Longrightarrow> asset_matches n b c \<Longrightarrow> asset_matches n a c"
  by (auto simp: asset_matches_def eq_ignore_ascii_case_def split: if_splits)

text \<open>A payment a client can make on this instance: exact, in its asset, of a positive 128-bit amount.\<close>

definition payable :: "string \<Rightarrow> string \<Rightarrow> discovery_requirements \<Rightarrow> bool" where
  "payable network asset q \<longleftrightarrow> dp_scheme q = ''exact'' \<and> dp_network q = network \<and> asset_matches network (dp_asset q) asset
     \<and> list_all is_ascii_digit (dp_amount q) \<and> 0 < decimal_value (dp_amount q) \<and> decimal_value (dp_amount q) < 2 ^ 128
     \<and> 0 < dp_max_timeout_seconds q"

lemma decimal_value_pos: "all_digits s \<Longrightarrow> s \<noteq> [] \<Longrightarrow> \<not> starts_with s ''0'' \<Longrightarrow> 0 < decimal_value s"
proof -
  assume s: "all_digits s" "s \<noteq> []" "\<not> starts_with s ''0''"
  then have "hd s \<noteq> CHR ''0''" by (cases s) (auto simp: starts_with_def)
  then have "10 ^ (length s - 1) \<le> decimal_value s" by (rule decimal_value_lower [OF s(1,2)])
  then show "0 < decimal_value s" by (rule order_less_le_trans [rotated]) simp
qed

lemma validate_requirements_payable:
  assumes "validate_requirements lib q = Inr ()"
  shows "payable (dp_network q) (dp_asset q) q"
proof -
  have q: "dp_scheme q = ''exact''" "dp_amount q \<noteq> []" "\<not> starts_with (dp_amount q) ''0''"
    "list_all is_ascii_digit (dp_amount q)" "(str_parse (dp_amount q) :: u128 option) \<noteq> None"
    "dp_max_timeout_seconds q \<noteq> 0"
    using assms unfolding validate_requirements_def by (auto split: if_splits option.splits)
  have digits: "all_digits (dp_amount q)" using q(4) by (simp add: all_digits_def list_all_iff)
  have "decimal_value (dp_amount q) < 2 ^ 128"
  proof (cases "dp_amount q")
    case (Cons c cs)
    then have "c \<noteq> CHR ''+''" using q(4) by (auto simp: is_ascii_digit_def)
    then show ?thesis
      using q(5) Cons by (auto simp: str_parse_def parse_digits_def split: if_splits)
  qed (use q(2) in simp)
  then show ?thesis
    using q decimal_value_pos [OF digits] by (simp add: payable_def asset_matches_def eq_ignore_ascii_case_def word_gt_0)
qed

lemma validate_accepts_payable:
  assumes "validate_accepts lib network asset' qs = Inr ()" "asset_matches network asset' asset"
  shows "list_all (payable network asset) qs"
  using assms(1)
proof (induction qs)
  case (Cons q qs)
  then have "validate_requirements lib q = Inr ()" "dp_network q = network" "asset_matches network (dp_asset q) asset'"
    "validate_accepts lib network asset' qs = Inr ()"
    by (auto simp: bind_res_Inr_iff split: if_splits)
  then show ?case
    using Cons.IH validate_requirements_payable [of lib q] asset_matches_trans [OF _ assms(2)]
    by (auto simp: payable_def)
qed simp

text \<open>A public resource: reached over HTTPS at a named host that the operator does not own.\<close>

definition public_resource :: "catalog_lib \<Rightarrow> string \<Rightarrow> bool" where
  "public_resource lib resource \<longleftrightarrow> (\<exists>parsed host. cb_url lib resource = Inr parsed \<and> pu_scheme parsed = ''https''
     \<and> pu_username parsed = [] \<and> pu_password parsed = None \<and> pu_host parsed = Some host
     \<and> \<not> cb_is_ip lib host \<and> \<not> list_ex (eq_ignore_ascii_case host) OPERATOR_OWNED_RESOURCE_HOSTS)"

lemma validate_timestamp_Inr: "validate_timestamp lib name v = Inr t \<longleftrightarrow> cb_timestamp lib v = Inr t"
  by (simp add: validate_timestamp_def map_err_Inr_iff)

lemma validate_entry_steps:
  assumes "validate_entry lib entry = Inr (normalized, t)"
  obtains parsed first rest where
    "validate_public_https_url lib ''resource'' (ce_resource entry) = Inr parsed" "normalized = pu_text parsed"
    "\<forall>host. pu_host parsed = Some host \<longrightarrow> \<not> list_ex (eq_ignore_ascii_case host) OPERATOR_OWNED_RESOURCE_HOSTS"
    "ce_accepts entry = first # rest"
    "validate_accepts lib (dp_network first) (dp_asset first) (ce_accepts entry) = Inr ()"
    "cb_timestamp lib (ce_last_updated entry) = Inr t"
proof -
  obtain parsed where parsed: "validate_public_https_url lib ''resource'' (ce_resource entry) = Inr parsed"
    using assms by (auto simp: validate_entry_def bind_res_Inr_iff)
  obtain first rest where accepts: "ce_accepts entry = first # rest"
    using assms parsed by (cases "ce_accepts entry") (auto simp: validate_entry_def split: if_splits)
  have owned: "\<forall>host. pu_host parsed = Some host \<longrightarrow> \<not> list_ex (eq_ignore_ascii_case host) OPERATOR_OWNED_RESOURCE_HOSTS"
    using assms parsed by (auto simp: validate_entry_def split: if_splits)
  have rest: "normalized = pu_text parsed" "cb_timestamp lib (ce_last_updated entry) = Inr t"
    "validate_accepts lib (dp_network first) (dp_asset first) (ce_accepts entry) = Inr ()"
    using assms parsed accepts
    by (auto simp: validate_entry_def bind_res_Inr_iff validate_timestamp_Inr split: if_splits)
  show thesis by (rule that [OF parsed rest(1) owned accepts rest(3,2)])
qed

lemma validate_entry_admits:
  assumes "validate_entry lib entry = Inr (normalized, t)"
    and "asset_matches (dp_network (hd (ce_accepts entry))) (dp_asset (hd (ce_accepts entry))) asset"
  shows "public_resource lib (ce_resource entry)"
    and "ce_accepts entry \<noteq> []" "list_all (payable (dp_network (hd (ce_accepts entry))) asset) (ce_accepts entry)"
    and "cb_timestamp lib (ce_last_updated entry) = Inr t"
proof -
  obtain parsed first rest where
    parsed: "validate_public_https_url lib ''resource'' (ce_resource entry) = Inr parsed"
      "normalized = pu_text parsed"
    and owned: "\<forall>host. pu_host parsed = Some host \<longrightarrow> \<not> list_ex (eq_ignore_ascii_case host) OPERATOR_OWNED_RESOURCE_HOSTS"
    and accepts: "ce_accepts entry = first # rest"
      "validate_accepts lib (dp_network first) (dp_asset first) (ce_accepts entry) = Inr ()"
    and t: "cb_timestamp lib (ce_last_updated entry) = Inr t"
    using assms(1) by (rule validate_entry_steps)
  show "public_resource lib (ce_resource entry)"
    using parsed owned unfolding public_resource_def validate_public_https_url_def
    by (auto simp: bind_res_Inr_iff map_err_Inr_iff split: if_splits option.splits)
  show "ce_accepts entry \<noteq> []" "cb_timestamp lib (ce_last_updated entry) = Inr t"
    using accepts t by simp_all
  show "list_all (payable (dp_network (hd (ce_accepts entry))) asset) (ce_accepts entry)"
    using validate_accepts_payable [OF accepts(2)] assms(2) accepts(1) by simp
qed

text \<open>A resource the manifest lists and the instance serves.\<close>

definition admitted_resource :: "catalog_lib \<Rightarrow> string \<Rightarrow> string \<Rightarrow> catalog_entry list \<Rightarrow> discovery_resource \<Rightarrow> bool" where
  "admitted_resource lib network asset entries r \<longleftrightarrow> (\<exists>entry \<in> set entries. \<exists>t. r = into_resource entry t
     \<and> cb_timestamp lib (dr_last_updated r) = Inr t)
     \<and> public_resource lib (dr_resource r) \<and> dr_accepts r \<noteq> [] \<and> list_all (payable network asset) (dr_accepts r)"

lemma select_entries_admitted:
  assumes "select_entries lib network asset seen entries = Inr selected"
  shows "list_all (admitted_resource lib network asset entries) selected"
  using assms
proof (induction entries arbitrary: seen selected)
  case (Cons entry entries)
  obtain normalized t rest where entry: "validate_entry lib entry = Inr (normalized, t)"
    and rest: "select_entries lib network asset (normalized # seen) entries = Inr rest"
    and selected: "selected = (if dp_network (hd (ce_accepts entry)) = network
      \<and> asset_matches network (dp_asset (hd (ce_accepts entry))) asset then into_resource entry t # rest else rest)"
    using Cons.prems by (auto simp: bind_res_Inr_iff Let_def split: if_splits)
  have "list_all (admitted_resource lib network asset (entry # entries)) rest"
    using Cons.IH [OF rest] by (auto simp: list_all_iff admitted_resource_def)
  moreover have "admitted_resource lib network asset (entry # entries) (into_resource entry t)"
    if "dp_network (hd (ce_accepts entry)) = network" "asset_matches network (dp_asset (hd (ce_accepts entry))) asset"
    using validate_entry_admits [OF entry, of asset] that by (auto simp: admitted_resource_def into_resource_def)
  ultimately show ?case using selected by auto
qed simp

lemma sort_resources_set: "set (sort_resources rs) = set rs"
  using sort_resources_mset [of rs] by (metis set_mset_mset)

lemma catalog_admitted:
  assumes "from_json_for lib source network asset = Inr catalog"
  shows "\<exists>entries. list_all (admitted_resource lib network asset entries) catalog"
  using assms select_entries_admitted
  by (fastforce simp: from_json_for_def bind_res_Inr_iff list_all_iff sort_resources_set split: if_splits)

section \<open>Pages\<close>

lemma parse_bounded_between: "parse_bounded_integer name value minimum maximum = Inr v \<Longrightarrow> minimum \<le> v \<and> v \<le> maximum"
  by (auto simp: parse_bounded_integer_def bind_res_Inr_iff split: if_splits)

lemma set_parameter_limit:
  "set_parameter query key value = Inr query' \<Longrightarrow> 1 \<le> cq_limit query \<and> cq_limit query \<le> MAX_LIMIT \<Longrightarrow>
   1 \<le> cq_limit query' \<and> cq_limit query' \<le> MAX_LIMIT"
  using parse_bounded_between [of "''limit''" "value" 1 MAX_LIMIT]
  by (auto simp: set_parameter_def bind_res_Inr_iff split: if_splits)

lemma set_parameters_limit:
  "set_parameters query seen ps = Inr query' \<Longrightarrow> 1 \<le> cq_limit query \<and> cq_limit query \<le> MAX_LIMIT \<Longrightarrow>
   1 \<le> cq_limit query' \<and> cq_limit query' \<le> MAX_LIMIT"
proof (induction query seen ps rule: set_parameters.induct)
  case (2 query seen key v rest)
  then show ?case
    using set_parameter_limit [of query key v] by (auto simp: bind_res_Inr_iff split: if_splits)
qed simp

lemma parsed_limit:
  assumes "parse_catalog_query lib raw = Inr query"
  shows "0 < unat (cq_limit query)" "unat (cq_limit query) \<le> 1000"
proof -
  have "1 \<le> cq_limit query \<and> cq_limit query \<le> MAX_LIMIT"
    using assms set_parameters_limit [of default_query "[]"]
    by (auto simp: parse_catalog_query_def Let_def bind_res_Inr_iff default_query_def DEFAULT_LIMIT_def MAX_LIMIT_def
        split: if_splits)
  then show "0 < unat (cq_limit query)" "unat (cq_limit query) \<le> 1000"
    by (simp_all add: word_le_nat_alt MAX_LIMIT_def)
qed

lemma unat_of_nat_u64: "m < 2 ^ 64 \<Longrightarrow> unat (of_nat m :: u64) = m"
  by (rule unat_of_nat_small) simp

lemma pages_concat: "concat (map (\<lambda>k. take l (drop (k * l) xs)) [0..<n]) = take (n * l) xs"
  by (induction n) (simp_all add: take_add [symmetric] add.commute)




definition listed_entry :: catalog_entry where
  "listed_entry = \<lparr>ce_resource = ''https://shop.example/a'', ce_resource_type = ''http'', ce_x402_version = 2,
     ce_accepts = [\<lparr>dp_scheme = ''exact'', dp_network = ''near:testnet'', dp_asset = NEAR_TESTNET_USDC, dp_amount = ''1000'',
       dp_pay_to = ''shop'', dp_max_timeout_seconds = 60, dp_extra = None\<rparr>],
     ce_last_updated = ''2026-01-01T00:00:00Z'', ce_description = None, ce_mime_type = None, ce_service_name = None,
     ce_tags = Some [''data''], ce_icon_url = None,
     ce_extensions = Some [(''bazaar'', JObject [(''info'', JObject []), (''schema'', JObject [])])],
     ce_admission = \<lparr>ad_reviewed_at = ''t'', ad_opt_in_evidence_url = ''u'', ad_pay_to_control_evidence_url = ''u''\<rparr>\<rparr>"

definition sample_catalog_lib :: catalog_lib where
  "sample_catalog_lib = \<lparr>cb_manifest = (\<lambda>_. Some \<lparr>cm_schema_version = 1, cm_resources = [listed_entry]\<rparr>),
     cb_url = (\<lambda>s. Inr \<lparr>pu_text = s, pu_scheme = ''https'', pu_username = [], pu_password = None, pu_fragment = None,
       pu_host = Some ''shop.example''\<rparr>),
     cb_is_ip = (\<lambda>_. False), cb_timestamp = (\<lambda>_. Inr 5), cb_account = (\<lambda>_. Inr ()), cb_to_vec = (\<lambda>_. Some ''{}''),
     cb_form = (\<lambda>_. [])\<rparr>"

lemma sample_catalog_loads:
  "from_json_for sample_catalog_lib [] ''near:testnet'' NEAR_TESTNET_USDC = Inr [into_resource listed_entry 5]"
  "parse_catalog_query sample_catalog_lib None = Inr default_query"
proof -
  have hosts: "\<not> eq_ignore_ascii_case ''shop.example'' ''localhost''"
    "\<not> list_ex (eq_ignore_ascii_case ''shop.example'') OPERATOR_OWNED_RESOURCE_HOSTS"
    by (simp_all add: OPERATOR_OWNED_RESOURCE_HOSTS_def eq_ignore_ascii_case_def to_ascii_lowercase_def
        to_ascii_lowercase_char_def is_ascii_uppercase_def)
  have url: "validate_public_https_url sample_catalog_lib name v = Inr (projr (cb_url sample_catalog_lib v))"
    if "v \<noteq> []" "length v \<le> MAX_URL_BYTES" for name v
    using that hosts(1) by (simp add: validate_public_https_url_def sample_catalog_lib_def)
  have "(str_parse ''1000'' :: u128 option) \<noteq> None"
    by (simp add: str_parse_def parse_digits_def digit_value_def is_ascii_digit_def)
  then have "validate_requirements sample_catalog_lib (hd (ce_accepts listed_entry)) = Inr ()"
    by (simp add: validate_requirements_def listed_entry_def sample_catalog_lib_def canonical_usdc_asset_def
        asset_matches_def starts_with_def TESTNET_def MAINNET_def is_ascii_digit_def)
  then have accepts: "validate_accepts sample_catalog_lib ''near:testnet'' NEAR_TESTNET_USDC (ce_accepts listed_entry) = Inr ()"
    by (simp add: listed_entry_def asset_matches_def starts_with_def)
  obtain q where q: "ce_accepts listed_entry = [q]" "dp_network q = ''near:testnet''" "dp_asset q = NEAR_TESTNET_USDC"
    by (simp add: listed_entry_def)
  have entry: "ce_resource listed_entry = ''https://shop.example/a''" "ce_resource_type listed_entry = ''http''"
    "ce_x402_version listed_entry = 2" "ad_opt_in_evidence_url (ce_admission listed_entry) = ''u''"
    "ad_pay_to_control_evidence_url (ce_admission listed_entry) = ''u''" "ce_description listed_entry = None"
    "ce_mime_type listed_entry = None" "ce_service_name listed_entry = None" "ce_tags listed_entry = Some [''data'']"
    "ce_icon_url listed_entry = None"
    by (simp_all add: listed_entry_def)
  have extensions: "validate_extensions sample_catalog_lib (ce_extensions listed_entry) = Inr ()"
    by (simp add: validate_extensions_def listed_entry_def sample_catalog_lib_def ok_or_def MAX_EXTENSIONS_BYTES_def
        MAX_JSON_DEPTH_def jget_def object_field_def is_object_def validate_text_def is_ascii_text_def)
  have lib: "cb_timestamp sample_catalog_lib v = Inr 5" "pu_host (projr (cb_url sample_catalog_lib v)) = Some ''shop.example''"
    "pu_text (projr (cb_url sample_catalog_lib v)) = v" for v
    by (simp_all add: sample_catalog_lib_def)
  have manifest: "cb_manifest sample_catalog_lib [] = Some \<lparr>cm_schema_version = 1, cm_resources = [listed_entry]\<rparr>"
    by (simp add: sample_catalog_lib_def)
  have tags: "validate_tags [] [''data''] = Inr ()"
    by (simp add: validate_text_def is_ascii_text_def)
  have "validate_entry sample_catalog_lib listed_entry = Inr (''https://shop.example/a'', 5)"
    using accepts hosts unfolding validate_entry_def
    by (simp add: url entry q extensions lib tags MAX_URL_BYTES_def MAX_ACCEPTS_def MAX_TAGS_def validate_timestamp_def
        validate_optional_text_def del: validate_tags.simps validate_accepts.simps)
  then show "from_json_for sample_catalog_lib [] ''near:testnet'' NEAR_TESTNET_USDC = Inr [into_resource listed_entry 5]"
    using q by (simp add: from_json_for_def manifest ok_or_def MAX_RESOURCES_def MAX_MANIFEST_BYTES_def sort_resources_def
        asset_matches_def starts_with_def)
  show "parse_catalog_query sample_catalog_lib None = Inr default_query"
    by (simp add: parse_catalog_query_def validate_raw_query_def sample_catalog_lib_def)
qed



section \<open>Addresses in brackets\<close>

text \<open>
  \<open>Url::host_str\<close> gives an IPv6 address between brackets, which \<open>IpAddr::from_str\<close> does not read: such an
  address passes the check for a public DNS hostname.
\<close>

lemma bracketed_address_admitted:
  assumes "cb_url lib link = Inr parsed" "pu_host parsed = Some ''[::1]''" "\<not> cb_is_ip lib ''[::1]''"
    and "link \<noteq> []" "length link \<le> MAX_URL_BYTES" "pu_scheme parsed = ''https''" "pu_username parsed = []"
      "pu_password parsed = None" "pu_fragment parsed = None"
  shows "validate_public_https_url lib name link = Inr parsed"
proof -
  have "\<not> eq_ignore_ascii_case ''[::1]'' ''localhost''"
    by (simp add: eq_ignore_ascii_case_def to_ascii_lowercase_def to_ascii_lowercase_char_def is_ascii_uppercase_def)
  then show ?thesis
    using assms by (simp add: validate_public_https_url_def)
qed

end
