(* ===== verification/Startup.thy ===== *)
theory Startup
  imports Secrets Catalog Engine Journal
begin

text \<open>
  The start of the service, \<open>main.rs\<close> with \<open>bootstrap.rs\<close> and the constructors it calls: one ordered sequence
  that ends with the service's state, or with the first thing that is wrong. What the operating system, the
  database, the key parsers and the RPC endpoints answer are parameters.
\<close>

section \<open>The settlement provider\<close>

datatype startup_error =
    StartConfig config_error
  | StartSecret secret_error
  | StartCatalog catalog_error
  | StartStore store_error
  | StartAuth auth_error
  | StartConnect string
  | StartError string

text \<open>The libraries the constructors call, and the endpoints they connect to.\<close>

record startup_lib =
  su_load_config :: "string + service_config"
  su_account_ok :: "string \<Rightarrow> bool"
  su_parse_url :: "string \<Rightarrow> url option"
  su_catalog :: catalog_lib
  su_manifest :: string
  su_otel_url :: "string \<Rightarrow> string + otel_url"
  su_telemetry :: "(otel_url \<times> string) option \<Rightarrow> bool"
  su_database :: "string \<Rightarrow> bool"
  su_schema :: "bool option"
  su_chain :: chain_lib
  su_near_key :: "string \<Rightarrow> (public_key \<times> (crypto_hash \<Rightarrow> bytes)) option"
  su_near_rpc :: "url \<Rightarrow> near_rpc"
  su_near_reader :: "nat \<Rightarrow> near_reader"
  su_evm_key :: "string \<Rightarrow> address option"
  su_evm_upstream :: "bool option"
  su_evm_answers :: evm_answers

definition connect_evm ::
  "startup_lib \<Rightarrow> u64 \<Rightarrow> url \<Rightarrow> url \<Rightarrow> address \<Rightarrow> address \<Rightarrow> u64 \<Rightarrow> u64 \<Rightarrow> u128 \<Rightarrow> startup_error + evm_chain_provider" where
  "connect_evm su chain_id primary backup signer asset confirmations gas_limit max_fee_per_gas =
     (if primary = backup then Inl (StartConnect ''distinct primary and backup RPC URLs are required'')
      else if confirmations = 0 \<or> gas_limit = 0 \<or> max_fee_per_gas = 0
      then Inl (StartConnect ''confirmations, gas limit, and max fee per gas must be positive'')
      else bind_res (ok_or (canonical_domain_name chain_id)
        (StartConnect ''durable Circle USDC settlement supports Base mainnet and Base Sepolia only'')) (\<lambda>domain.
      case su_evm_upstream su of
        None \<Rightarrow> Inl (StartConnect ''upstream EVM configuration was rejected'')
      | Some False \<Rightarrow> Inl (StartConnect ''evm provider connect failed'')
      | Some True \<Rightarrow> Inr \<lparr>ev_chain_id = chain_id, ev_signer_address = signer, ev_asset = asset,
          ev_required_confirmations = confirmations, ev_gas_limit = gas_limit,
          ev_max_fee_per_gas = max_fee_per_gas, ev_transfer_domain_name = domain\<rparr>))"

definition connect_from_config ::
  "startup_lib \<Rightarrow> u64 \<Rightarrow> url \<Rightarrow> url \<Rightarrow> string \<Rightarrow> string \<Rightarrow> u64 \<Rightarrow> u64 \<Rightarrow> u128 \<Rightarrow> startup_error + evm_chain_provider" where
  "connect_from_config su chain_id primary backup signer_key asset confirmations gas_limit max_fee_per_gas =
     bind_res (ok_or (su_evm_key su signer_key) (StartConnect ''signer key is not a valid secp256k1 hex key'')) (\<lambda>signer.
     bind_res (ok_or (lib_address_parse (su_chain su) asset) (StartConnect ''asset is not a valid 0x address'')) (\<lambda>asset.
     connect_evm su chain_id primary backup signer asset confirmations gas_limit max_fee_per_gas))"

definition signer_identity_matches :: "string \<Rightarrow> string \<Rightarrow> bool" where
  "signer_identity_matches configured derived = eq_ignore_ascii_case configured derived"

text \<open>The provider, and whether a facilitator is registered for it.\<close>

definition build_chain_provider :: "startup_lib \<Rightarrow> service_config \<Rightarrow> string \<Rightarrow> startup_error + bool \<times> chain_provider" where
  "build_chain_provider su config relayer_key =
     (case cfg_chain_kind config of
        Near \<Rightarrow>
          if \<not> su_account_ok su (cfg_relayer_account_id config) then Inl (StartError ''parse relayer account'') else
          bind_res (ok_or (su_near_key su relayer_key) (StartError ''parse relayer service key'')) (\<lambda>(public_key, sign).
          Inr (True, NearProvider
            \<lparr>nc_network = (case cfg_environment config of Mainnet \<Rightarrow> NearMainnet | Testnet \<Rightarrow> NearTestnet),
             nc_relayer_account_id = cfg_relayer_account_id config, nc_relayer_public_key = public_key,
             nc_relayer_sign = sign, nc_rpc = su_near_rpc su (cfg_primary_rpc_url config),
             nc_backup_rpc = Some (su_near_rpc su (cfg_backup_rpc_url config))\<rparr> (su_near_reader su)))
      | Eip155 \<Rightarrow>
          bind_res (ok_or (cfg_eip155 config) (StartError ''eip155 configuration block missing after validation'')) (\<lambda>eip155.
          bind_res (ok_or (str_parse (ec_max_fee_per_gas_wei eip155)) (StartError ''parse validated EVM max fee per gas'')) (\<lambda>fee.
          bind_res (connect_from_config su (ec_chain_id eip155) (cfg_primary_rpc_url config) (cfg_backup_rpc_url config)
            relayer_key (cfg_asset config) (ec_required_confirmations eip155) (ec_gas_limit eip155) fee) (\<lambda>provider.
          let signer_address = lib_address_text (su_chain su) (ev_signer_address provider) in
          if \<not> signer_identity_matches (cfg_relayer_account_id config) signer_address
          then Inl (StartError (''config relayer_account_id '' @ cfg_relayer_account_id config
            @ '' does not match the EVM signer address '' @ signer_address @ '' derived from the key file''))
          else Inr (False, EvmProvider provider (su_evm_answers su))))))"

section \<open>The sequence\<close>

record started =
  sd_config :: service_config
  sd_secrets :: runtime_secrets
  sd_catalog :: "discovery_resource list"
  sd_facilitator :: bool
  sd_provider :: chain_provider
  sd_db :: db
  sd_gates :: readiness

text \<open>\<open>ApiKeyAuthenticator::new\<close>.\<close>

definition new_authenticator :: "bytes \<Rightarrow> auth_error + bytes" where
  "new_authenticator pepper = (if length pepper < 32 then Inl AuthConfiguration else Inr pepper)"

text \<open>\<open>d\<close> is the database when the relayer is registered, \<open>policy\<close> what its policy lookup answers.\<close>

definition startup :: "startup_lib \<Rightarrow> system_calls \<Rightarrow> db \<Rightarrow> bool option \<Rightarrow> startup_error + started" where
  "startup su sys d policy =
     bind_res (map_err StartError (su_load_config su)) (\<lambda>config.
     bind_res (map_err StartConfig (validate (su_account_ok su) config)) (\<lambda>_.
     bind_res (map_err StartSecret (secret_files_from_environment sys)) (\<lambda>secret_files.
     bind_res (map_err StartSecret (load_secrets sys secret_files)) (\<lambda>secrets.
     bind_res (map_err StartConfig (apply_rpc_url_overrides (su_account_ok su) (su_parse_url su) config
       (rs_primary_rpc_url secrets) (rs_backup_rpc_url secrets))) (\<lambda>config.
     bind_res (map_err StartCatalog (from_json_for (su_catalog su) (su_manifest su) (cfg_network config) (cfg_asset config))) (\<lambda>catalog.
     bind_res (map_err StartSecret (otel_from_environment (su_otel_url su) sys)) (\<lambda>otel.
     if \<not> su_telemetry su otel then Inl (StartError ''initialize telemetry'')
     else if \<not> su_database su (rs_database_url secrets) then Inl (StartError ''connect application database'')
     else bind_res (ok_or (su_schema su) (StartStore (Database None))) (\<lambda>compatible.
     if \<not> compatible then Inl (StartError ''database schema is missing, incomplete, or incompatible'') else
     bind_res (map_err StartAuth (new_authenticator (rs_api_key_pepper secrets))) (\<lambda>_.
     bind_res (build_chain_provider su config (rs_relayer_key secrets)) (\<lambda>(facilitator, provider).
     Inr \<lparr>sd_config = config, sd_secrets = secrets, sd_catalog = catalog, sd_facilitator = facilitator, sd_provider = provider,
          sd_db = upsert_relayer d (cfg_network config) (signer_account_id (su_chain su) provider)
            (signer_public_key (su_chain su) provider),
          sd_gates = rf_gates (refresh_chain_readiness (su_chain su) config provider policy None initial_readiness)\<rparr>))))))))))"


section \<open>The service starts closed\<close>

lemma connect_evm_Inr:
  "connect_evm su chain_id primary backup signer asset confirmations gas_limit fee = Inr p \<longleftrightarrow>
     primary \<noteq> backup \<and> confirmations \<noteq> 0 \<and> gas_limit \<noteq> 0 \<and> fee \<noteq> 0 \<and> su_evm_upstream su = Some True
     \<and> (\<exists>domain. canonical_domain_name chain_id = Some domain
          \<and> p = \<lparr>ev_chain_id = chain_id, ev_signer_address = signer, ev_asset = asset,
              ev_required_confirmations = confirmations, ev_gas_limit = gas_limit, ev_max_fee_per_gas = fee,
              ev_transfer_domain_name = domain\<rparr>)"
  by (cases "su_evm_upstream su"; cases "canonical_domain_name chain_id")
     (auto simp: connect_evm_def ok_or_def split: bool.split)

text \<open>The provider belongs to the configured chain and signs as the configured relayer.\<close>

definition provider_matches :: "startup_lib \<Rightarrow> service_config \<Rightarrow> chain_provider \<Rightarrow> bool" where
  "provider_matches su config provider \<longleftrightarrow>
     eq_ignore_ascii_case (cfg_relayer_account_id config) (signer_account_id (su_chain su) provider)
     \<and> (case provider of
          NearProvider p _ \<Rightarrow> cfg_chain_kind config = Near
            \<and> nc_network p = (case cfg_environment config of Mainnet \<Rightarrow> NearMainnet | Testnet \<Rightarrow> NearTestnet)
            \<and> nc_backup_rpc p = Some (su_near_rpc su (cfg_backup_rpc_url config))
        | EvmProvider p _ \<Rightarrow> cfg_chain_kind config = Eip155 \<and> (\<exists>e. cfg_eip155 config = Some e
            \<and> ev_chain_id p = ec_chain_id e \<and> ev_gas_limit p = ec_gas_limit e
            \<and> ev_required_confirmations p = ec_required_confirmations e \<and> 0 < ev_required_confirmations p
            \<and> str_parse (ec_max_fee_per_gas_wei e) = Some (ev_max_fee_per_gas p)))"

lemma build_provider_matches:
  assumes "build_chain_provider su config key = Inr (facilitator, provider)"
  shows "provider_matches su config provider" "facilitator = (cfg_chain_kind config = Near)"
proof -
  show "facilitator = (cfg_chain_kind config = Near)"
    using assms by (auto simp: build_chain_provider_def bind_res_Inr_iff Let_def split: chain_kind.splits if_splits)
  show "provider_matches su config provider"
  proof (cases "cfg_chain_kind config")
    case Near
    then show ?thesis
      using assms
      by (auto simp: build_chain_provider_def bind_res_Inr_iff provider_matches_def eq_ignore_ascii_case_def split: if_splits)
  next
    case Eip155
    obtain e fee p where e: "cfg_eip155 config = Some e" "str_parse (ec_max_fee_per_gas_wei e) = Some fee"
      and p: "connect_from_config su (ec_chain_id e) (cfg_primary_rpc_url config) (cfg_backup_rpc_url config) key
        (cfg_asset config) (ec_required_confirmations e) (ec_gas_limit e) fee = Inr p"
      and provider: "provider = EvmProvider p (su_evm_answers su)"
        "signer_identity_matches (cfg_relayer_account_id config) (lib_address_text (su_chain su) (ev_signer_address p))"
      using assms Eip155
      by (auto simp: build_chain_provider_def bind_res_Inr_iff ok_or_Inr_iff Let_def split: if_splits)
    obtain signer asset where "connect_evm su (ec_chain_id e) (cfg_primary_rpc_url config) (cfg_backup_rpc_url config) signer asset
        (ec_required_confirmations e) (ec_gas_limit e) fee = Inr p"
      using p by (auto simp: connect_from_config_def bind_res_Inr_iff)
    then have "ev_chain_id p = ec_chain_id e" "ev_required_confirmations p = ec_required_confirmations e"
      "ev_required_confirmations p \<noteq> 0" "ev_gas_limit p = ec_gas_limit e" "ev_max_fee_per_gas p = fee"
      unfolding connect_evm_Inr by auto
    then show ?thesis
      using e provider Eip155 by (simp add: provider_matches_def signer_identity_matches_def word_gt_0)
  qed
qed

lemma overrides_valid: "apply_rpc_url_overrides account_ok parse_url c p b = Inr c' \<Longrightarrow> validate account_ok c' = Inr ()"
  by (auto simp: apply_rpc_url_overrides_def bind_res_Inr_iff)

lemma refresh_keeps_closed:
  "\<not> can_settle (rf_gates (refresh_chain_readiness lib config provider policy failure initial_readiness))"
  by (simp add: refresh_chain_readiness_def Let_def can_settle_def split: prod.split)


lemma registered: "db_relayers (upsert_relayer d network account key) (network, account, key) \<noteq> None"
  by (auto simp: upsert_relayer_def split: option.split)

lemma new_authenticator_Inr: "new_authenticator pepper = Inr x \<longleftrightarrow> 32 \<le> length pepper \<and> x = pepper"
  by (auto simp: new_authenticator_def)

lemma startup_steps:
  assumes "startup su sys d policy = Inr s"
  obtains files c0 where
    "secret_files_from_environment sys = Inr files" "load_secrets sys files = Inr (sd_secrets s)"
    "apply_rpc_url_overrides (su_account_ok su) (su_parse_url su) c0 (rs_primary_rpc_url (sd_secrets s))
       (rs_backup_rpc_url (sd_secrets s)) = Inr (sd_config s)"
    "from_json_for (su_catalog su) (su_manifest su) (cfg_network (sd_config s)) (cfg_asset (sd_config s)) = Inr (sd_catalog s)"
    "su_schema su = Some True" "32 \<le> length (rs_api_key_pepper (sd_secrets s))"
    "build_chain_provider su (sd_config s) (rs_relayer_key (sd_secrets s)) = Inr (sd_facilitator s, sd_provider s)"
    "sd_db s = upsert_relayer d (cfg_network (sd_config s)) (signer_account_id (su_chain su) (sd_provider s))
       (signer_public_key (su_chain su) (sd_provider s))"
    "sd_gates s = rf_gates (refresh_chain_readiness (su_chain su) (sd_config s) (sd_provider s) policy None initial_readiness)"
proof -
  have "\<exists>files c0. secret_files_from_environment sys = Inr files \<and> load_secrets sys files = Inr (sd_secrets s)
    \<and> apply_rpc_url_overrides (su_account_ok su) (su_parse_url su) c0 (rs_primary_rpc_url (sd_secrets s))
       (rs_backup_rpc_url (sd_secrets s)) = Inr (sd_config s)
    \<and> from_json_for (su_catalog su) (su_manifest su) (cfg_network (sd_config s)) (cfg_asset (sd_config s)) = Inr (sd_catalog s)
    \<and> su_schema su = Some True \<and> 32 \<le> length (rs_api_key_pepper (sd_secrets s))
    \<and> build_chain_provider su (sd_config s) (rs_relayer_key (sd_secrets s)) = Inr (sd_facilitator s, sd_provider s)
    \<and> sd_db s = upsert_relayer d (cfg_network (sd_config s)) (signer_account_id (su_chain su) (sd_provider s))
       (signer_public_key (su_chain su) (sd_provider s))
    \<and> sd_gates s = rf_gates (refresh_chain_readiness (su_chain su) (sd_config s) (sd_provider s) policy None initial_readiness)"
    using assms unfolding startup_def
    by (clarsimp simp: bind_res_Inr_iff map_err_Inr_iff ok_or_Inr_iff new_authenticator_Inr split: if_splits) blast
  then show thesis using that by blast
qed


text \<open>
  C15. The service starts closed and as configured: if the startup sequence succeeds, then the configuration
  it runs with (RPC overrides applied) passes validation; the relayer key and the pepper are private
  secrets and the pepper has at least 32 bytes; the database has the expected schema; the provider is of the configured
  chain, with the configured limits, and signs as the configured relayer, whose identity is registered by a
  journal operation; every resource of the catalog is admitted; and settlement is not open, whatever the
  chain answered, since leadership and reconciliation are still to come.
\<close>

theorem startup_fails_closed:
  assumes "startup su sys d policy = Inr s"
  shows "validate (su_account_ok su) (sd_config s) = Inr ()
    \<and> (\<exists>files. secret_files_from_environment sys = Inr files
         \<and> private_secret sys (sf_relayer_key files) (rs_relayer_key (sd_secrets s))
         \<and> private_secret sys (sf_api_key_pepper files) (rs_api_key_pepper (sd_secrets s)))
    \<and> 32 \<le> length (rs_api_key_pepper (sd_secrets s)) \<and> su_schema su = Some True
    \<and> provider_matches su (sd_config s) (sd_provider s)
    \<and> store_run d (sd_db s)
    \<and> db_relayers (sd_db s) (cfg_network (sd_config s), signer_account_id (su_chain su) (sd_provider s),
        signer_public_key (su_chain su) (sd_provider s)) \<noteq> None
    \<and> (\<exists>entries. list_all (admitted_resource (su_catalog su) (cfg_network (sd_config s)) (cfg_asset (sd_config s)) entries)
         (sd_catalog s))
    \<and> \<not> can_settle (sd_gates s)"
proof -
  obtain files c0 where files: "secret_files_from_environment sys = Inr files" "load_secrets sys files = Inr (sd_secrets s)"
    and config: "apply_rpc_url_overrides (su_account_ok su) (su_parse_url su) c0 (rs_primary_rpc_url (sd_secrets s))
       (rs_backup_rpc_url (sd_secrets s)) = Inr (sd_config s)"
    and catalog: "from_json_for (su_catalog su) (su_manifest su) (cfg_network (sd_config s)) (cfg_asset (sd_config s)) = Inr (sd_catalog s)"
    and rest: "su_schema su = Some True" "32 \<le> length (rs_api_key_pepper (sd_secrets s))"
      "build_chain_provider su (sd_config s) (rs_relayer_key (sd_secrets s)) = Inr (sd_facilitator s, sd_provider s)"
    and db: "sd_db s = upsert_relayer d (cfg_network (sd_config s)) (signer_account_id (su_chain su) (sd_provider s))
       (signer_public_key (su_chain su) (sd_provider s))"
    and gates: "sd_gates s = rf_gates (refresh_chain_readiness (su_chain su) (sd_config s) (sd_provider s) policy None initial_readiness)"
    using assms by (rule startup_steps)
  have "store_run d (sd_db s)"
    unfolding db store_run_def by (rule r_into_rtranclp) (rule store_step.relayer)
  moreover have "\<not> can_settle (sd_gates s)"
    unfolding gates by (rule refresh_keeps_closed)
  ultimately show ?thesis
    using overrides_valid [OF config] loaded_secrets_private [OF files] files(1) rest(1,2) build_provider_matches(1) [OF rest(3)]
      registered [of d] catalog_admitted [OF catalog] unfolding db by blast
qed

definition sample_answers :: evm_answers where
  "sample_answers = \<lparr>an_rpc = silent_rpc, an_chain_id = (\<lambda>_ _. Inr 84532), an_block_number = (\<lambda>_ _. Inr 1),
     an_pending_nonce = (\<lambda>_ _. Inr 0), an_balance = (\<lambda>_ _. Inr 5000), an_oracle = (\<lambda>_ _ _. Inl Rpc),
     an_upstream = (\<lambda>_ _. Inl OnchainFailure)\<rparr>"

definition sample_startup :: startup_lib where
  "sample_startup = \<lparr>su_load_config = Inr sample_config, su_account_ok = (\<lambda>_. True), su_parse_url = (\<lambda>_. None),
     su_catalog = sample_catalog_lib\<lparr>cb_manifest := (\<lambda>_. Some \<lparr>cm_schema_version = 1, cm_resources = []\<rparr>)\<rparr>, su_manifest = [], su_otel_url = (\<lambda>_. Inl []), su_telemetry = (\<lambda>_. True),
     su_database = (\<lambda>_. True), su_schema = Some True,
     su_chain = sample_lib\<lparr>lib_address_text := (\<lambda>_. cfg_relayer_account_id sample_config)\<rparr>,
     su_near_key = (\<lambda>_. None), su_near_rpc = (\<lambda>_. settled_rpc), su_near_reader = (\<lambda>_. sample_reader),
     su_evm_key = (\<lambda>_. Some 7), su_evm_upstream = Some True, su_evm_answers = sample_answers\<rparr>"

theorem startup_fails_closed_witness:
  "\<exists>s. startup sample_startup sample_system empty_db (Some True) = Inr s
     \<and> rs_relayer_key (sd_secrets s) = sample_line \<and> \<not> can_settle (sd_gates s)"
proof -
  let ?su = sample_startup
  have valid: "validate (su_account_ok ?su) sample_config = Inr ()" by (rule sample_config_valid)
  have override: "apply_rpc_url_overrides (su_account_ok ?su) (su_parse_url ?su) sample_config None None = Inr sample_config"
    using valid by (simp add: apply_rpc_url_overrides_def)
  have fee: "(str_parse ''40'' :: u128 option) = Some 40"
    by (simp add: str_parse_def parse_digits_def digit_value_def is_ascii_digit_def)
  obtain p where build: "build_chain_provider ?su sample_config sample_line = Inr (False, p)"
    by (simp add: build_chain_provider_def connect_from_config_def connect_evm_def canonical_domain_name_def ok_or_def Let_def
        signer_identity_matches_def eq_ignore_ascii_case_def sample_startup_def sample_config_def sample_lib_def fee)
  have catalog: "from_json_for (su_catalog ?su) (su_manifest ?su) network asset = Inr []" for network asset
    by (simp add: sample_startup_def from_json_for_def ok_or_def MAX_MANIFEST_BYTES_def MAX_RESOURCES_def sort_resources_def)
  have pepper: "new_authenticator sample_line = Inr sample_line"
    by (simp add: new_authenticator_def sample_line_def)
  have secrets: "rs_primary_rpc_url sample_secrets = None" "rs_backup_rpc_url sample_secrets = None"
    "rs_api_key_pepper sample_secrets = sample_line" "rs_relayer_key sample_secrets = sample_line"
    by (simp_all add: sample_secrets_def)
  have su: "su_load_config ?su = Inr sample_config" "su_telemetry ?su = (\<lambda>_. True)" "su_database ?su = (\<lambda>_. True)"
    "su_schema ?su = Some True"
    by (simp_all add: sample_startup_def)
  obtain s where s: "startup ?su sample_system empty_db (Some True) = Inr s" "sd_secrets s = sample_secrets"
    unfolding startup_def
    by (simp add: su valid sample_secrets_load secrets override catalog pepper build ok_or_def)
  show ?thesis
    using startup_fails_closed [OF s(1)] s by (simp add: secrets)
qed

end
