(* ===== verification/Discovery.thy ===== *)
theory Discovery
  imports Http Catalog
begin

text \<open>
  The endpoint that lists the catalog, \<open>GET /discovery/resources\<close>, with the JSON of its response: fields that
  are absent are left out, and the parsed instant of an entry is not shown.
\<close>

definition optional_field :: "string \<Rightarrow> ('a \<Rightarrow> json) \<Rightarrow> 'a option \<Rightarrow> json_map" where
  "optional_field name to_value v = (case v of None \<Rightarrow> [] | Some x \<Rightarrow> [(name, to_value x)])"

fun payment_extra_value :: "payment_extra \<Rightarrow> json" where
  "payment_extra_value (ExtraEvm name version) = JObject [(''name'', JString name), (''version'', JString version)]"
| "payment_extra_value ExtraNear = JObject []"

definition requirements_value :: "discovery_requirements \<Rightarrow> json" where
  "requirements_value q = JObject ([(''scheme'', JString (dp_scheme q)), (''network'', JString (dp_network q)),
     (''asset'', JString (dp_asset q)), (''amount'', JString (dp_amount q)), (''payTo'', JString (dp_pay_to q)),
     (''maxTimeoutSeconds'', JNumber (PosInt (dp_max_timeout_seconds q)))]
     @ optional_field ''extra'' payment_extra_value (dp_extra q))"

definition resource_value :: "discovery_resource \<Rightarrow> json" where
  "resource_value r = JObject ([(''resource'', JString (dr_resource r)), (''type'', JString (dr_resource_type r)),
     (''x402Version'', JNumber (PosInt (of_nat (dr_x402_version r)))),
     (''accepts'', JArray (map requirements_value (dr_accepts r))), (''lastUpdated'', JString (dr_last_updated r))]
     @ optional_field ''description'' JString (dr_description r) @ optional_field ''mimeType'' JString (dr_mime_type r)
     @ optional_field ''serviceName'' JString (dr_service_name r)
     @ optional_field ''tags'' (\<lambda>tags. JArray (map JString tags)) (dr_tags r)
     @ optional_field ''iconUrl'' JString (dr_icon_url r) @ optional_field ''extensions'' JObject (dr_extensions r))"

definition discovery_value :: "discovery_response \<Rightarrow> json" where
  "discovery_value r = JObject [(''x402Version'', JNumber (PosInt (of_nat (ds_x402_version r)))),
     (''items'', JArray (map resource_value (ds_items r))),
     (''pagination'', JObject [(''limit'', JNumber (PosInt (ds_limit r))), (''offset'', JNumber (PosInt (ds_offset r))),
        (''total'', JNumber (PosInt (of_nat (ds_total r))))])]"

definition discovery_resources :: "app_state \<Rightarrow> catalog_lib \<Rightarrow> discovery_resource list \<Rightarrow> bytes option \<Rightarrow> http_response" where
  "discovery_resources a lib catalog raw =
     (case parse_catalog_query lib raw of
        Inl _ \<Rightarrow> error_response a (api_error_new 400 ''invalid_discovery_query'' ''discovery query parameters are invalid'')
      | Inr query \<Rightarrow> axum_json a 200 (discovery_value (catalog_list catalog query)))"

text \<open>A listing is answered only to a query that parses; its body is the page the query asks for.\<close>

lemma discovery_answers:
  assumes "hr_status (discovery_resources a lib catalog raw) = 200"
  obtains query where "parse_catalog_query lib raw = Inr query"
    "ap_to_vec a (discovery_value (catalog_list catalog query)) = Some (hr_body (discovery_resources a lib catalog raw))"
  using assms
  by (auto simp: discovery_resources_def error_response_def axum_json_def api_error_new_def split: sum.splits option.splits)

end
