(* ===== verification/Spec2Isabelle.thy ===== *)
theory Spec2Isabelle
  imports Service_Theorems Http_Sample Admin Startup Discovery Canonical Protocol_Theorems
begin

text \<open>
  Verification of the x402 payment facilitator.

  The program. An x402 facilitator answers \<open>POST /verify\<close> and \<open>POST /settle\<close> for resource servers: it checks a
  payer's signed authorization (a NEP-366 delegate action on NEAR, an ERC-3009 authorization on EVM chains) and
  submits it to the chain at its own expense. One process holds a PostgreSQL advisory lock and may submit; every
  settlement is a row of a journal that is written before anything is sent, so that a crash or a lost connection
  is repaired by reconciling rows against the chain. The sources are three crates: \<open>x402-near-facilitator\<close> (HTTP,
  journal, engine), \<open>x402-chain-near\<close> and \<open>x402-chain-eip155-provider\<close> (the chains).

  \<^medskip>
  Theories and the sources they model.

  \<^item> \<open>Prelude\<close>, \<open>Json\<close>, \<open>Utf8\<close>, \<open>Decimal\<close>, \<open>Retry\<close>: machine words with the checked and saturating operations of
    Rust, results as sums with the error on the left, JSON values, UTF-8, decimal strings (\<open>compare_decimal\<close> of
    \<open>protocol.rs\<close> and of \<open>config.rs\<close>, one locale and two interpretations), and \<open>retry.rs\<close>.
  \<^item> \<open>Config\<close>, \<open>Secrets\<close>, \<open>Startup\<close>: \<open>config.rs\<close> (validation, RPC overrides, secret files), and the order of
    \<open>main.rs\<close> and \<open>bootstrap.rs\<close> up to the first request.
  \<^item> \<open>Store_Schema\<close>, \<open>Store\<close>, \<open>Store_Clients\<close>, \<open>Store_Invariant\<close>, \<open>Journal\<close>, \<open>Journal_Theorems\<close>: \<open>store.rs\<close> over the
    tables of \<open>migrations/\<close>. A table is a list or map of records, a CHECK or unique index is a test that makes a
    write fail, and an operation is a transaction on the database. \<open>store_step\<close> has a rule for every operation
    that changes the database.
  \<^item> \<open>Evm_Types\<close>, \<open>Evm_Receipt\<close>, \<open>Evm_Reconcile\<close>, \<open>Evm_Prepare\<close>: \<open>provider.rs\<close>, \<open>prepare.rs\<close> and \<open>settle.rs\<close> of the EVM
    crate: what two readers report, how their answers merge, confirmation depth, fee envelopes, calldata, and the
    check that binds stored bytes to a settlement.
  \<^item> \<open>Near_Types\<close>, \<open>Near_Verify\<close>, \<open>Near_Receipt\<close>, \<open>Near_Provider\<close>: \<open>mechanism.rs\<close>, \<open>receipt.rs\<close>, \<open>provider.rs\<close>, \<open>rpc.rs\<close> and
    \<open>types.rs\<close> of the NEAR crate.
  \<^item> \<open>Chain\<close>, \<open>Readiness\<close>: \<open>chain.rs\<close>, the provider both chains share, and \<open>leadership.rs\<close>, the gates and the
    advisory-lock loop, with the tasks of \<open>main.rs\<close> that write gates as the step relation \<open>system_step\<close>.
  \<^item> \<open>Protocol\<close>, \<open>Protocol_Theorems\<close>, \<open>Canonical\<close>: \<open>protocol.rs\<close> and \<open>v1_compat.rs\<close>, from request bytes to a typed
    request and its fingerprint.
  \<^item> \<open>Access\<close>, \<open>Admin\<close>: \<open>auth.rs\<close>, the rate limiter of \<open>service.rs\<close>, and the client commands of \<open>bin/admin.rs\<close>.
  \<^item> \<open>Catalog\<close>, \<open>Discovery\<close>: \<open>catalog.rs\<close> and \<open>GET /discovery/resources\<close>.
  \<^item> \<open>Engine\<close>, \<open>Recovery\<close>, \<open>Http\<close>: \<open>service.rs\<close>, that is the settlement worker \<open>run_new_settlement\<close>, the pass
    \<open>reconcile\<close>, and the two handlers, as programs of the state monad.
  \<^item> \<open>Engine_Theorems\<close>, \<open>Recovery_Theorems\<close>, \<open>Http_Theorems\<close>, \<open>Service_Theorems\<close>: what these programs do to the journal
    and to the network. \<open>Service_Sample\<close> and \<open>Http_Sample\<close> hold a concrete deployment and its runs.

  \<^medskip>
  State and concurrency. The state of the service is the record \<open>engine\<close>: the database, the readiness gates and
  the list of submissions handed to the network, each with the database and gates of that moment. Every
  \<open>await\<close> of the source is a point where the argument \<open>world\<close> decides what happened meanwhile: other sessions
  commit operations of the journal, other tasks move gates, the database may fail before or after it commits, and
  the chain answers anything. A statement about a program therefore holds for every interleaving. Relations
  between programs are proved with the triple \<open>triple\<close> of \<open>Engine_Theorems\<close>, whose rules follow the programs.

  \<^medskip>
  What is proved.

  \<^item> Sending: what reaches the network was journaled and marked submitted first, a settlement never has two
    different submissions, and a worker sends with all gates open. Runs of the service refine an
    abstract journal of promises, by the locale \<open>forward_simulation\<close>.
  \<^item> Journal: one claim per payment anchor, replays find the existing row, submissions and terminal
    responses are written once, and the ledgers equal the sums over the rows. These rest on the locale
    \<open>durable_journal\<close>, interpreted for \<open>store_step\<close>.
  \<^item> Answers: a settlement request is answered with success only from a terminal row of that payment.
  \<^item> Chains: a verified payment satisfies every condition of the scheme, a terminal verdict has the evidence on
    chain it claims (receipt graph on NEAR, agreeing readers and depth on EVM), stored bytes that validate are the
    transaction of that settlement, prepared bytes validate, fees stay inside the configured envelope.
  \<^item> Gates: leadership is claimed only while the lock is held, a finished pass opens the reconciliation gate
    exactly when no active row is left, and from every reachable state the gates can open again.
  \<^item> Requests and access: accepted requests are well typed, the legacy dialect is a spelling of the current one,
    the fingerprint identifies the request up to the order of object members, an authenticated caller holds an
    active key of this environment, a limiter admits at most its limit per window.
  \<^item> Operation: a started service has a valid configuration, private secrets, the configured signer and closed
    gates; a provisioned client can authenticate and pay its payee; the catalog lists admitted entries only.

  \<^medskip>
  Bounds and termination. The retry helpers make at most three calls, as their delay tables say. The
  breadth-first search of the receipt graph ends because each receipt is visited once and is a \<open>function\<close> with
  a termination proof. The topological sort is run with one unit of fuel per visited receipt, since each receipt
  is released once, and that this is always enough is a theorem of \<open>Near_Receipt\<close>. Nothing else uses fuel. The loops of the
  source that run for the life of the process (leadership, reconciliation, monitoring)
  are step functions or step relations. Integers keep their width where the source can wrap, saturate or fail.

  \<^medskip>
  Parameters. JSON text, SHA-256, HMAC, Borsh, ABI and RLP coding, signatures, URL and timestamp parsing, the
  JSON-RPC transports and the file system are arguments, gathered in records such as \<open>evm_codec\<close>,
  \<open>near_tx_codec\<close>, \<open>chain_lib\<close>, \<open>catalog_lib\<close> and \<open>system_calls\<close>. Where a theorem needs a law of one of them (an
  encoding that decodes, a hash without a collision on two given inputs) the law is a hypothesis, and a witness
  instantiates it.

  \<^medskip>
  Not modelled.

  \<^item> \<open>telemetry.rs\<close>, logging and metrics: output that nothing reads back.
  \<^item> The router, its deadlines and limits on connections, the landing page, \<open>llms.txt\<close>, the OpenAPI document and
    \<open>/health\<close>: framework configuration and constant text.
  \<^item> Connecting to PostgreSQL, applying migrations and the data statements of migration 0002; isolation is
    modelled as a snapshot per statement and a transaction per operation. The timestamp \<open>last_used_at\<close> of a key
    is left out.
  \<^item> Of \<open>bin/admin.rs\<close>, key generation for relayers, \<open>migrate\<close> and \<open>reconcile\<close>: I/O around operations modelled here.
  \<^item> The listener, signals and the shutdown drain of \<open>main.rs\<close>; real time, which is the order of events.
  \<^item> The vendored \<open>near-crypto\<close>, a third-party library; redacting \<open>Debug\<close> instances and the zeroing of secrets.
\<close>

end
